(* ===== verification/Prelude.thy ===== *)
theory Prelude
  imports Main "HOL-Library.Word" "HOL-Library.Multiset"
begin

text \<open>
  Shared vocabulary of the development: the machine types the C++ code uses, byte strings
  (\<open>std::string\<close>, \<open>std::vector<uint8_t>\<close>, \<open>QVector<char>\<close>), conversions between machine
  integers, and the generic lemmas on lists, multisets and words that the component
  theories use.
\<close>

section \<open>Machine types\<close>

type_synonym byte = "8 word"
type_synonym bytes = "byte list"
type_synonym u32 = "32 word"
type_synonym u64 = "64 word"

text \<open>A C++ string literal as the bytes it denotes.\<close>

definition str :: "string \<Rightarrow> bytes" where
  "str s = map of_char s"

text \<open>
  \<open>c_str p\<close> is what a function that takes a \<open>const char *\<close> sees of a \<open>std::string\<close>
  passed with \<open>.c_str()\<close>: the bytes before the first NUL.
\<close>

definition c_str :: "bytes \<Rightarrow> bytes" where
  "c_str s = takeWhile (\<lambda>b. b \<noteq> 0) s"

text \<open>\<open>std::vector::resize\<close> and \<open>QVector::resize\<close>: truncate, or extend with zeros.\<close>

definition resize :: "nat \<Rightarrow> bytes \<Rightarrow> bytes" where
  "resize n xs = take n xs @ replicate (n - length xs) 0"

text \<open>Writing a byte sequence into a buffer at an offset (the buffer is long enough).\<close>

definition poke :: "nat \<Rightarrow> bytes \<Rightarrow> bytes \<Rightarrow> bytes" where
  "poke off xs buf = take off buf @ xs @ drop (off + length xs) buf"

section \<open>Lemma collections\<close>

named_theorems ser_simps \<open>serialised size and shape of the messages\<close>
named_theorems parse_steps \<open>one step of a generated parser on serialised input\<close>

section \<open>Generic lemmas\<close>

lemma length_resize [simp]: "length (resize n xs) = n"
  by (simp add: resize_def)

lemma resize_same [simp]: "resize (length xs) xs = xs"
  by (simp add: resize_def)

lemma length_poke [simp]:
  "off + length xs \<le> length buf \<Longrightarrow> length (poke off xs buf) = length buf"
  by (simp add: poke_def)

lemma poke_prefix_rest:
  assumes "length buf = length pre + length xs"
  shows "poke (length pre) xs (poke 0 pre buf) = pre @ xs"
  using assms by (simp add: poke_def)

lemma distinct_map_unique:
  "\<lbrakk>distinct (map f xs); x \<in> set xs; y \<in> set xs; f x = f y\<rbrakk> \<Longrightarrow> x = y"
  by (simp add: distinct_map inj_on_def)

lemma filter_distinct_map_singleton:
  assumes "distinct (map f xs)" and "x \<in> set xs"
  shows "filter (\<lambda>y. f y = f x) xs = [x]"
  using assms
proof (induction xs)
  case (Cons a xs)
  show ?case
  proof (cases "a = x")
    case True
    with Cons.prems(1) have "filter (\<lambda>y. f y = f x) xs = []"
      by (auto simp: filter_empty_conv) (metis image_eqI)
    with True show ?thesis by simp
  next
    case False
    with Cons.prems have "x \<in> set xs" and "f a \<noteq> f x"
      by (auto simp: image_iff)
    with Cons show ?thesis by simp
  qed
qed simp

lemma of_nat_u64_inverse: "n < 2 ^ 64 \<Longrightarrow> unat (of_nat n :: u64) = n"
  by (simp add: unat_of_nat take_bit_nat_eq_self)

lemma of_nat_u64_eq_0_iff: "n < 2 ^ 64 \<Longrightarrow> (of_nat n :: u64) = 0 \<longleftrightarrow> n = 0"
  using of_nat_u64_inverse [of n] by (auto simp: unat_eq_zero)

lemma list_update_all:
  assumes "\<forall>x \<in> set xs. P x" and "P y"
  shows "\<forall>x \<in> set (xs[i := y]). P x"
  using assms set_update_subset_insert [of xs i y] by blast

end
