(* ===== verification/Wire.thy ===== *)
theory Wire
  imports Prelude
begin

unbundle bit_operations_syntax

text \<open>
  The Protocol Buffers runtime as the generated code (\<open>messages.pb.cc\<close>) sees it. The
  runtime is a third-party library, so its entry points are the fields of a record
  \<open>pb\<close> that every generated function takes as an argument; the locale \<open>pb_wire\<close> states
  the documented behaviour of those entry points that the code relies on. The second half
  holds the control skeleton that every generated \<open>MergePartialFromCodedStream\<close> has (a
  tag loop with a \<open>switch\<close>, an \<open>ExpectTag\<close> fast path and \<open>handle_unusual\<close>), and the
  lemmas that make a parser of that shape compute by one rewrite step per field.
\<close>

section \<open>The runtime interface\<close>

text \<open>
  A \<open>CodedInputStream\<close> is the list of bytes up to its current limit. Readers return
  \<open>None\<close> where the library function returns false.
  \<^item> \<open>ReadTagWithCutoff\<close> returns the tag (0 at the end of the input or on a malformed tag)
    and whether it is known to lie between 1 and the cutoff;
  \<^item> \<open>ExpectTag\<close> may say whether the given tag is next, and then skips it;
  \<^item> \<open>ReadLimit\<close> is the part of \<open>ReadMessageNoVirtual\<close> before the nested parse: it reads a
    length and splits the input at it (\<open>ReadVarint32\<close>, \<open>PushLimit\<close>);
  \<^item> \<open>WriteMessageHeader\<close> is the part of \<open>InternalWriteMessageNoVirtualToArray\<close> before the
    nested message: the tag and the cached size.
\<close>

record pb =
  ReadTagWithCutoff :: "u32 \<Rightarrow> bytes \<Rightarrow> (u32 \<times> bool) \<times> bytes"
  GetTagFieldNumber :: "u32 \<Rightarrow> u32"
  GetTagWireType :: "u32 \<Rightarrow> u32"
  ExpectTag :: "u32 \<Rightarrow> bytes \<Rightarrow> bool \<times> bytes"
  ExpectAtEnd :: "bytes \<Rightarrow> bool"
  ConsumedEntireMessage :: "u32 \<Rightarrow> bytes \<Rightarrow> bool"
  SkipField :: "u32 \<Rightarrow> bytes \<Rightarrow> bytes option"
  ReadString :: "bytes \<Rightarrow> (bytes \<times> bytes) option"
  VerifyUtf8String :: "bytes \<Rightarrow> bool"
  ReadUInt64 :: "bytes \<Rightarrow> (u64 \<times> bytes) option"
  ReadFixed64 :: "bytes \<Rightarrow> (u64 \<times> bytes) option"
  ReadEnum :: "bytes \<Rightarrow> (u32 \<times> bytes) option"
  ReadLimit :: "bytes \<Rightarrow> (bytes \<times> bytes) option"
  WriteStringToArray :: "nat \<Rightarrow> bytes \<Rightarrow> bytes"
  WriteUInt64ToArray :: "nat \<Rightarrow> u64 \<Rightarrow> bytes"
  WriteFixed64ToArray :: "nat \<Rightarrow> u64 \<Rightarrow> bytes"
  WriteEnumToArray :: "nat \<Rightarrow> u32 \<Rightarrow> bytes"
  WriteMessageHeader :: "nat \<Rightarrow> nat \<Rightarrow> bytes"
  StringSize :: "bytes \<Rightarrow> nat"
  UInt64Size :: "u64 \<Rightarrow> nat"
  EnumSize :: "u32 \<Rightarrow> nat"
  LengthDelimitedSize :: "nat \<Rightarrow> nat"
  total_bytes_limit :: nat

text \<open>Wire type 4, \<open>WIRETYPE_END_GROUP\<close>.\<close>

abbreviation WIRETYPE_END_GROUP :: u32 where
  "WIRETYPE_END_GROUP \<equiv> 4"

text \<open>The byte of the tag of field \<open>f\<close> with wire type \<open>w\<close>, for fields 1 to 15.\<close>

definition tag_byte :: "nat \<Rightarrow> nat \<Rightarrow> byte" where
  "tag_byte f w = of_nat (8 * f + w)"

locale pb_wire =
  fixes P :: pb
  assumes read_tag_byte: "\<lbrakk>b \<noteq> 0; b \<le> 127; Suc (length r) \<le> total_bytes_limit P\<rbrakk> \<Longrightarrow>
      ReadTagWithCutoff P 127 (b # r) = ((ucast b, True), r)"
    and read_tag_end: "ReadTagWithCutoff P c [] = ((0, False), [])"
    and read_tag_shrinks: "\<lbrakk>ReadTagWithCutoff P c i = ((t, k), r); t \<noteq> 0\<rbrakk> \<Longrightarrow> length r < length i"
    and read_tag_cutoff: "ReadTagWithCutoff P c i = ((t, True), r) \<Longrightarrow> t \<noteq> 0"
    and field_number: "GetTagFieldNumber P t = drop_bit 3 t"
    and wire_type: "GetTagWireType P t = t AND 7"
    and expect_tag_true: "ExpectTag P t i = (True, r) \<Longrightarrow> t \<le> 127 \<Longrightarrow>
      ReadTagWithCutoff P 127 i = ((t, True), r)"
    and expect_tag_false: "ExpectTag P t i = (False, r) \<Longrightarrow> r = i"
    and expect_at_end: "ExpectAtEnd P i \<Longrightarrow> i = []"
    and consumed: "ConsumedEntireMessage P 0 []"
    and consumedD: "ConsumedEntireMessage P t r \<Longrightarrow> t = 0 \<and> r = []"
    and skip_shrinks: "SkipField P t i = Some r \<Longrightarrow> length r \<le> length i"
    and string_shrinks: "ReadString P i = Some (s, r) \<Longrightarrow> length r \<le> length i"
    and uint64_shrinks: "ReadUInt64 P i = Some (v, r) \<Longrightarrow> length r \<le> length i"
    and fixed64_shrinks: "ReadFixed64 P i = Some (v, r) \<Longrightarrow> length r \<le> length i"
    and enum_shrinks: "ReadEnum P i = Some (e, r) \<Longrightarrow> length r \<le> length i"
    and limit_shrinks: "ReadLimit P i = Some (l, r) \<Longrightarrow> length l + length r \<le> length i"
    and write_string: "\<lbrakk>0 < f; f < 16; length s < 2 ^ 31\<rbrakk> \<Longrightarrow>
      \<exists>body. WriteStringToArray P f s = tag_byte f 2 # body \<and> length body = StringSize P s \<and>
        (\<forall>r. length (body @ r) \<le> total_bytes_limit P \<longrightarrow> ReadString P (body @ r) = Some (s, r))"
    and write_uint64: "\<lbrakk>0 < f; f < 16\<rbrakk> \<Longrightarrow>
      \<exists>body. WriteUInt64ToArray P f v = tag_byte f 0 # body \<and> length body = UInt64Size P v \<and>
        (\<forall>r. length (body @ r) \<le> total_bytes_limit P \<longrightarrow> ReadUInt64 P (body @ r) = Some (v, r))"
    and write_fixed64: "\<lbrakk>0 < f; f < 16\<rbrakk> \<Longrightarrow>
      \<exists>body. WriteFixed64ToArray P f v = tag_byte f 1 # body \<and> length body = 8 \<and>
        (\<forall>r. length (body @ r) \<le> total_bytes_limit P \<longrightarrow> ReadFixed64 P (body @ r) = Some (v, r))"
    and write_enum: "\<lbrakk>0 < f; f < 16\<rbrakk> \<Longrightarrow>
      \<exists>body. WriteEnumToArray P f e = tag_byte f 0 # body \<and> length body = EnumSize P e \<and>
        (\<forall>r. length (body @ r) \<le> total_bytes_limit P \<longrightarrow> ReadEnum P (body @ r) = Some (e, r))"
    and write_header: "\<lbrakk>0 < f; f < 16; n < 2 ^ 31\<rbrakk> \<Longrightarrow>
      \<exists>hdr. WriteMessageHeader P f n = tag_byte f 2 # hdr \<and>
        length hdr + n = LengthDelimitedSize P n \<and>
        (\<forall>l r. length l = n \<longrightarrow> length (hdr @ l @ r) \<le> total_bytes_limit P \<longrightarrow>
           ReadLimit P (hdr @ l @ r) = Some (l, r))"

section \<open>The generated tag loop\<close>

text \<open>
  One \<open>case\<close> of the generated \<open>switch\<close>: the field number of the label, the tag it
  compares with, what it reads, the \<open>ExpectTag\<close> jump after it (tag and target case) and
  whether the \<open>ExpectAtEnd\<close> exit follows it. A read gives the message with the value in it and
  the rest of the input, or it is refused; \<open>Unfinished\<close> is a nested parser that has exhausted its
  loop bound, which is not a refusal.
\<close>

datatype 'm reading = Value 'm bytes | Refused | Unfinished

record 'm field =
  f_num :: u32
  f_tag :: u32
  f_read :: "'m \<Rightarrow> bytes \<Rightarrow> 'm reading"
  f_expect :: "(u32 \<times> nat) option"
  f_at_end :: bool

text \<open>
  The outcome of a generated parser: \<open>return true\<close> with the message, the last tag and
  the rest of the input, \<open>return false\<close>, or (never, see \<open>parse_loop_total\<close> below) the
  loop bound exhausted, here or in a nested parser.
\<close>

datatype 'm parsed = Parsed 'm u32 bytes | Failed | OutOfFuel

text \<open>The \<open>switch\<close>: the index of the case that takes the tag, if any.\<close>

fun find_case :: "pb \<Rightarrow> 'm field list \<Rightarrow> u32 \<Rightarrow> nat option" where
  "find_case P [] tag = None"
| "find_case P (f # fs) tag =
     (if GetTagFieldNumber P tag = f_num f
      then (if tag = f_tag f then Some 0 else None)
      else map_option Suc (find_case P fs tag))"

text \<open>
  The \<open>for (;;)\<close> loop. Control is at the head of the loop (\<open>None\<close>) or at the parse label
  of case \<open>i\<close> (\<open>Some i\<close>).
\<close>

fun merge_partial ::
  "pb \<Rightarrow> 'm field list \<Rightarrow> nat \<Rightarrow> nat option \<Rightarrow> 'm \<Rightarrow> bytes \<Rightarrow> 'm parsed" where
  "merge_partial P fs 0 pc m input = OutOfFuel"
| "merge_partial P fs (Suc n) None m input =
     (case ReadTagWithCutoff P 127 input of ((tag, known), r) \<Rightarrow>
       (case (if known then find_case P fs tag else None) of
          Some i \<Rightarrow> merge_partial P fs n (Some i) m r
        | None \<Rightarrow>
            (if tag = 0 \<or> GetTagWireType P tag = WIRETYPE_END_GROUP then Parsed m tag r
             else (case SkipField P tag r of
                     None \<Rightarrow> Failed
                   | Some r' \<Rightarrow> merge_partial P fs n None m r'))))"
| "merge_partial P fs (Suc n) (Some i) m input =
     (case f_read (fs ! i) m input of
        Refused \<Rightarrow> Failed
      | Unfinished \<Rightarrow> OutOfFuel
      | Value m' r \<Rightarrow>
          (case f_expect (fs ! i) of
             Some (tag, j) \<Rightarrow>
               (case ExpectTag P tag r of
                  (True, r') \<Rightarrow> merge_partial P fs n (Some j) m' r'
                | (False, r') \<Rightarrow>
                    (if f_at_end (fs ! i) \<and> ExpectAtEnd P r' then Parsed m' 0 r'
                     else merge_partial P fs n None m' r'))
           | None \<Rightarrow>
               (if f_at_end (fs ! i) \<and> ExpectAtEnd P r then Parsed m' 0 r
                else merge_partial P fs n None m' r)))"

text \<open>
  The loop bound: every pass over the head consumes a byte of the input, and a label is
  followed by the head or by another consumed tag.
\<close>

fun loop_bound :: "nat option \<Rightarrow> bytes \<Rightarrow> nat" where
  "loop_bound None input = 2 * length input + 1"
| "loop_bound (Some i) input = 2 * length input + 2"

definition parse_loop :: "pb \<Rightarrow> 'm field list \<Rightarrow> 'm \<Rightarrow> bytes \<Rightarrow> 'm parsed" where
  "parse_loop P fs m input = merge_partial P fs (loop_bound None input) None m input"

section \<open>Readers of the cases\<close>

definition read_string ::
  "pb \<Rightarrow> (bytes \<Rightarrow> 'm \<Rightarrow> 'm) \<Rightarrow> 'm \<Rightarrow> bytes \<Rightarrow> 'm reading" where
  "read_string P upd m input =
     (case ReadString P input of
        None \<Rightarrow> Refused
      | Some (s, r) \<Rightarrow> if VerifyUtf8String P s then Value (upd s m) r else Refused)"

definition read_scalar :: "('v \<Rightarrow> 'm \<Rightarrow> 'm) \<Rightarrow> 'm \<Rightarrow> ('v \<times> bytes) option \<Rightarrow> 'm reading" where
  "read_scalar upd m res = (case res of None \<Rightarrow> Refused | Some (v, r) \<Rightarrow> Value (upd v m) r)"

definition read_uint64 ::
  "pb \<Rightarrow> (u64 \<Rightarrow> 'm \<Rightarrow> 'm) \<Rightarrow> 'm \<Rightarrow> bytes \<Rightarrow> 'm reading" where
  "read_uint64 P upd m input = read_scalar upd m (ReadUInt64 P input)"

definition read_fixed64 ::
  "pb \<Rightarrow> (u64 \<Rightarrow> 'm \<Rightarrow> 'm) \<Rightarrow> 'm \<Rightarrow> bytes \<Rightarrow> 'm reading" where
  "read_fixed64 P upd m input = read_scalar upd m (ReadFixed64 P input)"

definition read_enum ::
  "pb \<Rightarrow> (u32 \<Rightarrow> 'm \<Rightarrow> 'm) \<Rightarrow> 'm \<Rightarrow> bytes \<Rightarrow> 'm reading" where
  "read_enum P upd m input = read_scalar upd m (ReadEnum P input)"

text \<open>
  \<open>ReadMessageNoVirtual\<close>: split at the length, merge the nested bytes into the submessage
  \<open>sub m\<close> (what \<open>mutable_x()\<close> or \<open>add_x()\<close> returns), and require that the nested parser
  stopped at the limit.
\<close>

definition read_message ::
  "pb \<Rightarrow> ('s \<Rightarrow> bytes \<Rightarrow> 's parsed) \<Rightarrow> ('m \<Rightarrow> 's) \<Rightarrow> ('s \<Rightarrow> 'm \<Rightarrow> 'm) \<Rightarrow>
     'm \<Rightarrow> bytes \<Rightarrow> 'm reading" where
  "read_message P parse sub upd m input =
     (case ReadLimit P input of
        None \<Rightarrow> Refused
      | Some (l, r) \<Rightarrow>
          (case parse (sub m) l of
             Parsed s tag rest \<Rightarrow>
               if ConsumedEntireMessage P tag rest then Value (upd s m) r else Refused
           | Failed \<Rightarrow> Refused
           | OutOfFuel \<Rightarrow> Unfinished))"

text \<open>\<open>MessageLite::ParseFromArray\<close> on a freshly cleared message.\<close>

definition parse_from_array ::
  "pb \<Rightarrow> ('m \<Rightarrow> bytes \<Rightarrow> 'm parsed) \<Rightarrow> 'm \<Rightarrow> bytes \<Rightarrow> 'm option" where
  "parse_from_array P parse m0 data =
     (case parse m0 data of
        Parsed m tag rest \<Rightarrow> if ConsumedEntireMessage P tag rest then Some m else None
      | _ \<Rightarrow> None)"

section \<open>Reference loop\<close>

text \<open>
  What the generated loop computes, without its jumps: read a tag, dispatch, repeat. The
  \<open>ExpectTag\<close> and \<open>ExpectAtEnd\<close> fast paths of the generated code are an optimisation of
  this loop (\<open>parse_loop_eq_plain\<close>).
\<close>

fun plain_loop :: "pb \<Rightarrow> 'm field list \<Rightarrow> nat \<Rightarrow> 'm \<Rightarrow> bytes \<Rightarrow> 'm parsed" where
  "plain_loop P fs 0 m input = OutOfFuel"
| "plain_loop P fs (Suc n) m input =
     (case ReadTagWithCutoff P 127 input of ((tag, known), r) \<Rightarrow>
       (case (if known then find_case P fs tag else None) of
          Some i \<Rightarrow>
            (case f_read (fs ! i) m r of
               Refused \<Rightarrow> Failed
             | Unfinished \<Rightarrow> OutOfFuel
             | Value m' r' \<Rightarrow> plain_loop P fs n m' r')
        | None \<Rightarrow>
            (if tag = 0 \<or> GetTagWireType P tag = WIRETYPE_END_GROUP then Parsed m tag r
             else (case SkipField P tag r of
                     None \<Rightarrow> Failed
                   | Some r' \<Rightarrow> plain_loop P fs n m r'))))"

text \<open>
  Well-formed tables of cases: the tag of a case is a one-byte tag of its own field number,
  no two cases share a number, a jump goes to the case of the tag it expects, and readers
  come to an end and only consume input.
\<close>

definition wf_field :: "'m field list \<Rightarrow> 'm field \<Rightarrow> bool" where
  "wf_field fs f \<longleftrightarrow>
     f_tag f \<noteq> 0 \<and> f_tag f \<le> 127 \<and> drop_bit 3 (f_tag f) = f_num f \<and>
     (\<forall>m i. f_read f m i \<noteq> Unfinished) \<and>
     (\<forall>m i m' r. f_read f m i = Value m' r \<longrightarrow> length r \<le> length i) \<and>
     (\<forall>t j. f_expect f = Some (t, j) \<longrightarrow> j < length fs \<and> f_tag (fs ! j) = t)"

definition wf_fields :: "'m field list \<Rightarrow> bool" where
  "wf_fields fs \<longleftrightarrow> distinct (map f_num fs) \<and> (\<forall>f \<in> set fs. wf_field fs f)"

lemma wf_fields_nth: "wf_fields fs \<Longrightarrow> i < length fs \<Longrightarrow> wf_field fs (fs ! i)"
  by (simp add: wf_fields_def)

lemma wf_field_shrinks:
  "wf_field fs f \<Longrightarrow> f_read f m i = Value m' r \<Longrightarrow> length r \<le> length i"
  by (auto simp: wf_field_def)

lemma find_case_SomeD:
  "find_case P fs tag = Some i \<Longrightarrow> i < length fs \<and> f_tag (fs ! i) = tag"
  by (induction fs arbitrary: i) (auto split: if_splits)

text \<open>Case \<open>i\<close> of a table reads field \<open>f\<close> of wire type \<open>w\<close> with reader \<open>rd\<close>.\<close>

definition is_case :: "'m field list \<Rightarrow> nat \<Rightarrow> nat \<Rightarrow> nat \<Rightarrow>
    ('m \<Rightarrow> bytes \<Rightarrow> 'm reading) \<Rightarrow> bool" where
  "is_case fs i f w rd \<longleftrightarrow> wf_fields fs \<and> i < length fs \<and> 0 < f \<and> f < 16 \<and> w < 8 \<and>
     f_tag (fs ! i) = of_nat (8 * f + w) \<and> f_read (fs ! i) = rd"

text \<open>A string a generated parser accepts back: UTF-8 and shorter than 2 GiB.\<close>

definition wire_string :: "pb \<Rightarrow> bytes \<Rightarrow> bool" where
  "wire_string P s \<longleftrightarrow> length s < 2 ^ 31 \<and> (s = [] \<or> VerifyUtf8String P s)"

text \<open>A nested message with its size and its parse, as a field without a rest.\<close>

definition nested_ok :: "pb \<Rightarrow> ('s \<Rightarrow> bytes \<Rightarrow> 's parsed) \<Rightarrow>
    's \<Rightarrow> ('s \<Rightarrow> nat) \<Rightarrow> ('s \<Rightarrow> bytes) \<Rightarrow> 's \<Rightarrow> bool" where
  "nested_ok P parse d size_of ser v \<longleftrightarrow>
     length (ser v) = size_of v \<and> size_of v < 2 ^ 31 \<and>
     (length (ser v) \<le> total_bytes_limit P \<longrightarrow> parse d (ser v) = Parsed v 0 [])"

context pb_wire
begin

lemma find_case_hit:
  assumes "distinct (map f_num fs)" and "i < length fs"
    and "drop_bit 3 (f_tag (fs ! i)) = f_num (fs ! i)"
  shows "find_case P fs (f_tag (fs ! i)) = Some i"
  using assms
proof (induction fs arbitrary: i)
  case (Cons f fs)
  show ?case
  proof (cases i)
    case 0
    with Cons.prems show ?thesis by (simp add: field_number)
  next
    case (Suc k)
    with Cons.prems have "f_num (fs ! k) \<noteq> f_num f"
      by (auto simp: image_iff) (metis nth_mem)
    moreover have "find_case P fs (f_tag (fs ! k)) = Some k"
      using Cons Suc by simp
    ultimately show ?thesis
      using Cons.prems Suc by (simp add: field_number)
  qed
qed simp

lemma find_case_wf:
  "wf_fields fs \<Longrightarrow> i < length fs \<Longrightarrow> find_case P fs (f_tag (fs ! i)) = Some i"
  using find_case_hit wf_fields_nth by (auto simp: wf_fields_def wf_field_def)

lemma plain_loop_end: "plain_loop P fs (Suc k) m [] = Parsed m 0 []"
  by (simp add: read_tag_end)

text \<open>What control at the parse label of a case computes, in terms of the reference loop.\<close>

definition label_result :: "'m field list \<Rightarrow> nat \<Rightarrow> nat \<Rightarrow> 'm \<Rightarrow> bytes \<Rightarrow> 'm parsed" where
  "label_result fs k i m input =
     (case f_read (fs ! i) m input of
        Refused \<Rightarrow> Failed
      | Unfinished \<Rightarrow> OutOfFuel
      | Value m' r \<Rightarrow> plain_loop P fs k m' r)"

lemma plain_loop_case:
  assumes "ReadTagWithCutoff P 127 input = ((tag, True), r)" and "find_case P fs tag = Some i"
  shows "plain_loop P fs (Suc k) m input = label_result fs k i m r"
  using assms by (simp add: label_result_def)

lemma merge_partial_head:
  assumes head: "\<And>m i k. loop_bound None i \<le> n \<Longrightarrow> length i < k \<Longrightarrow>
        merge_partial P fs n None m i = plain_loop P fs k m i"
    and label: "\<And>m i j k. j < length fs \<Longrightarrow> loop_bound (Some j) i \<le> n \<Longrightarrow> length i < k \<Longrightarrow>
        merge_partial P fs n (Some j) m i = label_result fs k j m i"
    and bound: "loop_bound None input \<le> Suc n" "length input < Suc k"
  shows "merge_partial P fs (Suc n) None m input = plain_loop P fs (Suc k) m input"
proof -
  obtain tag known r where rd: "ReadTagWithCutoff P 127 input = ((tag, known), r)"
    by (metis surj_pair)
  show ?thesis
  proof (cases "if known then find_case P fs tag else None")
    case None
    show ?thesis
    proof (cases "tag = 0 \<or> GetTagWireType P tag = WIRETYPE_END_GROUP")
      case True
      with rd None show ?thesis by simp
    next
      case unusual: False
      then have "length r < length input" using rd read_tag_shrinks by blast
      with rd None unusual bound show ?thesis
        by (auto split: option.splits dest!: skip_shrinks intro!: head)
    qed
  next
    case (Some i)
    then have known and hit: "find_case P fs tag = Some i" by (auto split: if_splits)
    then have "tag \<noteq> 0" and i: "i < length fs"
      using rd by (auto dest: read_tag_cutoff find_case_SomeD)
    then have "length r < length input" using rd read_tag_shrinks by blast
    with bound i have "merge_partial P fs n (Some i) m r = label_result fs k i m r"
      by (intro label) auto
    with rd hit \<open>known\<close> show ?thesis
      by (simp add: label_result_def)
  qed
qed

lemma merge_partial_label:
  assumes wf: "wf_fields fs" and i: "i < length fs"
    and head: "\<And>m i k. loop_bound None i \<le> n \<Longrightarrow> length i < k \<Longrightarrow>
        merge_partial P fs n None m i = plain_loop P fs k m i"
    and label: "\<And>m i j k. j < length fs \<Longrightarrow> loop_bound (Some j) i \<le> n \<Longrightarrow> length i < k \<Longrightarrow>
        merge_partial P fs n (Some j) m i = label_result fs k j m i"
    and bound: "loop_bound (Some i) input \<le> Suc n" "length input < Suc k"
  shows "merge_partial P fs (Suc n) (Some i) m input = label_result fs (Suc k) i m input"
proof (cases "f_read (fs ! i) m input")
  case rd: (Value m' r)
  have wfi: "wf_field fs (fs ! i)" using wf i by (rule wf_fields_nth)
  then have len: "length r \<le> length input" using rd by (rule wf_field_shrinks)
  have slow: "(if f_at_end (fs ! i) \<and> ExpectAtEnd P r then Parsed m' 0 r
      else merge_partial P fs n None m' r) = plain_loop P fs (Suc k) m' r"
    using expect_at_end [of r] bound len
    by (auto simp: head plain_loop_end simp del: plain_loop.simps)
  show ?thesis
  proof (cases "f_expect (fs ! i)")
    case None
    with rd slow show ?thesis by (simp add: label_result_def del: plain_loop.simps)
  next
    case (Some e)
    then obtain t j where e: "f_expect (fs ! i) = Some (t, j)" by (cases e) auto
    with wfi have j: "j < length fs" and t: "f_tag (fs ! j) = t" by (auto simp: wf_field_def)
    have "t \<le> 127" using wf_fields_nth [OF wf j] t by (auto simp: wf_field_def)
    show ?thesis
    proof (cases "ExpectTag P t r")
      case (Pair hit r')
      show ?thesis
      proof (cases hit)
        case True
        with Pair have tg: "ReadTagWithCutoff P 127 r = ((t, True), r')"
          using expect_tag_true \<open>t \<le> 127\<close> by simp
        then have "length r' < length r" using read_tag_cutoff read_tag_shrinks by blast
        then have "merge_partial P fs n (Some j) m' r' = label_result fs k j m' r'"
          using bound len j by (intro label) auto
        also have "\<dots> = plain_loop P fs (Suc k) m' r"
          using tg find_case_wf [OF wf j] t by (simp only: plain_loop_case)
        finally show ?thesis
          using rd e Pair True by (simp add: label_result_def del: plain_loop.simps)
      next
        case False
        with Pair have "r' = r" using expect_tag_false by simp
        with rd e Pair False slow show ?thesis
          by (simp add: label_result_def del: plain_loop.simps)
      qed
    qed
  qed
qed (simp_all add: label_result_def)

lemma merge_partial_eq_plain:
  assumes wf: "wf_fields fs"
  shows "(loop_bound None i \<le> n \<longrightarrow> length i < k \<longrightarrow>
           merge_partial P fs n None m i = plain_loop P fs k m i) \<and>
         (j < length fs \<longrightarrow> loop_bound (Some j) i \<le> n \<longrightarrow> length i < k \<longrightarrow>
           merge_partial P fs n (Some j) m i = label_result fs k j m i)"
proof (induction n arbitrary: i k m j)
  case 0
  then show ?case by simp
next
  case (Suc n)
  show ?case
  proof (cases k)
    case 0
    then show ?thesis by simp
  next
    case k: (Suc k')
    show ?thesis
      unfolding k using merge_partial_head [of n fs] merge_partial_label [OF wf, of _ n] Suc.IH
      by blast
  qed
qed

text \<open>The generated parser is the reference loop, with a bound that is always enough.\<close>

lemma parse_loop_eq_plain:
  "wf_fields fs \<Longrightarrow> length i < k \<Longrightarrow> parse_loop P fs m i = plain_loop P fs k m i"
  unfolding parse_loop_def using merge_partial_eq_plain by (metis order_refl)

lemma parse_loop_end [parse_steps]: "wf_fields fs \<Longrightarrow> parse_loop P fs m [] = Parsed m 0 []"
  using parse_loop_eq_plain [of fs "[]" 1] by (simp add: plain_loop_end del: plain_loop.simps)

text \<open>
  One field: the parser at a tag byte of case \<open>i\<close> reads the field and is again at the head
  of the loop, whatever the fast paths do.
\<close>

lemma parse_loop_field:
  assumes wf: "wf_fields fs" and i: "i < length fs" and b: "ucast b = f_tag (fs ! i)"
    and lim: "Suc (length inp) \<le> total_bytes_limit P"
    and rd: "f_read (fs ! i) m inp = Value m' r"
  shows "parse_loop P fs m (b # inp) = parse_loop P fs m' r"
proof -
  have wfi: "wf_field fs (fs ! i)" using wf i by (rule wf_fields_nth)
  then have tag: "(ucast b :: u32) \<noteq> 0" "(ucast b :: u32) \<le> 127"
    by (simp_all add: wf_field_def b)
  have "uint (ucast b :: u32) = uint b" by (rule uint_up_ucast) (simp add: is_up)
  then have "b \<noteq> 0" "b \<le> 127"
    using tag by (auto simp: word_le_def)
  then have "ReadTagWithCutoff P 127 (b # inp) = ((f_tag (fs ! i), True), inp)"
    using read_tag_byte lim b by simp
  moreover have "find_case P fs (f_tag (fs ! i)) = Some i"
    using wf i by (rule find_case_wf)
  ultimately have "plain_loop P fs (Suc (Suc (length inp))) m (b # inp)
      = label_result fs (Suc (length inp)) i m inp"
    by (rule plain_loop_case)
  also have "\<dots> = plain_loop P fs (Suc (length inp)) m' r"
    using rd by (simp add: label_result_def del: plain_loop.simps)
  finally show ?thesis
    using wf_field_shrinks [OF wfi rd]
      parse_loop_eq_plain [OF wf, of "b # inp" "Suc (Suc (length inp))" m]
      parse_loop_eq_plain [OF wf, of r "Suc (length inp)" m']
    by (simp del: plain_loop.simps)
qed

lemma plain_loop_total:
  assumes wf: "wf_fields fs"
  shows "length input < k \<Longrightarrow> plain_loop P fs k m input \<noteq> OutOfFuel"
proof (induction k arbitrary: m input)
  case (Suc k)
  obtain tag known r where rd: "ReadTagWithCutoff P 127 input = ((tag, known), r)"
    by (metis surj_pair)
  have shrink: "tag \<noteq> 0 \<Longrightarrow> length r < length input" using rd read_tag_shrinks by blast
  show ?case
  proof (cases "if known then find_case P fs tag else None")
    case None
    have "length r' < k" if "tag \<noteq> 0" "SkipField P tag r = Some r'" for r'
      using that shrink Suc.prems skip_shrinks [OF that(2)] by linarith
    with rd None show ?thesis by (auto split: option.splits intro!: Suc.IH)
  next
    case (Some i)
    then have "known" and i: "i < length fs" by (auto split: if_splits dest: find_case_SomeD)
    with rd have "tag \<noteq> 0" using read_tag_cutoff by simp
    then have "length r' < k" if "f_read (fs ! i) m r = Value m' r'" for m' r'
      using that shrink Suc.prems wf_field_shrinks [OF wf_fields_nth [OF wf i] that] by linarith
    moreover have "f_read (fs ! i) m r \<noteq> Unfinished" using wf_fields_nth [OF wf i] by (simp add: wf_field_def)
    ultimately show ?thesis using rd Some by (auto split: reading.splits intro!: Suc.IH)
  qed
qed simp

lemma parse_loop_total: "wf_fields fs \<Longrightarrow> parse_loop P fs m i \<noteq> OutOfFuel"
  using parse_loop_eq_plain [of fs i "Suc (length i)" m] plain_loop_total [of fs i "Suc (length i)" m]
  by simp

section \<open>Fields on serialised input\<close>

lemma read_string_shrinks: "read_string P upd m i = Value m' r \<Longrightarrow> length r \<le> length i"
  by (auto simp: read_string_def split: option.splits if_splits dest: string_shrinks)

lemma read_uint64_shrinks: "read_uint64 P upd m i = Value m' r \<Longrightarrow> length r \<le> length i"
  by (auto simp: read_uint64_def read_scalar_def split: option.splits dest: uint64_shrinks)

lemma read_fixed64_shrinks: "read_fixed64 P upd m i = Value m' r \<Longrightarrow> length r \<le> length i"
  by (auto simp: read_fixed64_def read_scalar_def split: option.splits dest: fixed64_shrinks)

lemma read_enum_shrinks: "read_enum P upd m i = Value m' r \<Longrightarrow> length r \<le> length i"
  by (auto simp: read_enum_def read_scalar_def split: option.splits dest: enum_shrinks)

lemma read_message_shrinks:
  "read_message P parse sub upd m i = Value m' r \<Longrightarrow> length r \<le> length i"
  by (auto simp: read_message_def split: option.splits parsed.splits if_splits dest!: limit_shrinks)

text \<open>Only a nested parser could fail to come to an end.\<close>

lemma reader_ends [simp]:
  "read_string P upd m i \<noteq> Unfinished"
  "read_uint64 P upd' m i \<noteq> Unfinished" "read_fixed64 P upd' m i \<noteq> Unfinished" "read_enum P upd'' m i \<noteq> Unfinished"
  by (auto simp: read_string_def read_uint64_def read_fixed64_def read_enum_def read_scalar_def split: option.splits)

lemma read_message_ends:
  "(\<And>m i. parse m i \<noteq> OutOfFuel) \<Longrightarrow> read_message P parse sub upd m i \<noteq> Unfinished"
  by (auto simp: read_message_def split: option.splits parsed.splits)

lemmas reader_shrinks = read_string_shrinks read_uint64_shrinks read_fixed64_shrinks
  read_enum_shrinks read_message_shrinks

text \<open>Sizes: what the size functions of the runtime announce is what its writers write.\<close>

lemma length_write_string [ser_simps]:
  "\<lbrakk>0 < f; f < 16; length s < 2 ^ 31\<rbrakk> \<Longrightarrow> length (WriteStringToArray P f s) = 1 + StringSize P s"
  using write_string [of f s] by auto

lemma length_write_uint64 [ser_simps]:
  "\<lbrakk>0 < f; f < 16\<rbrakk> \<Longrightarrow> length (WriteUInt64ToArray P f v) = 1 + UInt64Size P v"
  using write_uint64 [of f v] by auto

lemma length_write_fixed64 [ser_simps]:
  "\<lbrakk>0 < f; f < 16\<rbrakk> \<Longrightarrow> length (WriteFixed64ToArray P f v) = 1 + 8"
  using write_fixed64 [of f v] by auto

lemma length_write_enum [ser_simps]:
  "\<lbrakk>0 < f; f < 16\<rbrakk> \<Longrightarrow> length (WriteEnumToArray P f e) = 1 + EnumSize P e"
  using write_enum [of f e] by auto

lemma length_write_header [ser_simps]:
  "\<lbrakk>0 < f; f < 16; n < 2 ^ 31\<rbrakk> \<Longrightarrow>
   length (WriteMessageHeader P f n) + n = 1 + LengthDelimitedSize P n"
  using write_header [of f n] by auto

lemma ucast_tag_byte: "f < 16 \<Longrightarrow> w < 8 \<Longrightarrow> (ucast (tag_byte f w) :: u32) = of_nat (8 * f + w)"
proof -
  assume "f < 16" "w < 8"
  then have "take_bit LENGTH(8) (8 * f + w) = 8 * f + w"
    by (simp add: take_bit_nat_eq_self_iff)
  then show ?thesis by (simp only: tag_byte_def unsigned_of_nat)
qed

lemma parse_loop_case:
  assumes c: "is_case fs i f w rd" and lim: "Suc (length inp) \<le> total_bytes_limit P"
    and rd: "rd m inp = Value m' r"
  shows "parse_loop P fs m (tag_byte f w # inp) = parse_loop P fs m' r"
proof (rule parse_loop_field)
  show "ucast (tag_byte f w) = f_tag (fs ! i)"
    using c ucast_tag_byte by (simp add: is_case_def)
qed (use c lim rd in \<open>auto simp: is_case_def\<close>)

lemma parse_string_field:
  assumes c: "is_case fs i f 2 (read_string P upd)" and s: "length s < 2 ^ 31" "VerifyUtf8String P s"
    and lim: "length (WriteStringToArray P f s @ r) \<le> total_bytes_limit P"
  shows "parse_loop P fs m (WriteStringToArray P f s @ r) = parse_loop P fs (upd s m) r"
proof -
  obtain body where w: "WriteStringToArray P f s = tag_byte f 2 # body"
    and rd: "length (body @ r) \<le> total_bytes_limit P \<Longrightarrow> ReadString P (body @ r) = Some (s, r)"
    using c s write_string [of f s] by (auto simp: is_case_def)
  show ?thesis
    using parse_loop_case [OF c, of "body @ r" m] lim rd s by (simp add: w read_string_def)
qed

lemma parse_uint64_field:
  assumes c: "is_case fs i f 0 (read_uint64 P upd)"
    and lim: "length (WriteUInt64ToArray P f v @ r) \<le> total_bytes_limit P"
  shows "parse_loop P fs m (WriteUInt64ToArray P f v @ r) = parse_loop P fs (upd v m) r"
proof -
  obtain body where w: "WriteUInt64ToArray P f v = tag_byte f 0 # body"
    and rd: "length (body @ r) \<le> total_bytes_limit P \<Longrightarrow> ReadUInt64 P (body @ r) = Some (v, r)"
    using c write_uint64 [of f v] by (auto simp: is_case_def)
  show ?thesis
    using parse_loop_case [OF c, of "body @ r" m] lim rd by (simp add: w read_uint64_def read_scalar_def)
qed

lemma parse_fixed64_field:
  assumes c: "is_case fs i f 1 (read_fixed64 P upd)"
    and lim: "length (WriteFixed64ToArray P f v @ r) \<le> total_bytes_limit P"
  shows "parse_loop P fs m (WriteFixed64ToArray P f v @ r) = parse_loop P fs (upd v m) r"
proof -
  obtain body where w: "WriteFixed64ToArray P f v = tag_byte f 1 # body"
    and rd: "length (body @ r) \<le> total_bytes_limit P \<Longrightarrow> ReadFixed64 P (body @ r) = Some (v, r)"
    using c write_fixed64 [of f v] by (auto simp: is_case_def)
  show ?thesis
    using parse_loop_case [OF c, of "body @ r" m] lim rd by (simp add: w read_fixed64_def read_scalar_def)
qed

lemma parse_enum_field:
  assumes c: "is_case fs i f 0 (read_enum P upd)"
    and lim: "length (WriteEnumToArray P f v @ r) \<le> total_bytes_limit P"
  shows "parse_loop P fs m (WriteEnumToArray P f v @ r) = parse_loop P fs (upd v m) r"
proof -
  obtain body where w: "WriteEnumToArray P f v = tag_byte f 0 # body"
    and rd: "length (body @ r) \<le> total_bytes_limit P \<Longrightarrow> ReadEnum P (body @ r) = Some (v, r)"
    using c write_enum [of f v] by (auto simp: is_case_def)
  show ?thesis
    using parse_loop_case [OF c, of "body @ r" m] lim rd by (simp add: w read_enum_def read_scalar_def)
qed

lemma parse_message_field:
  assumes c: "is_case fs i f 2 (read_message P parse sub upd)"
    and n: "length body = n" "n < 2 ^ 31" and nested: "parse (sub m) body = Parsed s 0 []"
    and lim: "length (WriteMessageHeader P f n @ body @ r) \<le> total_bytes_limit P"
  shows "parse_loop P fs m (WriteMessageHeader P f n @ body @ r) = parse_loop P fs (upd s m) r"
proof -
  obtain hdr where w: "WriteMessageHeader P f n = tag_byte f 2 # hdr"
    and rd: "length (hdr @ body @ r) \<le> total_bytes_limit P \<Longrightarrow>
      ReadLimit P (hdr @ body @ r) = Some (body, r)"
    using c n write_header [of f n] by (auto simp: is_case_def)
  show ?thesis
    using parse_loop_case [OF c, of "hdr @ body @ r" m] lim rd nested consumed
    by (simp add: w read_message_def)
qed

text \<open>
  The fields as the generated serialisers write them: a field with its default value is
  left out, so the parser leaves it as it was.
\<close>

lemma parse_opt_string:
  assumes "is_case fs i f 2 (read_string P upd)" and "wire_string P s"
    and "length ((if 0 < length s then WriteStringToArray P f s else []) @ r) \<le> total_bytes_limit P"
  shows "parse_loop P fs m ((if 0 < length s then WriteStringToArray P f s else []) @ r)
       = parse_loop P fs (if 0 < length s then upd s m else m) r"
  using assms by (auto simp: wire_string_def intro!: parse_string_field)

lemma parse_opt_uint64:
  assumes "is_case fs i f 0 (read_uint64 P upd)"
    and "length ((if v \<noteq> 0 then WriteUInt64ToArray P f v else []) @ r) \<le> total_bytes_limit P"
  shows "parse_loop P fs m ((if v \<noteq> 0 then WriteUInt64ToArray P f v else []) @ r)
       = parse_loop P fs (if v \<noteq> 0 then upd v m else m) r"
  using assms by (auto intro!: parse_uint64_field)

lemma parse_opt_fixed64:
  assumes "is_case fs i f 1 (read_fixed64 P upd)"
    and "length ((if v \<noteq> 0 then WriteFixed64ToArray P f v else []) @ r) \<le> total_bytes_limit P"
  shows "parse_loop P fs m ((if v \<noteq> 0 then WriteFixed64ToArray P f v else []) @ r)
       = parse_loop P fs (if v \<noteq> 0 then upd v m else m) r"
  using assms by (auto intro!: parse_fixed64_field)

lemma parse_opt_enum:
  assumes "is_case fs i f 0 (read_enum P upd)"
    and "length ((if v \<noteq> 0 then WriteEnumToArray P f v else []) @ r) \<le> total_bytes_limit P"
  shows "parse_loop P fs m ((if v \<noteq> 0 then WriteEnumToArray P f v else []) @ r)
       = parse_loop P fs (if v \<noteq> 0 then upd v m else m) r"
  using assms by (auto intro!: parse_enum_field)

lemma parse_one_message:
  assumes "is_case fs i f 2 (read_message P parse sub upd)" and "sub m = d"
    and "nested_ok P parse d size_of ser v"
    and "length (WriteMessageHeader P f (size_of v) @ ser v) \<le> total_bytes_limit P"
  shows "parse_loop P fs m (WriteMessageHeader P f (size_of v) @ ser v) = Parsed (upd v m) 0 []"
  using assms parse_message_field [OF assms(1), of "ser v" "size_of v" m v "[]"]
  by (simp add: nested_ok_def is_case_def parse_loop_end)

lemma parse_repeated:
  assumes c: "is_case fs i f 2 (read_message P parse (\<lambda>_. d) upd)"
  shows "\<lbrakk>\<And>v. v \<in> set vs \<Longrightarrow> nested_ok P parse d size_of ser v;
     length (concat (map (\<lambda>v. WriteMessageHeader P f (size_of v) @ ser v) vs)) \<le> total_bytes_limit P\<rbrakk> \<Longrightarrow>
     parse_loop P fs m (concat (map (\<lambda>v. WriteMessageHeader P f (size_of v) @ ser v) vs))
       = Parsed (fold upd vs m) 0 []"
proof (induction vs arbitrary: m)
  case Nil
  then show ?case using c by (simp add: is_case_def parse_loop_end)
next
  case (Cons v vs)
  from Cons.prems(1) [of v] Cons.prems(2) have v: "length (ser v) = size_of v" "size_of v < 2 ^ 31"
    "parse d (ser v) = Parsed v 0 []"
    by (simp_all add: nested_ok_def)
  have "parse_loop P fs m (WriteMessageHeader P f (size_of v) @ ser v
      @ concat (map (\<lambda>v. WriteMessageHeader P f (size_of v) @ ser v) vs))
    = parse_loop P fs (upd v m) (concat (map (\<lambda>v. WriteMessageHeader P f (size_of v) @ ser v) vs))"
    using Cons.prems(2) by (intro parse_message_field [OF c v(1,2)]) (use v in simp_all)
  then show ?case using Cons by simp
qed

lemma length_repeated:
  "\<lbrakk>0 < f; f < 16; \<And>v. v \<in> set vs \<Longrightarrow> nested_ok P parse d size_of ser v\<rbrakk> \<Longrightarrow>
   length (concat (map (\<lambda>v. WriteMessageHeader P f (size_of v) @ ser v) vs))
     = 1 * length vs + sum_list (map (\<lambda>v. LengthDelimitedSize P (size_of v)) vs)"
proof (induction vs)
  case (Cons v vs)
  then have "length (WriteMessageHeader P f (size_of v)) + size_of v
      = 1 + LengthDelimitedSize P (size_of v)"
    by (intro length_write_header) (auto simp: nested_ok_def)
  moreover have "length (ser v) = size_of v"
    using Cons.prems(3) [of v] by (simp add: nested_ok_def)
  ultimately show ?case using Cons by simp
qed simp

end

end
