(* ===== verification/Messages.thy ===== *)
theory Messages
  imports Wire
begin

text \<open>
  The messages of \<open>protocol/messages.proto\<close> as \<open>protoc\<close> generated them
  (\<open>messages.pb.h\<close>, \<open>messages.pb.cc\<close>; the copies of the client and of the server are the
  same file). For each message: its data (a record; a datatype for a message that is one
  \<open>oneof\<close>), its cleared value, the table of the cases of its parser, the parser
  \<open>MergePartialFromCodedStream\<close>, \<open>ByteSize\<close>, the serialiser
  \<open>InternalSerializeWithCachedSizesToArray\<close> (which writes the size that \<open>ByteSize\<close> cached
  before a nested message) and \<open>MergeFrom\<close>. Unknown fields are skipped by this version of
  the generator, not kept. Recursion depth is not counted: messages nest at most four
  deep and the default limit of the runtime is far above.
\<close>

section \<open>The messages\<close>

subsection \<open>RegisterRequest\<close>

record RegisterRequest =
  RegisterRequest_name :: "bytes"
  RegisterRequest_email :: "bytes"
  RegisterRequest_password :: "bytes"

definition RegisterRequest_default :: RegisterRequest where
  "RegisterRequest_default = \<lparr>RegisterRequest_name = [], RegisterRequest_email = [], RegisterRequest_password = []\<rparr>"

definition RegisterRequest_fields :: "pb \<Rightarrow> RegisterRequest field list" where
  "RegisterRequest_fields P =
     [\<lparr>f_num = 1, f_tag = 10,
        f_read = read_string P (\<lambda>v m. m\<lparr>RegisterRequest_name := v\<rparr>),
        f_expect = Some (18, 1), f_at_end = False\<rparr>,
      \<lparr>f_num = 2, f_tag = 18,
        f_read = read_string P (\<lambda>v m. m\<lparr>RegisterRequest_email := v\<rparr>),
        f_expect = Some (26, 2), f_at_end = False\<rparr>,
      \<lparr>f_num = 3, f_tag = 26,
        f_read = read_string P (\<lambda>v m. m\<lparr>RegisterRequest_password := v\<rparr>),
        f_expect = None, f_at_end = True\<rparr>]"

definition RegisterRequest_MergePartialFromCodedStream :: "pb \<Rightarrow> RegisterRequest \<Rightarrow> bytes \<Rightarrow> RegisterRequest parsed" where
  "RegisterRequest_MergePartialFromCodedStream P = parse_loop P (RegisterRequest_fields P)"

definition RegisterRequest_ByteSize :: "pb \<Rightarrow> RegisterRequest \<Rightarrow> nat" where
  "RegisterRequest_ByteSize P m = (if 0 < length (RegisterRequest_name m)
      then 1 + StringSize P (RegisterRequest_name m) else 0)
     + (if 0 < length (RegisterRequest_email m) then 1 + StringSize P (RegisterRequest_email m) else 0)
     + (if 0 < length (RegisterRequest_password m) then 1 + StringSize P (RegisterRequest_password m) else 0)"

definition RegisterRequest_SerializeToArray :: "pb \<Rightarrow> RegisterRequest \<Rightarrow> bytes" where
  "RegisterRequest_SerializeToArray P m =
     (if 0 < length (RegisterRequest_name m) then WriteStringToArray P 1 (RegisterRequest_name m) else [])
     @ (if 0 < length (RegisterRequest_email m) then WriteStringToArray P 2 (RegisterRequest_email m) else [])
     @ (if 0 < length (RegisterRequest_password m) then WriteStringToArray P 3 (RegisterRequest_password m) else [])"

definition RegisterRequest_MergeFrom :: "RegisterRequest \<Rightarrow> RegisterRequest \<Rightarrow> RegisterRequest" where
  "RegisterRequest_MergeFrom this from = this\<lparr>RegisterRequest_name :=
       (if 0 < length (RegisterRequest_name from) then RegisterRequest_name from else RegisterRequest_name this),
       RegisterRequest_email := (if 0 < length (RegisterRequest_email from)
           then RegisterRequest_email from else RegisterRequest_email this),
       RegisterRequest_password := (if 0 < length (RegisterRequest_password from)
           then RegisterRequest_password from else RegisterRequest_password this)\<rparr>"

subsection \<open>LoginRequest\<close>

record LoginRequest =
  LoginRequest_email :: "bytes"
  LoginRequest_password :: "bytes"

definition LoginRequest_default :: LoginRequest where
  "LoginRequest_default = \<lparr>LoginRequest_email = [], LoginRequest_password = []\<rparr>"

definition LoginRequest_fields :: "pb \<Rightarrow> LoginRequest field list" where
  "LoginRequest_fields P =
     [\<lparr>f_num = 1, f_tag = 10,
        f_read = read_string P (\<lambda>v m. m\<lparr>LoginRequest_email := v\<rparr>),
        f_expect = Some (18, 1), f_at_end = False\<rparr>,
      \<lparr>f_num = 2, f_tag = 18,
        f_read = read_string P (\<lambda>v m. m\<lparr>LoginRequest_password := v\<rparr>),
        f_expect = None, f_at_end = True\<rparr>]"

definition LoginRequest_MergePartialFromCodedStream :: "pb \<Rightarrow> LoginRequest \<Rightarrow> bytes \<Rightarrow> LoginRequest parsed" where
  "LoginRequest_MergePartialFromCodedStream P = parse_loop P (LoginRequest_fields P)"

definition LoginRequest_ByteSize :: "pb \<Rightarrow> LoginRequest \<Rightarrow> nat" where
  "LoginRequest_ByteSize P m = (if 0 < length (LoginRequest_email m)
      then 1 + StringSize P (LoginRequest_email m) else 0)
     + (if 0 < length (LoginRequest_password m) then 1 + StringSize P (LoginRequest_password m) else 0)"

definition LoginRequest_SerializeToArray :: "pb \<Rightarrow> LoginRequest \<Rightarrow> bytes" where
  "LoginRequest_SerializeToArray P m =
     (if 0 < length (LoginRequest_email m) then WriteStringToArray P 1 (LoginRequest_email m) else [])
     @ (if 0 < length (LoginRequest_password m) then WriteStringToArray P 2 (LoginRequest_password m) else [])"

definition LoginRequest_MergeFrom :: "LoginRequest \<Rightarrow> LoginRequest \<Rightarrow> LoginRequest" where
  "LoginRequest_MergeFrom this from = this\<lparr>LoginRequest_email :=
       (if 0 < length (LoginRequest_email from) then LoginRequest_email from else LoginRequest_email this),
       LoginRequest_password := (if 0 < length (LoginRequest_password from)
           then LoginRequest_password from else LoginRequest_password this)\<rparr>"

subsection \<open>AllMyChatsRequest\<close>

datatype AllMyChatsRequest = AllMyChatsRequest

definition AllMyChatsRequest_default :: AllMyChatsRequest where
  "AllMyChatsRequest_default = AllMyChatsRequest"

definition AllMyChatsRequest_fields :: "pb \<Rightarrow> AllMyChatsRequest field list" where
  "AllMyChatsRequest_fields P = []"

definition AllMyChatsRequest_MergePartialFromCodedStream :: "pb \<Rightarrow> AllMyChatsRequest \<Rightarrow> bytes \<Rightarrow>
    AllMyChatsRequest parsed" where
  "AllMyChatsRequest_MergePartialFromCodedStream P = parse_loop P (AllMyChatsRequest_fields P)"

definition AllMyChatsRequest_ByteSize :: "pb \<Rightarrow> AllMyChatsRequest \<Rightarrow> nat" where
  "AllMyChatsRequest_ByteSize P m = 0"

definition AllMyChatsRequest_SerializeToArray :: "pb \<Rightarrow> AllMyChatsRequest \<Rightarrow> bytes" where
  "AllMyChatsRequest_SerializeToArray P m =
     []"

definition AllMyChatsRequest_MergeFrom :: "AllMyChatsRequest \<Rightarrow> AllMyChatsRequest \<Rightarrow> AllMyChatsRequest" where
  "AllMyChatsRequest_MergeFrom this from = this"

subsection \<open>AllMyContactsRequest\<close>

datatype AllMyContactsRequest = AllMyContactsRequest

definition AllMyContactsRequest_default :: AllMyContactsRequest where
  "AllMyContactsRequest_default = AllMyContactsRequest"

definition AllMyContactsRequest_fields :: "pb \<Rightarrow> AllMyContactsRequest field list" where
  "AllMyContactsRequest_fields P = []"

definition AllMyContactsRequest_MergePartialFromCodedStream :: "pb \<Rightarrow> AllMyContactsRequest \<Rightarrow> bytes \<Rightarrow>
    AllMyContactsRequest parsed" where
  "AllMyContactsRequest_MergePartialFromCodedStream P = parse_loop P (AllMyContactsRequest_fields P)"

definition AllMyContactsRequest_ByteSize :: "pb \<Rightarrow> AllMyContactsRequest \<Rightarrow> nat" where
  "AllMyContactsRequest_ByteSize P m = 0"

definition AllMyContactsRequest_SerializeToArray :: "pb \<Rightarrow> AllMyContactsRequest \<Rightarrow> bytes" where
  "AllMyContactsRequest_SerializeToArray P m =
     []"

definition AllMyContactsRequest_MergeFrom :: "AllMyContactsRequest \<Rightarrow> AllMyContactsRequest \<Rightarrow> AllMyContactsRequest" where
  "AllMyContactsRequest_MergeFrom this from = this"

subsection \<open>MessagesRequest\<close>

record MessagesRequest =
  MessagesRequest_chat_id :: "u64"

definition MessagesRequest_default :: MessagesRequest where
  "MessagesRequest_default = \<lparr>MessagesRequest_chat_id = 0\<rparr>"

definition MessagesRequest_fields :: "pb \<Rightarrow> MessagesRequest field list" where
  "MessagesRequest_fields P =
     [\<lparr>f_num = 1, f_tag = 8,
        f_read = read_uint64 P (\<lambda>v m. m\<lparr>MessagesRequest_chat_id := v\<rparr>),
        f_expect = None, f_at_end = True\<rparr>]"

definition MessagesRequest_MergePartialFromCodedStream :: "pb \<Rightarrow> MessagesRequest \<Rightarrow> bytes \<Rightarrow> MessagesRequest parsed" where
  "MessagesRequest_MergePartialFromCodedStream P = parse_loop P (MessagesRequest_fields P)"

definition MessagesRequest_ByteSize :: "pb \<Rightarrow> MessagesRequest \<Rightarrow> nat" where
  "MessagesRequest_ByteSize P m = (if MessagesRequest_chat_id m \<noteq> 0
      then 1 + UInt64Size P (MessagesRequest_chat_id m) else 0)"

definition MessagesRequest_SerializeToArray :: "pb \<Rightarrow> MessagesRequest \<Rightarrow> bytes" where
  "MessagesRequest_SerializeToArray P m =
     (if MessagesRequest_chat_id m \<noteq> 0 then WriteUInt64ToArray P 1 (MessagesRequest_chat_id m) else [])"

definition MessagesRequest_MergeFrom :: "MessagesRequest \<Rightarrow> MessagesRequest \<Rightarrow> MessagesRequest" where
  "MessagesRequest_MergeFrom this from = this\<lparr>MessagesRequest_chat_id :=
      (if MessagesRequest_chat_id from \<noteq> 0 then MessagesRequest_chat_id from
      else MessagesRequest_chat_id this)\<rparr>"

subsection \<open>MessageToSend\<close>

record MessageToSend =
  MessageToSend_chat_id :: "u64"
  MessageToSend_text :: "bytes"

definition MessageToSend_default :: MessageToSend where
  "MessageToSend_default = \<lparr>MessageToSend_chat_id = 0, MessageToSend_text = []\<rparr>"

definition MessageToSend_fields :: "pb \<Rightarrow> MessageToSend field list" where
  "MessageToSend_fields P =
     [\<lparr>f_num = 1, f_tag = 8,
        f_read = read_uint64 P (\<lambda>v m. m\<lparr>MessageToSend_chat_id := v\<rparr>),
        f_expect = Some (18, 1), f_at_end = False\<rparr>,
      \<lparr>f_num = 2, f_tag = 18,
        f_read = read_string P (\<lambda>v m. m\<lparr>MessageToSend_text := v\<rparr>),
        f_expect = None, f_at_end = True\<rparr>]"

definition MessageToSend_MergePartialFromCodedStream :: "pb \<Rightarrow> MessageToSend \<Rightarrow> bytes \<Rightarrow> MessageToSend parsed" where
  "MessageToSend_MergePartialFromCodedStream P = parse_loop P (MessageToSend_fields P)"

definition MessageToSend_ByteSize :: "pb \<Rightarrow> MessageToSend \<Rightarrow> nat" where
  "MessageToSend_ByteSize P m = (if MessageToSend_chat_id m \<noteq> 0 then 1 + UInt64Size P (MessageToSend_chat_id m) else 0)
     + (if 0 < length (MessageToSend_text m) then 1 + StringSize P (MessageToSend_text m) else 0)"

definition MessageToSend_SerializeToArray :: "pb \<Rightarrow> MessageToSend \<Rightarrow> bytes" where
  "MessageToSend_SerializeToArray P m =
     (if MessageToSend_chat_id m \<noteq> 0 then WriteUInt64ToArray P 1 (MessageToSend_chat_id m) else [])
     @ (if 0 < length (MessageToSend_text m) then WriteStringToArray P 2 (MessageToSend_text m) else [])"

definition MessageToSend_MergeFrom :: "MessageToSend \<Rightarrow> MessageToSend \<Rightarrow> MessageToSend" where
  "MessageToSend_MergeFrom this from = this\<lparr>MessageToSend_chat_id := (if MessageToSend_chat_id from \<noteq> 0
      then MessageToSend_chat_id from else MessageToSend_chat_id this),
       MessageToSend_text := (if 0 < length (MessageToSend_text from) then MessageToSend_text from
           else MessageToSend_text this)\<rparr>"

subsection \<open>SendMessageRequest\<close>

record SendMessageRequest =
  SendMessageRequest_mesg :: "MessageToSend option"

definition SendMessageRequest_default :: SendMessageRequest where
  "SendMessageRequest_default = \<lparr>SendMessageRequest_mesg = None\<rparr>"

fun SendMessageRequest_mutable_mesg :: "SendMessageRequest \<Rightarrow> MessageToSend" where
  "SendMessageRequest_mutable_mesg m = (case SendMessageRequest_mesg m of None \<Rightarrow> MessageToSend_default | Some v \<Rightarrow> v)"

definition SendMessageRequest_fields :: "pb \<Rightarrow> SendMessageRequest field list" where
  "SendMessageRequest_fields P =
     [\<lparr>f_num = 1, f_tag = 10,
        f_read = read_message P (MessageToSend_MergePartialFromCodedStream P) SendMessageRequest_mutable_mesg
          (\<lambda>v m. m\<lparr>SendMessageRequest_mesg := Some v\<rparr>),
        f_expect = None, f_at_end = True\<rparr>]"

definition SendMessageRequest_MergePartialFromCodedStream :: "pb \<Rightarrow> SendMessageRequest \<Rightarrow> bytes \<Rightarrow>
    SendMessageRequest parsed" where
  "SendMessageRequest_MergePartialFromCodedStream P = parse_loop P (SendMessageRequest_fields P)"

definition SendMessageRequest_ByteSize :: "pb \<Rightarrow> SendMessageRequest \<Rightarrow> nat" where
  "SendMessageRequest_ByteSize P m = (case SendMessageRequest_mesg m of None \<Rightarrow> 0 | Some v \<Rightarrow>
      1 + LengthDelimitedSize P (MessageToSend_ByteSize P v))"

definition SendMessageRequest_SerializeToArray :: "pb \<Rightarrow> SendMessageRequest \<Rightarrow> bytes" where
  "SendMessageRequest_SerializeToArray P m =
     (case SendMessageRequest_mesg m of None \<Rightarrow> []
      | Some v \<Rightarrow> WriteMessageHeader P 1 (MessageToSend_ByteSize P v) @ MessageToSend_SerializeToArray P v)"

definition SendMessageRequest_MergeFrom :: "SendMessageRequest \<Rightarrow> SendMessageRequest \<Rightarrow> SendMessageRequest" where
  "SendMessageRequest_MergeFrom this from = this\<lparr>SendMessageRequest_mesg :=
      (case SendMessageRequest_mesg from of None \<Rightarrow> SendMessageRequest_mesg this
          | Some v \<Rightarrow> Some (MessageToSend_MergeFrom (SendMessageRequest_mutable_mesg this) v))\<rparr>"

subsection \<open>AddContactRequest\<close>

record AddContactRequest =
  AddContactRequest_email :: "bytes"

definition AddContactRequest_default :: AddContactRequest where
  "AddContactRequest_default = \<lparr>AddContactRequest_email = []\<rparr>"

definition AddContactRequest_fields :: "pb \<Rightarrow> AddContactRequest field list" where
  "AddContactRequest_fields P =
     [\<lparr>f_num = 1, f_tag = 10,
        f_read = read_string P (\<lambda>v m. m\<lparr>AddContactRequest_email := v\<rparr>),
        f_expect = None, f_at_end = True\<rparr>]"

definition AddContactRequest_MergePartialFromCodedStream :: "pb \<Rightarrow> AddContactRequest \<Rightarrow> bytes \<Rightarrow>
    AddContactRequest parsed" where
  "AddContactRequest_MergePartialFromCodedStream P = parse_loop P (AddContactRequest_fields P)"

definition AddContactRequest_ByteSize :: "pb \<Rightarrow> AddContactRequest \<Rightarrow> nat" where
  "AddContactRequest_ByteSize P m = (if 0 < length (AddContactRequest_email m)
      then 1 + StringSize P (AddContactRequest_email m) else 0)"

definition AddContactRequest_SerializeToArray :: "pb \<Rightarrow> AddContactRequest \<Rightarrow> bytes" where
  "AddContactRequest_SerializeToArray P m =
     (if 0 < length (AddContactRequest_email m) then WriteStringToArray P 1 (AddContactRequest_email m) else [])"

definition AddContactRequest_MergeFrom :: "AddContactRequest \<Rightarrow> AddContactRequest \<Rightarrow> AddContactRequest" where
  "AddContactRequest_MergeFrom this from = this\<lparr>AddContactRequest_email :=
       (if 0 < length (AddContactRequest_email from) then AddContactRequest_email from else AddContactRequest_email this)\<rparr>"

subsection \<open>CreateChatRequest\<close>

record CreateChatRequest =
  CreateChatRequest_friend_id :: "u64"

definition CreateChatRequest_default :: CreateChatRequest where
  "CreateChatRequest_default = \<lparr>CreateChatRequest_friend_id = 0\<rparr>"

definition CreateChatRequest_fields :: "pb \<Rightarrow> CreateChatRequest field list" where
  "CreateChatRequest_fields P =
     [\<lparr>f_num = 1, f_tag = 8,
        f_read = read_uint64 P (\<lambda>v m. m\<lparr>CreateChatRequest_friend_id := v\<rparr>),
        f_expect = None, f_at_end = True\<rparr>]"

definition CreateChatRequest_MergePartialFromCodedStream :: "pb \<Rightarrow> CreateChatRequest \<Rightarrow> bytes \<Rightarrow>
    CreateChatRequest parsed" where
  "CreateChatRequest_MergePartialFromCodedStream P = parse_loop P (CreateChatRequest_fields P)"

definition CreateChatRequest_ByteSize :: "pb \<Rightarrow> CreateChatRequest \<Rightarrow> nat" where
  "CreateChatRequest_ByteSize P m = (if CreateChatRequest_friend_id m \<noteq> 0
      then 1 + UInt64Size P (CreateChatRequest_friend_id m) else 0)"

definition CreateChatRequest_SerializeToArray :: "pb \<Rightarrow> CreateChatRequest \<Rightarrow> bytes" where
  "CreateChatRequest_SerializeToArray P m =
     (if CreateChatRequest_friend_id m \<noteq> 0 then WriteUInt64ToArray P 1 (CreateChatRequest_friend_id m) else [])"

definition CreateChatRequest_MergeFrom :: "CreateChatRequest \<Rightarrow> CreateChatRequest \<Rightarrow> CreateChatRequest" where
  "CreateChatRequest_MergeFrom this from = this\<lparr>CreateChatRequest_friend_id :=
      (if CreateChatRequest_friend_id from \<noteq> 0 then CreateChatRequest_friend_id from
      else CreateChatRequest_friend_id this)\<rparr>"

subsection \<open>Request\<close>

datatype Request =
    Request_MSG_NOT_SET
  | Request_register_request RegisterRequest
  | Request_login_request LoginRequest
  | Request_chats_request AllMyChatsRequest
  | Request_contacts_request AllMyContactsRequest
  | Request_messages_request MessagesRequest
  | Request_send_mesg_request SendMessageRequest
  | Request_add_contact_request AddContactRequest
  | Request_create_chat_request CreateChatRequest

definition Request_default :: Request where
  "Request_default = Request_MSG_NOT_SET"

fun Request_mutable_register_request :: "Request \<Rightarrow> RegisterRequest" where
  "Request_mutable_register_request (Request_register_request v) = v"
| "Request_mutable_register_request _ = RegisterRequest_default"

fun Request_mutable_login_request :: "Request \<Rightarrow> LoginRequest" where
  "Request_mutable_login_request (Request_login_request v) = v"
| "Request_mutable_login_request _ = LoginRequest_default"

fun Request_mutable_chats_request :: "Request \<Rightarrow> AllMyChatsRequest" where
  "Request_mutable_chats_request (Request_chats_request v) = v"
| "Request_mutable_chats_request _ = AllMyChatsRequest_default"

fun Request_mutable_contacts_request :: "Request \<Rightarrow> AllMyContactsRequest" where
  "Request_mutable_contacts_request (Request_contacts_request v) = v"
| "Request_mutable_contacts_request _ = AllMyContactsRequest_default"

fun Request_mutable_messages_request :: "Request \<Rightarrow> MessagesRequest" where
  "Request_mutable_messages_request (Request_messages_request v) = v"
| "Request_mutable_messages_request _ = MessagesRequest_default"

fun Request_mutable_send_mesg_request :: "Request \<Rightarrow> SendMessageRequest" where
  "Request_mutable_send_mesg_request (Request_send_mesg_request v) = v"
| "Request_mutable_send_mesg_request _ = SendMessageRequest_default"

fun Request_mutable_add_contact_request :: "Request \<Rightarrow> AddContactRequest" where
  "Request_mutable_add_contact_request (Request_add_contact_request v) = v"
| "Request_mutable_add_contact_request _ = AddContactRequest_default"

fun Request_mutable_create_chat_request :: "Request \<Rightarrow> CreateChatRequest" where
  "Request_mutable_create_chat_request (Request_create_chat_request v) = v"
| "Request_mutable_create_chat_request _ = CreateChatRequest_default"

definition Request_fields :: "pb \<Rightarrow> Request field list" where
  "Request_fields P =
     [\<lparr>f_num = 1, f_tag = 10,
        f_read = read_message P (RegisterRequest_MergePartialFromCodedStream P) Request_mutable_register_request
          (\<lambda>v m. Request_register_request v),
        f_expect = Some (18, 1), f_at_end = False\<rparr>,
      \<lparr>f_num = 2, f_tag = 18,
        f_read = read_message P (LoginRequest_MergePartialFromCodedStream P) Request_mutable_login_request
          (\<lambda>v m. Request_login_request v),
        f_expect = Some (26, 2), f_at_end = False\<rparr>,
      \<lparr>f_num = 3, f_tag = 26,
        f_read = read_message P (AllMyChatsRequest_MergePartialFromCodedStream P) Request_mutable_chats_request
          (\<lambda>v m. Request_chats_request v),
        f_expect = Some (34, 3), f_at_end = False\<rparr>,
      \<lparr>f_num = 4, f_tag = 34,
        f_read = read_message P (AllMyContactsRequest_MergePartialFromCodedStream P) Request_mutable_contacts_request
          (\<lambda>v m. Request_contacts_request v),
        f_expect = Some (42, 4), f_at_end = False\<rparr>,
      \<lparr>f_num = 5, f_tag = 42,
        f_read = read_message P (MessagesRequest_MergePartialFromCodedStream P) Request_mutable_messages_request
          (\<lambda>v m. Request_messages_request v),
        f_expect = Some (50, 5), f_at_end = False\<rparr>,
      \<lparr>f_num = 6, f_tag = 50,
        f_read = read_message P (SendMessageRequest_MergePartialFromCodedStream P) Request_mutable_send_mesg_request
          (\<lambda>v m. Request_send_mesg_request v),
        f_expect = Some (58, 6), f_at_end = False\<rparr>,
      \<lparr>f_num = 7, f_tag = 58,
        f_read = read_message P (AddContactRequest_MergePartialFromCodedStream P) Request_mutable_add_contact_request
          (\<lambda>v m. Request_add_contact_request v),
        f_expect = Some (66, 7), f_at_end = False\<rparr>,
      \<lparr>f_num = 8, f_tag = 66,
        f_read = read_message P (CreateChatRequest_MergePartialFromCodedStream P) Request_mutable_create_chat_request
          (\<lambda>v m. Request_create_chat_request v),
        f_expect = None, f_at_end = True\<rparr>]"

definition Request_MergePartialFromCodedStream :: "pb \<Rightarrow> Request \<Rightarrow> bytes \<Rightarrow> Request parsed" where
  "Request_MergePartialFromCodedStream P = parse_loop P (Request_fields P)"

fun Request_ByteSize :: "pb \<Rightarrow> Request \<Rightarrow> nat" where
  "Request_ByteSize P Request_MSG_NOT_SET = 0"
| "Request_ByteSize P (Request_register_request v) = 1 + LengthDelimitedSize P (RegisterRequest_ByteSize P v)"
| "Request_ByteSize P (Request_login_request v) = 1 + LengthDelimitedSize P (LoginRequest_ByteSize P v)"
| "Request_ByteSize P (Request_chats_request v) = 1 + LengthDelimitedSize P (AllMyChatsRequest_ByteSize P v)"
| "Request_ByteSize P (Request_contacts_request v) = 1 + LengthDelimitedSize P (AllMyContactsRequest_ByteSize P v)"
| "Request_ByteSize P (Request_messages_request v) = 1 + LengthDelimitedSize P (MessagesRequest_ByteSize P v)"
| "Request_ByteSize P (Request_send_mesg_request v) = 1 + LengthDelimitedSize P (SendMessageRequest_ByteSize P v)"
| "Request_ByteSize P (Request_add_contact_request v) = 1 + LengthDelimitedSize P (AddContactRequest_ByteSize P v)"
| "Request_ByteSize P (Request_create_chat_request v) = 1 + LengthDelimitedSize P (CreateChatRequest_ByteSize P v)"

fun Request_SerializeToArray :: "pb \<Rightarrow> Request \<Rightarrow> bytes" where
  "Request_SerializeToArray P Request_MSG_NOT_SET = []"
| "Request_SerializeToArray P (Request_register_request v) =
     WriteMessageHeader P 1 (RegisterRequest_ByteSize P v) @ RegisterRequest_SerializeToArray P v"
| "Request_SerializeToArray P (Request_login_request v) =
     WriteMessageHeader P 2 (LoginRequest_ByteSize P v) @ LoginRequest_SerializeToArray P v"
| "Request_SerializeToArray P (Request_chats_request v) =
     WriteMessageHeader P 3 (AllMyChatsRequest_ByteSize P v) @ AllMyChatsRequest_SerializeToArray P v"
| "Request_SerializeToArray P (Request_contacts_request v) =
     WriteMessageHeader P 4 (AllMyContactsRequest_ByteSize P v) @ AllMyContactsRequest_SerializeToArray P v"
| "Request_SerializeToArray P (Request_messages_request v) =
     WriteMessageHeader P 5 (MessagesRequest_ByteSize P v) @ MessagesRequest_SerializeToArray P v"
| "Request_SerializeToArray P (Request_send_mesg_request v) =
     WriteMessageHeader P 6 (SendMessageRequest_ByteSize P v) @ SendMessageRequest_SerializeToArray P v"
| "Request_SerializeToArray P (Request_add_contact_request v) =
     WriteMessageHeader P 7 (AddContactRequest_ByteSize P v) @ AddContactRequest_SerializeToArray P v"
| "Request_SerializeToArray P (Request_create_chat_request v) =
     WriteMessageHeader P 8 (CreateChatRequest_ByteSize P v) @ CreateChatRequest_SerializeToArray P v"

fun Request_MergeFrom :: "Request \<Rightarrow> Request \<Rightarrow> Request" where
  "Request_MergeFrom this Request_MSG_NOT_SET = this"
| "Request_MergeFrom this (Request_register_request v) = Request_register_request
    (RegisterRequest_MergeFrom (Request_mutable_register_request this) v)"
| "Request_MergeFrom this (Request_login_request v) = Request_login_request (LoginRequest_MergeFrom
    (Request_mutable_login_request this) v)"
| "Request_MergeFrom this (Request_chats_request v) = Request_chats_request (AllMyChatsRequest_MergeFrom
    (Request_mutable_chats_request this) v)"
| "Request_MergeFrom this (Request_contacts_request v) = Request_contacts_request
    (AllMyContactsRequest_MergeFrom (Request_mutable_contacts_request this) v)"
| "Request_MergeFrom this (Request_messages_request v) = Request_messages_request
    (MessagesRequest_MergeFrom (Request_mutable_messages_request this) v)"
| "Request_MergeFrom this (Request_send_mesg_request v) = Request_send_mesg_request
    (SendMessageRequest_MergeFrom (Request_mutable_send_mesg_request this) v)"
| "Request_MergeFrom this (Request_add_contact_request v) = Request_add_contact_request
    (AddContactRequest_MergeFrom (Request_mutable_add_contact_request this) v)"
| "Request_MergeFrom this (Request_create_chat_request v) = Request_create_chat_request
    (CreateChatRequest_MergeFrom (Request_mutable_create_chat_request this) v)"

subsection \<open>StatusResponse\<close>

record StatusResponse =
  StatusResponse_result :: "u32"

definition StatusResponse_default :: StatusResponse where
  "StatusResponse_default = \<lparr>StatusResponse_result = 0\<rparr>"

definition StatusResponse_fields :: "pb \<Rightarrow> StatusResponse field list" where
  "StatusResponse_fields P =
     [\<lparr>f_num = 1, f_tag = 8,
        f_read = read_enum P (\<lambda>v m. m\<lparr>StatusResponse_result := v\<rparr>),
        f_expect = None, f_at_end = True\<rparr>]"

definition StatusResponse_MergePartialFromCodedStream :: "pb \<Rightarrow> StatusResponse \<Rightarrow> bytes \<Rightarrow> StatusResponse parsed" where
  "StatusResponse_MergePartialFromCodedStream P = parse_loop P (StatusResponse_fields P)"

definition StatusResponse_ByteSize :: "pb \<Rightarrow> StatusResponse \<Rightarrow> nat" where
  "StatusResponse_ByteSize P m = (if StatusResponse_result m \<noteq> 0 then 1 + EnumSize P (StatusResponse_result m) else 0)"

definition StatusResponse_SerializeToArray :: "pb \<Rightarrow> StatusResponse \<Rightarrow> bytes" where
  "StatusResponse_SerializeToArray P m =
     (if StatusResponse_result m \<noteq> 0 then WriteEnumToArray P 1 (StatusResponse_result m) else [])"

definition StatusResponse_MergeFrom :: "StatusResponse \<Rightarrow> StatusResponse \<Rightarrow> StatusResponse" where
  "StatusResponse_MergeFrom this from = this\<lparr>StatusResponse_result := (if StatusResponse_result from \<noteq> 0
      then StatusResponse_result from else StatusResponse_result this)\<rparr>"

subsection \<open>Chat\<close>

record Chat =
  Chat_chat_id :: "u64"
  Chat_title :: "bytes"

definition Chat_default :: Chat where
  "Chat_default = \<lparr>Chat_chat_id = 0, Chat_title = []\<rparr>"

definition Chat_fields :: "pb \<Rightarrow> Chat field list" where
  "Chat_fields P =
     [\<lparr>f_num = 1, f_tag = 8,
        f_read = read_uint64 P (\<lambda>v m. m\<lparr>Chat_chat_id := v\<rparr>),
        f_expect = Some (18, 1), f_at_end = False\<rparr>,
      \<lparr>f_num = 2, f_tag = 18,
        f_read = read_string P (\<lambda>v m. m\<lparr>Chat_title := v\<rparr>),
        f_expect = None, f_at_end = True\<rparr>]"

definition Chat_MergePartialFromCodedStream :: "pb \<Rightarrow> Chat \<Rightarrow> bytes \<Rightarrow> Chat parsed" where
  "Chat_MergePartialFromCodedStream P = parse_loop P (Chat_fields P)"

definition Chat_ByteSize :: "pb \<Rightarrow> Chat \<Rightarrow> nat" where
  "Chat_ByteSize P m = (if Chat_chat_id m \<noteq> 0 then 1 + UInt64Size P (Chat_chat_id m) else 0)
     + (if 0 < length (Chat_title m) then 1 + StringSize P (Chat_title m) else 0)"

definition Chat_SerializeToArray :: "pb \<Rightarrow> Chat \<Rightarrow> bytes" where
  "Chat_SerializeToArray P m =
     (if Chat_chat_id m \<noteq> 0 then WriteUInt64ToArray P 1 (Chat_chat_id m) else [])
     @ (if 0 < length (Chat_title m) then WriteStringToArray P 2 (Chat_title m) else [])"

definition Chat_MergeFrom :: "Chat \<Rightarrow> Chat \<Rightarrow> Chat" where
  "Chat_MergeFrom this from = this\<lparr>Chat_chat_id := (if Chat_chat_id from \<noteq> 0 then Chat_chat_id from
      else Chat_chat_id this),
       Chat_title := (if 0 < length (Chat_title from) then Chat_title from else Chat_title this)\<rparr>"

subsection \<open>ChatsResponse\<close>

record ChatsResponse =
  ChatsResponse_chats :: "Chat list"

definition ChatsResponse_default :: ChatsResponse where
  "ChatsResponse_default = \<lparr>ChatsResponse_chats = []\<rparr>"

definition ChatsResponse_fields :: "pb \<Rightarrow> ChatsResponse field list" where
  "ChatsResponse_fields P =
     [\<lparr>f_num = 1, f_tag = 10,
        f_read = read_message P (Chat_MergePartialFromCodedStream P) (\<lambda>_. Chat_default)
          (\<lambda>v m. m\<lparr>ChatsResponse_chats := ChatsResponse_chats m @ [v]\<rparr>),
        f_expect = Some (10, 0), f_at_end = True\<rparr>]"

definition ChatsResponse_MergePartialFromCodedStream :: "pb \<Rightarrow> ChatsResponse \<Rightarrow> bytes \<Rightarrow> ChatsResponse parsed" where
  "ChatsResponse_MergePartialFromCodedStream P = parse_loop P (ChatsResponse_fields P)"

definition ChatsResponse_ByteSize :: "pb \<Rightarrow> ChatsResponse \<Rightarrow> nat" where
  "ChatsResponse_ByteSize P m = 1 * length (ChatsResponse_chats m) + sum_list (map
      (\<lambda>v. LengthDelimitedSize P (Chat_ByteSize P v)) (ChatsResponse_chats m))"

definition ChatsResponse_SerializeToArray :: "pb \<Rightarrow> ChatsResponse \<Rightarrow> bytes" where
  "ChatsResponse_SerializeToArray P m =
     concat (map (\<lambda>v. WriteMessageHeader P 1 (Chat_ByteSize P v) @ Chat_SerializeToArray P v) (ChatsResponse_chats m))"

definition ChatsResponse_MergeFrom :: "ChatsResponse \<Rightarrow> ChatsResponse \<Rightarrow> ChatsResponse" where
  "ChatsResponse_MergeFrom this from = this\<lparr>ChatsResponse_chats := ChatsResponse_chats this @ ChatsResponse_chats from\<rparr>"

subsection \<open>Contact\<close>

record Contact =
  Contact_user_id :: "u64"
  Contact_name :: "bytes"
  Contact_email :: "bytes"

definition Contact_default :: Contact where
  "Contact_default = \<lparr>Contact_user_id = 0, Contact_name = [], Contact_email = []\<rparr>"

definition Contact_fields :: "pb \<Rightarrow> Contact field list" where
  "Contact_fields P =
     [\<lparr>f_num = 1, f_tag = 8,
        f_read = read_uint64 P (\<lambda>v m. m\<lparr>Contact_user_id := v\<rparr>),
        f_expect = Some (18, 1), f_at_end = False\<rparr>,
      \<lparr>f_num = 2, f_tag = 18,
        f_read = read_string P (\<lambda>v m. m\<lparr>Contact_name := v\<rparr>),
        f_expect = Some (26, 2), f_at_end = False\<rparr>,
      \<lparr>f_num = 3, f_tag = 26,
        f_read = read_string P (\<lambda>v m. m\<lparr>Contact_email := v\<rparr>),
        f_expect = None, f_at_end = True\<rparr>]"

definition Contact_MergePartialFromCodedStream :: "pb \<Rightarrow> Contact \<Rightarrow> bytes \<Rightarrow> Contact parsed" where
  "Contact_MergePartialFromCodedStream P = parse_loop P (Contact_fields P)"

definition Contact_ByteSize :: "pb \<Rightarrow> Contact \<Rightarrow> nat" where
  "Contact_ByteSize P m = (if Contact_user_id m \<noteq> 0 then 1 + UInt64Size P (Contact_user_id m) else 0)
     + (if 0 < length (Contact_name m) then 1 + StringSize P (Contact_name m) else 0)
     + (if 0 < length (Contact_email m) then 1 + StringSize P (Contact_email m) else 0)"

definition Contact_SerializeToArray :: "pb \<Rightarrow> Contact \<Rightarrow> bytes" where
  "Contact_SerializeToArray P m =
     (if Contact_user_id m \<noteq> 0 then WriteUInt64ToArray P 1 (Contact_user_id m) else [])
     @ (if 0 < length (Contact_name m) then WriteStringToArray P 2 (Contact_name m) else [])
     @ (if 0 < length (Contact_email m) then WriteStringToArray P 3 (Contact_email m) else [])"

definition Contact_MergeFrom :: "Contact \<Rightarrow> Contact \<Rightarrow> Contact" where
  "Contact_MergeFrom this from = this\<lparr>Contact_user_id := (if Contact_user_id from \<noteq> 0
      then Contact_user_id from else Contact_user_id this),
       Contact_name := (if 0 < length (Contact_name from) then Contact_name from else Contact_name this),
       Contact_email := (if 0 < length (Contact_email from) then Contact_email from else Contact_email this)\<rparr>"

subsection \<open>ContactsResponse\<close>

record ContactsResponse =
  ContactsResponse_contacts :: "Contact list"

definition ContactsResponse_default :: ContactsResponse where
  "ContactsResponse_default = \<lparr>ContactsResponse_contacts = []\<rparr>"

definition ContactsResponse_fields :: "pb \<Rightarrow> ContactsResponse field list" where
  "ContactsResponse_fields P =
     [\<lparr>f_num = 1, f_tag = 10,
        f_read = read_message P (Contact_MergePartialFromCodedStream P) (\<lambda>_. Contact_default)
          (\<lambda>v m. m\<lparr>ContactsResponse_contacts := ContactsResponse_contacts m @ [v]\<rparr>),
        f_expect = Some (10, 0), f_at_end = True\<rparr>]"

definition ContactsResponse_MergePartialFromCodedStream :: "pb \<Rightarrow> ContactsResponse \<Rightarrow> bytes \<Rightarrow>
    ContactsResponse parsed" where
  "ContactsResponse_MergePartialFromCodedStream P = parse_loop P (ContactsResponse_fields P)"

definition ContactsResponse_ByteSize :: "pb \<Rightarrow> ContactsResponse \<Rightarrow> nat" where
  "ContactsResponse_ByteSize P m = 1 * length (ContactsResponse_contacts m) + sum_list (map
      (\<lambda>v. LengthDelimitedSize P (Contact_ByteSize P v)) (ContactsResponse_contacts m))"

definition ContactsResponse_SerializeToArray :: "pb \<Rightarrow> ContactsResponse \<Rightarrow> bytes" where
  "ContactsResponse_SerializeToArray P m =
     concat (map (\<lambda>v. WriteMessageHeader P 1 (Contact_ByteSize P v) @ Contact_SerializeToArray P v)
         (ContactsResponse_contacts m))"

definition ContactsResponse_MergeFrom :: "ContactsResponse \<Rightarrow> ContactsResponse \<Rightarrow> ContactsResponse" where
  "ContactsResponse_MergeFrom this from = this\<lparr>ContactsResponse_contacts :=
      ContactsResponse_contacts this @ ContactsResponse_contacts from\<rparr>"

subsection \<open>MessageToRecieve\<close>

record MessageToRecieve =
  MessageToRecieve_sender_id :: "u64"
  MessageToRecieve_text :: "bytes"

definition MessageToRecieve_default :: MessageToRecieve where
  "MessageToRecieve_default = \<lparr>MessageToRecieve_sender_id = 0, MessageToRecieve_text = []\<rparr>"

definition MessageToRecieve_fields :: "pb \<Rightarrow> MessageToRecieve field list" where
  "MessageToRecieve_fields P =
     [\<lparr>f_num = 1, f_tag = 8,
        f_read = read_uint64 P (\<lambda>v m. m\<lparr>MessageToRecieve_sender_id := v\<rparr>),
        f_expect = Some (18, 1), f_at_end = False\<rparr>,
      \<lparr>f_num = 2, f_tag = 18,
        f_read = read_string P (\<lambda>v m. m\<lparr>MessageToRecieve_text := v\<rparr>),
        f_expect = None, f_at_end = True\<rparr>]"

definition MessageToRecieve_MergePartialFromCodedStream :: "pb \<Rightarrow> MessageToRecieve \<Rightarrow> bytes \<Rightarrow>
    MessageToRecieve parsed" where
  "MessageToRecieve_MergePartialFromCodedStream P = parse_loop P (MessageToRecieve_fields P)"

definition MessageToRecieve_ByteSize :: "pb \<Rightarrow> MessageToRecieve \<Rightarrow> nat" where
  "MessageToRecieve_ByteSize P m = (if MessageToRecieve_sender_id m \<noteq> 0
      then 1 + UInt64Size P (MessageToRecieve_sender_id m) else 0)
     + (if 0 < length (MessageToRecieve_text m) then 1 + StringSize P (MessageToRecieve_text m) else 0)"

definition MessageToRecieve_SerializeToArray :: "pb \<Rightarrow> MessageToRecieve \<Rightarrow> bytes" where
  "MessageToRecieve_SerializeToArray P m =
     (if MessageToRecieve_sender_id m \<noteq> 0 then WriteUInt64ToArray P 1 (MessageToRecieve_sender_id m) else [])
     @ (if 0 < length (MessageToRecieve_text m) then WriteStringToArray P 2 (MessageToRecieve_text m) else [])"

definition MessageToRecieve_MergeFrom :: "MessageToRecieve \<Rightarrow> MessageToRecieve \<Rightarrow> MessageToRecieve" where
  "MessageToRecieve_MergeFrom this from = this\<lparr>MessageToRecieve_sender_id :=
      (if MessageToRecieve_sender_id from \<noteq> 0 then MessageToRecieve_sender_id from
      else MessageToRecieve_sender_id this),
       MessageToRecieve_text := (if 0 < length (MessageToRecieve_text from)
           then MessageToRecieve_text from else MessageToRecieve_text this)\<rparr>"

subsection \<open>MessagesResponse\<close>

record MessagesResponse =
  MessagesResponse_messages :: "MessageToRecieve list"

definition MessagesResponse_default :: MessagesResponse where
  "MessagesResponse_default = \<lparr>MessagesResponse_messages = []\<rparr>"

definition MessagesResponse_fields :: "pb \<Rightarrow> MessagesResponse field list" where
  "MessagesResponse_fields P =
     [\<lparr>f_num = 1, f_tag = 10,
        f_read = read_message P (MessageToRecieve_MergePartialFromCodedStream P) (\<lambda>_. MessageToRecieve_default)
          (\<lambda>v m. m\<lparr>MessagesResponse_messages := MessagesResponse_messages m @ [v]\<rparr>),
        f_expect = Some (10, 0), f_at_end = True\<rparr>]"

definition MessagesResponse_MergePartialFromCodedStream :: "pb \<Rightarrow> MessagesResponse \<Rightarrow> bytes \<Rightarrow>
    MessagesResponse parsed" where
  "MessagesResponse_MergePartialFromCodedStream P = parse_loop P (MessagesResponse_fields P)"

definition MessagesResponse_ByteSize :: "pb \<Rightarrow> MessagesResponse \<Rightarrow> nat" where
  "MessagesResponse_ByteSize P m = 1 * length (MessagesResponse_messages m) + sum_list (map
      (\<lambda>v. LengthDelimitedSize P (MessageToRecieve_ByteSize P v)) (MessagesResponse_messages m))"

definition MessagesResponse_SerializeToArray :: "pb \<Rightarrow> MessagesResponse \<Rightarrow> bytes" where
  "MessagesResponse_SerializeToArray P m =
     concat (map (\<lambda>v. WriteMessageHeader P 1 (MessageToRecieve_ByteSize P v) @
         MessageToRecieve_SerializeToArray P v) (MessagesResponse_messages m))"

definition MessagesResponse_MergeFrom :: "MessagesResponse \<Rightarrow> MessagesResponse \<Rightarrow> MessagesResponse" where
  "MessagesResponse_MergeFrom this from = this\<lparr>MessagesResponse_messages :=
      MessagesResponse_messages this @ MessagesResponse_messages from\<rparr>"

subsection \<open>LoginResponse\<close>

record LoginResponse =
  LoginResponse_profile :: "Contact option"

definition LoginResponse_default :: LoginResponse where
  "LoginResponse_default = \<lparr>LoginResponse_profile = None\<rparr>"

fun LoginResponse_mutable_profile :: "LoginResponse \<Rightarrow> Contact" where
  "LoginResponse_mutable_profile m = (case LoginResponse_profile m of None \<Rightarrow> Contact_default | Some v \<Rightarrow> v)"

definition LoginResponse_fields :: "pb \<Rightarrow> LoginResponse field list" where
  "LoginResponse_fields P =
     [\<lparr>f_num = 1, f_tag = 10,
        f_read = read_message P (Contact_MergePartialFromCodedStream P) LoginResponse_mutable_profile
          (\<lambda>v m. m\<lparr>LoginResponse_profile := Some v\<rparr>),
        f_expect = None, f_at_end = True\<rparr>]"

definition LoginResponse_MergePartialFromCodedStream :: "pb \<Rightarrow> LoginResponse \<Rightarrow> bytes \<Rightarrow> LoginResponse parsed" where
  "LoginResponse_MergePartialFromCodedStream P = parse_loop P (LoginResponse_fields P)"

definition LoginResponse_ByteSize :: "pb \<Rightarrow> LoginResponse \<Rightarrow> nat" where
  "LoginResponse_ByteSize P m = (case LoginResponse_profile m of None \<Rightarrow> 0 | Some v \<Rightarrow>
      1 + LengthDelimitedSize P (Contact_ByteSize P v))"

definition LoginResponse_SerializeToArray :: "pb \<Rightarrow> LoginResponse \<Rightarrow> bytes" where
  "LoginResponse_SerializeToArray P m =
     (case LoginResponse_profile m of None \<Rightarrow> []
      | Some v \<Rightarrow> WriteMessageHeader P 1 (Contact_ByteSize P v) @ Contact_SerializeToArray P v)"

definition LoginResponse_MergeFrom :: "LoginResponse \<Rightarrow> LoginResponse \<Rightarrow> LoginResponse" where
  "LoginResponse_MergeFrom this from = this\<lparr>LoginResponse_profile :=
      (case LoginResponse_profile from of None \<Rightarrow> LoginResponse_profile this
          | Some v \<Rightarrow> Some (Contact_MergeFrom (LoginResponse_mutable_profile this) v))\<rparr>"

subsection \<open>Response\<close>

datatype Response =
    Response_MSG_NOT_SET
  | Response_status_response StatusResponse
  | Response_chats_response ChatsResponse
  | Response_contacts_response ContactsResponse
  | Response_messages_response MessagesResponse
  | Response_login_response LoginResponse

definition Response_default :: Response where
  "Response_default = Response_MSG_NOT_SET"

fun Response_mutable_status_response :: "Response \<Rightarrow> StatusResponse" where
  "Response_mutable_status_response (Response_status_response v) = v"
| "Response_mutable_status_response _ = StatusResponse_default"

fun Response_mutable_chats_response :: "Response \<Rightarrow> ChatsResponse" where
  "Response_mutable_chats_response (Response_chats_response v) = v"
| "Response_mutable_chats_response _ = ChatsResponse_default"

fun Response_mutable_contacts_response :: "Response \<Rightarrow> ContactsResponse" where
  "Response_mutable_contacts_response (Response_contacts_response v) = v"
| "Response_mutable_contacts_response _ = ContactsResponse_default"

fun Response_mutable_messages_response :: "Response \<Rightarrow> MessagesResponse" where
  "Response_mutable_messages_response (Response_messages_response v) = v"
| "Response_mutable_messages_response _ = MessagesResponse_default"

fun Response_mutable_login_response :: "Response \<Rightarrow> LoginResponse" where
  "Response_mutable_login_response (Response_login_response v) = v"
| "Response_mutable_login_response _ = LoginResponse_default"

definition Response_fields :: "pb \<Rightarrow> Response field list" where
  "Response_fields P =
     [\<lparr>f_num = 1, f_tag = 10,
        f_read = read_message P (StatusResponse_MergePartialFromCodedStream P) Response_mutable_status_response
          (\<lambda>v m. Response_status_response v),
        f_expect = Some (18, 1), f_at_end = False\<rparr>,
      \<lparr>f_num = 2, f_tag = 18,
        f_read = read_message P (ChatsResponse_MergePartialFromCodedStream P) Response_mutable_chats_response
          (\<lambda>v m. Response_chats_response v),
        f_expect = Some (26, 2), f_at_end = False\<rparr>,
      \<lparr>f_num = 3, f_tag = 26,
        f_read = read_message P (ContactsResponse_MergePartialFromCodedStream P) Response_mutable_contacts_response
          (\<lambda>v m. Response_contacts_response v),
        f_expect = Some (34, 3), f_at_end = False\<rparr>,
      \<lparr>f_num = 4, f_tag = 34,
        f_read = read_message P (MessagesResponse_MergePartialFromCodedStream P) Response_mutable_messages_response
          (\<lambda>v m. Response_messages_response v),
        f_expect = Some (42, 4), f_at_end = False\<rparr>,
      \<lparr>f_num = 5, f_tag = 42,
        f_read = read_message P (LoginResponse_MergePartialFromCodedStream P) Response_mutable_login_response
          (\<lambda>v m. Response_login_response v),
        f_expect = None, f_at_end = True\<rparr>]"

definition Response_MergePartialFromCodedStream :: "pb \<Rightarrow> Response \<Rightarrow> bytes \<Rightarrow> Response parsed" where
  "Response_MergePartialFromCodedStream P = parse_loop P (Response_fields P)"

fun Response_ByteSize :: "pb \<Rightarrow> Response \<Rightarrow> nat" where
  "Response_ByteSize P Response_MSG_NOT_SET = 0"
| "Response_ByteSize P (Response_status_response v) = 1 + LengthDelimitedSize P (StatusResponse_ByteSize P v)"
| "Response_ByteSize P (Response_chats_response v) = 1 + LengthDelimitedSize P (ChatsResponse_ByteSize P v)"
| "Response_ByteSize P (Response_contacts_response v) = 1 + LengthDelimitedSize P (ContactsResponse_ByteSize P v)"
| "Response_ByteSize P (Response_messages_response v) = 1 + LengthDelimitedSize P (MessagesResponse_ByteSize P v)"
| "Response_ByteSize P (Response_login_response v) = 1 + LengthDelimitedSize P (LoginResponse_ByteSize P v)"

fun Response_SerializeToArray :: "pb \<Rightarrow> Response \<Rightarrow> bytes" where
  "Response_SerializeToArray P Response_MSG_NOT_SET = []"
| "Response_SerializeToArray P (Response_status_response v) =
     WriteMessageHeader P 1 (StatusResponse_ByteSize P v) @ StatusResponse_SerializeToArray P v"
| "Response_SerializeToArray P (Response_chats_response v) =
     WriteMessageHeader P 2 (ChatsResponse_ByteSize P v) @ ChatsResponse_SerializeToArray P v"
| "Response_SerializeToArray P (Response_contacts_response v) =
     WriteMessageHeader P 3 (ContactsResponse_ByteSize P v) @ ContactsResponse_SerializeToArray P v"
| "Response_SerializeToArray P (Response_messages_response v) =
     WriteMessageHeader P 4 (MessagesResponse_ByteSize P v) @ MessagesResponse_SerializeToArray P v"
| "Response_SerializeToArray P (Response_login_response v) =
     WriteMessageHeader P 5 (LoginResponse_ByteSize P v) @ LoginResponse_SerializeToArray P v"

fun Response_MergeFrom :: "Response \<Rightarrow> Response \<Rightarrow> Response" where
  "Response_MergeFrom this Response_MSG_NOT_SET = this"
| "Response_MergeFrom this (Response_status_response v) = Response_status_response
    (StatusResponse_MergeFrom (Response_mutable_status_response this) v)"
| "Response_MergeFrom this (Response_chats_response v) = Response_chats_response
    (ChatsResponse_MergeFrom (Response_mutable_chats_response this) v)"
| "Response_MergeFrom this (Response_contacts_response v) = Response_contacts_response
    (ContactsResponse_MergeFrom (Response_mutable_contacts_response this) v)"
| "Response_MergeFrom this (Response_messages_response v) = Response_messages_response
    (MessagesResponse_MergeFrom (Response_mutable_messages_response this) v)"
| "Response_MergeFrom this (Response_login_response v) = Response_login_response
    (LoginResponse_MergeFrom (Response_mutable_login_response this) v)"

subsection \<open>WrappedMessage\<close>

datatype WrappedMessage =
    WrappedMessage_MSG_NOT_SET
  | WrappedMessage_response Response
  | WrappedMessage_request Request

definition WrappedMessage_default :: WrappedMessage where
  "WrappedMessage_default = WrappedMessage_MSG_NOT_SET"

fun WrappedMessage_mutable_response :: "WrappedMessage \<Rightarrow> Response" where
  "WrappedMessage_mutable_response (WrappedMessage_response v) = v"
| "WrappedMessage_mutable_response _ = Response_default"

fun WrappedMessage_mutable_request :: "WrappedMessage \<Rightarrow> Request" where
  "WrappedMessage_mutable_request (WrappedMessage_request v) = v"
| "WrappedMessage_mutable_request _ = Request_default"

definition WrappedMessage_fields :: "pb \<Rightarrow> WrappedMessage field list" where
  "WrappedMessage_fields P =
     [\<lparr>f_num = 1, f_tag = 10,
        f_read = read_message P (Response_MergePartialFromCodedStream P) WrappedMessage_mutable_response
          (\<lambda>v m. WrappedMessage_response v),
        f_expect = Some (18, 1), f_at_end = False\<rparr>,
      \<lparr>f_num = 2, f_tag = 18,
        f_read = read_message P (Request_MergePartialFromCodedStream P) WrappedMessage_mutable_request
          (\<lambda>v m. WrappedMessage_request v),
        f_expect = None, f_at_end = True\<rparr>]"

definition WrappedMessage_MergePartialFromCodedStream :: "pb \<Rightarrow> WrappedMessage \<Rightarrow> bytes \<Rightarrow> WrappedMessage parsed" where
  "WrappedMessage_MergePartialFromCodedStream P = parse_loop P (WrappedMessage_fields P)"

fun WrappedMessage_ByteSize :: "pb \<Rightarrow> WrappedMessage \<Rightarrow> nat" where
  "WrappedMessage_ByteSize P WrappedMessage_MSG_NOT_SET = 0"
| "WrappedMessage_ByteSize P (WrappedMessage_response v) = 1 + LengthDelimitedSize P (Response_ByteSize P v)"
| "WrappedMessage_ByteSize P (WrappedMessage_request v) = 1 + LengthDelimitedSize P (Request_ByteSize P v)"

fun WrappedMessage_SerializeToArray :: "pb \<Rightarrow> WrappedMessage \<Rightarrow> bytes" where
  "WrappedMessage_SerializeToArray P WrappedMessage_MSG_NOT_SET = []"
| "WrappedMessage_SerializeToArray P (WrappedMessage_response v) =
     WriteMessageHeader P 1 (Response_ByteSize P v) @ Response_SerializeToArray P v"
| "WrappedMessage_SerializeToArray P (WrappedMessage_request v) =
     WriteMessageHeader P 2 (Request_ByteSize P v) @ Request_SerializeToArray P v"

fun WrappedMessage_MergeFrom :: "WrappedMessage \<Rightarrow> WrappedMessage \<Rightarrow> WrappedMessage" where
  "WrappedMessage_MergeFrom this WrappedMessage_MSG_NOT_SET = this"
| "WrappedMessage_MergeFrom this (WrappedMessage_response v) = WrappedMessage_response
    (Response_MergeFrom (WrappedMessage_mutable_response this) v)"
| "WrappedMessage_MergeFrom this (WrappedMessage_request v) = WrappedMessage_request (Request_MergeFrom
    (WrappedMessage_mutable_request this) v)"

subsection \<open>LengthPrefix\<close>

record LengthPrefix =
  LengthPrefix_length :: "u64"

definition LengthPrefix_default :: LengthPrefix where
  "LengthPrefix_default = \<lparr>LengthPrefix_length = 0\<rparr>"

definition LengthPrefix_fields :: "pb \<Rightarrow> LengthPrefix field list" where
  "LengthPrefix_fields P =
     [\<lparr>f_num = 1, f_tag = 9,
        f_read = read_fixed64 P (\<lambda>v m. m\<lparr>LengthPrefix_length := v\<rparr>),
        f_expect = None, f_at_end = True\<rparr>]"

definition LengthPrefix_MergePartialFromCodedStream :: "pb \<Rightarrow> LengthPrefix \<Rightarrow> bytes \<Rightarrow> LengthPrefix parsed" where
  "LengthPrefix_MergePartialFromCodedStream P = parse_loop P (LengthPrefix_fields P)"

definition LengthPrefix_ByteSize :: "pb \<Rightarrow> LengthPrefix \<Rightarrow> nat" where
  "LengthPrefix_ByteSize P m = (if LengthPrefix_length m \<noteq> 0 then 1 + 8 else 0)"

definition LengthPrefix_SerializeToArray :: "pb \<Rightarrow> LengthPrefix \<Rightarrow> bytes" where
  "LengthPrefix_SerializeToArray P m =
     (if LengthPrefix_length m \<noteq> 0 then WriteFixed64ToArray P 1 (LengthPrefix_length m) else [])"

definition LengthPrefix_MergeFrom :: "LengthPrefix \<Rightarrow> LengthPrefix \<Rightarrow> LengthPrefix" where
  "LengthPrefix_MergeFrom this from = this\<lparr>LengthPrefix_length := (if LengthPrefix_length from \<noteq> 0
      then LengthPrefix_length from else LengthPrefix_length this)\<rparr>"

end
