(* ===== verification/Storage.thy ===== *)
theory Storage
  imports Messages
begin

text \<open>
  The storage layer of the server (\<open>server/src/storage\<close>, \<open>server/src/hashing\<close>) over the
  tables of \<open>gen_schema.sql\<close>. The SQL statements that \<open>PostgresStorageConnection\<close> prepares
  are functions on the tables; the operations of the connection are sequences of
  statements inside one \<open>pqxx::work\<close>. The database engine and libpqxx are third-party: what
  they are free to do (raise an exception in any call, lose the connection during a
  commit, choose the row order of an unordered \<open>SELECT\<close>, convert or refuse a text
  parameter) is the record \<open>pg_env\<close>, an argument of every operation. OpenSSL's \<open>SHA256\<close> is
  the argument \<open>sha\<close>.
\<close>

section \<open>Exceptions and the environment\<close>

text \<open>All of them are derived from \<open>std::exception\<close>.\<close>

datatype exn = Sql_error | Invalid_argument | Conversion_error | Runtime_error | Other_exception

text \<open>
  \<^item> \<open>pg_fault n\<close>: the exception that the \<open>n\<close>-th library call of an operation raises instead
    of doing its work (call 0 opens the transaction, and with it the lazy connection);
  \<^item> \<open>pg_in_doubt\<close>: a commit that raises was applied by the server all the same;
  \<^item> \<open>pg_text\<close>, \<open>pg_quote\<close>: the TEXT value the server gets for a bound string parameter and
    for a string quoted into the query, if it accepts it;
  \<^item> \<open>pg_rank n i\<close>: the rank of row \<open>i\<close> of a result of \<open>n\<close> rows, which decides the order in
    which they come;
  \<^item> \<open>pg_missing_name\<close>: what reading the field \<open>name\<close> through the \<open>begin()\<close> of an empty result
    gives.
\<close>

record pg_env =
  pg_fault :: "nat \<Rightarrow> exn option"
  pg_in_doubt :: bool
  pg_text :: "bytes \<Rightarrow> bytes option"
  pg_quote :: "bytes \<Rightarrow> bytes option"
  pg_rank :: "nat \<Rightarrow> nat \<Rightarrow> nat"
  pg_missing_name :: "exn + bytes"

section \<open>Tables\<close>

text \<open>
  Rows in the order of insertion. \<open>send_time\<close> of a message is left out: it is filled by a
  default and no statement reads it.
\<close>

record client_row =
  cl_id :: int
  cl_name :: bytes
  cl_email :: bytes
  cl_password_hash :: bytes

record client_to_chat_row =
  cc_client_id :: int
  cc_chat_id :: int
  cc_title :: bytes

record message_row =
  ms_id :: int
  ms_sender_id :: int
  ms_chat_id :: int
  ms_mesg :: bytes

record client_to_contact_row =
  ct_client_id :: int
  ct_friend_id :: int

text \<open>The tables with the last values of the sequences behind their serial columns.\<close>

record db =
  Client :: "client_row list"
  Chat_ids :: "int list"
  ClientToChat :: "client_to_chat_row list"
  Message :: "message_row list"
  ClientToContact :: "client_to_contact_row list"
  Client_seq :: int
  Chat_seq :: int
  Message_seq :: int

definition empty_db :: db where
  "empty_db = \<lparr>Client = [], Chat_ids = [], ClientToChat = [], Message = [], ClientToContact = [],
     Client_seq = 0, Chat_seq = 0, Message_seq = 0\<rparr>"

abbreviation max_int4 :: int where "max_int4 \<equiv> 2147483647"
abbreviation max_int8 :: int where "max_int8 \<equiv> 9223372036854775807"

text \<open>An unsigned parameter bound to an INTEGER column or comparison.\<close>

definition int4 :: "u64 \<Rightarrow> int option" where
  "int4 v = (if uint v \<le> max_int4 then Some (uint v) else None)"

text \<open>\<open>field.as<uint64_t>()\<close>.\<close>

definition as_u64 :: "int \<Rightarrow> exn + u64" where
  "as_u64 i = (if 0 \<le> i \<and> i < 2 ^ 64 then Inr (word_of_int i) else Inl Conversion_error)"

text \<open>The rows of a result, in the order the engine chose.\<close>

definition result_rows :: "pg_env \<Rightarrow> 'r list \<Rightarrow> 'r list" where
  "result_rows env rows =
     map (nth rows) (sort_key (pg_rank env (length rows)) [0..<length rows])"

section \<open>The prepared statements\<close>

type_synonym 'a stmt = "db \<Rightarrow> (exn + 'a) \<times> db"

text \<open>A sequence value is used up even when the row is then refused.\<close>

definition stmt_registration :: "pg_env \<Rightarrow> bytes \<Rightarrow> bytes \<Rightarrow> bytes \<Rightarrow> unit stmt" where
  "stmt_registration env name email hash d =
     (case (pg_text env name, pg_text env email) of
        (Some n, Some e) \<Rightarrow>
          (if max_int4 \<le> Client_seq d then (Inl Sql_error, d)
           else
             (let i = Client_seq d + 1; d' = d\<lparr>Client_seq := i\<rparr> in
              if i \<in> cl_id ` set (Client d) \<or> e \<in> cl_email ` set (Client d)
              then (Inl Sql_error, d')
              else (Inr (), d'\<lparr>Client := Client d @
                 [\<lparr>cl_id = i, cl_name = n, cl_email = e, cl_password_hash = hash\<rparr>]\<rparr>)))
      | _ \<Rightarrow> (Inl Sql_error, d))"

definition stmt_send_message :: "pg_env \<Rightarrow> u64 \<Rightarrow> u64 \<Rightarrow> bytes \<Rightarrow> unit stmt" where
  "stmt_send_message env sender_id chat_id mesg d =
     (case (int4 sender_id, int4 chat_id, pg_text env mesg) of
        (Some s, Some c, Some t) \<Rightarrow>
          (if max_int8 \<le> Message_seq d then (Inl Sql_error, d)
           else
             (let i = Message_seq d + 1; d' = d\<lparr>Message_seq := i\<rparr> in
              if i \<in> ms_id ` set (Message d) \<or> s \<notin> cl_id ` set (Client d) \<or> c \<notin> set (Chat_ids d)
              then (Inl Sql_error, d')
              else (Inr (), d'\<lparr>Message := Message d @
                 [\<lparr>ms_id = i, ms_sender_id = s, ms_chat_id = c, ms_mesg = t\<rparr>]\<rparr>)))
      | _ \<Rightarrow> (Inl Sql_error, d))"

definition stmt_add_contact :: "u64 \<Rightarrow> u64 \<Rightarrow> unit stmt" where
  "stmt_add_contact client_id friend_id d =
     (case (int4 client_id, int4 friend_id) of
        (Some c, Some f) \<Rightarrow>
          (if \<lparr>ct_client_id = c, ct_friend_id = f\<rparr> \<in> set (ClientToContact d)
              \<or> c \<notin> cl_id ` set (Client d) \<or> f \<notin> cl_id ` set (Client d)
           then (Inl Sql_error, d)
           else (Inr (), d\<lparr>ClientToContact := ClientToContact d @
              [\<lparr>ct_client_id = c, ct_friend_id = f\<rparr>]\<rparr>))
      | _ \<Rightarrow> (Inl Sql_error, d))"

definition stmt_get_user_by_email :: "pg_env \<Rightarrow> bytes \<Rightarrow> client_row list stmt" where
  "stmt_get_user_by_email env email d =
     (case pg_text env email of
        Some e \<Rightarrow> (Inr (result_rows env (filter (\<lambda>c. cl_email c = e) (Client d))), d)
      | None \<Rightarrow> (Inl Sql_error, d))"

definition stmt_get_info :: "pg_env \<Rightarrow> u64 \<Rightarrow> client_row list stmt" where
  "stmt_get_info env client_id d =
     (case int4 client_id of
        Some i \<Rightarrow> (Inr (result_rows env (filter (\<lambda>c. cl_id c = i) (Client d))), d)
      | None \<Rightarrow> (Inl Sql_error, d))"

text \<open>The \<open>WITH\<close> query is the join of the contact links of the client with \<open>Client\<close>.\<close>

definition contacts_of :: "int \<Rightarrow> db \<Rightarrow> client_row list" where
  "contacts_of i d =
     concat (map (\<lambda>k. filter (\<lambda>c. cl_id c = ct_friend_id k) (Client d))
       (filter (\<lambda>k. ct_client_id k = i) (ClientToContact d)))"

definition stmt_get_contacts :: "pg_env \<Rightarrow> u64 \<Rightarrow> client_row list stmt" where
  "stmt_get_contacts env client_id d =
     (case int4 client_id of
        Some i \<Rightarrow> (Inr (result_rows env (contacts_of i d)), d)
      | None \<Rightarrow> (Inl Sql_error, d))"

definition stmt_get_messages :: "pg_env \<Rightarrow> u64 \<Rightarrow> message_row list stmt" where
  "stmt_get_messages env chat_id d =
     (case int4 chat_id of
        Some c \<Rightarrow> (Inr (result_rows env (filter (\<lambda>m. ms_chat_id m = c) (Message d))), d)
      | None \<Rightarrow> (Inl Sql_error, d))"

definition stmt_get_chats :: "pg_env \<Rightarrow> u64 \<Rightarrow> client_to_chat_row list stmt" where
  "stmt_get_chats env client_id d =
     (case int4 client_id of
        Some i \<Rightarrow> (Inr (result_rows env (filter (\<lambda>l. cc_client_id l = i) (ClientToChat d))), d)
      | None \<Rightarrow> (Inl Sql_error, d))"

definition stmt_check_sender_able_to_write_to_chat ::
  "pg_env \<Rightarrow> u64 \<Rightarrow> u64 \<Rightarrow> client_to_chat_row list stmt" where
  "stmt_check_sender_able_to_write_to_chat env client_id chat_id d =
     (case (int4 client_id, int4 chat_id) of
        (Some i, Some c) \<Rightarrow>
          (Inr (result_rows env
             (filter (\<lambda>l. cc_client_id l = i \<and> cc_chat_id l = c) (ClientToChat d))), d)
      | _ \<Rightarrow> (Inl Sql_error, d))"

definition chats_of :: "int \<Rightarrow> db \<Rightarrow> int list" where
  "chats_of i d = map cc_chat_id (filter (\<lambda>l. cc_client_id l = i) (ClientToChat d))"

definition stmt_check_users_have_common_chat :: "pg_env \<Rightarrow> u64 \<Rightarrow> u64 \<Rightarrow> (int \<times> int) list stmt" where
  "stmt_check_users_have_common_chat env user_id friend_id d =
     (case (int4 user_id, int4 friend_id) of
        (Some i, Some j) \<Rightarrow>
          (Inr (result_rows env
             (filter (\<lambda>(c, c'). c = c') (List.product (chats_of i d) (chats_of j d)))), d)
      | _ \<Rightarrow> (Inl Sql_error, d))"

definition stmt_create_chat :: "int stmt" where
  "stmt_create_chat d =
     (if max_int4 \<le> Chat_seq d then (Inl Sql_error, d)
      else
        (let i = Chat_seq d + 1; d' = d\<lparr>Chat_seq := i\<rparr> in
         if i \<in> set (Chat_ids d) then (Inl Sql_error, d')
         else (Inr i, d'\<lparr>Chat_ids := Chat_ids d @ [i]\<rparr>)))"

definition stmt_create_chat_connection :: "pg_env \<Rightarrow> u64 \<Rightarrow> u64 \<Rightarrow> bytes \<Rightarrow> unit stmt" where
  "stmt_create_chat_connection env client_id chat_id title d =
     (case (int4 client_id, int4 chat_id, pg_text env title) of
        (Some i, Some c, Some t) \<Rightarrow>
          (if i \<notin> cl_id ` set (Client d) \<or> c \<notin> set (Chat_ids d) then (Inl Sql_error, d)
           else (Inr (), d\<lparr>ClientToChat := ClientToChat d @
              [\<lparr>cc_client_id = i, cc_chat_id = c, cc_title = t\<rparr>]\<rparr>))
      | _ \<Rightarrow> (Inl Sql_error, d))"

text \<open>The query \<open>login\<close> builds with \<open>txn.quote(email)\<close>.\<close>

definition stmt_login :: "pg_env \<Rightarrow> bytes \<Rightarrow> client_row list stmt" where
  "stmt_login env email d =
     (case pg_quote env email of
        Some e \<Rightarrow> (Inr (result_rows env (filter (\<lambda>c. cl_email c = e) (Client d))), d)
      | None \<Rightarrow> (Inl Sql_error, d))"

section \<open>Transactions\<close>

text \<open>
  A transaction in progress: the number of library calls made, the tables as the
  transaction sees them and the tables as committed.
\<close>

record work =
  calls :: nat
  view :: db
  committed :: db

type_synonym 'a txn = "work \<Rightarrow> (exn + 'a) \<times> work"

definition txn_return :: "'a \<Rightarrow> 'a txn" where
  "txn_return x w = (Inr x, w)"

definition txn_throw :: "exn \<Rightarrow> 'a txn" where
  "txn_throw e w = (Inl e, w)"

definition txn_bind :: "'a txn \<Rightarrow> ('a \<Rightarrow> 'b txn) \<Rightarrow> 'b txn" where
  "txn_bind m f w =
     (case m w of
        (Inl e, w') \<Rightarrow> (Inl e, w')
      | (Inr x, w') \<Rightarrow> f x w')"

definition txn_lift :: "exn + 'a \<Rightarrow> 'a txn" where
  "txn_lift r w = (r, w)"

text \<open>\<open>txn.prepared(...)(...).exec()\<close> and \<open>txn.exec(...)\<close>.\<close>

definition txn_exec :: "pg_env \<Rightarrow> 'a stmt \<Rightarrow> 'a txn" where
  "txn_exec env st w =
     (case pg_fault env (calls w) of
        Some e \<Rightarrow> (Inl e, w\<lparr>calls := Suc (calls w)\<rparr>)
      | None \<Rightarrow> (case st (view w) of (r, d) \<Rightarrow> (r, w\<lparr>calls := Suc (calls w), view := d\<rparr>)))"

text \<open>\<open>txn.commit()\<close>.\<close>

definition txn_commit :: "pg_env \<Rightarrow> unit txn" where
  "txn_commit env w =
     (case pg_fault env (calls w) of
        Some e \<Rightarrow> (Inl e, w\<lparr>calls := Suc (calls w),
                    committed := if pg_in_doubt env then view w else committed w\<rparr>)
      | None \<Rightarrow> (Inr (), w\<lparr>calls := Suc (calls w), committed := view w\<rparr>))"

text \<open>
  The end of the scope of the \<open>pqxx::work\<close>: what is not committed is rolled back, but
  sequences never go back.
\<close>

definition work_end :: "work \<Rightarrow> db" where
  "work_end w = (committed w)\<lparr>Client_seq := Client_seq (view w), Chat_seq := Chat_seq (view w),
     Message_seq := Message_seq (view w)\<rparr>"

definition run_work :: "pg_env \<Rightarrow> 'a txn \<Rightarrow> db \<Rightarrow> (exn + 'a) \<times> db" where
  "run_work env body d =
     (case pg_fault env 0 of
        Some e \<Rightarrow> (Inl e, d)
      | None \<Rightarrow>
          (case body \<lparr>calls = 1, view = d, committed = d\<rparr> of (r, w) \<Rightarrow> (r, work_end w)))"

text \<open>The handlers \<open>catch (const pqxx::sql_error &)\<close> and \<open>catch (const std::exception &)\<close>.\<close>

fun catch_false :: "(exn + bool) \<times> db \<Rightarrow> bool \<times> db" where
  "catch_false (Inl Sql_error, d) = (False, d)"
| "catch_false (Inl e, d) = (False, d)"
| "catch_false (Inr b, d) = (b, d)"

section \<open>Password hashes\<close>

abbreviation SHA256_DIGEST_LENGTH :: nat where
  "SHA256_DIGEST_LENGTH \<equiv> 32"

text \<open>\<open>SHA256\<close> writes the digest into a zeroed buffer that is then copied.\<close>

definition hash_password :: "(bytes \<Rightarrow> bytes) \<Rightarrow> bytes \<Rightarrow> bytes" where
  "hash_password sha password =
     take SHA256_DIGEST_LENGTH (poke 0 (sha password) (replicate SHA256_DIGEST_LENGTH 0))"

section \<open>Operations of a storage connection\<close>

definition registration ::
  "(bytes \<Rightarrow> bytes) \<Rightarrow> pg_env \<Rightarrow> bytes \<Rightarrow> bytes \<Rightarrow> bytes \<Rightarrow> db \<Rightarrow> bool \<times> db" where
  "registration sha env name email password d =
     catch_false (run_work env
       (txn_bind (txn_exec env (stmt_registration env name email (hash_password sha password))) (\<lambda>_.
        txn_bind (txn_commit env) (\<lambda>_.
        txn_return True))) d)"

definition login ::
  "(bytes \<Rightarrow> bytes) \<Rightarrow> pg_env \<Rightarrow> bytes \<Rightarrow> bytes \<Rightarrow> db \<Rightarrow> (exn + u64 \<times> bytes) \<times> db" where
  "login sha env email password d =
     (case run_work env
        (txn_bind (txn_exec env (stmt_login env email)) (\<lambda>r.
         if r = [] then txn_throw Invalid_argument
         else if length r = 1 \<and> cl_password_hash (r ! 0) \<noteq> hash_password sha password
         then txn_throw Invalid_argument
         else txn_bind (txn_lift (as_u64 (cl_id (r ! 0)))) (\<lambda>i.
              txn_return (i, cl_name (r ! 0))))) d of
        (Inl Sql_error, d') \<Rightarrow> (Inl Runtime_error, d')
      | res \<Rightarrow> res)"

text \<open>\<open>can_write\<close> swallows every exception of its query.\<close>

definition can_write :: "pg_env \<Rightarrow> u64 \<Rightarrow> u64 \<Rightarrow> bool txn" where
  "can_write env sender_id chat_id w =
     (case txn_exec env (stmt_check_sender_able_to_write_to_chat env sender_id chat_id) w of
        (Inl e, w') \<Rightarrow> (Inr False, w')
      | (Inr r, w') \<Rightarrow> (Inr (r \<noteq> []), w'))"

text \<open>
  The operations below first query and then write; what they do with the result of the query
  is a definition of its own.
\<close>

definition send_message_rest :: "pg_env \<Rightarrow> u64 \<Rightarrow> MessageToSend \<Rightarrow> bool \<Rightarrow> bool txn" where
  "send_message_rest env sender_id mesg ok =
     (if \<not> ok then txn_throw Invalid_argument
      else
        txn_bind (txn_exec env (stmt_send_message env sender_id
          (MessageToSend_chat_id mesg) (MessageToSend_text mesg))) (\<lambda>_.
        txn_bind (txn_commit env) (\<lambda>_.
        txn_return True)))"

definition send_message :: "pg_env \<Rightarrow> u64 \<Rightarrow> MessageToSend \<Rightarrow> db \<Rightarrow> bool \<times> db" where
  "send_message env sender_id mesg d =
     catch_false (run_work env
       (txn_bind (can_write env sender_id (MessageToSend_chat_id mesg))
         (send_message_rest env sender_id mesg)) d)"

definition add_contact_rest :: "pg_env \<Rightarrow> u64 \<Rightarrow> client_row list \<Rightarrow> bool txn" where
  "add_contact_rest env user_id req =
     (if req = [] then txn_return False
      else
        txn_bind (txn_lift (as_u64 (cl_id (req ! 0)))) (\<lambda>contact_id.
        txn_bind (txn_exec env (stmt_add_contact user_id contact_id)) (\<lambda>_.
        txn_bind (txn_exec env (stmt_add_contact contact_id user_id)) (\<lambda>_.
        txn_bind (txn_commit env) (\<lambda>_.
        txn_return True)))))"

definition add_contact :: "pg_env \<Rightarrow> u64 \<Rightarrow> bytes \<Rightarrow> db \<Rightarrow> bool \<times> db" where
  "add_contact env user_id email d =
     catch_false (run_work env
       (txn_bind (txn_exec env (stmt_get_user_by_email env email)) (add_contact_rest env user_id)) d)"

definition create_chat_rest :: "pg_env \<Rightarrow> u64 \<Rightarrow> bytes \<Rightarrow> u64 \<Rightarrow> (int \<times> int) list \<Rightarrow> bool txn" where
  "create_chat_rest env user_id user_name friend_id req =
     (if req \<noteq> [] then txn_return False
      else
        txn_bind (txn_exec env stmt_create_chat) (\<lambda>new_id.
        txn_bind (txn_lift (as_u64 new_id)) (\<lambda>chat_id.
        txn_bind (txn_exec env (stmt_get_info env friend_id)) (\<lambda>info.
        txn_bind (txn_lift (if info = [] then pg_missing_name env else Inr (cl_name (info ! 0)))) (\<lambda>name.
        txn_bind (txn_exec env (stmt_create_chat_connection env user_id chat_id
          (str ''Chat with '' @ name))) (\<lambda>_.
        txn_bind (txn_exec env (stmt_create_chat_connection env friend_id chat_id
          (str ''Chat with '' @ user_name))) (\<lambda>_.
        txn_bind (txn_commit env) (\<lambda>_.
        txn_return True))))))))"

definition create_chat :: "pg_env \<Rightarrow> u64 \<Rightarrow> bytes \<Rightarrow> u64 \<Rightarrow> db \<Rightarrow> bool \<times> db" where
  "create_chat env user_id user_name friend_id d =
     catch_false (run_work env
       (txn_bind (txn_exec env (stmt_check_users_have_common_chat env user_id friend_id))
         (create_chat_rest env user_id user_name friend_id)) d)"

text \<open>
  The loops over a result append one element to the response and then fill its fields; a
  conversion that raises leaves the element with its default fields and ends the loop.
\<close>

fun fill_chats :: "client_to_chat_row list \<Rightarrow> Chat list" where
  "fill_chats [] = []"
| "fill_chats (row # rows) =
     (case as_u64 (cc_chat_id row) of
        Inl e \<Rightarrow> [Chat_default]
      | Inr i \<Rightarrow> \<lparr>Chat_chat_id = i, Chat_title = cc_title row\<rparr> # fill_chats rows)"

fun fill_contacts :: "client_row list \<Rightarrow> Contact list" where
  "fill_contacts [] = []"
| "fill_contacts (row # rows) =
     (case as_u64 (cl_id row) of
        Inl e \<Rightarrow> [Contact_default]
      | Inr i \<Rightarrow> \<lparr>Contact_user_id = i, Contact_name = cl_name row, Contact_email = cl_email row\<rparr>
          # fill_contacts rows)"

fun fill_messages :: "message_row list \<Rightarrow> MessageToRecieve list" where
  "fill_messages [] = []"
| "fill_messages (row # rows) =
     (case as_u64 (ms_sender_id row) of
        Inl e \<Rightarrow> [MessageToRecieve_default]
      | Inr i \<Rightarrow> \<lparr>MessageToRecieve_sender_id = i, MessageToRecieve_text = ms_mesg row\<rparr>
          # fill_messages rows)"

definition query_commit :: "pg_env \<Rightarrow> 'r list stmt \<Rightarrow> db \<Rightarrow> (exn + 'r list) \<times> db" where
  "query_commit env st d =
     run_work env
       (txn_bind (txn_exec env st) (\<lambda>r.
        txn_bind (txn_commit env) (\<lambda>_.
        txn_return r))) d"

definition get_chats :: "pg_env \<Rightarrow> u64 \<Rightarrow> db \<Rightarrow> ChatsResponse \<times> db" where
  "get_chats env user_id d =
     (case query_commit env (stmt_get_chats env user_id) d of
        (Inl e, d') \<Rightarrow> (ChatsResponse_default, d')
      | (Inr r, d') \<Rightarrow> (\<lparr>ChatsResponse_chats = fill_chats r\<rparr>, d'))"

definition get_contacts :: "pg_env \<Rightarrow> u64 \<Rightarrow> db \<Rightarrow> ContactsResponse \<times> db" where
  "get_contacts env user_id d =
     (case query_commit env (stmt_get_contacts env user_id) d of
        (Inl e, d') \<Rightarrow> (ContactsResponse_default, d')
      | (Inr r, d') \<Rightarrow> (\<lparr>ContactsResponse_contacts = fill_contacts r\<rparr>, d'))"

definition get_messages :: "pg_env \<Rightarrow> u64 \<Rightarrow> db \<Rightarrow> MessagesResponse \<times> db" where
  "get_messages env chat_id d =
     (case query_commit env (stmt_get_messages env chat_id) d of
        (Inl e, d') \<Rightarrow> (MessagesResponse_default, d')
      | (Inr r, d') \<Rightarrow> (\<lparr>MessagesResponse_messages = fill_messages r\<rparr>, d'))"

section \<open>The abstract connection\<close>

text \<open>
  The virtual functions of \<open>AbstractStorageConnection\<close>: the jobs of the server call storage
  through this table only.
\<close>

record 'd storage =
  sc_registration :: "bytes \<Rightarrow> bytes \<Rightarrow> bytes \<Rightarrow> 'd \<Rightarrow> bool \<times> 'd"
  sc_login :: "bytes \<Rightarrow> bytes \<Rightarrow> 'd \<Rightarrow> (exn + u64 \<times> bytes) \<times> 'd"
  sc_send_message :: "u64 \<Rightarrow> MessageToSend \<Rightarrow> 'd \<Rightarrow> bool \<times> 'd"
  sc_add_contact :: "u64 \<Rightarrow> bytes \<Rightarrow> 'd \<Rightarrow> bool \<times> 'd"
  sc_create_chat :: "u64 \<Rightarrow> bytes \<Rightarrow> u64 \<Rightarrow> 'd \<Rightarrow> bool \<times> 'd"
  sc_get_chats :: "u64 \<Rightarrow> 'd \<Rightarrow> ChatsResponse \<times> 'd"
  sc_get_contacts :: "u64 \<Rightarrow> 'd \<Rightarrow> ContactsResponse \<times> 'd"
  sc_get_messages :: "u64 \<Rightarrow> 'd \<Rightarrow> MessagesResponse \<times> 'd"

text \<open>What \<open>PostgresStorageFactory::create_connection\<close> makes.\<close>

definition postgres_storage :: "(bytes \<Rightarrow> bytes) \<Rightarrow> pg_env \<Rightarrow> db storage" where
  "postgres_storage sha env =
     \<lparr>sc_registration = registration sha env,
      sc_login = login sha env,
      sc_send_message = send_message env,
      sc_add_contact = add_contact env,
      sc_create_chat = create_chat env,
      sc_get_chats = get_chats env,
      sc_get_contacts = get_contacts env,
      sc_get_messages = get_messages env\<rparr>"

end
