(* ===== verification/Wire_Ref.thy ===== *)
theory Wire_Ref
  imports Wire
begin

text \<open>
  An executable runtime that follows the published Protocol Buffers wire format (base-128
  varints, little-endian \<open>fixed64\<close>, length-delimited strings and messages, one key per
  field). It interprets the locale \<open>pb_wire\<close>, so the laws that the theorems about the
  generated code assume can hold together, and it is the runtime that concrete runs of
  the model use. Groups, which no message of the protocol uses, are not skipped but
  rejected.
\<close>

section \<open>Varints and fixed-width integers\<close>

fun enc_varint :: "nat \<Rightarrow> bytes" where
  "enc_varint n = (if n < 128 then [of_nat n] else of_nat (n mod 128 + 128) # enc_varint (n div 128))"

declare enc_varint.simps [simp del]

fun dec_varint :: "nat \<Rightarrow> bytes \<Rightarrow> (nat \<times> bytes) option" where
  "dec_varint 0 bs = None"
| "dec_varint (Suc k) [] = None"
| "dec_varint (Suc k) (b # bs) =
     (if unat b < 128 then Some (unat b, bs)
      else (case dec_varint k bs of
              None \<Rightarrow> None
            | Some (v, r) \<Rightarrow> Some (unat b - 128 + 128 * v, r)))"

fun le_bytes :: "nat \<Rightarrow> nat \<Rightarrow> bytes" where
  "le_bytes 0 n = []"
| "le_bytes (Suc k) n = of_nat (n mod 256) # le_bytes k (n div 256)"

fun le_val :: "bytes \<Rightarrow> nat" where
  "le_val [] = 0"
| "le_val (b # bs) = unat b + 256 * le_val bs"

lemma unat_byte_of_nat: "n < 256 \<Longrightarrow> unat (of_nat n :: byte) = n"
  by (simp add: unat_of_nat take_bit_nat_eq_self)

lemma dec_enc_varint: "0 < k \<Longrightarrow> n < 128 ^ k \<Longrightarrow> dec_varint k (enc_varint n @ r) = Some (n, r)"
proof (induction k arbitrary: n)
  case (Suc k)
  show ?case
  proof (cases "n < 128")
    case True
    then show ?thesis by (simp add: enc_varint.simps [of n] unat_byte_of_nat)
  next
    case False
    then have "n div 128 < 128 ^ k" and "0 < k"
      using Suc.prems by (simp add: less_mult_imp_div_less mult.commute, cases k, simp_all)
    moreover have "unat (of_nat (n mod 128 + 128) :: byte) = n mod 128 + 128"
      by (rule unat_byte_of_nat) (simp add: less_Suc_eq_le order_trans [OF mod_less_eq_dividend])
    ultimately show ?thesis
      using False Suc.IH [of "n div 128"] by (simp add: enc_varint.simps [of n])
  qed
qed simp

lemma length_enc_varint: "0 < k \<Longrightarrow> n < 128 ^ k \<Longrightarrow> length (enc_varint n) \<le> k"
proof (induction k arbitrary: n)
  case (Suc k)
  show ?case
  proof (cases "n < 128")
    case False
    then have "n div 128 < 128 ^ k" and "0 < k"
      using Suc.prems by (simp add: less_mult_imp_div_less mult.commute, cases k, simp_all)
    then show ?thesis using False Suc.IH by (simp add: enc_varint.simps [of n])
  qed (simp add: enc_varint.simps)
qed simp

lemma dec_varint_shrinks: "dec_varint k i = Some (v, r) \<Longrightarrow> length r < length i"
  by (induction k i arbitrary: v rule: dec_varint.induct) (fastforce split: if_splits option.splits)+

lemma dec_varint_Nil [simp]: "dec_varint k [] = None"
  by (cases k) simp_all

lemma length_le_bytes [simp]: "length (le_bytes k n) = k"
  by (induction k arbitrary: n) simp_all

lemma le_val_le_bytes: "le_val (le_bytes k n) = n mod 256 ^ k"
proof (induction k arbitrary: n)
  case (Suc k)
  have "unat (of_nat (n mod 256) :: byte) = n mod 256"
    by (rule unat_byte_of_nat) simp
  then show ?case
    using Suc by (simp add: mod_mult2_eq)
qed simp

section \<open>Structural validity of UTF-8\<close>

definition cont_byte :: "byte \<Rightarrow> bool" where
  "cont_byte b \<longleftrightarrow> 128 \<le> unat b \<and> unat b < 192"

fun utf8 :: "bytes \<Rightarrow> bool" where
  "utf8 [] = True"
| "utf8 (b # bs) =
     (if unat b < 128 then utf8 bs
      else if 194 \<le> unat b \<and> unat b < 224 then
        (case bs of c # r \<Rightarrow> cont_byte c \<and> utf8 r | _ \<Rightarrow> False)
      else if 224 \<le> unat b \<and> unat b < 240 then
        (case bs of c # d # r \<Rightarrow> cont_byte c \<and> cont_byte d
             \<and> (unat b = 224 \<longrightarrow> 160 \<le> unat c) \<and> (unat b = 237 \<longrightarrow> unat c < 160) \<and> utf8 r
         | _ \<Rightarrow> False)
      else if 240 \<le> unat b \<and> unat b < 245 then
        (case bs of c # d # e # r \<Rightarrow> cont_byte c \<and> cont_byte d \<and> cont_byte e
             \<and> (unat b = 240 \<longrightarrow> 144 \<le> unat c) \<and> (unat b = 244 \<longrightarrow> unat c < 144) \<and> utf8 r
         | _ \<Rightarrow> False)
      else False)"

section \<open>The runtime\<close>

definition ref_read_tag :: "u32 \<Rightarrow> bytes \<Rightarrow> (u32 \<times> bool) \<times> bytes" where
  "ref_read_tag cutoff i =
     (case dec_varint 5 i of
        None \<Rightarrow> ((0, False), i)
      | Some (v, r) \<Rightarrow>
          (let t = of_nat v in if t = 0 then ((0, False), i) else ((t, t \<le> cutoff), r)))"

definition ref_delimited :: "bytes \<Rightarrow> (bytes \<times> bytes) option" where
  "ref_delimited i =
     (case dec_varint 5 i of
        None \<Rightarrow> None
      | Some (n, r) \<Rightarrow> if n \<le> length r then Some (take n r, drop n r) else None)"

definition ref_skip :: "u32 \<Rightarrow> bytes \<Rightarrow> bytes option" where
  "ref_skip t i =
     (let w = unat t mod 8 in
      if w = 0 then map_option snd (dec_varint 10 i)
      else if w = 1 then (if 8 \<le> length i then Some (drop 8 i) else None)
      else if w = 2 then map_option snd (ref_delimited i)
      else if w = 5 then (if 4 \<le> length i then Some (drop 4 i) else None)
      else None)"

definition ref_expect_tag :: "u32 \<Rightarrow> bytes \<Rightarrow> bool \<times> bytes" where
  "ref_expect_tag t i =
     (case i of
        b # r \<Rightarrow> if t \<noteq> 0 \<and> unat b < 128 \<and> unat b = unat t then (True, r) else (False, i)
      | [] \<Rightarrow> (False, i))"

definition ref_key :: "nat \<Rightarrow> nat \<Rightarrow> bytes" where
  "ref_key f w = enc_varint (8 * f + w)"

definition pb_ref :: pb where
  "pb_ref =
     \<lparr>ReadTagWithCutoff = ref_read_tag,
      GetTagFieldNumber = (\<lambda>t. drop_bit 3 t),
      GetTagWireType = (\<lambda>t. and t 7),
      ExpectTag = ref_expect_tag,
      ExpectAtEnd = (\<lambda>i. i = []),
      ConsumedEntireMessage = (\<lambda>t r. t = 0 \<and> r = []),
      SkipField = ref_skip,
      ReadString = ref_delimited,
      VerifyUtf8String = utf8,
      ReadUInt64 = (\<lambda>i. map_option (\<lambda>(v, r). (of_nat v, r)) (dec_varint 10 i)),
      ReadFixed64 = (\<lambda>i. if 8 \<le> length i then Some (of_nat (le_val (take 8 i)), drop 8 i) else None),
      ReadEnum = (\<lambda>i. map_option (\<lambda>(v, r). (of_nat v, r)) (dec_varint 10 i)),
      ReadLimit = ref_delimited,
      WriteStringToArray = (\<lambda>f s. ref_key f 2 @ enc_varint (length s) @ s),
      WriteUInt64ToArray = (\<lambda>f v. ref_key f 0 @ enc_varint (unat v)),
      WriteFixed64ToArray = (\<lambda>f v. ref_key f 1 @ le_bytes 8 (unat v)),
      WriteEnumToArray = (\<lambda>f e. ref_key f 0 @ enc_varint (unat (scast e :: u64))),
      WriteMessageHeader = (\<lambda>f n. ref_key f 2 @ enc_varint n),
      StringSize = (\<lambda>s. length (enc_varint (length s)) + length s),
      UInt64Size = (\<lambda>v. length (enc_varint (unat v))),
      EnumSize = (\<lambda>e. length (enc_varint (unat (scast e :: u64)))),
      LengthDelimitedSize = (\<lambda>n. length (enc_varint n) + n),
      total_bytes_limit = 67108864\<rparr>"

section \<open>It satisfies the laws\<close>

lemma ref_key_tag: "0 < f \<Longrightarrow> f < 16 \<Longrightarrow> w < 8 \<Longrightarrow> ref_key f w = [tag_byte f w]"
  by (simp add: ref_key_def tag_byte_def enc_varint.simps [of "8 * f + w"])

lemma ref_delimited_written:
  "length s < 2 ^ 31 \<Longrightarrow> ref_delimited (enc_varint (length s) @ s @ r) = Some (s, r)"
  by (simp add: ref_delimited_def dec_enc_varint)

lemma ref_delimited_shrinks:
  "ref_delimited i = Some (l, r) \<Longrightarrow> length l + length r \<le> length i"
  by (auto simp: ref_delimited_def split: option.splits if_splits dest!: dec_varint_shrinks)

lemma ref_skip_shrinks: "ref_skip t i = Some r \<Longrightarrow> length r \<le> length i"
  by (auto simp: ref_skip_def Let_def split: if_splits
      dest!: dec_varint_shrinks ref_delimited_shrinks)

lemma unat_u64_bound: "unat (v :: u64) < 128 ^ 10"
proof -
  have "unat v < 2 ^ 64" using unsigned_less [of v] by simp
  also have "(2::nat) ^ 64 < 128 ^ 10" by simp
  finally show ?thesis .
qed

lemma length_enc_u64: "length (enc_varint (unat (v :: u64))) \<le> 10"
  by (rule length_enc_varint) (simp, rule unat_u64_bound)

lemma dec_enc_u64: "dec_varint 10 (enc_varint (unat (v :: u64)) @ r) = Some (unat v, r)"
  by (rule dec_enc_varint) (simp, rule unat_u64_bound)

lemma scast_u32_u64: "(ucast (scast (e :: u32) :: u64) :: u32) = e"
  by (rule bit_word_eqI) (auto simp: bit_simps)

lemma ref_read_tag_shrinks: "ref_read_tag c i = ((t, k), r) \<Longrightarrow> t \<noteq> 0 \<Longrightarrow> length r < length i"
  by (auto simp: ref_read_tag_def Let_def split: option.splits if_splits dest: dec_varint_shrinks)

lemma ref_read_tag_known: "ref_read_tag c i = ((t, True), r) \<Longrightarrow> t \<noteq> 0"
  by (auto simp: ref_read_tag_def Let_def split: option.splits if_splits)

lemma unat_ucast_byte: "unat (ucast (b :: byte) :: u32) = unat b"
proof -
  have "uint (ucast b :: u32) = uint b" by (rule uint_up_ucast) (simp add: is_up)
  then show ?thesis by (simp flip: nat_uint_eq)
qed

lemma ref_read_tag_byte:
  assumes "b \<noteq> 0" and "b \<le> 127"
  shows "ref_read_tag 127 (b # r) = ((ucast b, True), r)"
proof -
  have "unat b < 128" using assms(2) by (simp add: word_le_nat_alt)
  moreover have "(ucast b :: u32) \<noteq> 0"
    using assms(1) unat_ucast_byte [of b] by (metis unat_0 unat_eq_zero)
  moreover have "(ucast b :: u32) \<le> 127"
    using assms(2) unat_ucast_byte [of b] by (simp add: word_le_nat_alt)
  ultimately show ?thesis
    by (simp add: ref_read_tag_def Let_def eval_nat_numeral)
qed

lemma ref_expect_tag_read:
  "ref_expect_tag t i = (True, r) \<Longrightarrow> ref_read_tag 127 i = ((t, True), r)"
proof -
  assume "ref_expect_tag t i = (True, r)"
  then obtain b where i: "i = b # r" and b: "t \<noteq> 0" "unat b < 128" "unat b = unat t"
    by (auto simp: ref_expect_tag_def split: list.splits if_splits)
  from b have "b \<noteq> 0" "b \<le> 127" by (auto simp: word_le_nat_alt unat_eq_zero)
  moreover have "(ucast b :: u32) = t" using b(3) unat_ucast_byte [of b] by (metis unsigned_word_eqI)
  ultimately show ?thesis using ref_read_tag_byte i by simp
qed

lemma ref_fixed64: "(of_nat (le_val (le_bytes 8 (unat v))) :: u64) = v"
proof -
  have "unat v < 256 ^ 8" using unsigned_less [of v] by simp
  then have "le_val (le_bytes 8 (unat v)) = unat v" by (simp only: le_val_le_bytes mod_less)
  then show ?thesis by (simp only: of_nat_unat ucast_id)
qed

interpretation pbr: pb_wire pb_ref
proof
  show "ReadTagWithCutoff pb_ref c [] = ((0, False), [])" for c
    by (simp add: pb_ref_def ref_read_tag_def)
  show "\<exists>body. WriteStringToArray pb_ref f s = tag_byte f 2 # body \<and> length body = StringSize pb_ref s \<and>
      (\<forall>r. length (body @ r) \<le> total_bytes_limit pb_ref \<longrightarrow> ReadString pb_ref (body @ r) = Some (s, r))"
    if "0 < f" "f < 16" "length s < 2 ^ 31" for f s
    using that by (simp add: pb_ref_def ref_key_tag ref_delimited_written)
  show "\<exists>hdr. WriteMessageHeader pb_ref f n = tag_byte f 2 # hdr \<and>
      length hdr + n = LengthDelimitedSize pb_ref n \<and>
      (\<forall>l r. length l = n \<longrightarrow> length (hdr @ l @ r) \<le> total_bytes_limit pb_ref \<longrightarrow>
         ReadLimit pb_ref (hdr @ l @ r) = Some (l, r))"
    if "0 < f" "f < 16" "n < 2 ^ 31" for f n
    using that ref_delimited_written by (auto simp: pb_ref_def ref_key_tag)
qed (auto simp: pb_ref_def ref_key_tag ref_read_tag_byte ref_expect_tag_read ref_fixed64
    dec_enc_u64 scast_u32_u64 ref_skip_shrinks
    dest: ref_read_tag_shrinks ref_read_tag_known dec_varint_shrinks ref_delimited_shrinks
    simp: ref_expect_tag_def split: list.splits if_splits)

end
