(* ===== verification/Codec.thy ===== *)
theory Codec
  imports Messages Wire_Ref
begin

text \<open>
  What the generated message code computes, for every runtime that satisfies \<open>pb_wire\<close>:
  the parser of each message is the plain tag loop, \<open>ByteSize\<close> is the number of bytes the
  serialiser writes, parsing what was serialised gives the message back, and copying a
  message (\<open>MergeFrom\<close> into a cleared one) is exact. The messages follow in the order of
  \<open>messages.proto\<close>, nested messages before the ones that hold them.
\<close>

section \<open>Messages that survive the wire\<close>

text \<open>
  \<open>X_ok P m\<close>: every string of the message is valid UTF-8 and every string and nested
  message is shorter than 2 GiB (sizes are \<open>int\<close> in the generated code).
\<close>

definition RegisterRequest_ok :: "pb \<Rightarrow> RegisterRequest \<Rightarrow> bool" where
  "RegisterRequest_ok P m \<longleftrightarrow> wire_string P (RegisterRequest_name m) \<and>
     wire_string P (RegisterRequest_email m) \<and>
     wire_string P (RegisterRequest_password m)"

definition LoginRequest_ok :: "pb \<Rightarrow> LoginRequest \<Rightarrow> bool" where
  "LoginRequest_ok P m \<longleftrightarrow> wire_string P (LoginRequest_email m) \<and>
     wire_string P (LoginRequest_password m)"

definition AllMyChatsRequest_ok :: "pb \<Rightarrow> AllMyChatsRequest \<Rightarrow> bool" where
  "AllMyChatsRequest_ok P m \<longleftrightarrow> True"

definition AllMyContactsRequest_ok :: "pb \<Rightarrow> AllMyContactsRequest \<Rightarrow> bool" where
  "AllMyContactsRequest_ok P m \<longleftrightarrow> True"

definition MessagesRequest_ok :: "pb \<Rightarrow> MessagesRequest \<Rightarrow> bool" where
  "MessagesRequest_ok P m \<longleftrightarrow> True"

definition MessageToSend_ok :: "pb \<Rightarrow> MessageToSend \<Rightarrow> bool" where
  "MessageToSend_ok P m \<longleftrightarrow> wire_string P (MessageToSend_text m)"

definition SendMessageRequest_ok :: "pb \<Rightarrow> SendMessageRequest \<Rightarrow> bool" where
  "SendMessageRequest_ok P m \<longleftrightarrow> (case SendMessageRequest_mesg m of None \<Rightarrow> True | Some v \<Rightarrow>
      MessageToSend_ok P v \<and> MessageToSend_ByteSize P v < 2 ^ 31)"

definition AddContactRequest_ok :: "pb \<Rightarrow> AddContactRequest \<Rightarrow> bool" where
  "AddContactRequest_ok P m \<longleftrightarrow> wire_string P (AddContactRequest_email m)"

definition CreateChatRequest_ok :: "pb \<Rightarrow> CreateChatRequest \<Rightarrow> bool" where
  "CreateChatRequest_ok P m \<longleftrightarrow> True"

fun Request_ok :: "pb \<Rightarrow> Request \<Rightarrow> bool" where
  "Request_ok P Request_MSG_NOT_SET = True"
| "Request_ok P (Request_register_request v) = (RegisterRequest_ok P v \<and> RegisterRequest_ByteSize P v < 2 ^ 31)"
| "Request_ok P (Request_login_request v) = (LoginRequest_ok P v \<and> LoginRequest_ByteSize P v < 2 ^ 31)"
| "Request_ok P (Request_chats_request v) = (AllMyChatsRequest_ok P v \<and> AllMyChatsRequest_ByteSize P v < 2 ^ 31)"
| "Request_ok P (Request_contacts_request v) = (AllMyContactsRequest_ok P v \<and>
    AllMyContactsRequest_ByteSize P v < 2 ^ 31)"
| "Request_ok P (Request_messages_request v) = (MessagesRequest_ok P v \<and> MessagesRequest_ByteSize P v < 2 ^ 31)"
| "Request_ok P (Request_send_mesg_request v) = (SendMessageRequest_ok P v \<and> SendMessageRequest_ByteSize P v < 2 ^ 31)"
| "Request_ok P (Request_add_contact_request v) = (AddContactRequest_ok P v \<and> AddContactRequest_ByteSize P v < 2 ^ 31)"
| "Request_ok P (Request_create_chat_request v) = (CreateChatRequest_ok P v \<and> CreateChatRequest_ByteSize P v < 2 ^ 31)"

definition StatusResponse_ok :: "pb \<Rightarrow> StatusResponse \<Rightarrow> bool" where
  "StatusResponse_ok P m \<longleftrightarrow> True"

definition Chat_ok :: "pb \<Rightarrow> Chat \<Rightarrow> bool" where
  "Chat_ok P m \<longleftrightarrow> wire_string P (Chat_title m)"

definition ChatsResponse_ok :: "pb \<Rightarrow> ChatsResponse \<Rightarrow> bool" where
  "ChatsResponse_ok P m \<longleftrightarrow> list_all (\<lambda>v. Chat_ok P v \<and> Chat_ByteSize P v < 2 ^ 31) (ChatsResponse_chats m)"

definition Contact_ok :: "pb \<Rightarrow> Contact \<Rightarrow> bool" where
  "Contact_ok P m \<longleftrightarrow> wire_string P (Contact_name m) \<and>
     wire_string P (Contact_email m)"

definition ContactsResponse_ok :: "pb \<Rightarrow> ContactsResponse \<Rightarrow> bool" where
  "ContactsResponse_ok P m \<longleftrightarrow> list_all (\<lambda>v. Contact_ok P v \<and> Contact_ByteSize P v < 2 ^ 31)
      (ContactsResponse_contacts m)"

definition MessageToRecieve_ok :: "pb \<Rightarrow> MessageToRecieve \<Rightarrow> bool" where
  "MessageToRecieve_ok P m \<longleftrightarrow> wire_string P (MessageToRecieve_text m)"

definition MessagesResponse_ok :: "pb \<Rightarrow> MessagesResponse \<Rightarrow> bool" where
  "MessagesResponse_ok P m \<longleftrightarrow> list_all (\<lambda>v. MessageToRecieve_ok P v \<and>
      MessageToRecieve_ByteSize P v < 2 ^ 31) (MessagesResponse_messages m)"

definition LoginResponse_ok :: "pb \<Rightarrow> LoginResponse \<Rightarrow> bool" where
  "LoginResponse_ok P m \<longleftrightarrow> (case LoginResponse_profile m of None \<Rightarrow> True | Some v \<Rightarrow> Contact_ok P v \<and>
      Contact_ByteSize P v < 2 ^ 31)"

fun Response_ok :: "pb \<Rightarrow> Response \<Rightarrow> bool" where
  "Response_ok P Response_MSG_NOT_SET = True"
| "Response_ok P (Response_status_response v) = (StatusResponse_ok P v \<and> StatusResponse_ByteSize P v < 2 ^ 31)"
| "Response_ok P (Response_chats_response v) = (ChatsResponse_ok P v \<and> ChatsResponse_ByteSize P v < 2 ^ 31)"
| "Response_ok P (Response_contacts_response v) = (ContactsResponse_ok P v \<and> ContactsResponse_ByteSize P v < 2 ^ 31)"
| "Response_ok P (Response_messages_response v) = (MessagesResponse_ok P v \<and> MessagesResponse_ByteSize P v < 2 ^ 31)"
| "Response_ok P (Response_login_response v) = (LoginResponse_ok P v \<and> LoginResponse_ByteSize P v < 2 ^ 31)"

fun WrappedMessage_ok :: "pb \<Rightarrow> WrappedMessage \<Rightarrow> bool" where
  "WrappedMessage_ok P WrappedMessage_MSG_NOT_SET = True"
| "WrappedMessage_ok P (WrappedMessage_response v) = (Response_ok P v \<and> Response_ByteSize P v < 2 ^ 31)"
| "WrappedMessage_ok P (WrappedMessage_request v) = (Request_ok P v \<and> Request_ByteSize P v < 2 ^ 31)"

definition LengthPrefix_ok :: "pb \<Rightarrow> LengthPrefix \<Rightarrow> bool" where
  "LengthPrefix_ok P m \<longleftrightarrow> True"

section \<open>The tables of the parsers are well formed\<close>

context pb_wire
begin

lemmas table_defs = wf_fields_def wf_field_def

lemma RegisterRequest_wf: "wf_fields (RegisterRequest_fields P)"
  by (auto simp: table_defs RegisterRequest_fields_def dest: reader_shrinks)

lemma RegisterRequest_total: "RegisterRequest_MergePartialFromCodedStream P m i \<noteq> OutOfFuel"
  by (simp add: RegisterRequest_MergePartialFromCodedStream_def parse_loop_total RegisterRequest_wf)

lemma RegisterRequest_plain:
  "RegisterRequest_MergePartialFromCodedStream P m i = plain_loop P (RegisterRequest_fields P) (Suc (length i)) m i"
  by (simp add: RegisterRequest_MergePartialFromCodedStream_def parse_loop_eq_plain RegisterRequest_wf del: plain_loop.simps)

lemma LoginRequest_wf: "wf_fields (LoginRequest_fields P)"
  by (auto simp: table_defs LoginRequest_fields_def dest: reader_shrinks)

lemma LoginRequest_total: "LoginRequest_MergePartialFromCodedStream P m i \<noteq> OutOfFuel"
  by (simp add: LoginRequest_MergePartialFromCodedStream_def parse_loop_total LoginRequest_wf)

lemma LoginRequest_plain:
  "LoginRequest_MergePartialFromCodedStream P m i = plain_loop P (LoginRequest_fields P) (Suc (length i)) m i"
  by (simp add: LoginRequest_MergePartialFromCodedStream_def parse_loop_eq_plain LoginRequest_wf del: plain_loop.simps)

lemma AllMyChatsRequest_wf: "wf_fields (AllMyChatsRequest_fields P)"
  by (auto simp: table_defs AllMyChatsRequest_fields_def dest: reader_shrinks)

lemma AllMyChatsRequest_total: "AllMyChatsRequest_MergePartialFromCodedStream P m i \<noteq> OutOfFuel"
  by (simp add: AllMyChatsRequest_MergePartialFromCodedStream_def parse_loop_total AllMyChatsRequest_wf)

lemma AllMyChatsRequest_plain:
  "AllMyChatsRequest_MergePartialFromCodedStream P m i = plain_loop P (AllMyChatsRequest_fields P) (Suc (length i)) m i"
  by (simp add: AllMyChatsRequest_MergePartialFromCodedStream_def parse_loop_eq_plain AllMyChatsRequest_wf del: plain_loop.simps)

lemma AllMyContactsRequest_wf: "wf_fields (AllMyContactsRequest_fields P)"
  by (auto simp: table_defs AllMyContactsRequest_fields_def dest: reader_shrinks)

lemma AllMyContactsRequest_total: "AllMyContactsRequest_MergePartialFromCodedStream P m i \<noteq> OutOfFuel"
  by (simp add: AllMyContactsRequest_MergePartialFromCodedStream_def parse_loop_total AllMyContactsRequest_wf)

lemma AllMyContactsRequest_plain:
  "AllMyContactsRequest_MergePartialFromCodedStream P m i = plain_loop P (AllMyContactsRequest_fields P) (Suc (length i)) m i"
  by (simp add: AllMyContactsRequest_MergePartialFromCodedStream_def parse_loop_eq_plain AllMyContactsRequest_wf del: plain_loop.simps)

lemma MessagesRequest_wf: "wf_fields (MessagesRequest_fields P)"
  by (auto simp: table_defs MessagesRequest_fields_def dest: reader_shrinks)

lemma MessagesRequest_total: "MessagesRequest_MergePartialFromCodedStream P m i \<noteq> OutOfFuel"
  by (simp add: MessagesRequest_MergePartialFromCodedStream_def parse_loop_total MessagesRequest_wf)

lemma MessagesRequest_plain:
  "MessagesRequest_MergePartialFromCodedStream P m i = plain_loop P (MessagesRequest_fields P) (Suc (length i)) m i"
  by (simp add: MessagesRequest_MergePartialFromCodedStream_def parse_loop_eq_plain MessagesRequest_wf del: plain_loop.simps)

lemma MessageToSend_wf: "wf_fields (MessageToSend_fields P)"
  by (auto simp: table_defs MessageToSend_fields_def dest: reader_shrinks)

lemma MessageToSend_total: "MessageToSend_MergePartialFromCodedStream P m i \<noteq> OutOfFuel"
  by (simp add: MessageToSend_MergePartialFromCodedStream_def parse_loop_total MessageToSend_wf)

lemma MessageToSend_plain:
  "MessageToSend_MergePartialFromCodedStream P m i = plain_loop P (MessageToSend_fields P) (Suc (length i)) m i"
  by (simp add: MessageToSend_MergePartialFromCodedStream_def parse_loop_eq_plain MessageToSend_wf del: plain_loop.simps)

lemma SendMessageRequest_wf: "wf_fields (SendMessageRequest_fields P)"
  by (auto simp: table_defs SendMessageRequest_fields_def read_message_ends MessageToSend_total dest: reader_shrinks)

lemma SendMessageRequest_total: "SendMessageRequest_MergePartialFromCodedStream P m i \<noteq> OutOfFuel"
  by (simp add: SendMessageRequest_MergePartialFromCodedStream_def parse_loop_total SendMessageRequest_wf)

lemma SendMessageRequest_plain:
  "SendMessageRequest_MergePartialFromCodedStream P m i = plain_loop P (SendMessageRequest_fields P) (Suc (length i)) m i"
  by (simp add: SendMessageRequest_MergePartialFromCodedStream_def parse_loop_eq_plain SendMessageRequest_wf del: plain_loop.simps)

lemma AddContactRequest_wf: "wf_fields (AddContactRequest_fields P)"
  by (auto simp: table_defs AddContactRequest_fields_def dest: reader_shrinks)

lemma AddContactRequest_total: "AddContactRequest_MergePartialFromCodedStream P m i \<noteq> OutOfFuel"
  by (simp add: AddContactRequest_MergePartialFromCodedStream_def parse_loop_total AddContactRequest_wf)

lemma AddContactRequest_plain:
  "AddContactRequest_MergePartialFromCodedStream P m i = plain_loop P (AddContactRequest_fields P) (Suc (length i)) m i"
  by (simp add: AddContactRequest_MergePartialFromCodedStream_def parse_loop_eq_plain AddContactRequest_wf del: plain_loop.simps)

lemma CreateChatRequest_wf: "wf_fields (CreateChatRequest_fields P)"
  by (auto simp: table_defs CreateChatRequest_fields_def dest: reader_shrinks)

lemma CreateChatRequest_total: "CreateChatRequest_MergePartialFromCodedStream P m i \<noteq> OutOfFuel"
  by (simp add: CreateChatRequest_MergePartialFromCodedStream_def parse_loop_total CreateChatRequest_wf)

lemma CreateChatRequest_plain:
  "CreateChatRequest_MergePartialFromCodedStream P m i = plain_loop P (CreateChatRequest_fields P) (Suc (length i)) m i"
  by (simp add: CreateChatRequest_MergePartialFromCodedStream_def parse_loop_eq_plain CreateChatRequest_wf del: plain_loop.simps)

lemma Request_wf: "wf_fields (Request_fields P)"
  by (auto simp: table_defs Request_fields_def read_message_ends
    AddContactRequest_total AllMyChatsRequest_total AllMyContactsRequest_total CreateChatRequest_total
    LoginRequest_total MessagesRequest_total RegisterRequest_total SendMessageRequest_total dest: reader_shrinks)

lemma Request_total: "Request_MergePartialFromCodedStream P m i \<noteq> OutOfFuel"
  by (simp add: Request_MergePartialFromCodedStream_def parse_loop_total Request_wf)

lemma Request_plain:
  "Request_MergePartialFromCodedStream P m i = plain_loop P (Request_fields P) (Suc (length i)) m i"
  by (simp add: Request_MergePartialFromCodedStream_def parse_loop_eq_plain Request_wf del: plain_loop.simps)

lemma StatusResponse_wf: "wf_fields (StatusResponse_fields P)"
  by (auto simp: table_defs StatusResponse_fields_def dest: reader_shrinks)

lemma StatusResponse_total: "StatusResponse_MergePartialFromCodedStream P m i \<noteq> OutOfFuel"
  by (simp add: StatusResponse_MergePartialFromCodedStream_def parse_loop_total StatusResponse_wf)

lemma StatusResponse_plain:
  "StatusResponse_MergePartialFromCodedStream P m i = plain_loop P (StatusResponse_fields P) (Suc (length i)) m i"
  by (simp add: StatusResponse_MergePartialFromCodedStream_def parse_loop_eq_plain StatusResponse_wf del: plain_loop.simps)

lemma Chat_wf: "wf_fields (Chat_fields P)"
  by (auto simp: table_defs Chat_fields_def dest: reader_shrinks)

lemma Chat_total: "Chat_MergePartialFromCodedStream P m i \<noteq> OutOfFuel"
  by (simp add: Chat_MergePartialFromCodedStream_def parse_loop_total Chat_wf)

lemma Chat_plain:
  "Chat_MergePartialFromCodedStream P m i = plain_loop P (Chat_fields P) (Suc (length i)) m i"
  by (simp add: Chat_MergePartialFromCodedStream_def parse_loop_eq_plain Chat_wf del: plain_loop.simps)

lemma ChatsResponse_wf: "wf_fields (ChatsResponse_fields P)"
  by (auto simp: table_defs ChatsResponse_fields_def read_message_ends Chat_total dest: reader_shrinks)

lemma ChatsResponse_total: "ChatsResponse_MergePartialFromCodedStream P m i \<noteq> OutOfFuel"
  by (simp add: ChatsResponse_MergePartialFromCodedStream_def parse_loop_total ChatsResponse_wf)

lemma ChatsResponse_plain:
  "ChatsResponse_MergePartialFromCodedStream P m i = plain_loop P (ChatsResponse_fields P) (Suc (length i)) m i"
  by (simp add: ChatsResponse_MergePartialFromCodedStream_def parse_loop_eq_plain ChatsResponse_wf del: plain_loop.simps)

lemma Contact_wf: "wf_fields (Contact_fields P)"
  by (auto simp: table_defs Contact_fields_def dest: reader_shrinks)

lemma Contact_total: "Contact_MergePartialFromCodedStream P m i \<noteq> OutOfFuel"
  by (simp add: Contact_MergePartialFromCodedStream_def parse_loop_total Contact_wf)

lemma Contact_plain:
  "Contact_MergePartialFromCodedStream P m i = plain_loop P (Contact_fields P) (Suc (length i)) m i"
  by (simp add: Contact_MergePartialFromCodedStream_def parse_loop_eq_plain Contact_wf del: plain_loop.simps)

lemma ContactsResponse_wf: "wf_fields (ContactsResponse_fields P)"
  by (auto simp: table_defs ContactsResponse_fields_def read_message_ends Contact_total dest: reader_shrinks)

lemma ContactsResponse_total: "ContactsResponse_MergePartialFromCodedStream P m i \<noteq> OutOfFuel"
  by (simp add: ContactsResponse_MergePartialFromCodedStream_def parse_loop_total ContactsResponse_wf)

lemma ContactsResponse_plain:
  "ContactsResponse_MergePartialFromCodedStream P m i = plain_loop P (ContactsResponse_fields P) (Suc (length i)) m i"
  by (simp add: ContactsResponse_MergePartialFromCodedStream_def parse_loop_eq_plain ContactsResponse_wf del: plain_loop.simps)

lemma MessageToRecieve_wf: "wf_fields (MessageToRecieve_fields P)"
  by (auto simp: table_defs MessageToRecieve_fields_def dest: reader_shrinks)

lemma MessageToRecieve_total: "MessageToRecieve_MergePartialFromCodedStream P m i \<noteq> OutOfFuel"
  by (simp add: MessageToRecieve_MergePartialFromCodedStream_def parse_loop_total MessageToRecieve_wf)

lemma MessageToRecieve_plain:
  "MessageToRecieve_MergePartialFromCodedStream P m i = plain_loop P (MessageToRecieve_fields P) (Suc (length i)) m i"
  by (simp add: MessageToRecieve_MergePartialFromCodedStream_def parse_loop_eq_plain MessageToRecieve_wf del: plain_loop.simps)

lemma MessagesResponse_wf: "wf_fields (MessagesResponse_fields P)"
  by (auto simp: table_defs MessagesResponse_fields_def read_message_ends MessageToRecieve_total dest: reader_shrinks)

lemma MessagesResponse_total: "MessagesResponse_MergePartialFromCodedStream P m i \<noteq> OutOfFuel"
  by (simp add: MessagesResponse_MergePartialFromCodedStream_def parse_loop_total MessagesResponse_wf)

lemma MessagesResponse_plain:
  "MessagesResponse_MergePartialFromCodedStream P m i = plain_loop P (MessagesResponse_fields P) (Suc (length i)) m i"
  by (simp add: MessagesResponse_MergePartialFromCodedStream_def parse_loop_eq_plain MessagesResponse_wf del: plain_loop.simps)

lemma LoginResponse_wf: "wf_fields (LoginResponse_fields P)"
  by (auto simp: table_defs LoginResponse_fields_def read_message_ends Contact_total dest: reader_shrinks)

lemma LoginResponse_total: "LoginResponse_MergePartialFromCodedStream P m i \<noteq> OutOfFuel"
  by (simp add: LoginResponse_MergePartialFromCodedStream_def parse_loop_total LoginResponse_wf)

lemma LoginResponse_plain:
  "LoginResponse_MergePartialFromCodedStream P m i = plain_loop P (LoginResponse_fields P) (Suc (length i)) m i"
  by (simp add: LoginResponse_MergePartialFromCodedStream_def parse_loop_eq_plain LoginResponse_wf del: plain_loop.simps)

lemma Response_wf: "wf_fields (Response_fields P)"
  by (auto simp: table_defs Response_fields_def read_message_ends
    ChatsResponse_total ContactsResponse_total LoginResponse_total MessagesResponse_total
    StatusResponse_total dest: reader_shrinks)

lemma Response_total: "Response_MergePartialFromCodedStream P m i \<noteq> OutOfFuel"
  by (simp add: Response_MergePartialFromCodedStream_def parse_loop_total Response_wf)

lemma Response_plain:
  "Response_MergePartialFromCodedStream P m i = plain_loop P (Response_fields P) (Suc (length i)) m i"
  by (simp add: Response_MergePartialFromCodedStream_def parse_loop_eq_plain Response_wf del: plain_loop.simps)

lemma WrappedMessage_wf: "wf_fields (WrappedMessage_fields P)"
  by (auto simp: table_defs WrappedMessage_fields_def read_message_ends Request_total Response_total dest: reader_shrinks)

lemma WrappedMessage_total: "WrappedMessage_MergePartialFromCodedStream P m i \<noteq> OutOfFuel"
  by (simp add: WrappedMessage_MergePartialFromCodedStream_def parse_loop_total WrappedMessage_wf)

lemma WrappedMessage_plain:
  "WrappedMessage_MergePartialFromCodedStream P m i = plain_loop P (WrappedMessage_fields P) (Suc (length i)) m i"
  by (simp add: WrappedMessage_MergePartialFromCodedStream_def parse_loop_eq_plain WrappedMessage_wf del: plain_loop.simps)

lemma LengthPrefix_wf: "wf_fields (LengthPrefix_fields P)"
  by (auto simp: table_defs LengthPrefix_fields_def dest: reader_shrinks)

lemma LengthPrefix_total: "LengthPrefix_MergePartialFromCodedStream P m i \<noteq> OutOfFuel"
  by (simp add: LengthPrefix_MergePartialFromCodedStream_def parse_loop_total LengthPrefix_wf)

lemma LengthPrefix_plain:
  "LengthPrefix_MergePartialFromCodedStream P m i = plain_loop P (LengthPrefix_fields P) (Suc (length i)) m i"
  by (simp add: LengthPrefix_MergePartialFromCodedStream_def parse_loop_eq_plain LengthPrefix_wf del: plain_loop.simps)

lemma RegisterRequest_cases:
  shows "is_case (RegisterRequest_fields P) 0 1 2
     (read_string P (\<lambda>v m. m\<lparr>RegisterRequest_name := v\<rparr>))"
  and "is_case (RegisterRequest_fields P) 1 2 2
     (read_string P (\<lambda>v m. m\<lparr>RegisterRequest_email := v\<rparr>))"
  and "is_case (RegisterRequest_fields P) 2 3 2
     (read_string P (\<lambda>v m. m\<lparr>RegisterRequest_password := v\<rparr>))"
  using RegisterRequest_wf by (simp_all add: is_case_def RegisterRequest_fields_def)

lemma LoginRequest_cases:
  shows "is_case (LoginRequest_fields P) 0 1 2
     (read_string P (\<lambda>v m. m\<lparr>LoginRequest_email := v\<rparr>))"
  and "is_case (LoginRequest_fields P) 1 2 2
     (read_string P (\<lambda>v m. m\<lparr>LoginRequest_password := v\<rparr>))"
  using LoginRequest_wf by (simp_all add: is_case_def LoginRequest_fields_def)

lemma MessagesRequest_cases:
  shows "is_case (MessagesRequest_fields P) 0 1 0
     (read_uint64 P (\<lambda>v m. m\<lparr>MessagesRequest_chat_id := v\<rparr>))"
  using MessagesRequest_wf by (simp_all add: is_case_def MessagesRequest_fields_def)

lemma MessageToSend_cases:
  shows "is_case (MessageToSend_fields P) 0 1 0
     (read_uint64 P (\<lambda>v m. m\<lparr>MessageToSend_chat_id := v\<rparr>))"
  and "is_case (MessageToSend_fields P) 1 2 2
     (read_string P (\<lambda>v m. m\<lparr>MessageToSend_text := v\<rparr>))"
  using MessageToSend_wf by (simp_all add: is_case_def MessageToSend_fields_def)

lemma SendMessageRequest_cases:
  shows "is_case (SendMessageRequest_fields P) 0 1 2
     (read_message P (MessageToSend_MergePartialFromCodedStream P) SendMessageRequest_mutable_mesg
       (\<lambda>v m. m\<lparr>SendMessageRequest_mesg := Some v\<rparr>))"
  using SendMessageRequest_wf by (simp_all add: is_case_def SendMessageRequest_fields_def)

lemma AddContactRequest_cases:
  shows "is_case (AddContactRequest_fields P) 0 1 2
     (read_string P (\<lambda>v m. m\<lparr>AddContactRequest_email := v\<rparr>))"
  using AddContactRequest_wf by (simp_all add: is_case_def AddContactRequest_fields_def)

lemma CreateChatRequest_cases:
  shows "is_case (CreateChatRequest_fields P) 0 1 0
     (read_uint64 P (\<lambda>v m. m\<lparr>CreateChatRequest_friend_id := v\<rparr>))"
  using CreateChatRequest_wf by (simp_all add: is_case_def CreateChatRequest_fields_def)

lemma Request_cases:
  shows "is_case (Request_fields P) 0 1 2
     (read_message P (RegisterRequest_MergePartialFromCodedStream P) Request_mutable_register_request
         (\<lambda>v m. Request_register_request v))"
  and "is_case (Request_fields P) 1 2 2
     (read_message P (LoginRequest_MergePartialFromCodedStream P) Request_mutable_login_request
         (\<lambda>v m. Request_login_request v))"
  and "is_case (Request_fields P) 2 3 2
     (read_message P (AllMyChatsRequest_MergePartialFromCodedStream P) Request_mutable_chats_request
         (\<lambda>v m. Request_chats_request v))"
  and "is_case (Request_fields P) 3 4 2
     (read_message P (AllMyContactsRequest_MergePartialFromCodedStream P)
         Request_mutable_contacts_request (\<lambda>v m. Request_contacts_request v))"
  and "is_case (Request_fields P) 4 5 2
     (read_message P (MessagesRequest_MergePartialFromCodedStream P) Request_mutable_messages_request
         (\<lambda>v m. Request_messages_request v))"
  and "is_case (Request_fields P) 5 6 2
     (read_message P (SendMessageRequest_MergePartialFromCodedStream P)
         Request_mutable_send_mesg_request (\<lambda>v m. Request_send_mesg_request v))"
  and "is_case (Request_fields P) 6 7 2
     (read_message P (AddContactRequest_MergePartialFromCodedStream P)
         Request_mutable_add_contact_request (\<lambda>v m. Request_add_contact_request v))"
  and "is_case (Request_fields P) 7 8 2
     (read_message P (CreateChatRequest_MergePartialFromCodedStream P)
         Request_mutable_create_chat_request (\<lambda>v m. Request_create_chat_request v))"
  using Request_wf by (simp_all add: is_case_def Request_fields_def)

lemma StatusResponse_cases:
  shows "is_case (StatusResponse_fields P) 0 1 0
     (read_enum P (\<lambda>v m. m\<lparr>StatusResponse_result := v\<rparr>))"
  using StatusResponse_wf by (simp_all add: is_case_def StatusResponse_fields_def)

lemma Chat_cases:
  shows "is_case (Chat_fields P) 0 1 0
     (read_uint64 P (\<lambda>v m. m\<lparr>Chat_chat_id := v\<rparr>))"
  and "is_case (Chat_fields P) 1 2 2
     (read_string P (\<lambda>v m. m\<lparr>Chat_title := v\<rparr>))"
  using Chat_wf by (simp_all add: is_case_def Chat_fields_def)

lemma ChatsResponse_cases:
  shows "is_case (ChatsResponse_fields P) 0 1 2
     (read_message P (Chat_MergePartialFromCodedStream P) (\<lambda>_. Chat_default)
       (\<lambda>v m. m\<lparr>ChatsResponse_chats := ChatsResponse_chats m @ [v]\<rparr>))"
  using ChatsResponse_wf by (simp_all add: is_case_def ChatsResponse_fields_def)

lemma Contact_cases:
  shows "is_case (Contact_fields P) 0 1 0
     (read_uint64 P (\<lambda>v m. m\<lparr>Contact_user_id := v\<rparr>))"
  and "is_case (Contact_fields P) 1 2 2
     (read_string P (\<lambda>v m. m\<lparr>Contact_name := v\<rparr>))"
  and "is_case (Contact_fields P) 2 3 2
     (read_string P (\<lambda>v m. m\<lparr>Contact_email := v\<rparr>))"
  using Contact_wf by (simp_all add: is_case_def Contact_fields_def)

lemma ContactsResponse_cases:
  shows "is_case (ContactsResponse_fields P) 0 1 2
     (read_message P (Contact_MergePartialFromCodedStream P) (\<lambda>_. Contact_default)
       (\<lambda>v m. m\<lparr>ContactsResponse_contacts := ContactsResponse_contacts m @ [v]\<rparr>))"
  using ContactsResponse_wf by (simp_all add: is_case_def ContactsResponse_fields_def)

lemma MessageToRecieve_cases:
  shows "is_case (MessageToRecieve_fields P) 0 1 0
     (read_uint64 P (\<lambda>v m. m\<lparr>MessageToRecieve_sender_id := v\<rparr>))"
  and "is_case (MessageToRecieve_fields P) 1 2 2
     (read_string P (\<lambda>v m. m\<lparr>MessageToRecieve_text := v\<rparr>))"
  using MessageToRecieve_wf by (simp_all add: is_case_def MessageToRecieve_fields_def)

lemma MessagesResponse_cases:
  shows "is_case (MessagesResponse_fields P) 0 1 2
     (read_message P (MessageToRecieve_MergePartialFromCodedStream P) (\<lambda>_. MessageToRecieve_default)
       (\<lambda>v m. m\<lparr>MessagesResponse_messages := MessagesResponse_messages m @ [v]\<rparr>))"
  using MessagesResponse_wf by (simp_all add: is_case_def MessagesResponse_fields_def)

lemma LoginResponse_cases:
  shows "is_case (LoginResponse_fields P) 0 1 2
     (read_message P (Contact_MergePartialFromCodedStream P) LoginResponse_mutable_profile
       (\<lambda>v m. m\<lparr>LoginResponse_profile := Some v\<rparr>))"
  using LoginResponse_wf by (simp_all add: is_case_def LoginResponse_fields_def)

lemma Response_cases:
  shows "is_case (Response_fields P) 0 1 2
     (read_message P (StatusResponse_MergePartialFromCodedStream P) Response_mutable_status_response
         (\<lambda>v m. Response_status_response v))"
  and "is_case (Response_fields P) 1 2 2
     (read_message P (ChatsResponse_MergePartialFromCodedStream P) Response_mutable_chats_response
         (\<lambda>v m. Response_chats_response v))"
  and "is_case (Response_fields P) 2 3 2
     (read_message P (ContactsResponse_MergePartialFromCodedStream P) Response_mutable_contacts_response
         (\<lambda>v m. Response_contacts_response v))"
  and "is_case (Response_fields P) 3 4 2
     (read_message P (MessagesResponse_MergePartialFromCodedStream P) Response_mutable_messages_response
         (\<lambda>v m. Response_messages_response v))"
  and "is_case (Response_fields P) 4 5 2
     (read_message P (LoginResponse_MergePartialFromCodedStream P) Response_mutable_login_response
         (\<lambda>v m. Response_login_response v))"
  using Response_wf by (simp_all add: is_case_def Response_fields_def)

lemma WrappedMessage_cases:
  shows "is_case (WrappedMessage_fields P) 0 1 2
     (read_message P (Response_MergePartialFromCodedStream P) WrappedMessage_mutable_response
         (\<lambda>v m. WrappedMessage_response v))"
  and "is_case (WrappedMessage_fields P) 1 2 2
     (read_message P (Request_MergePartialFromCodedStream P) WrappedMessage_mutable_request
         (\<lambda>v m. WrappedMessage_request v))"
  using WrappedMessage_wf by (simp_all add: is_case_def WrappedMessage_fields_def)

lemma LengthPrefix_cases:
  shows "is_case (LengthPrefix_fields P) 0 1 1
     (read_fixed64 P (\<lambda>v m. m\<lparr>LengthPrefix_length := v\<rparr>))"
  using LengthPrefix_wf by (simp_all add: is_case_def LengthPrefix_fields_def)

section \<open>Sizes and round trips\<close>

lemma RegisterRequest_size: "RegisterRequest_ok P m \<Longrightarrow> length (RegisterRequest_SerializeToArray P m) =
    RegisterRequest_ByteSize P m"
  by (simp add: RegisterRequest_ok_def RegisterRequest_SerializeToArray_def RegisterRequest_ByteSize_def
      wire_string_def ser_simps)

lemma RegisterRequest_parse:
  "\<lbrakk>RegisterRequest_ok P m; length (RegisterRequest_SerializeToArray P m) \<le> total_bytes_limit P\<rbrakk> \<Longrightarrow>
   RegisterRequest_MergePartialFromCodedStream P RegisterRequest_default
       (RegisterRequest_SerializeToArray P m) = Parsed m 0 []"
  unfolding RegisterRequest_SerializeToArray_def RegisterRequest_MergePartialFromCodedStream_def RegisterRequest_ok_def
  by (simp add: parse_opt_string [OF RegisterRequest_cases(1)]
      parse_opt_string [OF RegisterRequest_cases(2)]
      parse_opt_string [OF RegisterRequest_cases(3), where r = "[]", unfolded append_Nil2]
      parse_loop_end RegisterRequest_wf del: One_nat_def length_greater_0_conv split del: if_split)
    (cases m, simp add: RegisterRequest_default_def)

lemma RegisterRequest_nested:
  assumes "RegisterRequest_ok P m" and "RegisterRequest_ByteSize P m < 2 ^ 31"
  shows "nested_ok P (RegisterRequest_MergePartialFromCodedStream P) RegisterRequest_default
      (RegisterRequest_ByteSize P) (RegisterRequest_SerializeToArray P) m"
  using assms RegisterRequest_size RegisterRequest_parse by (simp add: nested_ok_def)

lemma LoginRequest_size: "LoginRequest_ok P m \<Longrightarrow> length (LoginRequest_SerializeToArray P m) = LoginRequest_ByteSize P m"
  by (simp add: LoginRequest_ok_def LoginRequest_SerializeToArray_def LoginRequest_ByteSize_def
      wire_string_def ser_simps)

lemma LoginRequest_parse:
  "\<lbrakk>LoginRequest_ok P m; length (LoginRequest_SerializeToArray P m) \<le> total_bytes_limit P\<rbrakk> \<Longrightarrow>
   LoginRequest_MergePartialFromCodedStream P LoginRequest_default (LoginRequest_SerializeToArray P m) = Parsed m 0 []"
  unfolding LoginRequest_SerializeToArray_def LoginRequest_MergePartialFromCodedStream_def LoginRequest_ok_def
  by (simp add: parse_opt_string [OF LoginRequest_cases(1)]
      parse_opt_string [OF LoginRequest_cases(2), where r = "[]", unfolded append_Nil2]
      parse_loop_end LoginRequest_wf del: One_nat_def length_greater_0_conv split del: if_split)
    (cases m, simp add: LoginRequest_default_def)

lemma LoginRequest_nested:
  assumes "LoginRequest_ok P m" and "LoginRequest_ByteSize P m < 2 ^ 31"
  shows "nested_ok P (LoginRequest_MergePartialFromCodedStream P) LoginRequest_default
      (LoginRequest_ByteSize P) (LoginRequest_SerializeToArray P) m"
  using assms LoginRequest_size LoginRequest_parse by (simp add: nested_ok_def)

lemma AllMyChatsRequest_size: "AllMyChatsRequest_ok P m \<Longrightarrow>
    length (AllMyChatsRequest_SerializeToArray P m) = AllMyChatsRequest_ByteSize P m"
  by (simp add: AllMyChatsRequest_ok_def AllMyChatsRequest_SerializeToArray_def
      AllMyChatsRequest_ByteSize_def wire_string_def ser_simps)

lemma AllMyChatsRequest_parse:
  "\<lbrakk>AllMyChatsRequest_ok P m; length (AllMyChatsRequest_SerializeToArray P m) \<le> total_bytes_limit P\<rbrakk> \<Longrightarrow>
   AllMyChatsRequest_MergePartialFromCodedStream P AllMyChatsRequest_default
       (AllMyChatsRequest_SerializeToArray P m) = Parsed m 0 []"
  by (cases m) (simp add: AllMyChatsRequest_SerializeToArray_def
      AllMyChatsRequest_MergePartialFromCodedStream_def AllMyChatsRequest_default_def
        parse_loop_end AllMyChatsRequest_wf)

lemma AllMyChatsRequest_nested:
  assumes "AllMyChatsRequest_ok P m" and "AllMyChatsRequest_ByteSize P m < 2 ^ 31"
  shows "nested_ok P (AllMyChatsRequest_MergePartialFromCodedStream P) AllMyChatsRequest_default
      (AllMyChatsRequest_ByteSize P) (AllMyChatsRequest_SerializeToArray P) m"
  using assms AllMyChatsRequest_size AllMyChatsRequest_parse by (simp add: nested_ok_def)

lemma AllMyContactsRequest_size: "AllMyContactsRequest_ok P m \<Longrightarrow>
    length (AllMyContactsRequest_SerializeToArray P m) = AllMyContactsRequest_ByteSize P m"
  by (simp add: AllMyContactsRequest_ok_def AllMyContactsRequest_SerializeToArray_def
      AllMyContactsRequest_ByteSize_def wire_string_def ser_simps)

lemma AllMyContactsRequest_parse:
  "\<lbrakk>AllMyContactsRequest_ok P m; length (AllMyContactsRequest_SerializeToArray P m) \<le> total_bytes_limit P\<rbrakk> \<Longrightarrow>
   AllMyContactsRequest_MergePartialFromCodedStream P AllMyContactsRequest_default
       (AllMyContactsRequest_SerializeToArray P m) = Parsed m 0 []"
  by (cases m) (simp add: AllMyContactsRequest_SerializeToArray_def
      AllMyContactsRequest_MergePartialFromCodedStream_def AllMyContactsRequest_default_def
        parse_loop_end AllMyContactsRequest_wf)

lemma AllMyContactsRequest_nested:
  assumes "AllMyContactsRequest_ok P m" and "AllMyContactsRequest_ByteSize P m < 2 ^ 31"
  shows "nested_ok P (AllMyContactsRequest_MergePartialFromCodedStream P) AllMyContactsRequest_default
      (AllMyContactsRequest_ByteSize P) (AllMyContactsRequest_SerializeToArray P) m"
  using assms AllMyContactsRequest_size AllMyContactsRequest_parse by (simp add: nested_ok_def)

lemma MessagesRequest_size: "MessagesRequest_ok P m \<Longrightarrow> length (MessagesRequest_SerializeToArray P m) =
    MessagesRequest_ByteSize P m"
  by (simp add: MessagesRequest_ok_def MessagesRequest_SerializeToArray_def MessagesRequest_ByteSize_def
      wire_string_def ser_simps)

lemma MessagesRequest_parse:
  "\<lbrakk>MessagesRequest_ok P m; length (MessagesRequest_SerializeToArray P m) \<le> total_bytes_limit P\<rbrakk> \<Longrightarrow>
   MessagesRequest_MergePartialFromCodedStream P MessagesRequest_default
       (MessagesRequest_SerializeToArray P m) = Parsed m 0 []"
  unfolding MessagesRequest_SerializeToArray_def MessagesRequest_MergePartialFromCodedStream_def MessagesRequest_ok_def
  by (simp add: parse_opt_uint64 [OF MessagesRequest_cases, where r = "[]", unfolded append_Nil2]
      parse_loop_end MessagesRequest_wf del: One_nat_def length_greater_0_conv split del: if_split)
    (cases m, simp add: MessagesRequest_default_def)

lemma MessagesRequest_nested:
  assumes "MessagesRequest_ok P m" and "MessagesRequest_ByteSize P m < 2 ^ 31"
  shows "nested_ok P (MessagesRequest_MergePartialFromCodedStream P) MessagesRequest_default
      (MessagesRequest_ByteSize P) (MessagesRequest_SerializeToArray P) m"
  using assms MessagesRequest_size MessagesRequest_parse by (simp add: nested_ok_def)

lemma MessageToSend_size: "MessageToSend_ok P m \<Longrightarrow> length (MessageToSend_SerializeToArray P m) =
    MessageToSend_ByteSize P m"
  by (simp add: MessageToSend_ok_def MessageToSend_SerializeToArray_def MessageToSend_ByteSize_def
      wire_string_def ser_simps)

lemma MessageToSend_parse:
  "\<lbrakk>MessageToSend_ok P m; length (MessageToSend_SerializeToArray P m) \<le> total_bytes_limit P\<rbrakk> \<Longrightarrow>
   MessageToSend_MergePartialFromCodedStream P MessageToSend_default
       (MessageToSend_SerializeToArray P m) = Parsed m 0 []"
  unfolding MessageToSend_SerializeToArray_def MessageToSend_MergePartialFromCodedStream_def MessageToSend_ok_def
  by (simp add: parse_opt_uint64 [OF MessageToSend_cases(1)]
      parse_opt_string [OF MessageToSend_cases(2), where r = "[]", unfolded append_Nil2]
      parse_loop_end MessageToSend_wf del: One_nat_def length_greater_0_conv split del: if_split)
    (cases m, simp add: MessageToSend_default_def)

lemma MessageToSend_nested:
  assumes "MessageToSend_ok P m" and "MessageToSend_ByteSize P m < 2 ^ 31"
  shows "nested_ok P (MessageToSend_MergePartialFromCodedStream P) MessageToSend_default
      (MessageToSend_ByteSize P) (MessageToSend_SerializeToArray P) m"
  using assms MessageToSend_size MessageToSend_parse by (simp add: nested_ok_def)

lemma SendMessageRequest_size: "SendMessageRequest_ok P m \<Longrightarrow>
    length (SendMessageRequest_SerializeToArray P m) = SendMessageRequest_ByteSize P m"
  using MessageToSend_size length_write_header
  by (auto simp: SendMessageRequest_ok_def SendMessageRequest_SerializeToArray_def
      SendMessageRequest_ByteSize_def split: option.splits)

lemma SendMessageRequest_parse:
  "\<lbrakk>SendMessageRequest_ok P m; length (SendMessageRequest_SerializeToArray P m) \<le> total_bytes_limit P\<rbrakk> \<Longrightarrow>
   SendMessageRequest_MergePartialFromCodedStream P SendMessageRequest_default
       (SendMessageRequest_SerializeToArray P m) = Parsed m 0 []"
  using MessageToSend_nested parse_one_message [OF SendMessageRequest_cases,
      of SendMessageRequest_default MessageToSend_default]
  by (cases m; cases "SendMessageRequest_mesg m")
    (auto simp: SendMessageRequest_MergePartialFromCodedStream_def
        SendMessageRequest_SerializeToArray_def SendMessageRequest_default_def
      SendMessageRequest_ok_def parse_loop_end SendMessageRequest_wf simp del: One_nat_def)

lemma SendMessageRequest_nested:
  assumes "SendMessageRequest_ok P m" and "SendMessageRequest_ByteSize P m < 2 ^ 31"
  shows "nested_ok P (SendMessageRequest_MergePartialFromCodedStream P) SendMessageRequest_default
      (SendMessageRequest_ByteSize P) (SendMessageRequest_SerializeToArray P) m"
  using assms SendMessageRequest_size SendMessageRequest_parse by (simp add: nested_ok_def)

lemma AddContactRequest_size: "AddContactRequest_ok P m \<Longrightarrow>
    length (AddContactRequest_SerializeToArray P m) = AddContactRequest_ByteSize P m"
  by (simp add: AddContactRequest_ok_def AddContactRequest_SerializeToArray_def
      AddContactRequest_ByteSize_def wire_string_def ser_simps)

lemma AddContactRequest_parse:
  "\<lbrakk>AddContactRequest_ok P m; length (AddContactRequest_SerializeToArray P m) \<le> total_bytes_limit P\<rbrakk> \<Longrightarrow>
   AddContactRequest_MergePartialFromCodedStream P AddContactRequest_default
       (AddContactRequest_SerializeToArray P m) = Parsed m 0 []"
  unfolding AddContactRequest_SerializeToArray_def AddContactRequest_MergePartialFromCodedStream_def
      AddContactRequest_ok_def
  by (simp add: parse_opt_string [OF AddContactRequest_cases, where r = "[]", unfolded append_Nil2]
      parse_loop_end AddContactRequest_wf del: One_nat_def length_greater_0_conv split del: if_split)
    (cases m, simp add: AddContactRequest_default_def)

lemma AddContactRequest_nested:
  assumes "AddContactRequest_ok P m" and "AddContactRequest_ByteSize P m < 2 ^ 31"
  shows "nested_ok P (AddContactRequest_MergePartialFromCodedStream P) AddContactRequest_default
      (AddContactRequest_ByteSize P) (AddContactRequest_SerializeToArray P) m"
  using assms AddContactRequest_size AddContactRequest_parse by (simp add: nested_ok_def)

lemma CreateChatRequest_size: "CreateChatRequest_ok P m \<Longrightarrow>
    length (CreateChatRequest_SerializeToArray P m) = CreateChatRequest_ByteSize P m"
  by (simp add: CreateChatRequest_ok_def CreateChatRequest_SerializeToArray_def
      CreateChatRequest_ByteSize_def wire_string_def ser_simps)

lemma CreateChatRequest_parse:
  "\<lbrakk>CreateChatRequest_ok P m; length (CreateChatRequest_SerializeToArray P m) \<le> total_bytes_limit P\<rbrakk> \<Longrightarrow>
   CreateChatRequest_MergePartialFromCodedStream P CreateChatRequest_default
       (CreateChatRequest_SerializeToArray P m) = Parsed m 0 []"
  unfolding CreateChatRequest_SerializeToArray_def CreateChatRequest_MergePartialFromCodedStream_def
      CreateChatRequest_ok_def
  by (simp add: parse_opt_uint64 [OF CreateChatRequest_cases, where r = "[]", unfolded append_Nil2]
      parse_loop_end CreateChatRequest_wf del: One_nat_def length_greater_0_conv split del: if_split)
    (cases m, simp add: CreateChatRequest_default_def)

lemma CreateChatRequest_nested:
  assumes "CreateChatRequest_ok P m" and "CreateChatRequest_ByteSize P m < 2 ^ 31"
  shows "nested_ok P (CreateChatRequest_MergePartialFromCodedStream P) CreateChatRequest_default
      (CreateChatRequest_ByteSize P) (CreateChatRequest_SerializeToArray P) m"
  using assms CreateChatRequest_size CreateChatRequest_parse by (simp add: nested_ok_def)

lemma Request_size: "Request_ok P m \<Longrightarrow> length (Request_SerializeToArray P m) = Request_ByteSize P m"
  by (cases m) (auto simp: RegisterRequest_size LoginRequest_size AllMyChatsRequest_size
      AllMyContactsRequest_size MessagesRequest_size SendMessageRequest_size AddContactRequest_size
      CreateChatRequest_size length_write_header)

lemma Request_parse:
  "\<lbrakk>Request_ok P m; length (Request_SerializeToArray P m) \<le> total_bytes_limit P\<rbrakk> \<Longrightarrow>
   Request_MergePartialFromCodedStream P Request_default (Request_SerializeToArray P m) = Parsed m 0 []"
  unfolding Request_MergePartialFromCodedStream_def Request_default_def
  by (cases m)
    (auto simp: parse_loop_end Request_wf simp del: One_nat_def
      intro!: parse_one_message [OF Request_cases(1) _ RegisterRequest_nested]
        parse_one_message [OF Request_cases(2) _ LoginRequest_nested]
        parse_one_message [OF Request_cases(3) _ AllMyChatsRequest_nested]
        parse_one_message [OF Request_cases(4) _ AllMyContactsRequest_nested]
        parse_one_message [OF Request_cases(5) _ MessagesRequest_nested]
        parse_one_message [OF Request_cases(6) _ SendMessageRequest_nested]
        parse_one_message [OF Request_cases(7) _ AddContactRequest_nested]
        parse_one_message [OF Request_cases(8) _ CreateChatRequest_nested])

lemma Request_nested:
  assumes "Request_ok P m" and "Request_ByteSize P m < 2 ^ 31"
  shows "nested_ok P (Request_MergePartialFromCodedStream P) Request_default (Request_ByteSize P)
      (Request_SerializeToArray P) m"
  using assms Request_size Request_parse by (simp add: nested_ok_def)

lemma StatusResponse_size: "StatusResponse_ok P m \<Longrightarrow> length (StatusResponse_SerializeToArray P m) =
    StatusResponse_ByteSize P m"
  by (simp add: StatusResponse_ok_def StatusResponse_SerializeToArray_def StatusResponse_ByteSize_def
      wire_string_def ser_simps)

lemma StatusResponse_parse:
  "\<lbrakk>StatusResponse_ok P m; length (StatusResponse_SerializeToArray P m) \<le> total_bytes_limit P\<rbrakk> \<Longrightarrow>
   StatusResponse_MergePartialFromCodedStream P StatusResponse_default
       (StatusResponse_SerializeToArray P m) = Parsed m 0 []"
  unfolding StatusResponse_SerializeToArray_def StatusResponse_MergePartialFromCodedStream_def StatusResponse_ok_def
  by (simp add: parse_opt_enum [OF StatusResponse_cases, where r = "[]", unfolded append_Nil2]
      parse_loop_end StatusResponse_wf del: One_nat_def length_greater_0_conv split del: if_split)
    (cases m, simp add: StatusResponse_default_def)

lemma StatusResponse_nested:
  assumes "StatusResponse_ok P m" and "StatusResponse_ByteSize P m < 2 ^ 31"
  shows "nested_ok P (StatusResponse_MergePartialFromCodedStream P) StatusResponse_default
      (StatusResponse_ByteSize P) (StatusResponse_SerializeToArray P) m"
  using assms StatusResponse_size StatusResponse_parse by (simp add: nested_ok_def)

lemma Chat_size: "Chat_ok P m \<Longrightarrow> length (Chat_SerializeToArray P m) = Chat_ByteSize P m"
  by (simp add: Chat_ok_def Chat_SerializeToArray_def Chat_ByteSize_def wire_string_def ser_simps)

lemma Chat_parse:
  "\<lbrakk>Chat_ok P m; length (Chat_SerializeToArray P m) \<le> total_bytes_limit P\<rbrakk> \<Longrightarrow>
   Chat_MergePartialFromCodedStream P Chat_default (Chat_SerializeToArray P m) = Parsed m 0 []"
  unfolding Chat_SerializeToArray_def Chat_MergePartialFromCodedStream_def Chat_ok_def
  by (simp add: parse_opt_uint64 [OF Chat_cases(1)]
      parse_opt_string [OF Chat_cases(2), where r = "[]", unfolded append_Nil2]
      parse_loop_end Chat_wf del: One_nat_def length_greater_0_conv split del: if_split)
    (cases m, simp add: Chat_default_def)

lemma Chat_nested:
  assumes "Chat_ok P m" and "Chat_ByteSize P m < 2 ^ 31"
  shows "nested_ok P (Chat_MergePartialFromCodedStream P) Chat_default (Chat_ByteSize P) (Chat_SerializeToArray P) m"
  using assms Chat_size Chat_parse by (simp add: nested_ok_def)

lemma ChatsResponse_elems:
  "\<lbrakk>ChatsResponse_ok P m; v \<in> set (ChatsResponse_chats m)\<rbrakk> \<Longrightarrow>
   nested_ok P (Chat_MergePartialFromCodedStream P) Chat_default (Chat_ByteSize P) (Chat_SerializeToArray P) v"
  using Chat_nested by (simp add: ChatsResponse_ok_def list_all_iff)

lemma ChatsResponse_size: "ChatsResponse_ok P m \<Longrightarrow> length (ChatsResponse_SerializeToArray P m) =
    ChatsResponse_ByteSize P m"
  unfolding ChatsResponse_SerializeToArray_def ChatsResponse_ByteSize_def
  by (rule length_repeated) (auto intro: ChatsResponse_elems)

lemma ChatsResponse_fold: "fold (\<lambda>v m. m\<lparr>ChatsResponse_chats := ChatsResponse_chats m @ [v]\<rparr>) vs m =
    m\<lparr>ChatsResponse_chats := ChatsResponse_chats m @ vs\<rparr>"
  by (induction vs arbitrary: m) simp_all

lemma ChatsResponse_parse:
  "\<lbrakk>ChatsResponse_ok P m; length (ChatsResponse_SerializeToArray P m) \<le> total_bytes_limit P\<rbrakk> \<Longrightarrow>
   ChatsResponse_MergePartialFromCodedStream P ChatsResponse_default
       (ChatsResponse_SerializeToArray P m) = Parsed m 0 []"
  unfolding ChatsResponse_MergePartialFromCodedStream_def ChatsResponse_SerializeToArray_def
  by (subst parse_repeated [OF ChatsResponse_cases ChatsResponse_elems])
    (simp_all add: ChatsResponse_fold ChatsResponse_default_def)

lemma ChatsResponse_nested:
  assumes "ChatsResponse_ok P m" and "ChatsResponse_ByteSize P m < 2 ^ 31"
  shows "nested_ok P (ChatsResponse_MergePartialFromCodedStream P) ChatsResponse_default
      (ChatsResponse_ByteSize P) (ChatsResponse_SerializeToArray P) m"
  using assms ChatsResponse_size ChatsResponse_parse by (simp add: nested_ok_def)

lemma Contact_size: "Contact_ok P m \<Longrightarrow> length (Contact_SerializeToArray P m) = Contact_ByteSize P m"
  by (simp add: Contact_ok_def Contact_SerializeToArray_def Contact_ByteSize_def wire_string_def ser_simps)

lemma Contact_parse:
  "\<lbrakk>Contact_ok P m; length (Contact_SerializeToArray P m) \<le> total_bytes_limit P\<rbrakk> \<Longrightarrow>
   Contact_MergePartialFromCodedStream P Contact_default (Contact_SerializeToArray P m) = Parsed m 0 []"
  unfolding Contact_SerializeToArray_def Contact_MergePartialFromCodedStream_def Contact_ok_def
  by (simp add: parse_opt_uint64 [OF Contact_cases(1)]
      parse_opt_string [OF Contact_cases(2)]
      parse_opt_string [OF Contact_cases(3), where r = "[]", unfolded append_Nil2]
      parse_loop_end Contact_wf del: One_nat_def length_greater_0_conv split del: if_split)
    (cases m, simp add: Contact_default_def)

lemma Contact_nested:
  assumes "Contact_ok P m" and "Contact_ByteSize P m < 2 ^ 31"
  shows "nested_ok P (Contact_MergePartialFromCodedStream P) Contact_default (Contact_ByteSize P)
      (Contact_SerializeToArray P) m"
  using assms Contact_size Contact_parse by (simp add: nested_ok_def)

lemma ContactsResponse_elems:
  "\<lbrakk>ContactsResponse_ok P m; v \<in> set (ContactsResponse_contacts m)\<rbrakk> \<Longrightarrow>
   nested_ok P (Contact_MergePartialFromCodedStream P) Contact_default (Contact_ByteSize P)
       (Contact_SerializeToArray P) v"
  using Contact_nested by (simp add: ContactsResponse_ok_def list_all_iff)

lemma ContactsResponse_size: "ContactsResponse_ok P m \<Longrightarrow> length (ContactsResponse_SerializeToArray P m) =
    ContactsResponse_ByteSize P m"
  unfolding ContactsResponse_SerializeToArray_def ContactsResponse_ByteSize_def
  by (rule length_repeated) (auto intro: ContactsResponse_elems)

lemma ContactsResponse_fold: "fold (\<lambda>v m. m\<lparr>ContactsResponse_contacts := ContactsResponse_contacts m @
    [v]\<rparr>) vs m = m\<lparr>ContactsResponse_contacts := ContactsResponse_contacts m @ vs\<rparr>"
  by (induction vs arbitrary: m) simp_all

lemma ContactsResponse_parse:
  "\<lbrakk>ContactsResponse_ok P m; length (ContactsResponse_SerializeToArray P m) \<le> total_bytes_limit P\<rbrakk> \<Longrightarrow>
   ContactsResponse_MergePartialFromCodedStream P ContactsResponse_default
       (ContactsResponse_SerializeToArray P m) = Parsed m 0 []"
  unfolding ContactsResponse_MergePartialFromCodedStream_def ContactsResponse_SerializeToArray_def
  by (subst parse_repeated [OF ContactsResponse_cases ContactsResponse_elems])
    (simp_all add: ContactsResponse_fold ContactsResponse_default_def)

lemma ContactsResponse_nested:
  assumes "ContactsResponse_ok P m" and "ContactsResponse_ByteSize P m < 2 ^ 31"
  shows "nested_ok P (ContactsResponse_MergePartialFromCodedStream P) ContactsResponse_default
      (ContactsResponse_ByteSize P) (ContactsResponse_SerializeToArray P) m"
  using assms ContactsResponse_size ContactsResponse_parse by (simp add: nested_ok_def)

lemma MessageToRecieve_size: "MessageToRecieve_ok P m \<Longrightarrow> length (MessageToRecieve_SerializeToArray P m) =
    MessageToRecieve_ByteSize P m"
  by (simp add: MessageToRecieve_ok_def MessageToRecieve_SerializeToArray_def
      MessageToRecieve_ByteSize_def wire_string_def ser_simps)

lemma MessageToRecieve_parse:
  "\<lbrakk>MessageToRecieve_ok P m; length (MessageToRecieve_SerializeToArray P m) \<le> total_bytes_limit P\<rbrakk> \<Longrightarrow>
   MessageToRecieve_MergePartialFromCodedStream P MessageToRecieve_default
       (MessageToRecieve_SerializeToArray P m) = Parsed m 0 []"
  unfolding MessageToRecieve_SerializeToArray_def MessageToRecieve_MergePartialFromCodedStream_def
      MessageToRecieve_ok_def
  by (simp add: parse_opt_uint64 [OF MessageToRecieve_cases(1)]
      parse_opt_string [OF MessageToRecieve_cases(2), where r = "[]", unfolded append_Nil2]
      parse_loop_end MessageToRecieve_wf del: One_nat_def length_greater_0_conv split del: if_split)
    (cases m, simp add: MessageToRecieve_default_def)

lemma MessageToRecieve_nested:
  assumes "MessageToRecieve_ok P m" and "MessageToRecieve_ByteSize P m < 2 ^ 31"
  shows "nested_ok P (MessageToRecieve_MergePartialFromCodedStream P) MessageToRecieve_default
      (MessageToRecieve_ByteSize P) (MessageToRecieve_SerializeToArray P) m"
  using assms MessageToRecieve_size MessageToRecieve_parse by (simp add: nested_ok_def)

lemma MessagesResponse_elems:
  "\<lbrakk>MessagesResponse_ok P m; v \<in> set (MessagesResponse_messages m)\<rbrakk> \<Longrightarrow>
   nested_ok P (MessageToRecieve_MergePartialFromCodedStream P) MessageToRecieve_default
       (MessageToRecieve_ByteSize P) (MessageToRecieve_SerializeToArray P) v"
  using MessageToRecieve_nested by (simp add: MessagesResponse_ok_def list_all_iff)

lemma MessagesResponse_size: "MessagesResponse_ok P m \<Longrightarrow> length (MessagesResponse_SerializeToArray P m) =
    MessagesResponse_ByteSize P m"
  unfolding MessagesResponse_SerializeToArray_def MessagesResponse_ByteSize_def
  by (rule length_repeated) (auto intro: MessagesResponse_elems)

lemma MessagesResponse_fold: "fold (\<lambda>v m. m\<lparr>MessagesResponse_messages := MessagesResponse_messages m @
    [v]\<rparr>) vs m = m\<lparr>MessagesResponse_messages := MessagesResponse_messages m @ vs\<rparr>"
  by (induction vs arbitrary: m) simp_all

lemma MessagesResponse_parse:
  "\<lbrakk>MessagesResponse_ok P m; length (MessagesResponse_SerializeToArray P m) \<le> total_bytes_limit P\<rbrakk> \<Longrightarrow>
   MessagesResponse_MergePartialFromCodedStream P MessagesResponse_default
       (MessagesResponse_SerializeToArray P m) = Parsed m 0 []"
  unfolding MessagesResponse_MergePartialFromCodedStream_def MessagesResponse_SerializeToArray_def
  by (subst parse_repeated [OF MessagesResponse_cases MessagesResponse_elems])
    (simp_all add: MessagesResponse_fold MessagesResponse_default_def)

lemma MessagesResponse_nested:
  assumes "MessagesResponse_ok P m" and "MessagesResponse_ByteSize P m < 2 ^ 31"
  shows "nested_ok P (MessagesResponse_MergePartialFromCodedStream P) MessagesResponse_default
      (MessagesResponse_ByteSize P) (MessagesResponse_SerializeToArray P) m"
  using assms MessagesResponse_size MessagesResponse_parse by (simp add: nested_ok_def)

lemma LoginResponse_size: "LoginResponse_ok P m \<Longrightarrow> length (LoginResponse_SerializeToArray P m) =
    LoginResponse_ByteSize P m"
  using Contact_size length_write_header
  by (auto simp: LoginResponse_ok_def LoginResponse_SerializeToArray_def LoginResponse_ByteSize_def
      split: option.splits)

lemma LoginResponse_parse:
  "\<lbrakk>LoginResponse_ok P m; length (LoginResponse_SerializeToArray P m) \<le> total_bytes_limit P\<rbrakk> \<Longrightarrow>
   LoginResponse_MergePartialFromCodedStream P LoginResponse_default
       (LoginResponse_SerializeToArray P m) = Parsed m 0 []"
  using Contact_nested parse_one_message [OF LoginResponse_cases, of LoginResponse_default Contact_default]
  by (cases m; cases "LoginResponse_profile m")
    (auto simp: LoginResponse_MergePartialFromCodedStream_def LoginResponse_SerializeToArray_def
        LoginResponse_default_def
      LoginResponse_ok_def parse_loop_end LoginResponse_wf simp del: One_nat_def)

lemma LoginResponse_nested:
  assumes "LoginResponse_ok P m" and "LoginResponse_ByteSize P m < 2 ^ 31"
  shows "nested_ok P (LoginResponse_MergePartialFromCodedStream P) LoginResponse_default
      (LoginResponse_ByteSize P) (LoginResponse_SerializeToArray P) m"
  using assms LoginResponse_size LoginResponse_parse by (simp add: nested_ok_def)

lemma Response_size: "Response_ok P m \<Longrightarrow> length (Response_SerializeToArray P m) = Response_ByteSize P m"
  by (cases m) (auto simp: StatusResponse_size ChatsResponse_size ContactsResponse_size
      MessagesResponse_size LoginResponse_size length_write_header)

lemma Response_parse:
  "\<lbrakk>Response_ok P m; length (Response_SerializeToArray P m) \<le> total_bytes_limit P\<rbrakk> \<Longrightarrow>
   Response_MergePartialFromCodedStream P Response_default (Response_SerializeToArray P m) = Parsed m 0 []"
  unfolding Response_MergePartialFromCodedStream_def Response_default_def
  by (cases m)
    (auto simp: parse_loop_end Response_wf simp del: One_nat_def
      intro!: parse_one_message [OF Response_cases(1) _ StatusResponse_nested]
        parse_one_message [OF Response_cases(2) _ ChatsResponse_nested]
        parse_one_message [OF Response_cases(3) _ ContactsResponse_nested]
        parse_one_message [OF Response_cases(4) _ MessagesResponse_nested]
        parse_one_message [OF Response_cases(5) _ LoginResponse_nested])

lemma Response_nested:
  assumes "Response_ok P m" and "Response_ByteSize P m < 2 ^ 31"
  shows "nested_ok P (Response_MergePartialFromCodedStream P) Response_default (Response_ByteSize P)
      (Response_SerializeToArray P) m"
  using assms Response_size Response_parse by (simp add: nested_ok_def)

lemma WrappedMessage_size: "WrappedMessage_ok P m \<Longrightarrow> length (WrappedMessage_SerializeToArray P m) =
    WrappedMessage_ByteSize P m"
  by (cases m) (auto simp: Response_size Request_size length_write_header)

lemma WrappedMessage_parse:
  "\<lbrakk>WrappedMessage_ok P m; length (WrappedMessage_SerializeToArray P m) \<le> total_bytes_limit P\<rbrakk> \<Longrightarrow>
   WrappedMessage_MergePartialFromCodedStream P WrappedMessage_default
       (WrappedMessage_SerializeToArray P m) = Parsed m 0 []"
  unfolding WrappedMessage_MergePartialFromCodedStream_def WrappedMessage_default_def
  by (cases m)
    (auto simp: parse_loop_end WrappedMessage_wf simp del: One_nat_def
      intro!: parse_one_message [OF WrappedMessage_cases(1) _ Response_nested]
        parse_one_message [OF WrappedMessage_cases(2) _ Request_nested])

lemma WrappedMessage_nested:
  assumes "WrappedMessage_ok P m" and "WrappedMessage_ByteSize P m < 2 ^ 31"
  shows "nested_ok P (WrappedMessage_MergePartialFromCodedStream P) WrappedMessage_default
      (WrappedMessage_ByteSize P) (WrappedMessage_SerializeToArray P) m"
  using assms WrappedMessage_size WrappedMessage_parse by (simp add: nested_ok_def)

lemma LengthPrefix_size: "LengthPrefix_ok P m \<Longrightarrow> length (LengthPrefix_SerializeToArray P m) = LengthPrefix_ByteSize P m"
  by (simp add: LengthPrefix_ok_def LengthPrefix_SerializeToArray_def LengthPrefix_ByteSize_def
      wire_string_def ser_simps)

lemma LengthPrefix_parse:
  "\<lbrakk>LengthPrefix_ok P m; length (LengthPrefix_SerializeToArray P m) \<le> total_bytes_limit P\<rbrakk> \<Longrightarrow>
   LengthPrefix_MergePartialFromCodedStream P LengthPrefix_default (LengthPrefix_SerializeToArray P m) = Parsed m 0 []"
  unfolding LengthPrefix_SerializeToArray_def LengthPrefix_MergePartialFromCodedStream_def LengthPrefix_ok_def
  by (simp add: parse_opt_fixed64 [OF LengthPrefix_cases, where r = "[]", unfolded append_Nil2]
      parse_loop_end LengthPrefix_wf del: One_nat_def length_greater_0_conv split del: if_split)
    (cases m, simp add: LengthPrefix_default_def)

lemma LengthPrefix_nested:
  assumes "LengthPrefix_ok P m" and "LengthPrefix_ByteSize P m < 2 ^ 31"
  shows "nested_ok P (LengthPrefix_MergePartialFromCodedStream P) LengthPrefix_default
      (LengthPrefix_ByteSize P) (LengthPrefix_SerializeToArray P) m"
  using assms LengthPrefix_size LengthPrefix_parse by (simp add: nested_ok_def)

end

section \<open>Copies\<close>

lemma RegisterRequest_copy [simp]: "RegisterRequest_MergeFrom RegisterRequest_default m = m"
  by (cases m) (simp add: RegisterRequest_MergeFrom_def RegisterRequest_default_def split: option.splits)

lemma LoginRequest_copy [simp]: "LoginRequest_MergeFrom LoginRequest_default m = m"
  by (cases m) (simp add: LoginRequest_MergeFrom_def LoginRequest_default_def split: option.splits)

lemma AllMyChatsRequest_copy [simp]: "AllMyChatsRequest_MergeFrom AllMyChatsRequest_default m = m"
  by (cases m) (simp add: AllMyChatsRequest_MergeFrom_def AllMyChatsRequest_default_def)

lemma AllMyContactsRequest_copy [simp]: "AllMyContactsRequest_MergeFrom AllMyContactsRequest_default m = m"
  by (cases m) (simp add: AllMyContactsRequest_MergeFrom_def AllMyContactsRequest_default_def)

lemma MessagesRequest_copy [simp]: "MessagesRequest_MergeFrom MessagesRequest_default m = m"
  by (cases m) (simp add: MessagesRequest_MergeFrom_def MessagesRequest_default_def split: option.splits)

lemma MessageToSend_copy [simp]: "MessageToSend_MergeFrom MessageToSend_default m = m"
  by (cases m) (simp add: MessageToSend_MergeFrom_def MessageToSend_default_def split: option.splits)

lemma SendMessageRequest_copy [simp]: "SendMessageRequest_MergeFrom SendMessageRequest_default m = m"
  by (cases m) (simp add: SendMessageRequest_MergeFrom_def SendMessageRequest_default_def split: option.splits)

lemma AddContactRequest_copy [simp]: "AddContactRequest_MergeFrom AddContactRequest_default m = m"
  by (cases m) (simp add: AddContactRequest_MergeFrom_def AddContactRequest_default_def split: option.splits)

lemma CreateChatRequest_copy [simp]: "CreateChatRequest_MergeFrom CreateChatRequest_default m = m"
  by (cases m) (simp add: CreateChatRequest_MergeFrom_def CreateChatRequest_default_def split: option.splits)

lemma Request_copy [simp]: "Request_MergeFrom Request_default m = m"
  by (cases m) (simp_all add: Request_default_def)

lemma StatusResponse_copy [simp]: "StatusResponse_MergeFrom StatusResponse_default m = m"
  by (cases m) (simp add: StatusResponse_MergeFrom_def StatusResponse_default_def split: option.splits)

lemma Chat_copy [simp]: "Chat_MergeFrom Chat_default m = m"
  by (cases m) (simp add: Chat_MergeFrom_def Chat_default_def split: option.splits)

lemma ChatsResponse_copy [simp]: "ChatsResponse_MergeFrom ChatsResponse_default m = m"
  by (cases m) (simp add: ChatsResponse_MergeFrom_def ChatsResponse_default_def split: option.splits)

lemma Contact_copy [simp]: "Contact_MergeFrom Contact_default m = m"
  by (cases m) (simp add: Contact_MergeFrom_def Contact_default_def split: option.splits)

lemma ContactsResponse_copy [simp]: "ContactsResponse_MergeFrom ContactsResponse_default m = m"
  by (cases m) (simp add: ContactsResponse_MergeFrom_def ContactsResponse_default_def split: option.splits)

lemma MessageToRecieve_copy [simp]: "MessageToRecieve_MergeFrom MessageToRecieve_default m = m"
  by (cases m) (simp add: MessageToRecieve_MergeFrom_def MessageToRecieve_default_def split: option.splits)

lemma MessagesResponse_copy [simp]: "MessagesResponse_MergeFrom MessagesResponse_default m = m"
  by (cases m) (simp add: MessagesResponse_MergeFrom_def MessagesResponse_default_def split: option.splits)

lemma LoginResponse_copy [simp]: "LoginResponse_MergeFrom LoginResponse_default m = m"
  by (cases m) (simp add: LoginResponse_MergeFrom_def LoginResponse_default_def split: option.splits)

lemma Response_copy [simp]: "Response_MergeFrom Response_default m = m"
  by (cases m) (simp_all add: Response_default_def)

lemma WrappedMessage_copy [simp]: "WrappedMessage_MergeFrom WrappedMessage_default m = m"
  by (cases m) (simp_all add: WrappedMessage_default_def)

lemma LengthPrefix_copy [simp]: "LengthPrefix_MergeFrom LengthPrefix_default m = m"
  by (cases m) (simp add: LengthPrefix_MergeFrom_def LengthPrefix_default_def split: option.splits)

end
