(* ===== verification/Packets.thy ===== *)
theory Packets
  imports Codec
begin

text \<open>
  The packets both programs exchange: a length prefix of nine bytes and a serialised
  \<open>WrappedMessage\<close>. Shared facts on their sizes and on parsing the two parts; the code that
  writes and reads packets is in the theories of the server and of the client.
\<close>

text \<open>\<open>sizeof(uint64_t) + 1\<close>: a fixed64 field with its tag.\<close>

abbreviation PREFIX_SIZE :: nat where
  "PREFIX_SIZE \<equiv> 9"

section \<open>Packets\<close>

definition prefix_of :: "pb \<Rightarrow> WrappedMessage \<Rightarrow> bytes" where
  "prefix_of P m = LengthPrefix_SerializeToArray P \<lparr>LengthPrefix_length = of_nat (WrappedMessage_ByteSize P m)\<rparr>"

definition packet :: "pb \<Rightarrow> WrappedMessage \<Rightarrow> bytes" where
  "packet P m = prefix_of P m @ WrappedMessage_SerializeToArray P m"

text \<open>
  A message that fits the limits of the runtime: its strings are valid, its size is a
  positive \<open>int\<close> and below the limit of the input stream.
\<close>

definition sendable :: "pb \<Rightarrow> WrappedMessage \<Rightarrow> bool" where
  "sendable P m \<longleftrightarrow> m \<noteq> WrappedMessage_MSG_NOT_SET \<and> WrappedMessage_ok P m \<and>
     WrappedMessage_ByteSize P m < 2 ^ 31 \<and> WrappedMessage_ByteSize P m \<le> total_bytes_limit P \<and>
     PREFIX_SIZE \<le> total_bytes_limit P"

context pb_wire
begin

lemma wrapped_size_pos: "m \<noteq> WrappedMessage_MSG_NOT_SET \<Longrightarrow> 0 < WrappedMessage_ByteSize P m"
  by (cases m) auto

text \<open>The prefix that announces a length takes nine bytes unless the length is 0.\<close>

lemma announced_length:
  assumes "n \<noteq> 0"
  shows "length (LengthPrefix_SerializeToArray P \<lparr>LengthPrefix_length = n\<rparr>) = PREFIX_SIZE"
proof -
  obtain body where "WriteFixed64ToArray P 1 n = tag_byte 1 1 # body" "length body = 8"
    using write_fixed64 [of 1 n] by auto
  with assms show ?thesis by (simp add: LengthPrefix_SerializeToArray_def)
qed

lemma announced_parse:
  assumes "n \<noteq> 0" and "PREFIX_SIZE \<le> total_bytes_limit P"
  shows "parse_from_array P (LengthPrefix_MergePartialFromCodedStream P) LengthPrefix_default
    (LengthPrefix_SerializeToArray P \<lparr>LengthPrefix_length = n\<rparr>) = Some \<lparr>LengthPrefix_length = n\<rparr>"
  using announced_length [OF assms(1)] assms(2)
  by (simp add: parse_from_array_def LengthPrefix_parse LengthPrefix_ok_def consumed)

lemma packet_size_word: "sendable P m \<Longrightarrow> (of_nat (WrappedMessage_ByteSize P m) :: u64) \<noteq> 0"
  using wrapped_size_pos [of m] of_nat_u64_eq_0_iff [of "WrappedMessage_ByteSize P m"]
  by (simp add: sendable_def)

lemma prefix_length [simp]: "sendable P m \<Longrightarrow> length (prefix_of P m) = PREFIX_SIZE"
  by (simp add: prefix_of_def announced_length packet_size_word)

lemma body_length [simp]:
  "sendable P m \<Longrightarrow> length (WrappedMessage_SerializeToArray P m) = WrappedMessage_ByteSize P m"
  by (simp add: sendable_def WrappedMessage_size)

lemma packet_length: "sendable P m \<Longrightarrow> length (packet P m) = WrappedMessage_ByteSize P m + PREFIX_SIZE"
  by (simp add: packet_def)

lemma parse_prefix:
  assumes "sendable P m"
  shows "parse_from_array P (LengthPrefix_MergePartialFromCodedStream P) LengthPrefix_default (prefix_of P m) =
    Some \<lparr>LengthPrefix_length = of_nat (WrappedMessage_ByteSize P m)\<rparr>"
  using assms announced_parse [OF packet_size_word [OF assms]] by (simp add: prefix_of_def sendable_def)

lemma parse_body:
  assumes "sendable P m"
  shows "parse_from_array P (WrappedMessage_MergePartialFromCodedStream P) WrappedMessage_default
    (WrappedMessage_SerializeToArray P m) = Some m"
proof -
  have "length (WrappedMessage_SerializeToArray P m) \<le> total_bytes_limit P" "WrappedMessage_ok P m"
    using assms body_length [OF assms] by (simp_all add: sendable_def)
  then show ?thesis by (simp add: parse_from_array_def WrappedMessage_parse consumed)
qed

text \<open>Writing the two parts into a buffer of the right size covers it.\<close>

lemma poke_packet:
  assumes "sendable P m" and "length buf = WrappedMessage_ByteSize P m + PREFIX_SIZE"
  shows "poke PREFIX_SIZE (WrappedMessage_SerializeToArray P m) (poke 0 (prefix_of P m) buf) = packet P m"
  using poke_prefix_rest [of buf "prefix_of P m" "WrappedMessage_SerializeToArray P m"] assms
  by (simp add: packet_def)

end

end
