(* ===== verification/Server_Session.thy ===== *)
theory Server_Session
  imports Storage Packets
begin

text \<open>
  A client session of the server (\<open>server/src/server/session.cpp\<close>) and the jobs it runs
  (\<open>server/src/jobs/jobs.cpp\<close>). Boost.Asio is third-party: an operation the code starts
  (\<open>async_read\<close>, \<open>async_write\<close>, \<open>post\<close>) is put into \<open>se_pending\<close>, and its completion calls the
  handler the code bound to it. The jobs use the storage through the table of virtual
  functions \<open>'d storage\<close>.
\<close>

section \<open>State\<close>

record ClientState =
  user_id :: u64
  user_name :: bytes
  email :: bytes

text \<open>The function objects that are posted to the job pool.\<close>

datatype job =
    ParseCommand
  | RegisterReq RegisterRequest
  | LoginReq LoginRequest
  | ChatsReq
  | ContactsReq
  | MessagesReq MessagesRequest
  | SendMesgReq SendMessageRequest
  | AddContactReq AddContactRequest
  | CreateChatReq CreateChatRequest

datatype pending =
    Async_read_prefix
  | Async_read_message u64
  | Async_write
  | Posted job

text \<open>
  \<open>se_received\<close> are the messages read completely and \<open>se_sent\<close> the buffers handed to
  \<open>async_write\<close>, in order: what the session has exchanged with its peer.
\<close>

record session =
  se_stopped :: bool
  se_sock_open :: bool
  se_state :: "ClientState option"
  se_buffer :: bytes
  se_pending :: "pending list"
  se_received :: "bytes list"
  se_sent :: "bytes list"

text \<open>The constructor.\<close>

definition ClientSession :: session where
  "ClientSession = \<lparr>se_stopped = True, se_sock_open = True, se_state = None, se_buffer = [],
     se_pending = [], se_received = [], se_sent = []\<rparr>"

text \<open>What ends the process: exceptions that no handler catches, and the assertion of \<open>state()\<close>.\<close>

datatype fatal = Bad_alloc | Assertion_failed | Accept_error

text \<open>
  \<^item> \<open>sv_pb\<close>: the Protocol Buffers runtime;
  \<^item> \<open>sv_can_alloc n\<close>: memory for a vector of \<open>n\<close> bytes can be had (\<open>resize\<close> raises
    \<open>std::length_error\<close> or \<open>std::bad_alloc\<close> otherwise);
  \<^item> \<open>sv_parse_negative\<close>: what \<open>ParseFromArray\<close> makes of a buffer when the size it is given
    is negative.
\<close>

record server_env =
  sv_pb :: pb
  sv_can_alloc :: "nat \<Rightarrow> bool"
  sv_parse_negative :: "bytes \<Rightarrow> WrappedMessage option"

definition vector_resize :: "server_env \<Rightarrow> nat \<Rightarrow> bytes \<Rightarrow> fatal + bytes" where
  "vector_resize env n buf =
     (if n \<le> length buf \<or> sv_can_alloc env n then Inr (resize n buf) else Inl Bad_alloc)"

section \<open>Operations of the session\<close>

definition stop :: "session \<Rightarrow> session" where
  "stop s = (if se_stopped s then s else s\<lparr>se_stopped := True, se_sock_open := False\<rparr>)"

definition do_async_read_prefix :: "server_env \<Rightarrow> session \<Rightarrow> fatal + session" where
  "do_async_read_prefix env s =
     (if se_stopped s then Inr s
      else case vector_resize env PREFIX_SIZE (se_buffer s) of
             Inl e \<Rightarrow> Inl e
           | Inr buf \<Rightarrow> Inr (s\<lparr>se_buffer := buf, se_pending := se_pending s @ [Async_read_prefix]\<rparr>))"

definition start :: "server_env \<Rightarrow> session \<Rightarrow> fatal + session" where
  "start env s = do_async_read_prefix env (s\<lparr>se_stopped := False\<rparr>)"

definition do_async_read_message :: "server_env \<Rightarrow> u64 \<Rightarrow> session \<Rightarrow> fatal + session" where
  "do_async_read_message env mesg_size s =
     (if se_stopped s then Inr s
      else case vector_resize env (unat mesg_size) (se_buffer s) of
             Inl e \<Rightarrow> Inl e
           | Inr buf \<Rightarrow>
               Inr (s\<lparr>se_buffer := buf, se_pending := se_pending s @ [Async_read_message mesg_size]\<rparr>))"

definition on_read_prefix :: "server_env \<Rightarrow> bool \<Rightarrow> nat \<Rightarrow> session \<Rightarrow> fatal + session" where
  "on_read_prefix env err bytes s0 =
     (let s = (if err then stop s0 else s0) in
      if se_stopped s then Inr s
      else if bytes = PREFIX_SIZE then
        (case parse_from_array (sv_pb env) (LengthPrefix_MergePartialFromCodedStream (sv_pb env))
                LengthPrefix_default (take bytes (se_buffer s)) of
           Some prefix \<Rightarrow> do_async_read_message env (LengthPrefix_length prefix) s
         | None \<Rightarrow> Inr (stop s))
      else Inr (stop s))"

definition on_read_message :: "bool \<Rightarrow> nat \<Rightarrow> u64 \<Rightarrow> session \<Rightarrow> session" where
  "on_read_message err readed_bytes mesg_size s0 =
     (let s = (if err then stop s0 else s0) in
      if se_stopped s then s
      else if of_nat readed_bytes = mesg_size
      then s\<lparr>se_pending := se_pending s @ [Posted ParseCommand],
             se_received := se_received s @ [se_buffer s]\<rparr>
      else stop s)"

definition on_write :: "server_env \<Rightarrow> bool \<Rightarrow> session \<Rightarrow> fatal + session" where
  "on_write env err s0 =
     (let s = (if err then stop s0 else s0) in
      if se_stopped s then Inr s else do_async_read_prefix env s)"

text \<open>The buffer that \<open>do_async_write\<close> fills: the length prefix and then the message.\<close>

definition write_buffer :: "pb \<Rightarrow> WrappedMessage \<Rightarrow> bytes \<Rightarrow> bytes" where
  "write_buffer P mesg buf =
     poke PREFIX_SIZE (WrappedMessage_SerializeToArray P mesg)
       (poke 0 (LengthPrefix_SerializeToArray P
                  \<lparr>LengthPrefix_length = of_nat (WrappedMessage_ByteSize P mesg)\<rparr>) buf)"

definition do_async_write :: "server_env \<Rightarrow> WrappedMessage \<Rightarrow> session \<Rightarrow> fatal + session" where
  "do_async_write env mesg s =
     (if se_stopped s then Inr s
      else case vector_resize env (WrappedMessage_ByteSize (sv_pb env) mesg + PREFIX_SIZE) (se_buffer s) of
             Inl e \<Rightarrow> Inl e
           | Inr buf \<Rightarrow>
               (let out = write_buffer (sv_pb env) mesg buf in
                Inr (s\<lparr>se_buffer := out, se_pending := se_pending s @ [Async_write],
                       se_sent := se_sent s @ [out]\<rparr>)))"

definition session_write :: "server_env \<Rightarrow> WrappedMessage \<Rightarrow> session \<Rightarrow> fatal + session" where
  "session_write env mesg s = do_async_write env mesg s"

definition set_state :: "ClientState \<Rightarrow> session \<Rightarrow> session" where
  "set_state new_state s = s\<lparr>se_state := Some new_state\<rparr>"

definition logged_in :: "session \<Rightarrow> bool" where
  "logged_in s \<longleftrightarrow> se_state s \<noteq> None"

definition state :: "session \<Rightarrow> fatal + ClientState" where
  "state s = (case se_state s of None \<Rightarrow> Inl Assertion_failed | Some cs \<Rightarrow> Inr cs)"

definition get_buffer :: "session \<Rightarrow> bytes" where
  "get_buffer s = se_buffer s"

declare get_buffer_def [simp]

section \<open>Jobs\<close>

definition post_job :: "job \<Rightarrow> session \<Rightarrow> session" where
  "post_job j s = s\<lparr>se_pending := se_pending s @ [Posted j]\<rparr>"

text \<open>
  \<open>ParseFromArray(buffer.data(), static_cast<int>(buffer.size()))\<close>: the parser gets the
  size reduced to a signed 32-bit number.
\<close>

definition parse_wrapped :: "server_env \<Rightarrow> bytes \<Rightarrow> WrappedMessage option" where
  "parse_wrapped env buf =
     (let int_size = sint (of_nat (length buf) :: 32 word) in
      if int_size < 0 then sv_parse_negative env buf
      else parse_from_array (sv_pb env) (WrappedMessage_MergePartialFromCodedStream (sv_pb env))
             WrappedMessage_default (take (nat int_size) buf))"

definition ParseCommandJob :: "server_env \<Rightarrow> session \<Rightarrow> session" where
  "ParseCommandJob env s =
     (case parse_wrapped env (get_buffer s) of
        Some (WrappedMessage_request request) \<Rightarrow>
          (case request of
             Request_register_request r \<Rightarrow> post_job (RegisterReq r) s
           | Request_login_request r \<Rightarrow> post_job (LoginReq r) s
           | Request_chats_request r \<Rightarrow> post_job ChatsReq s
           | Request_contacts_request r \<Rightarrow> post_job ContactsReq s
           | Request_messages_request r \<Rightarrow> post_job (MessagesReq r) s
           | Request_send_mesg_request r \<Rightarrow> post_job (SendMesgReq r) s
           | Request_add_contact_request r \<Rightarrow> post_job (AddContactReq r) s
           | Request_create_chat_request r \<Rightarrow> post_job (CreateChatReq r) s
           | Request_MSG_NOT_SET \<Rightarrow> stop s)
      | Some _ \<Rightarrow> stop s
      | None \<Rightarrow> stop s)"

definition ACCEPTED :: u32 where "ACCEPTED = 0"
definition REJECTED :: u32 where "REJECTED = 1"

definition status_message :: "bool \<Rightarrow> WrappedMessage" where
  "status_message ok = WrappedMessage_response (Response_status_response
     \<lparr>StatusResponse_result = if ok then ACCEPTED else REJECTED\<rparr>)"

definition empty_response :: WrappedMessage where
  "empty_response = WrappedMessage_response Response_default"

definition RegisterRequestJob ::
  "server_env \<Rightarrow> 'd storage \<Rightarrow> RegisterRequest \<Rightarrow> session \<Rightarrow> 'd \<Rightarrow> (fatal + session) \<times> 'd" where
  "RegisterRequestJob env st mesg s d =
     (case sc_registration st (RegisterRequest_name mesg) (RegisterRequest_email mesg)
             (RegisterRequest_password mesg) d of
        (register_res, d') \<Rightarrow> (session_write env (status_message register_res) s, d'))"

definition LoginRequestJob ::
  "server_env \<Rightarrow> 'd storage \<Rightarrow> LoginRequest \<Rightarrow> session \<Rightarrow> 'd \<Rightarrow> (fatal + session) \<times> 'd" where
  "LoginRequestJob env st mesg s d =
     (case sc_login st (LoginRequest_email mesg) (LoginRequest_password mesg) d of
        (Inl e, d') \<Rightarrow>
          (session_write env (WrappedMessage_response (Response_login_response LoginResponse_default)) s, d')
      | (Inr (i, name), d') \<Rightarrow>
          (let s' = set_state \<lparr>user_id = i, user_name = name, email = LoginRequest_email mesg\<rparr> s in
           case state s' of
             Inl e \<Rightarrow> (Inl e, d')
           | Inr cs \<Rightarrow>
               (session_write env (WrappedMessage_response (Response_login_response
                  \<lparr>LoginResponse_profile = Some \<lparr>Contact_user_id = user_id cs, Contact_name = user_name cs,
                     Contact_email = email cs\<rparr>\<rparr>)) s', d')))"

text \<open>
  The other jobs have the same frame: with a logged-in client the body runs with its
  state, otherwise the response is empty.
\<close>

definition with_login ::
  "server_env \<Rightarrow> (ClientState \<Rightarrow> 'd \<Rightarrow> Response \<times> 'd) \<Rightarrow> session \<Rightarrow> 'd \<Rightarrow> (fatal + session) \<times> 'd" where
  "with_login env body s d =
     (if logged_in s then
        (case state s of
           Inl e \<Rightarrow> (Inl e, d)
         | Inr cs \<Rightarrow>
             (case body cs d of (r, d') \<Rightarrow> (session_write env (WrappedMessage_response r) s, d')))
      else (session_write env empty_response s, d))"

definition status_of :: "bool \<times> 'd \<Rightarrow> Response \<times> 'd" where
  "status_of r = (Response_status_response
     \<lparr>StatusResponse_result = if fst r then ACCEPTED else REJECTED\<rparr>, snd r)"

definition ChatsRequestJob ::
  "server_env \<Rightarrow> 'd storage \<Rightarrow> session \<Rightarrow> 'd \<Rightarrow> (fatal + session) \<times> 'd" where
  "ChatsRequestJob env st =
     with_login env (\<lambda>cs d. apfst Response_chats_response (sc_get_chats st (user_id cs) d))"

definition ContactsRequestJob ::
  "server_env \<Rightarrow> 'd storage \<Rightarrow> session \<Rightarrow> 'd \<Rightarrow> (fatal + session) \<times> 'd" where
  "ContactsRequestJob env st =
     with_login env (\<lambda>cs d. apfst Response_contacts_response (sc_get_contacts st (user_id cs) d))"

text \<open>The client of this job is not compared with the members of the chat.\<close>

definition MessagesRequestJob ::
  "server_env \<Rightarrow> 'd storage \<Rightarrow> MessagesRequest \<Rightarrow> session \<Rightarrow> 'd \<Rightarrow> (fatal + session) \<times> 'd" where
  "MessagesRequestJob env st mesg =
     with_login env (\<lambda>cs d. apfst Response_messages_response
       (sc_get_messages st (MessagesRequest_chat_id mesg) d))"

definition SendMesgRequestJob ::
  "server_env \<Rightarrow> 'd storage \<Rightarrow> SendMessageRequest \<Rightarrow> session \<Rightarrow> 'd \<Rightarrow> (fatal + session) \<times> 'd" where
  "SendMesgRequestJob env st mesg =
     with_login env (\<lambda>cs d. status_of
       (sc_send_message st (user_id cs) (SendMessageRequest_mutable_mesg mesg) d))"

definition AddContactRequestJob ::
  "server_env \<Rightarrow> 'd storage \<Rightarrow> AddContactRequest \<Rightarrow> session \<Rightarrow> 'd \<Rightarrow> (fatal + session) \<times> 'd" where
  "AddContactRequestJob env st mesg =
     with_login env (\<lambda>cs d. status_of (sc_add_contact st (user_id cs) (AddContactRequest_email mesg) d))"

definition CreateChatRequestJob ::
  "server_env \<Rightarrow> 'd storage \<Rightarrow> CreateChatRequest \<Rightarrow> session \<Rightarrow> 'd \<Rightarrow> (fatal + session) \<times> 'd" where
  "CreateChatRequestJob env st mesg =
     with_login env (\<lambda>cs d. status_of (sc_create_chat st (user_id cs) (user_name cs)
       (CreateChatRequest_friend_id mesg) d))"

text \<open>A worker of the pool calls the function object.\<close>

fun run_job ::
  "server_env \<Rightarrow> 'd storage \<Rightarrow> job \<Rightarrow> session \<Rightarrow> 'd \<Rightarrow> (fatal + session) \<times> 'd" where
  "run_job env st ParseCommand s d = (Inr (ParseCommandJob env s), d)"
| "run_job env st (RegisterReq m) s d = RegisterRequestJob env st m s d"
| "run_job env st (LoginReq m) s d = LoginRequestJob env st m s d"
| "run_job env st ChatsReq s d = ChatsRequestJob env st s d"
| "run_job env st ContactsReq s d = ContactsRequestJob env st s d"
| "run_job env st (MessagesReq m) s d = MessagesRequestJob env st m s d"
| "run_job env st (SendMesgReq m) s d = SendMesgRequestJob env st m s d"
| "run_job env st (AddContactReq m) s d = AddContactRequestJob env st m s d"
| "run_job env st (CreateChatReq m) s d = CreateChatRequestJob env st m s d"

section \<open>Completions\<close>

text \<open>
  What happens to a session from outside: an operation in flight ends. A read delivers
  bytes into the buffer; it reports success only when the buffer is full.
\<close>

datatype completion =
    Read_prefix_done bool bytes
  | Read_message_done bool bytes u64
  | Write_done bool
  | Job_run job

fun completes :: "completion \<Rightarrow> pending" where
  "completes (Read_prefix_done err data) = Async_read_prefix"
| "completes (Read_message_done err data mesg_size) = Async_read_message mesg_size"
| "completes (Write_done err) = Async_write"
| "completes (Job_run j) = Posted j"

fun delivered :: "completion \<Rightarrow> session \<Rightarrow> bool" where
  "delivered (Read_prefix_done err data) s \<longleftrightarrow>
     length data \<le> length (se_buffer s) \<and> (err \<or> length data = length (se_buffer s))"
| "delivered (Read_message_done err data mesg_size) s \<longleftrightarrow>
     length data \<le> length (se_buffer s) \<and> (err \<or> length data = length (se_buffer s))"
| "delivered (Write_done err) s \<longleftrightarrow> True"
| "delivered (Job_run j) s \<longleftrightarrow> True"

definition enabled :: "completion \<Rightarrow> session \<Rightarrow> bool" where
  "enabled c s \<longleftrightarrow> completes c \<in> set (se_pending s) \<and> delivered c s"

definition take_pending :: "pending \<Rightarrow> session \<Rightarrow> session" where
  "take_pending p s = s\<lparr>se_pending := remove1 p (se_pending s)\<rparr>"

definition fill_buffer :: "bytes \<Rightarrow> session \<Rightarrow> session" where
  "fill_buffer data s = s\<lparr>se_buffer := poke 0 data (se_buffer s)\<rparr>"

fun complete ::
  "server_env \<Rightarrow> 'd storage \<Rightarrow> completion \<Rightarrow> session \<Rightarrow> 'd \<Rightarrow> (fatal + session) \<times> 'd" where
  "complete env st (Read_prefix_done err data) s d =
     (on_read_prefix env err (length data) (fill_buffer data (take_pending Async_read_prefix s)), d)"
| "complete env st (Read_message_done err data mesg_size) s d =
     (Inr (on_read_message err (length data) mesg_size
        (fill_buffer data (take_pending (Async_read_message mesg_size) s))), d)"
| "complete env st (Write_done err) s d = (on_write env err (take_pending Async_write s), d)"
| "complete env st (Job_run j) s d = run_job env st j (take_pending (Posted j) s) d"

end
