(* ===== verification/Storage_Inv.thy ===== *)
theory Storage_Inv
  imports Storage
begin

text \<open>
  What the storage operations do to the tables, for every behaviour of the engine. Each
  operation has a lemma \<open>..._outcome\<close> that says which tables it can leave behind: the
  change it is meant to make, or the old tables with sequences moved on. From these follow
  the invariants of the tables (\<open>tables_ok\<close>, \<open>db_inv\<close>), atomicity and the functional behaviour of every
  operation.
\<close>

section \<open>Unfolding transactions\<close>

lemma catch_false_Inl [simp]: "catch_false (Inl e, d) = (False, d)"
  by (cases e) simp_all

lemma fst_catch_false: "fst (catch_false (r, d)) \<longleftrightarrow> r = Inr True"
  by (cases r) auto

lemma snd_catch_false [simp]: "snd (catch_false x) = snd x"
  by (cases x; cases "fst x") auto

lemmas txn_defs = txn_bind_def txn_exec_def txn_commit_def txn_return_def txn_throw_def
  txn_lift_def run_work_def work_end_def query_commit_def

lemma work_end_id [simp]:
  "work_end \<lparr>calls = n, view = d, committed = d\<rparr> = d"
  by (simp add: work_end_def)

section \<open>Sequences moved on\<close>

text \<open>The tables are the same; sequences may have moved, inside their range.\<close>

definition same_tables :: "db \<Rightarrow> db \<Rightarrow> bool" where
  "same_tables d d' \<longleftrightarrow>
     Client d' = Client d \<and> Chat_ids d' = Chat_ids d \<and> ClientToChat d' = ClientToChat d \<and>
     Message d' = Message d \<and> ClientToContact d' = ClientToContact d"

definition seq_step :: "int \<Rightarrow> int \<Rightarrow> int \<Rightarrow> bool" where
  "seq_step m a b \<longleftrightarrow> a \<le> b \<and> (b \<le> m \<or> b = a)"

definition seqs_forward :: "db \<Rightarrow> db \<Rightarrow> bool" where
  "seqs_forward d d' \<longleftrightarrow>
     seq_step max_int4 (Client_seq d) (Client_seq d') \<and>
     seq_step max_int4 (Chat_seq d) (Chat_seq d') \<and>
     seq_step max_int8 (Message_seq d) (Message_seq d')"

lemmas forward_defs = same_tables_def seqs_forward_def seq_step_def

lemma same_tables_refl [simp]: "same_tables d d"
  by (simp add: same_tables_def)

lemma seqs_forward_refl [simp]: "seqs_forward d d"
  by (simp add: seqs_forward_def seq_step_def)

section \<open>Results of queries\<close>

text \<open>The engine returns every row of a result once, in some order.\<close>

lemma result_rows_mset [simp]: "mset (result_rows env rows) = mset rows"
proof -
  have "mset (result_rows env rows) = mset (map (nth rows) [0..<length rows])"
    unfolding result_rows_def by (simp del: upt_conv_Cons)
  then show ?thesis by (simp add: map_nth)
qed

lemma result_rows_set [simp]: "set (result_rows env rows) = set rows"
  using result_rows_mset by (metis set_mset_mset)

lemma result_rows_length [simp]: "length (result_rows env rows) = length rows"
  using result_rows_mset by (metis size_mset)

lemma result_rows_empty [simp]: "result_rows env rows = [] \<longleftrightarrow> rows = []"
  using result_rows_length by (metis length_0_conv)

lemma result_rows_single [simp]: "result_rows env [x] = [x]"
  by (simp add: result_rows_def)

text \<open>The queries that decide an operation change nothing.\<close>

lemma query_stmts_read:
  "snd (stmt_check_sender_able_to_write_to_chat env s c d) = d" "snd (stmt_get_user_by_email env e d) = d"
  "snd (stmt_check_users_have_common_chat env s f d) = d"
  by (simp_all add: stmt_check_sender_able_to_write_to_chat_def stmt_get_user_by_email_def
      stmt_check_users_have_common_chat_def split: option.splits)

section \<open>Conversions\<close>

lemma int4_Some: "int4 v = Some i \<longleftrightarrow> i = uint v \<and> uint v \<le> max_int4"
  by (auto simp: int4_def)

lemma int4_of_int [simp]: "0 \<le> i \<Longrightarrow> i \<le> max_int4 \<Longrightarrow> int4 (word_of_int i) = Some i"
  by (simp add: int4_def uint_word_of_int_eq take_bit_int_eq_self)

lemma as_u64_Inr [simp]: "0 \<le> i \<Longrightarrow> i \<le> max_int4 \<Longrightarrow> as_u64 i = Inr (word_of_int i)"
  by (simp add: as_u64_def)

lemma as_u64_int4: "as_u64 i = Inr v \<Longrightarrow> int4 v = Some j \<Longrightarrow> j = i"
  by (auto simp: as_u64_def int4_def uint_word_of_int_eq take_bit_int_eq_self split: if_splits)

section \<open>A rule for transactions\<close>

text \<open>
  Every statement only moves sequences forward.
\<close>

definition stmt_ok :: "'a stmt \<Rightarrow> bool" where
  "stmt_ok st \<longleftrightarrow> (\<forall>d r d'. st d = (r, d') \<longrightarrow> seqs_forward d d')"

lemma stmt_ok_stmts [simp, intro]:
  "stmt_ok (stmt_registration env a b c)" "stmt_ok (stmt_send_message env u v a)"
  "stmt_ok (stmt_add_contact u v)" "stmt_ok (stmt_get_user_by_email env a)"
  "stmt_ok (stmt_get_info env u)" "stmt_ok (stmt_get_contacts env u)"
  "stmt_ok (stmt_get_messages env u)" "stmt_ok (stmt_get_chats env u)"
  "stmt_ok (stmt_check_sender_able_to_write_to_chat env u v)"
  "stmt_ok (stmt_check_users_have_common_chat env u v)" "stmt_ok stmt_create_chat"
  "stmt_ok (stmt_create_chat_connection env u v a)" "stmt_ok (stmt_login env a)"
  by (auto simp: stmt_ok_def seqs_forward_def seq_step_def Let_def stmt_registration_def
      stmt_send_message_def stmt_add_contact_def stmt_get_user_by_email_def stmt_get_info_def
      stmt_get_contacts_def stmt_get_messages_def stmt_get_chats_def
      stmt_check_sender_able_to_write_to_chat_def stmt_check_users_have_common_chat_def
      stmt_create_chat_def stmt_create_chat_connection_def stmt_login_def
      split: option.splits if_splits)

lemma seqs_forward_trans: "seqs_forward a b \<Longrightarrow> seqs_forward b c \<Longrightarrow> seqs_forward a c"
  by (auto simp: seqs_forward_def seq_step_def)

text \<open>A transaction that has changed nothing durable yet.\<close>

definition tx_live :: "db \<Rightarrow> work \<Rightarrow> bool" where
  "tx_live d w \<longleftrightarrow> committed w = d \<and> seqs_forward d (view w)"

text \<open>
  \<open>tx_post env d Q body w\<close>: run from \<open>w\<close>, the body returns true only with tables that satisfy
  \<open>Q\<close>, and otherwise leaves the tables of \<open>d\<close>, or tables that satisfy \<open>Q\<close> when a commit is in
  doubt.
\<close>

definition tx_post :: "pg_env \<Rightarrow> db \<Rightarrow> (db \<Rightarrow> bool) \<Rightarrow> bool txn \<Rightarrow> work \<Rightarrow> bool" where
  "tx_post env d Q body w \<longleftrightarrow>
     (case body w of (r, w') \<Rightarrow>
        r \<noteq> Inr True \<and> same_tables d (work_end w') \<and> seqs_forward d (work_end w') \<or>
        (r = Inr True \<or> pg_in_doubt env) \<and> Q (work_end w'))"

lemma tx_live_abort: "tx_live d w \<Longrightarrow> same_tables d (work_end w) \<and> seqs_forward d (work_end w)"
  by (auto simp: tx_live_def work_end_def forward_defs)

lemma tx_live_calls [simp]: "tx_live d (w\<lparr>calls := n\<rparr>) = tx_live d w"
  by (simp add: tx_live_def)

lemma tx_exec:
  assumes "tx_live d w" and "stmt_ok st"
    and "\<And>x v. st (view w) = (Inr x, v) \<Longrightarrow> tx_live d (w\<lparr>calls := Suc (calls w), view := v\<rparr>) \<Longrightarrow>
           tx_post env d Q (f x) (w\<lparr>calls := Suc (calls w), view := v\<rparr>)"
  shows "tx_post env d Q (txn_bind (txn_exec env st) f) w"
proof (cases "pg_fault env (calls w)")
  case (Some e)
  with assms(1) tx_live_abort [of d "w\<lparr>calls := Suc (calls w)\<rparr>"] show ?thesis
    by (simp add: tx_post_def txn_bind_def txn_exec_def)
next
  case None
  obtain r v where st: "st (view w) = (r, v)" by fastforce
  then have live: "tx_live d (w\<lparr>calls := Suc (calls w), view := v\<rparr>)"
    using assms(1,2) seqs_forward_trans unfolding tx_live_def stmt_ok_def by fastforce
  show ?thesis
  proof (cases r)
    case (Inl e)
    with None st tx_live_abort [OF live] show ?thesis
      by (simp add: tx_post_def txn_bind_def txn_exec_def)
  next
    case (Inr x)
    with assms(3) [of x v] live st None show ?thesis
      by (simp add: tx_post_def txn_bind_def txn_exec_def)
  qed
qed

lemma tx_throw: "tx_live d w \<Longrightarrow> tx_post env d Q (txn_throw e) w"
  using tx_live_abort by (simp add: tx_post_def txn_throw_def)

lemma tx_return_False: "tx_live d w \<Longrightarrow> tx_post env d Q (txn_return False) w"
  using tx_live_abort by (simp add: tx_post_def txn_return_def)

lemma tx_lift:
  assumes "tx_live d w" and "\<And>x. r = Inr x \<Longrightarrow> tx_post env d Q (f x) w"
  shows "tx_post env d Q (txn_bind (txn_lift r) f) w"
  using assms tx_live_abort by (cases r) (auto simp: tx_post_def txn_bind_def txn_lift_def)

lemma tx_commit:
  assumes "tx_live d w" and "Q (view w)"
  shows "tx_post env d Q (txn_bind (txn_commit env) (\<lambda>_. txn_return True)) w"
proof -
  have "work_end (w\<lparr>calls := n, committed := view w\<rparr>) = view w" for n
    by (simp add: work_end_def)
  with assms tx_live_abort [of d "w\<lparr>calls := Suc (calls w)\<rparr>"] show ?thesis
    by (auto simp: tx_post_def txn_bind_def txn_commit_def txn_return_def tx_live_def
        split: option.splits)
qed

lemma tx_result:
  assumes "tx_post env d Q body w" and "body w = (r, w')" and "catch_false (r, work_end w') = (b, d')"
  shows "Q d' \<and> (b \<or> pg_in_doubt env) \<or> \<not> b \<and> same_tables d d' \<and> seqs_forward d d'"
proof -
  have "b \<longleftrightarrow> r = Inr True" and "d' = work_end w'"
    using assms(3) fst_catch_false [of r "work_end w'"] snd_catch_false [of "(r, work_end w')"] by auto
  with assms(1,2) show ?thesis by (auto simp: tx_post_def)
qed

lemma tx_run:
  assumes "tx_post env d Q body \<lparr>calls = 1, view = d, committed = d\<rparr>"
    and "catch_false (run_work env body d) = (b, d')"
  shows "Q d' \<and> (b \<or> pg_in_doubt env) \<or> \<not> b \<and> same_tables d d' \<and> seqs_forward d d'"
proof (cases "pg_fault env 0")
  case (Some e)
  with assms(2) show ?thesis by (simp add: run_work_def)
next
  case None
  obtain r w where body: "body \<lparr>calls = 1, view = d, committed = d\<rparr> = (r, w)" by fastforce
  with None assms(2) have "catch_false (r, work_end w) = (b, d')" by (simp add: run_work_def)
  with assms(1) body show ?thesis by (rule tx_result)
qed

lemma tx_live_start [simp]: "tx_live d \<lparr>calls = n, view = d, committed = d\<rparr>"
  by (simp add: tx_live_def)

lemma tx_if:
  "(c \<Longrightarrow> tx_post env d Q a w) \<Longrightarrow> (\<not> c \<Longrightarrow> tx_post env d Q b w) \<Longrightarrow>
   tx_post env d Q (if c then a else b) w"
  by simp

lemmas tx_rules = tx_exec tx_throw tx_return_False tx_lift tx_commit tx_if

section \<open>Outcomes of the operations\<close>

definition registered :: "pg_env \<Rightarrow> bytes \<Rightarrow> bytes \<Rightarrow> bytes \<Rightarrow> db \<Rightarrow> db \<Rightarrow> bool" where
  "registered env name email hash d d' \<longleftrightarrow>
     (\<exists>n e. pg_text env name = Some n \<and> pg_text env email = Some e \<and>
        Client_seq d < max_int4 \<and> Client_seq d + 1 \<notin> cl_id ` set (Client d) \<and>
        e \<notin> cl_email ` set (Client d) \<and>
        d' = d\<lparr>Client := Client d @ [\<lparr>cl_id = Client_seq d + 1, cl_name = n, cl_email = e,
                 cl_password_hash = hash\<rparr>], Client_seq := Client_seq d + 1\<rparr>)"

lemma registration_outcome:
  assumes "registration sha env name email password d = (b, d')"
  shows "registered env name email (hash_password sha password) d d' \<and> (b \<or> pg_in_doubt env)
       \<or> \<not> b \<and> same_tables d d' \<and> seqs_forward d d'"
proof (rule tx_run)
  show "catch_false (run_work env
       (txn_bind (txn_exec env (stmt_registration env name email (hash_password sha password))) (\<lambda>_.
        txn_bind (txn_commit env) (\<lambda>_. txn_return True))) d) = (b, d')"
    using assms by (simp add: registration_def)
qed (intro tx_rules; auto simp: registered_def stmt_registration_def Let_def
    split: option.splits if_splits)

definition chat_member :: "db \<Rightarrow> int \<Rightarrow> int \<Rightarrow> bool" where
  "chat_member d i c \<longleftrightarrow> (\<exists>l \<in> set (ClientToChat d). cc_client_id l = i \<and> cc_chat_id l = c)"

definition message_sent :: "pg_env \<Rightarrow> u64 \<Rightarrow> MessageToSend \<Rightarrow> db \<Rightarrow> db \<Rightarrow> bool" where
  "message_sent env sender_id mesg d d' \<longleftrightarrow>
     (\<exists>s c t. int4 sender_id = Some s \<and> int4 (MessageToSend_chat_id mesg) = Some c \<and>
        pg_text env (MessageToSend_text mesg) = Some t \<and> chat_member d s c \<and>
        s \<in> cl_id ` set (Client d) \<and> c \<in> set (Chat_ids d) \<and>
        Message_seq d < max_int8 \<and> Message_seq d + 1 \<notin> ms_id ` set (Message d) \<and>
        d' = d\<lparr>Message := Message d @ [\<lparr>ms_id = Message_seq d + 1, ms_sender_id = s, ms_chat_id = c,
                 ms_mesg = t\<rparr>], Message_seq := Message_seq d + 1\<rparr>)"

lemma can_write_eq:
  assumes "pg_fault env (calls w) = None"
    and "int4 s = Some i" and "int4 c = Some j"
  shows "can_write env s c w = (Inr (chat_member (view w) i j), w\<lparr>calls := Suc (calls w)\<rparr>)"
  using assms
  by (simp add: can_write_def txn_exec_def stmt_check_sender_able_to_write_to_chat_def
      filter_empty_conv chat_member_def)

lemma tx_can_write:
  assumes live: "tx_live d w"
    and yes: "\<And>i j. \<lbrakk>int4 s = Some i; int4 c = Some j; chat_member (view w) i j\<rbrakk> \<Longrightarrow>
       tx_post env d Q (f True) (w\<lparr>calls := Suc (calls w)\<rparr>)"
    and no: "tx_post env d Q (f False) (w\<lparr>calls := Suc (calls w)\<rparr>)"
  shows "tx_post env d Q (txn_bind (can_write env s c) f) w"
proof -
  have "\<exists>r. can_write env s c w = (Inr r, w\<lparr>calls := Suc (calls w)\<rparr>)"
    by (cases "pg_fault env (calls w)"; cases "int4 s"; cases "int4 c")
      (auto simp: can_write_def txn_exec_def stmt_check_sender_able_to_write_to_chat_def)
  then obtain r where cw: "can_write env s c w = (Inr r, w\<lparr>calls := Suc (calls w)\<rparr>)" ..
  have mem: "r \<Longrightarrow> \<exists>i j. int4 s = Some i \<and> int4 c = Some j \<and> chat_member (view w) i j"
    using cw
    by (auto simp: can_write_def txn_exec_def stmt_check_sender_able_to_write_to_chat_def
        filter_empty_conv chat_member_def split: option.splits)
  have "tx_post env d Q (f r) (w\<lparr>calls := Suc (calls w)\<rparr>)"
  proof (cases r)
    case True
    with mem obtain i j where "int4 s = Some i" "int4 c = Some j" "chat_member (view w) i j"
      by blast
    then have "tx_post env d Q (f True) (w\<lparr>calls := Suc (calls w)\<rparr>)" by (rule yes)
    with True show ?thesis by simp
  next
    case False
    with no show ?thesis by simp
  qed
  with cw show ?thesis by (simp add: tx_post_def txn_bind_def)
qed

lemma send_message_outcome:
  assumes run: "send_message env sender_id mesg d = (b, d')"
  shows "message_sent env sender_id mesg d d' \<and> (b \<or> pg_in_doubt env)
       \<or> \<not> b \<and> same_tables d d' \<and> seqs_forward d d'"
proof (rule tx_run [OF _ run [unfolded send_message_def send_message_rest_def]])
qed (intro tx_can_write tx_rules;
    auto simp: message_sent_def stmt_send_message_def Let_def split: option.splits if_splits)

definition contact_added :: "pg_env \<Rightarrow> u64 \<Rightarrow> bytes \<Rightarrow> db \<Rightarrow> db \<Rightarrow> bool" where
  "contact_added env user_id email d d' \<longleftrightarrow>
     (\<exists>u e row. int4 user_id = Some u \<and> pg_text env email = Some e \<and>
        row \<in> set (Client d) \<and> cl_email row = e \<and> u \<in> cl_id ` set (Client d) \<and> u \<noteq> cl_id row \<and>
        \<lparr>ct_client_id = u, ct_friend_id = cl_id row\<rparr> \<notin> set (ClientToContact d) \<and>
        \<lparr>ct_client_id = cl_id row, ct_friend_id = u\<rparr> \<notin> set (ClientToContact d) \<and>
        d' = d\<lparr>ClientToContact := ClientToContact d @
               [\<lparr>ct_client_id = u, ct_friend_id = cl_id row\<rparr>, \<lparr>ct_client_id = cl_id row, ct_friend_id = u\<rparr>]\<rparr>)"

lemma stmt_add_contact_twice:
  assumes "stmt_add_contact a b d = (Inr (), d1)" and "stmt_add_contact b a d1 = (Inr (), d2)"
    and "as_u64 (cl_id row) = Inr b" and "row \<in> set (Client d)" and "pg_text env email = Some (cl_email row)"
  shows "contact_added env a email d d2"
proof -
  from assms(1) obtain u f where uf: "int4 a = Some u" "int4 b = Some f" "u \<in> cl_id ` set (Client d)"
    "\<lparr>ct_client_id = u, ct_friend_id = f\<rparr> \<notin> set (ClientToContact d)"
    "d1 = d\<lparr>ClientToContact := ClientToContact d @ [\<lparr>ct_client_id = u, ct_friend_id = f\<rparr>]\<rparr>"
    by (auto simp: stmt_add_contact_def split: option.splits if_splits)
  have "f = cl_id row" using as_u64_int4 assms(3) uf(2) by blast
  with assms(2,4,5) uf show ?thesis
    by (auto simp: stmt_add_contact_def contact_added_def split: if_splits)
qed

lemma result_rows_hd:
  assumes "result_rows env (filter p rows) \<noteq> []"
  shows "result_rows env (filter p rows) ! 0 \<in> set rows \<and> p (result_rows env (filter p rows) ! 0)"
proof -
  have "result_rows env (filter p rows) ! 0 \<in> set (result_rows env (filter p rows))"
    using assms by (intro nth_mem) simp
  then show ?thesis using result_rows_set [of env "filter p rows"] by (auto simp del: result_rows_set)
qed

lemma add_contact_outcome:
  assumes run: "add_contact env user_id email d = (b, d')"
  shows "contact_added env user_id email d d' \<and> (b \<or> pg_in_doubt env)
       \<or> \<not> b \<and> same_tables d d' \<and> seqs_forward d d'"
proof (rule tx_run [OF _ run [unfolded add_contact_def add_contact_rest_def]])
qed (intro tx_rules; auto simp: stmt_get_user_by_email_def split: option.splits
    dest!: result_rows_hd intro!: stmt_add_contact_twice)

text \<open>What the writes of \<open>create_chat\<close> do, and when its query lets them happen.\<close>

definition chat_written :: "pg_env \<Rightarrow> u64 \<Rightarrow> bytes \<Rightarrow> u64 \<Rightarrow> db \<Rightarrow> db \<Rightarrow> bool" where
  "chat_written env user_id user_name friend_id d d' \<longleftrightarrow>
     (\<exists>u f row t1 t2. int4 user_id = Some u \<and> int4 friend_id = Some f \<and>
        u \<in> cl_id ` set (Client d) \<and> row \<in> set (Client d) \<and> cl_id row = f \<and>
        Chat_seq d < max_int4 \<and> Chat_seq d + 1 \<notin> set (Chat_ids d) \<and>
        pg_text env (str ''Chat with '' @ cl_name row) = Some t1 \<and>
        pg_text env (str ''Chat with '' @ user_name) = Some t2 \<and>
        d' = d\<lparr>Chat_ids := Chat_ids d @ [Chat_seq d + 1], Chat_seq := Chat_seq d + 1,
               ClientToChat := ClientToChat d @
                 [\<lparr>cc_client_id = u, cc_chat_id = Chat_seq d + 1, cc_title = t1\<rparr>,
                  \<lparr>cc_client_id = f, cc_chat_id = Chat_seq d + 1, cc_title = t2\<rparr>]\<rparr>)"

definition common_chat :: "u64 \<Rightarrow> u64 \<Rightarrow> db \<Rightarrow> bool" where
  "common_chat a b d \<longleftrightarrow>
     (\<exists>u f c. int4 a = Some u \<and> int4 b = Some f \<and> chat_member d u c \<and> chat_member d f c)"

definition chat_created :: "pg_env \<Rightarrow> u64 \<Rightarrow> bytes \<Rightarrow> u64 \<Rightarrow> db \<Rightarrow> db \<Rightarrow> bool" where
  "chat_created env user_id user_name friend_id d d' \<longleftrightarrow>
     \<not> common_chat user_id friend_id d \<and> chat_written env user_id user_name friend_id d d'"

lemmas chat_created_defs = chat_created_def chat_written_def common_chat_def

lemma stmt_common_chat_empty:
  assumes "stmt_check_users_have_common_chat env a b d = (Inr [], d1)"
  shows "d1 = d \<and> (\<exists>u f. int4 a = Some u \<and> int4 b = Some f \<and>
      \<not> (\<exists>c. chat_member d u c \<and> chat_member d f c))"
proof -
  from assms obtain u f where uf: "int4 a = Some u" "int4 b = Some f" and "d1 = d"
    and "result_rows env (filter (\<lambda>(c, c'). c = c') (List.product (chats_of u d) (chats_of f d))) = []"
    by (auto simp: stmt_check_users_have_common_chat_def split: option.splits)
  then have none: "\<forall>c \<in> set (chats_of u d). c \<notin> set (chats_of f d)"
    by (auto simp: filter_empty_conv)
  have "chat_member d i c \<longleftrightarrow> c \<in> set (chats_of i d)" for i c
    by (auto simp: chat_member_def chats_of_def)
  with none uf \<open>d1 = d\<close> show ?thesis by blast
qed

lemma stmt_create_chat_Inr:
  "stmt_create_chat d = (Inr i, d1) \<longleftrightarrow>
     Chat_seq d < max_int4 \<and> i = Chat_seq d + 1 \<and> i \<notin> set (Chat_ids d) \<and>
     d1 = d\<lparr>Chat_seq := i, Chat_ids := Chat_ids d @ [i]\<rparr>"
  by (auto simp: stmt_create_chat_def Let_def)

lemma stmt_connection_Inr:
  "stmt_create_chat_connection env a b title d = (Inr (), d1) \<longleftrightarrow>
     (\<exists>i c t. int4 a = Some i \<and> int4 b = Some c \<and> pg_text env title = Some t \<and>
        i \<in> cl_id ` set (Client d) \<and> c \<in> set (Chat_ids d) \<and>
        d1 = d\<lparr>ClientToChat := ClientToChat d @ [\<lparr>cc_client_id = i, cc_chat_id = c, cc_title = t\<rparr>]\<rparr>)"
  by (auto simp: stmt_create_chat_connection_def split: option.splits)

lemma stmt_get_info_Inr:
  assumes "stmt_get_info env b d = (Inr info, d1)"
  shows "d1 = d \<and> (\<exists>f. int4 b = Some f \<and>
     (if info = [] then f \<notin> cl_id ` set (Client d)
      else info ! 0 \<in> set (Client d) \<and> cl_id (info ! 0) = f))"
proof -
  from assms obtain f where f: "int4 b = Some f" and "d1 = d"
    and info: "info = result_rows env (filter (\<lambda>c. cl_id c = f) (Client d))"
    by (auto simp: stmt_get_info_def split: option.splits)
  have "if info = [] then f \<notin> cl_id ` set (Client d)
      else info ! 0 \<in> set (Client d) \<and> cl_id (info ! 0) = f"
    using result_rows_hd [of env "\<lambda>c. cl_id c = f" "Client d"]
    by (auto simp: info filter_empty_conv)
  with f \<open>d1 = d\<close> show ?thesis by blast
qed

lemma chat_written_statements:
  assumes "stmt_create_chat d = (Inr i, d2)" and "as_u64 i = Inr c"
    and "stmt_get_info env b d2 = (Inr info, d3)"
    and "(if info = [] then pg_missing_name env else Inr (cl_name (info ! 0))) = Inr nm"
    and "stmt_create_chat_connection env a c (str ''Chat with '' @ nm) d3 = (Inr (), d4)"
    and "stmt_create_chat_connection env b c (str ''Chat with '' @ user_name) d4 = (Inr (), d5)"
  shows "chat_written env a user_name b d d5"
proof -
  note 2 = assms(1) [unfolded stmt_create_chat_Inr]
  note 3 = stmt_get_info_Inr [OF assms(3)]
  have ic: "int4 c = Some j \<Longrightarrow> j = i" for j using as_u64_int4 [OF assms(2)] .
  note 4 = assms(5,6) [unfolded stmt_connection_Inr]
  from 3 4 obtain u f where uf: "int4 a = Some u" "int4 b = Some f" by blast
  from uf 2 3 4 have f: "f \<in> cl_id ` set (Client d)" by auto
  with uf 2 3 have "info \<noteq> []" by (auto split: if_splits)
  with uf 2 3 assms(4) have row: "info ! 0 \<in> set (Client d)" "cl_id (info ! 0) = f" "nm = cl_name (info ! 0)"
    by auto
  show ?thesis
    unfolding chat_written_def
    using uf 2 3 4 row ic by (intro exI [of _ u] exI [of _ f] exI [of _ "info ! 0"]) auto
qed

text \<open>The writes alone, on whatever tables they find.\<close>

lemma tx_create_chat_rest:
  assumes "\<And>d'. req = [] \<Longrightarrow> chat_written env user_id user_name friend_id d d' \<Longrightarrow> Q d'"
  shows "tx_post env d Q (create_chat_rest env user_id user_name friend_id req) \<lparr>calls = n, view = d, committed = d\<rparr>"
  unfolding create_chat_rest_def
proof (intro tx_rules; (auto; fail)?)
qed (rule assms, simp, rule chat_written_statements, auto)

lemma create_chat_outcome:
  assumes run: "create_chat env user_id user_name friend_id d = (b, d')"
  shows "chat_created env user_id user_name friend_id d d' \<and> (b \<or> pg_in_doubt env)
       \<or> \<not> b \<and> same_tables d d' \<and> seqs_forward d d'"
proof (rule tx_run [OF _ run [unfolded create_chat_def]], rule tx_exec)
  let ?w = "\<lparr>calls = 1, view = d, committed = d\<rparr>"
  fix req v
  assume st: "stmt_check_users_have_common_chat env user_id friend_id (view ?w) = (Inr req, v)"
  have "v = d" using query_stmts_read(3) [of env user_id friend_id d] st by simp
  moreover have "\<not> common_chat user_id friend_id d" if "req = []"
    using st stmt_common_chat_empty [of env user_id friend_id d v] that by (auto simp: common_chat_def)
  ultimately show "tx_post env d (chat_created env user_id user_name friend_id d)
      (create_chat_rest env user_id user_name friend_id req) (?w\<lparr>calls := Suc (calls ?w), view := v\<rparr>)"
    by (auto simp: chat_created_def intro: tx_create_chat_rest)
qed simp_all

section \<open>The invariant of the tables\<close>

definition clients_ok :: "db \<Rightarrow> bool" where
  "clients_ok d \<longleftrightarrow> distinct (map cl_id (Client d)) \<and> distinct (map cl_email (Client d)) \<and>
     0 \<le> Client_seq d \<and> Client_seq d \<le> max_int4 \<and>
     (\<forall>c \<in> set (Client d). 1 \<le> cl_id c \<and> cl_id c \<le> Client_seq d)"

text \<open>Every chat has two links, from and to existing rows.\<close>

definition chats_ok :: "db \<Rightarrow> bool" where
  "chats_ok d \<longleftrightarrow> distinct (Chat_ids d) \<and> 0 \<le> Chat_seq d \<and> Chat_seq d \<le> max_int4 \<and>
     (\<forall>c \<in> set (Chat_ids d). 1 \<le> c \<and> c \<le> Chat_seq d \<and>
        length (filter (\<lambda>l. cc_chat_id l = c) (ClientToChat d)) = 2) \<and>
     (\<forall>l \<in> set (ClientToChat d). cc_client_id l \<in> cl_id ` set (Client d) \<and>
        cc_chat_id l \<in> set (Chat_ids d))"

text \<open>Every message was sent by a member of its chat.\<close>

definition messages_ok :: "db \<Rightarrow> bool" where
  "messages_ok d \<longleftrightarrow> distinct (map ms_id (Message d)) \<and> 0 \<le> Message_seq d \<and>
     Message_seq d \<le> max_int8 \<and>
     (\<forall>m \<in> set (Message d). 1 \<le> ms_id m \<and> ms_id m \<le> Message_seq d \<and>
        chat_member d (ms_sender_id m) (ms_chat_id m))"

text \<open>The contact links are a symmetric and irreflexive relation on the clients.\<close>

definition linked :: "db \<Rightarrow> int \<Rightarrow> int \<Rightarrow> bool" where
  "linked d i j \<longleftrightarrow> \<lparr>ct_client_id = i, ct_friend_id = j\<rparr> \<in> set (ClientToContact d)"

definition contacts_ok :: "db \<Rightarrow> bool" where
  "contacts_ok d \<longleftrightarrow> distinct (ClientToContact d) \<and>
     (\<forall>i j. linked d i j \<longrightarrow> linked d j i \<and> i \<noteq> j \<and> i \<in> cl_id ` set (Client d))"

text \<open>Two different clients have at most one chat in common.\<close>

definition one_chat :: "db \<Rightarrow> bool" where
  "one_chat d \<longleftrightarrow> (\<forall>i j c c'. i \<noteq> j \<longrightarrow> chat_member d i c \<longrightarrow> chat_member d j c \<longrightarrow>
     chat_member d i c' \<longrightarrow> chat_member d j c' \<longrightarrow> c = c')"

text \<open>
  What every row can be relied on for, and the invariant of a server that creates its chats one
  after the other. Only the creation of a chat depends on the difference.
\<close>

definition tables_ok :: "db \<Rightarrow> bool" where
  "tables_ok d \<longleftrightarrow> clients_ok d \<and> chats_ok d \<and> messages_ok d \<and> contacts_ok d"

definition db_inv :: "db \<Rightarrow> bool" where
  "db_inv d \<longleftrightarrow> tables_ok d \<and> one_chat d"

lemma db_inv_tables: "db_inv d \<Longrightarrow> tables_ok d"
  by (simp add: db_inv_def)

lemma tables_ok_same_tables:
  assumes inv: "tables_ok d" and same: "same_tables d d'" and fwd: "seqs_forward d d'"
  shows "tables_ok d'"
proof -
  note tabs = same [unfolded same_tables_def]
  have mem: "chat_member d' = chat_member d" and ln: "linked d' = linked d"
    using tabs by (auto simp: chat_member_def linked_def fun_eq_iff)
  note fwd = fwd [unfolded seqs_forward_def seq_step_def]
  have "clients_ok d'" using inv fwd by (auto simp: tables_ok_def clients_ok_def tabs)
  moreover have "chats_ok d'"
    using inv fwd unfolding tables_ok_def chats_ok_def mem by (auto simp: tabs)
  moreover have "messages_ok d'"
    using inv fwd unfolding tables_ok_def messages_ok_def mem by (auto simp: tabs)
  moreover have "contacts_ok d'"
    using inv unfolding tables_ok_def contacts_ok_def ln by (auto simp: tabs)
  ultimately show ?thesis by (simp add: tables_ok_def)
qed

lemma tables_ok_registered:
  assumes inv: "tables_ok d" and reg: "registered env name email hash d d'"
  shows "tables_ok d'"
proof -
  obtain n e where d': "d' = d\<lparr>Client := Client d @ [\<lparr>cl_id = Client_seq d + 1, cl_name = n,
      cl_email = e, cl_password_hash = hash\<rparr>], Client_seq := Client_seq d + 1\<rparr>"
    and new: "Client_seq d < max_int4" "Client_seq d + 1 \<notin> cl_id ` set (Client d)"
      "e \<notin> cl_email ` set (Client d)"
    using reg by (auto simp: registered_def)
  have mem: "chat_member d' = chat_member d" and ln: "linked d' = linked d"
    by (auto simp: d' chat_member_def linked_def fun_eq_iff)
  have "clients_ok d'"
    using inv new by (auto simp: d' tables_ok_def clients_ok_def)
  moreover have "chats_ok d'"
    using inv unfolding tables_ok_def chats_ok_def mem by (auto simp: d')
  moreover have "messages_ok d'"
    using inv unfolding tables_ok_def messages_ok_def mem by (simp add: d')
  moreover have "contacts_ok d'"
    using inv unfolding tables_ok_def contacts_ok_def ln by (auto simp: d')
  ultimately show ?thesis by (simp add: tables_ok_def)
qed

lemma tables_ok_message_sent:
  assumes inv: "tables_ok d" and sent: "message_sent env sender_id mesg d d'"
  shows "tables_ok d'"
proof -
  obtain s c t where d': "d' = d\<lparr>Message := Message d @ [\<lparr>ms_id = Message_seq d + 1, ms_sender_id = s,
      ms_chat_id = c, ms_mesg = t\<rparr>], Message_seq := Message_seq d + 1\<rparr>"
    and new: "Message_seq d < max_int8" "Message_seq d + 1 \<notin> ms_id ` set (Message d)" "chat_member d s c"
    using sent by (auto simp: message_sent_def)
  have mem: "chat_member d' = chat_member d" and ln: "linked d' = linked d"
    by (auto simp: d' chat_member_def linked_def fun_eq_iff)
  have "messages_ok d'"
    using inv new unfolding tables_ok_def messages_ok_def mem by (auto simp: d')
  moreover have "clients_ok d'" "chats_ok d'" "contacts_ok d'"
    using inv unfolding tables_ok_def clients_ok_def chats_ok_def contacts_ok_def mem ln
    by (simp_all add: d')
  ultimately show ?thesis by (simp add: tables_ok_def)
qed

lemma tables_ok_contact_added:
  assumes inv: "tables_ok d" and add: "contact_added env user_id email d d'"
  shows "tables_ok d'"
proof -
  obtain u f where d': "d' = d\<lparr>ClientToContact := ClientToContact d @
      [\<lparr>ct_client_id = u, ct_friend_id = f\<rparr>, \<lparr>ct_client_id = f, ct_friend_id = u\<rparr>]\<rparr>"
    and new: "u \<noteq> f" "u \<in> cl_id ` set (Client d)" "f \<in> cl_id ` set (Client d)"
      "\<not> linked d u f" "\<not> linked d f u"
    using add by (auto simp: contact_added_def linked_def)
  have mem: "chat_member d' = chat_member d"
    by (auto simp: d' chat_member_def fun_eq_iff)
  have ln: "linked d' i j \<longleftrightarrow> linked d i j \<or> i = u \<and> j = f \<or> i = f \<and> j = u" for i j
    by (auto simp: d' linked_def)
  have "contacts_ok d'"
    using inv new unfolding tables_ok_def contacts_ok_def ln by (auto simp: d' linked_def)
  moreover have "clients_ok d'" "chats_ok d'" "messages_ok d'"
    using inv unfolding tables_ok_def clients_ok_def chats_ok_def messages_ok_def mem
    by (simp_all add: d')
  ultimately show ?thesis by (simp add: tables_ok_def)
qed

lemma tables_ok_chat_written:
  assumes inv: "tables_ok d" and add: "chat_written env user_id user_name friend_id d d'"
  shows "tables_ok d'"
proof -
  define c where "c = Chat_seq d + 1"
  obtain u f t1 t2 where d': "d' = d\<lparr>Chat_ids := Chat_ids d @ [c], Chat_seq := c,
      ClientToChat := ClientToChat d @ [\<lparr>cc_client_id = u, cc_chat_id = c, cc_title = t1\<rparr>,
        \<lparr>cc_client_id = f, cc_chat_id = c, cc_title = t2\<rparr>]\<rparr>"
    and new: "c \<notin> set (Chat_ids d)" "c \<le> max_int4" "u \<in> cl_id ` set (Client d)"
      "f \<in> cl_id ` set (Client d)"
    using add by (auto simp: chat_written_def c_def)
  have mem: "chat_member d' i c' \<longleftrightarrow> chat_member d i c' \<or> c' = c \<and> (i = u \<or> i = f)" for i c'
    by (auto simp: d' chat_member_def)
  have no_links: "filter (\<lambda>l. cc_chat_id l = c) (ClientToChat d) = []"
    using inv new(1) by (auto simp: filter_empty_conv tables_ok_def chats_ok_def)
  have "\<forall>a \<in> set (Chat_ids d'). 1 \<le> a \<and> a \<le> Chat_seq d' \<and>
      length (filter (\<lambda>l. cc_chat_id l = a) (ClientToChat d')) = 2"
    using inv no_links new(1) by (auto simp: d' c_def tables_ok_def chats_ok_def)
  moreover have "distinct (Chat_ids d') \<and> 0 \<le> Chat_seq d' \<and> Chat_seq d' \<le> max_int4"
    using inv new(1,2) by (simp add: d' c_def tables_ok_def chats_ok_def)
  moreover have "\<forall>l \<in> set (ClientToChat d'). cc_client_id l \<in> cl_id ` set (Client d') \<and>
      cc_chat_id l \<in> set (Chat_ids d')"
    using inv new(3,4) by (simp add: d' tables_ok_def chats_ok_def)
  ultimately have "chats_ok d'" unfolding chats_ok_def by blast
  moreover have "messages_ok d'"
    using inv unfolding tables_ok_def messages_ok_def mem by (simp add: d')
  moreover have "clients_ok d'" "contacts_ok d'"
    using inv unfolding tables_ok_def clients_ok_def contacts_ok_def linked_def by (simp_all add: d')
  ultimately show ?thesis by (simp add: tables_ok_def)
qed

lemmas tables_ok_kept = tables_ok_same_tables tables_ok_registered tables_ok_message_sent
  tables_ok_contact_added tables_ok_chat_written

text \<open>Only a chat that is written can give two clients a second one.\<close>

lemma one_chat_links: "ClientToChat d' = ClientToChat d \<Longrightarrow> one_chat d' = one_chat d"
  by (simp add: one_chat_def chat_member_def)

lemma one_chat_created:
  assumes inv: "tables_ok d" and one: "one_chat d" and add: "chat_created env user_id user_name friend_id d d'"
  shows "one_chat d'"
proof -
  define c where "c = Chat_seq d + 1"
  obtain u f t1 t2 where links: "ClientToChat d' = ClientToChat d @
      [\<lparr>cc_client_id = u, cc_chat_id = c, cc_title = t1\<rparr>, \<lparr>cc_client_id = f, cc_chat_id = c, cc_title = t2\<rparr>]"
    and new: "c \<notin> set (Chat_ids d)" "\<not> (\<exists>c. chat_member d u c \<and> chat_member d f c)"
    using add by (auto simp: chat_created_defs c_def)
  have old: "chat_member d i c' \<Longrightarrow> c' \<noteq> c" for i c'
    using inv new(1) by (auto simp: tables_ok_def chats_ok_def chat_member_def)
  have mem: "chat_member d' i c' \<longleftrightarrow> chat_member d i c' \<or> c' = c \<and> (i = u \<or> i = f)" for i c'
    by (auto simp: links chat_member_def)
  show ?thesis using one new(2) old unfolding one_chat_def mem by metis
qed

lemma db_inv_kept:
  "db_inv d \<Longrightarrow> same_tables d d' \<Longrightarrow> seqs_forward d d' \<Longrightarrow> db_inv d'"
  "db_inv d \<Longrightarrow> registered env name email hash d d' \<Longrightarrow> db_inv d'"
  "db_inv d \<Longrightarrow> message_sent env u m d d' \<Longrightarrow> db_inv d'"
  "db_inv d \<Longrightarrow> contact_added env u email d d' \<Longrightarrow> db_inv d'"
  "db_inv d \<Longrightarrow> chat_created env u name f d d' \<Longrightarrow> db_inv d'"
proof -
  assume "db_inv d"
  then have inv: "tables_ok d" "one_chat d" by (simp_all add: db_inv_def)
  show "db_inv d'" if "same_tables d d'" "seqs_forward d d'"
    using tables_ok_kept(1) [OF inv(1) that] inv(2) one_chat_links [of d' d] that(1)
    by (simp add: db_inv_def same_tables_def)
  show "db_inv d'" if "registered env name email hash d d'"
    using tables_ok_kept(2) [OF inv(1) that] inv(2) one_chat_links [of d' d] that
    by (auto simp: db_inv_def registered_def)
  show "db_inv d'" if "message_sent env u m d d'"
    using tables_ok_kept(3) [OF inv(1) that] inv(2) one_chat_links [of d' d] that
    by (auto simp: db_inv_def message_sent_def)
  show "db_inv d'" if "contact_added env u email d d'"
    using tables_ok_kept(4) [OF inv(1) that] inv(2) one_chat_links [of d' d] that
    by (auto simp: db_inv_def contact_added_def)
  show "db_inv d'" if "chat_created env u name f d d'"
    using tables_ok_kept(5) [OF inv(1)] one_chat_created [OF inv that] that
    unfolding db_inv_def chat_created_def by blast
qed

section \<open>Reading operations\<close>

lemma query_commit_read:
  assumes "\<And>d. snd (st d) = d"
  shows "snd (query_commit env st d) = d"
proof -
  obtain r where "st d = (r, d)" using assms by (metis prod.collapse)
  then show ?thesis
    by (cases r) (simp_all add: query_commit_def txn_defs split: option.splits)
qed

end
