(* ===== verification/Storage_Order.thy ===== *)
theory Storage_Order
  imports Storage_Inv "HOL-Library.Sublist"
begin

text \<open>
  The tables are append-only. No statement of the program deletes or updates a row, and what the
  engine rolls back was never committed: the states of the tables are ordered by \<open>\<le>\<close>, the
  instance of the class \<open>order\<close> below, and every operation of a connection moves upwards.
\<close>

section \<open>The order\<close>

text \<open>The rows that were there are still there, in their places, and no sequence went back.\<close>

instantiation db_ext :: (type) order
begin

definition less_eq_db_ext :: "'a db_scheme \<Rightarrow> 'a db_scheme \<Rightarrow> bool" where
  "less_eq_db_ext d d' \<longleftrightarrow>
     prefix (Client d) (Client d') \<and> prefix (Chat_ids d) (Chat_ids d') \<and>
     prefix (ClientToChat d) (ClientToChat d') \<and> prefix (Message d) (Message d') \<and>
     prefix (ClientToContact d) (ClientToContact d') \<and>
     Client_seq d \<le> Client_seq d' \<and> Chat_seq d \<le> Chat_seq d' \<and> Message_seq d \<le> Message_seq d' \<and>
     db.more d = db.more d'"

definition less_db_ext :: "'a db_scheme \<Rightarrow> 'a db_scheme \<Rightarrow> bool" where
  "less_db_ext d d' \<longleftrightarrow> d \<le> d' \<and> \<not> d' \<le> d"

instance
proof
  fix a b c :: "'a db_scheme"
  show "a < b \<longleftrightarrow> a \<le> b \<and> \<not> b \<le> a" by (rule less_db_ext_def)
  show "a \<le> a" by (simp add: less_eq_db_ext_def)
  show "a \<le> c" if "a \<le> b" "b \<le> c"
    using that prefix_order.order_trans unfolding less_eq_db_ext_def by fastforce
  show "a = b" if "a \<le> b" "b \<le> a"
    using that by (auto simp: less_eq_db_ext_def intro!: db.equality prefix_order.antisym)
qed

end

section \<open>Operations move upwards\<close>

lemma forward_upwards:
  fixes d d' :: db
  shows "same_tables d d' \<Longrightarrow> seqs_forward d d' \<Longrightarrow> d \<le> d'"
  by (simp add: less_eq_db_ext_def forward_defs)

lemma outcomes_upwards:
  "registered env name email hash d d' \<Longrightarrow> d \<le> d'" "message_sent env u m d d' \<Longrightarrow> d \<le> d'"
  "contact_added env u mail d d' \<Longrightarrow> d \<le> d'" "chat_written env u name f d d' \<Longrightarrow> d \<le> d'"
  by (auto simp: less_eq_db_ext_def registered_def message_sent_def contact_added_def chat_written_def)

lemma operations_upwards:
  "d \<le> snd (registration sha env name mail password d)" "d \<le> snd (send_message env u m d)"
  "d \<le> snd (add_contact env u mail d)" "d \<le> snd (create_chat env u name f d)"
  using registration_outcome [of sha env name mail password d, OF prod.collapse [symmetric]]
    send_message_outcome [of env u m d, OF prod.collapse [symmetric]]
    add_contact_outcome [of env u mail d, OF prod.collapse [symmetric]]
    create_chat_outcome [of env u name f d, OF prod.collapse [symmetric]]
  unfolding chat_created_def by (blast intro: forward_upwards outcomes_upwards)+

lemma upwards_clients: "d \<le> d' \<Longrightarrow> set (Client d) \<subseteq> set (Client d')"
  and upwards_links: "d \<le> d' \<Longrightarrow> set (ClientToChat d) \<subseteq> set (ClientToChat d')" for d d' :: db
  by (simp_all add: less_eq_db_ext_def set_mono_prefix)

end
