(* ===== verification/Storage_Props.thy ===== *)
theory Storage_Props
  imports Storage_Order
begin

text \<open>
  The contract of the storage connection: what every operation keeps, whatever the engine
  does, and what it returns and changes when the engine does not fail. The locale
  \<open>abstract_storage\<close> is the contract that the jobs of the server rely on; the PostgreSQL
  connection is interpreted as an instance of it.
\<close>

section \<open>The contract of AbstractStorageConnection\<close>

text \<open>
  \<open>same d d'\<close>: the operation left no visible change. A connection keeps its invariant, its
  reading operations change nothing, and a refused or failed writing operation changes
  nothing unless \<open>doubt\<close> (the outcome of a commit is unknown). \<open>known d i n\<close>: the client with
  identifier \<open>i\<close> has the name \<open>n\<close>; a login returns a known client, and clients stay known.
\<close>

locale abstract_storage =
  fixes S :: "'d storage" and inv :: "'d \<Rightarrow> bool" and same :: "'d \<Rightarrow> 'd \<Rightarrow> bool"
    and known :: "'d \<Rightarrow> u64 \<Rightarrow> bytes \<Rightarrow> bool" and doubt :: bool
  assumes inv_registration: "inv d \<Longrightarrow> inv (snd (sc_registration S n e p d))"
    and inv_send_message: "inv d \<Longrightarrow> inv (snd (sc_send_message S u m d))"
    and inv_add_contact: "inv d \<Longrightarrow> inv (snd (sc_add_contact S u e d))"
    and inv_create_chat: "inv d \<Longrightarrow> inv (snd (sc_create_chat S u n f d))"
    and login_reads: "snd (sc_login S e p d) = d"
    and get_chats_reads: "snd (sc_get_chats S u d) = d"
    and get_contacts_reads: "snd (sc_get_contacts S u d) = d"
    and get_messages_reads: "snd (sc_get_messages S u d) = d"
    and same_refl: "same d d"
    and refused_registration: "inv d \<Longrightarrow> \<not> fst (sc_registration S n e p d) \<Longrightarrow> \<not> doubt \<Longrightarrow>
      same d (snd (sc_registration S n e p d))"
    and refused_send_message: "inv d \<Longrightarrow> \<not> fst (sc_send_message S u m d) \<Longrightarrow> \<not> doubt \<Longrightarrow>
      same d (snd (sc_send_message S u m d))"
    and refused_add_contact: "inv d \<Longrightarrow> \<not> fst (sc_add_contact S u e d) \<Longrightarrow> \<not> doubt \<Longrightarrow>
      same d (snd (sc_add_contact S u e d))"
    and refused_create_chat: "inv d \<Longrightarrow> \<not> fst (sc_create_chat S u n f d) \<Longrightarrow> \<not> doubt \<Longrightarrow>
      same d (snd (sc_create_chat S u n f d))"
    and login_known: "inv d \<Longrightarrow> fst (sc_login S e p d) = Inr (i, n) \<Longrightarrow> known d i n"
    and known_registration: "inv d \<Longrightarrow> known d i n' \<Longrightarrow> known (snd (sc_registration S n e p d)) i n'"
    and known_send_message: "inv d \<Longrightarrow> known d i n' \<Longrightarrow> known (snd (sc_send_message S u m d)) i n'"
    and known_add_contact: "inv d \<Longrightarrow> known d i n' \<Longrightarrow> known (snd (sc_add_contact S u e d)) i n'"
    and known_create_chat: "inv d \<Longrightarrow> known d i n' \<Longrightarrow> known (snd (sc_create_chat S u n f d)) i n'"

text \<open>
  A connection whose operations also never take back what is stored, for any order of the states
  of the storage.
\<close>

locale growing_storage = abstract_storage S inv same known doubt
  for S :: "'d :: order storage" and inv same known doubt +
  assumes up_registration: "inv d \<Longrightarrow> d \<le> snd (sc_registration S n e p d)"
    and up_send_message: "inv d \<Longrightarrow> d \<le> snd (sc_send_message S u m d)"
    and up_add_contact: "inv d \<Longrightarrow> d \<le> snd (sc_add_contact S u e d)"
    and up_create_chat: "inv d \<Longrightarrow> d \<le> snd (sc_create_chat S u n f d)"

section \<open>Reading operations change nothing\<close>

lemma run_work_read:
  assumes "\<And>w. committed (snd (body w)) = committed w" and "\<And>w. view (snd (body w)) = view w"
  shows "snd (run_work env body d) = d"
  using assms [of "\<lparr>calls = 1, view = d, committed = d\<rparr>"]
  by (auto simp: run_work_def work_end_def split: option.splits prod.splits)

lemma login_snd: "snd (login sha env email password d) = d"
proof -
  let ?body = "txn_bind (txn_exec env (stmt_login env email)) (\<lambda>r.
         if r = [] then txn_throw Invalid_argument
         else if length r = 1 \<and> cl_password_hash (r ! 0) \<noteq> hash_password sha password
         then txn_throw Invalid_argument
         else txn_bind (txn_lift (as_u64 (cl_id (r ! 0)))) (\<lambda>i.
              txn_return (i, cl_name (r ! 0))))"
  have "snd (run_work env ?body d) = d"
  proof (rule run_work_read)
    fix w
    have "view (snd (?body w)) = view w \<and> committed (snd (?body w)) = committed w"
      by (simp add: txn_defs stmt_login_def split: option.splits prod.splits sum.splits)
    then show "committed (snd (?body w)) = committed w" "view (snd (?body w)) = view w" by simp_all
  qed
  then show ?thesis
    by (auto simp: login_def split: prod.splits sum.splits exn.splits)
qed

lemma get_chats_snd: "snd (get_chats env user_id d) = d"
  using query_commit_read [of "stmt_get_chats env user_id" env d]
  by (auto simp: get_chats_def stmt_get_chats_def split: prod.splits sum.splits option.splits)

lemma get_contacts_snd: "snd (get_contacts env user_id d) = d"
  using query_commit_read [of "stmt_get_contacts env user_id" env d]
  by (auto simp: get_contacts_def stmt_get_contacts_def split: prod.splits sum.splits option.splits)

lemma get_messages_snd: "snd (get_messages env chat_id d) = d"
  using query_commit_read [of "stmt_get_messages env chat_id" env d]
  by (auto simp: get_messages_def stmt_get_messages_def split: prod.splits sum.splits option.splits)

section \<open>The PostgreSQL connection satisfies the contract\<close>

definition visible_same :: "db \<Rightarrow> db \<Rightarrow> bool" where
  "visible_same d d' \<longleftrightarrow> same_tables d d' \<and> seqs_forward d d'"

text \<open>Both invariants survive every operation.\<close>

lemma operations_keep:
  assumes "I \<in> {tables_ok, db_inv}" and "I d"
  shows "I (snd (registration sha env n e p d))" "I (snd (send_message env u m d))"
    "I (snd (add_contact env u e d))" "I (snd (create_chat env u n f d))"
proof -
  have kept: "same_tables d d' \<Longrightarrow> seqs_forward d d' \<Longrightarrow> I d'" "registered env n e h d d' \<Longrightarrow> I d'"
    "message_sent env u m d d' \<Longrightarrow> I d'" "contact_added env u e d d' \<Longrightarrow> I d'"
    "chat_created env u n f d d' \<Longrightarrow> I d'" for d' h
    using assms by (auto simp: chat_created_def dest: tables_ok_kept db_inv_kept(1-4) db_inv_kept(5) [unfolded chat_created_def])
  show "I (snd (registration sha env n e p d))"
    using registration_outcome [of sha env n e p d, OF prod.collapse [symmetric]] kept(1,2) by auto
  show "I (snd (send_message env u m d))"
    using send_message_outcome [of env u m d, OF prod.collapse [symmetric]] kept(1,3) by auto
  show "I (snd (add_contact env u e d))"
    using add_contact_outcome [of env u e d, OF prod.collapse [symmetric]] kept(1,4) by auto
  show "I (snd (create_chat env u n f d))"
    using create_chat_outcome [of env u n f d, OF prod.collapse [symmetric]] kept(1,5) by auto
qed

lemmas operations_tables_ok = operations_keep [of tables_ok, simplified]

lemmas operations_db_inv = operations_keep [of db_inv, simplified]

definition client_known :: "db \<Rightarrow> u64 \<Rightarrow> bytes \<Rightarrow> bool" where
  "client_known d i n \<longleftrightarrow> (\<exists>row \<in> set (Client d). i = word_of_int (cl_id row) \<and> n = cl_name row)"

text \<open>No operation removes or renames a client.\<close>

lemmas clients_stay = operations_upwards [THEN upwards_clients]

lemma client_known_mono: "client_known d i n \<Longrightarrow> set (Client d) \<subseteq> set (Client d') \<Longrightarrow> client_known d' i n"
  by (auto simp: client_known_def)

lemma client_id_range:
  assumes "tables_ok d" and "c \<in> set (Client d)"
  shows "1 \<le> cl_id c" "cl_id c \<le> max_int4"
  using assms by (force simp: tables_ok_def clients_ok_def)+

text \<open>Emails are unique, so that the query of \<open>login\<close> has at most one row.\<close>

lemma login_rows:
  assumes "tables_ok d" and "row \<in> set (Client d)"
  shows "filter (\<lambda>c. cl_email c = cl_email row) (Client d) = [row]"
  using assms by (intro filter_distinct_map_singleton) (simp_all add: tables_ok_def clients_ok_def)

text \<open>A login that returns an identity was given the password of that client.\<close>

lemma login_sound:
  assumes inv: "tables_ok d" and run: "fst (login sha env email password d) = Inr (i, name)"
  shows "\<exists>row \<in> set (Client d). pg_quote env email = Some (cl_email row) \<and>
    cl_password_hash row = hash_password sha password \<and> i = word_of_int (cl_id row) \<and> name = cl_name row"
proof -
  have faults: "pg_fault env 0 = None" "pg_fault env 1 = None"
    using run by (auto simp: login_def txn_defs split: option.splits exn.splits)
  obtain e where e: "pg_quote env email = Some e"
    using run by (cases "pg_quote env email")
      (auto simp: login_def txn_defs stmt_login_def split: option.splits exn.splits)
  show ?thesis
  proof (cases "e \<in> cl_email ` set (Client d)")
    case False
    then have "filter (\<lambda>c. cl_email c = e) (Client d) = []" by (auto simp: filter_empty_conv)
    with faults e run show ?thesis by (simp add: login_def txn_defs stmt_login_def)
  next
    case True
    then obtain row where row: "row \<in> set (Client d)" "e = cl_email row" by blast
    with faults e run client_id_range [OF inv row(1)] show ?thesis
      by (auto simp: login_def txn_defs stmt_login_def login_rows [OF inv] split: if_splits)
  qed
qed

lemma login_client_known:
  "tables_ok d \<Longrightarrow> fst (login sha env e p d) = Inr (i, n) \<Longrightarrow> client_known d i n"
  using login_sound unfolding client_known_def by blast

text \<open>A refused operation leaves nothing behind, unless its commit is in doubt.\<close>

lemma refused_same:
  assumes "\<not> pg_in_doubt env"
  shows "\<not> fst (registration sha env n e p d) \<Longrightarrow> visible_same d (snd (registration sha env n e p d))"
    "\<not> fst (send_message env u m d) \<Longrightarrow> visible_same d (snd (send_message env u m d))"
    "\<not> fst (add_contact env u e d) \<Longrightarrow> visible_same d (snd (add_contact env u e d))"
    "\<not> fst (create_chat env u n f d) \<Longrightarrow> visible_same d (snd (create_chat env u n f d))"
  using assms registration_outcome [of sha env n e p d, OF prod.collapse [symmetric]]
    send_message_outcome [of env u m d, OF prod.collapse [symmetric]]
    add_contact_outcome [of env u e d, OF prod.collapse [symmetric]]
    create_chat_outcome [of env u n f d, OF prod.collapse [symmetric]]
  by (auto simp: visible_same_def)

lemma tables_of_either: "I \<in> {tables_ok, db_inv} \<Longrightarrow> I d \<Longrightarrow> tables_ok d"
  by (auto simp: db_inv_def)

lemma postgres_growing:
  assumes "I \<in> {tables_ok, db_inv}"
  shows "growing_storage (postgres_storage sha env) I visible_same client_known (pg_in_doubt env)"
  by unfold_locales (simp_all add: postgres_storage_def refused_same login_snd get_chats_snd get_contacts_snd
      get_messages_snd operations_keep [OF assms] client_known_mono [OF _ clients_stay(1)]
      client_known_mono [OF _ clients_stay(2)] client_known_mono [OF _ clients_stay(3)]
      client_known_mono [OF _ clients_stay(4)] login_client_known [OF tables_of_either [OF assms]]
      operations_upwards, simp add: visible_same_def)

text \<open>The invariant that is kept, by whether chats are created in a race.\<close>

definition tables_inv :: "bool \<Rightarrow> db \<Rightarrow> bool" where
  "tables_inv races = (if races then tables_ok else db_inv)"

lemma tables_inv_either: "tables_inv races \<in> {tables_ok, db_inv}"
  by (simp add: tables_inv_def)

lemma tables_inv_ok: "tables_inv races d \<Longrightarrow> tables_ok d"
  using tables_of_either [OF tables_inv_either] .

interpretation pg: growing_storage "postgres_storage sha env" "tables_inv races" visible_same client_known
    "pg_in_doubt env"
  for sha env races
  by (rule postgres_growing [OF tables_inv_either])

end
