(* ===== verification/Server.thy ===== *)
theory Server
  imports Server_Session Storage_Props
begin

text \<open>
  The server process (\<open>server/src/server/server.cpp\<close>): the acceptor, the sessions it has
  started and the storage they share. \<open>server_step\<close> interleaves the completions of all
  sessions in any order, with any behaviour of the storage; the invariants below hold in
  every reachable state.
\<close>

section \<open>The server\<close>

record 'd server =
  sv_sessions :: "session list"
  sv_acceptor_open :: bool
  sv_accepting :: "session option"
  sv_signal_wait :: bool
  sv_db :: 'd
  sv_dead :: "fatal option"

datatype accept_result = Accepted | Operation_canceled | Accept_failed

text \<open>The constructor opens the acceptor on the endpoint and makes the pool of workers.\<close>

definition ElegramServer :: "'d \<Rightarrow> 'd server" where
  "ElegramServer d = \<lparr>sv_sessions = [], sv_acceptor_open = True, sv_accepting = None,
     sv_signal_wait = False, sv_db = d, sv_dead = None\<rparr>"

declare ElegramServer_def [simp]

text \<open>
  \<open>ElegramServer::run\<close> up to the event loop: the first session waits for a connection, and one
  signal is waited for.
\<close>

definition server_run :: "'d \<Rightarrow> 'd server" where
  "server_run d = (ElegramServer d)\<lparr>sv_signal_wait := True, sv_accepting := Some ClientSession\<rparr>"

definition handle_accept :: "server_env \<Rightarrow> session \<Rightarrow> accept_result \<Rightarrow> 'd server \<Rightarrow> 'd server" where
  "handle_accept env connected_client err sv =
     (case err of
        Operation_canceled \<Rightarrow> sv
      | Accept_failed \<Rightarrow> sv\<lparr>sv_dead := Some Accept_error\<rparr>
      | Accepted \<Rightarrow>
          (case start env connected_client of
             Inl e \<Rightarrow> sv\<lparr>sv_dead := Some e\<rparr>
           | Inr s \<Rightarrow> sv\<lparr>sv_sessions := sv_sessions sv @ [s], sv_accepting := Some ClientSession\<rparr>))"

definition signal_handler :: "'d server \<Rightarrow> 'd server" where
  "signal_handler sv = sv\<lparr>sv_acceptor_open := False\<rparr>"

text \<open>An operation of session \<open>i\<close> completes; an exception of a handler ends the process.\<close>

definition complete_session ::
  "server_env \<Rightarrow> 'd storage \<Rightarrow> nat \<Rightarrow> completion \<Rightarrow> 'd server \<Rightarrow> 'd server" where
  "complete_session env st i c sv =
     (case complete env st c (sv_sessions sv ! i) (sv_db sv) of
        (Inl e, d) \<Rightarrow> sv\<lparr>sv_db := d, sv_dead := Some e\<rparr>
      | (Inr s, d) \<Rightarrow> sv\<lparr>sv_sessions := (sv_sessions sv)[i := s], sv_db := d\<rparr>)"

text \<open>
  The steps of the process. \<open>S\<close> holds the storage connections with all their behaviours:
  each job may see another one. A pending accept is only cancelled when its acceptor is
  closed, and the wait for a signal ends with the first one.
\<close>

inductive server_step :: "server_env \<Rightarrow> 'd storage set \<Rightarrow> 'd server \<Rightarrow> 'd server \<Rightarrow> bool"
  for env S where
  accept: "\<lbrakk>sv_dead sv = None; sv_accepting sv = Some c; r = Operation_canceled \<Longrightarrow> \<not> sv_acceptor_open sv\<rbrakk> \<Longrightarrow>
    server_step env S sv (handle_accept env c r (sv\<lparr>sv_accepting := None\<rparr>))"
| signal: "\<lbrakk>sv_dead sv = None; sv_signal_wait sv\<rbrakk> \<Longrightarrow>
    server_step env S sv (signal_handler (sv\<lparr>sv_signal_wait := False\<rparr>))"
| session: "\<lbrakk>sv_dead sv = None; i < length (sv_sessions sv); enabled c (sv_sessions sv ! i); st \<in> S\<rbrakk> \<Longrightarrow>
    server_step env S sv (complete_session env st i c sv)"

inductive_cases server_stepE: "server_step env S sv sv'"

definition reachable :: "server_env \<Rightarrow> 'd storage set \<Rightarrow> 'd \<Rightarrow> 'd server \<Rightarrow> bool" where
  "reachable env S d0 sv \<longleftrightarrow> (server_step env S)\<^sup>*\<^sup>* (server_run d0) sv"

lemma reachable_induct [consumes 1, case_names run step]:
  assumes "reachable env S d0 sv" and "Q (server_run d0)"
    and "\<And>sv sv'. reachable env S d0 sv \<Longrightarrow> Q sv \<Longrightarrow> server_step env S sv sv' \<Longrightarrow> Q sv'"
  shows "Q sv"
  using assms(1) unfolding reachable_def
  by (induction rule: rtranclp_induct) (auto intro: assms(2,3) simp: reachable_def)

section \<open>One operation in flight\<close>

text \<open>
  What a session that has been started keeps: a live session has exactly one operation in
  flight, a stopped one has none; a request has been answered exactly when the session
  waits for the next one or for the end of the write.
\<close>

fun pending_ok :: "session \<Rightarrow> pending \<Rightarrow> bool" where
  "pending_ok s Async_read_prefix \<longleftrightarrow>
     length (se_buffer s) = PREFIX_SIZE \<and> length (se_sent s) = length (se_received s)"
| "pending_ok s (Async_read_message n) \<longleftrightarrow>
     length (se_buffer s) = unat n \<and> length (se_sent s) = length (se_received s)"
| "pending_ok s Async_write \<longleftrightarrow>
     se_sent s \<noteq> [] \<and> last (se_sent s) = se_buffer s \<and> length (se_sent s) = length (se_received s)"
| "pending_ok s (Posted j) \<longleftrightarrow>
     length (se_received s) = Suc (length (se_sent s)) \<and> (j = ParseCommand \<longrightarrow> last (se_received s) = se_buffer s)"

definition session_ok :: "session \<Rightarrow> bool" where
  "session_ok s \<longleftrightarrow>
     (if se_stopped s then se_pending s = [] \<and> \<not> se_sock_open s \<and>
        length (se_sent s) \<le> length (se_received s) \<and> length (se_received s) \<le> Suc (length (se_sent s))
      else se_sock_open s \<and> (\<exists>p. se_pending s = [p] \<and> pending_ok s p))"

lemma vector_resize_Inr: "vector_resize env n buf = Inr b \<Longrightarrow> b = resize n buf"
  by (simp add: vector_resize_def split: if_splits)

lemma start_ok: "start env ClientSession = Inr s \<Longrightarrow> session_ok s"
  by (auto simp: start_def do_async_read_prefix_def ClientSession_def session_ok_def
      dest: vector_resize_Inr split: sum.splits)

text \<open>A session whose operation has just completed, in a handler.\<close>

definition idle :: "session \<Rightarrow> bool" where
  "idle s \<longleftrightarrow> \<not> se_stopped s \<and> se_sock_open s \<and> se_pending s = []"

lemma stop_ok:
  assumes "idle s" "length (se_sent s) \<le> length (se_received s)"
    "length (se_received s) \<le> Suc (length (se_sent s))"
  shows "session_ok (stop s)"
  using assms by (simp add: idle_def session_ok_def stop_def)

lemma do_async_read_prefix_ok:
  assumes "idle s" "length (se_sent s) = length (se_received s)" "do_async_read_prefix env s = Inr s'"
  shows "session_ok s'"
  using assms by (auto simp: idle_def do_async_read_prefix_def session_ok_def dest: vector_resize_Inr
      split: if_splits sum.splits)

lemma do_async_read_message_ok:
  assumes "idle s" "length (se_sent s) = length (se_received s)" "do_async_read_message env n s = Inr s'"
  shows "session_ok s'"
  using assms by (auto simp: idle_def do_async_read_message_def session_ok_def dest: vector_resize_Inr
      split: if_splits sum.splits)

lemma session_write_ok:
  assumes "idle s" "length (se_received s) = Suc (length (se_sent s))" "session_write env m s = Inr s'"
  shows "session_ok s'"
  using assms by (auto simp: idle_def session_write_def do_async_write_def session_ok_def Let_def
      split: if_splits sum.splits)

lemma ParseCommandJob_ok:
  assumes "idle s" "length (se_received s) = Suc (length (se_sent s))"
  shows "session_ok (ParseCommandJob env s)"
proof -
  have "session_ok (post_job j s)" if "j \<noteq> ParseCommand" for j
    using assms that by (simp add: idle_def post_job_def session_ok_def)
  moreover have "session_ok (stop s)" using assms stop_ok by simp
  ultimately show ?thesis
    by (simp add: ParseCommandJob_def split: option.splits WrappedMessage.splits Request.splits)
qed

lemma set_state_idle [simp]: "idle (set_state cs s) = idle s"
  "se_received (set_state cs s) = se_received s" "se_sent (set_state cs s) = se_sent s"
  by (simp_all add: idle_def set_state_def)

text \<open>A job other than the parser answers with one message, on the session as it is or with the
  state of a login.\<close>

lemma job_answers:
  assumes "run_job env st j s d = (r, d')" and "j \<noteq> ParseCommand"
  shows "\<exists>m s1. r = session_write env (WrappedMessage_response m) s1 \<and>
     (s1 = s \<or> (\<exists>l cs. j = LoginReq l \<and> email cs = LoginRequest_email l \<and> s1 = set_state cs s))"
proof -
  have login: "r = session_write env empty_response s \<or>
      (\<exists>cs. se_state s = Some cs \<and> r = session_write env (WrappedMessage_response (fst (body cs d))) s)"
    if "with_login env body s d = (r, d')" for body :: "ClientState \<Rightarrow> 'a \<Rightarrow> Response \<times> 'a"
    using that by (auto simp: with_login_def logged_in_def state_def split: if_splits option.splits prod.splits)
  have frame: ?thesis if "with_login env body s d = (r, d')" for body
    using login [OF that] unfolding empty_response_def by blast
  show ?thesis
  proof (cases j)
    case (RegisterReq m)
    with assms show ?thesis
      by (auto simp: RegisterRequestJob_def status_message_def split: prod.splits)
  next
    case (LoginReq m)
    with assms show ?thesis
      by (auto simp: LoginRequestJob_def state_def set_state_def Let_def split: prod.splits sum.splits) force+
  qed (use assms frame in \<open>auto simp: ChatsRequestJob_def ContactsRequestJob_def MessagesRequestJob_def
      SendMesgRequestJob_def AddContactRequestJob_def CreateChatRequestJob_def\<close>)
qed

lemma job_writes:
  assumes "run_job env st j s d = (r, d')" and "j \<noteq> ParseCommand"
  shows "\<exists>m s1. r = session_write env (WrappedMessage_response m) s1 \<and> (s1 = s \<or> (\<exists>cs. s1 = set_state cs s))"
  using job_answers [OF assms] by blast

lemma enabled_live:
  assumes "session_ok s" and "enabled c s"
  shows "\<not> se_stopped s" "se_sock_open s" "se_pending s = [completes c]" "pending_ok s (completes c)"
  using assms by (auto simp: session_ok_def enabled_def split: if_splits)

lemma taken_idle:
  assumes "session_ok s" and "enabled c s"
  shows "idle (take_pending (completes c) s)" "idle (fill_buffer data (take_pending (completes c) s))"
  using enabled_live [OF assms] by (simp_all add: idle_def take_pending_def fill_buffer_def)

lemma take_fill_simps [simp]:
  "se_sent (take_pending p s) = se_sent s" "se_received (take_pending p s) = se_received s"
  "se_buffer (take_pending p s) = se_buffer s" "se_state (take_pending p s) = se_state s"
  "se_stopped (take_pending p s) = se_stopped s"
  "se_sent (fill_buffer data s) = se_sent s" "se_received (fill_buffer data s) = se_received s"
  "se_buffer (fill_buffer data s) = poke 0 data (se_buffer s)"
  "se_state (fill_buffer data s) = se_state s" "se_stopped (fill_buffer data s) = se_stopped s"
  by (simp_all add: take_pending_def fill_buffer_def)

lemma on_read_prefix_ok:
  assumes "idle s" "length (se_sent s) = length (se_received s)" "on_read_prefix env err n s = Inr s'"
  shows "session_ok s'"
proof -
  have "session_ok (stop s)" using assms stop_ok by simp
  moreover have "se_stopped (stop s)" by (simp add: stop_def)
  moreover have "\<not> se_stopped s" using assms(1) by (simp add: idle_def)
  ultimately show ?thesis using assms(3) do_async_read_message_ok [OF assms(1,2)]
    by (auto simp: on_read_prefix_def Let_def split: if_splits option.splits)
qed

lemma on_read_message_ok:
  assumes "idle s" "length (se_sent s) = length (se_received s)"
  shows "session_ok (on_read_message err n k s)"
proof -
  have "session_ok (stop s)" using assms stop_ok by simp
  moreover have "se_stopped (stop s)" by (simp add: stop_def)
  ultimately show ?thesis using assms
    by (auto simp: on_read_message_def Let_def idle_def session_ok_def)
qed

lemma on_write_ok:
  assumes "idle s" "length (se_sent s) = length (se_received s)" "on_write env err s = Inr s'"
  shows "session_ok s'"
proof -
  have "session_ok (stop s)" using assms stop_ok by simp
  moreover have "se_stopped (stop s)" by (simp add: stop_def)
  moreover have "\<not> se_stopped s" using assms(1) by (simp add: idle_def)
  ultimately show ?thesis using assms(3) do_async_read_prefix_ok [OF assms(1,2)]
    by (auto simp: on_write_def Let_def split: if_splits)
qed

lemma run_job_ok:
  assumes "idle s" "length (se_received s) = Suc (length (se_sent s))" "run_job env st j s d = (Inr s', d')"
  shows "session_ok s'"
proof (cases "j = ParseCommand")
  case True
  with assms ParseCommandJob_ok [of s env] show ?thesis by simp
next
  case False
  from job_writes [OF assms(3) False] obtain m s1 where "Inr s' = session_write env (WrappedMessage_response m) s1"
    and "s1 = s \<or> (\<exists>cs. s1 = set_state cs s)" by blast
  with assms(1,2) session_write_ok [of s1 env "WrappedMessage_response m" s'] show ?thesis by auto
qed

lemma complete_ok:
  assumes ok: "session_ok s" and en: "enabled c s" and run: "complete env st c s d = (Inr s', d')"
  shows "session_ok s'"
proof -
  note pend = enabled_live(4) [OF ok en] and idle = taken_idle [OF ok en]
  show ?thesis
  proof (cases c)
    case (Read_prefix_done err data)
    with pend idle run on_read_prefix_ok [of "fill_buffer data (take_pending Async_read_prefix s)"]
    show ?thesis by auto
  next
    case (Read_message_done err data n)
    with pend idle run on_read_message_ok [of "fill_buffer data (take_pending (Async_read_message n) s)"]
    show ?thesis by auto
  next
    case (Write_done err)
    with pend idle run on_write_ok [of "take_pending Async_write s"] show ?thesis by auto
  next
    case (Job_run j)
    with pend idle run run_job_ok [of "take_pending (Posted j) s"] show ?thesis by auto
  qed
qed

lemma accepting_reachable:
  assumes "reachable env S d0 sv"
  shows "sv_accepting sv = None \<or> sv_accepting sv = Some ClientSession"
  using assms
proof (induction rule: reachable_induct)
  case (step sv sv')
  from step.hyps(2) show ?case
    by cases (use step.IH in \<open>auto simp: handle_accept_def signal_handler_def complete_session_def
        split: accept_result.splits sum.splits prod.splits\<close>)
qed (simp add: server_run_def)

text \<open>What holds of a session that starts and is kept by every completion holds of all sessions.\<close>

lemma sessions_reachable:
  fixes sv :: "'d server"
  assumes reach: "reachable env S d0 sv"
    and base: "\<And>s. start env ClientSession = Inr s \<Longrightarrow> Q s"
    and keep: "\<And>s c (st :: 'd storage) d s' d'. \<lbrakk>Q s; enabled c s; complete env st c s d = (Inr s', d')\<rbrakk> \<Longrightarrow> Q s'"
  shows "\<forall>s \<in> set (sv_sessions sv). Q s"
  using reach
proof (induction rule: reachable_induct)
  case (step sv sv')
  from step.hyps(2) show ?case
  proof cases
    case (accept c r)
    with step.IH accepting_reachable [OF step.hyps(1)] base show ?thesis
      by (auto simp: handle_accept_def split: accept_result.splits sum.splits)
  next
    case signal
    with step.IH show ?thesis by (simp add: signal_handler_def)
  next
    case (session i c st)
    obtain r d where run: "complete env st c (sv_sessions sv ! i) (sv_db sv) = (r, d)" by fastforce
    show ?thesis
    proof (cases r)
      case (Inl e)
      with session run step.IH show ?thesis by (simp add: complete_session_def)
    next
      case (Inr s)
      have "Q (sv_sessions sv ! i)" using step.IH session by simp
      then have "Q s" by (rule keep [OF _ session(4) run [unfolded Inr]])
      with step.IH have "\<forall>x \<in> set ((sv_sessions sv)[i := s]). Q x" by (rule list_update_all)
      with session run Inr show ?thesis by (simp add: complete_session_def)
    qed
  qed
qed (simp add: server_run_def)

lemma sessions_ok_reachable:
  "reachable env S d0 sv \<Longrightarrow> \<forall>s \<in> set (sv_sessions sv). session_ok s"
  by (erule sessions_reachable) (rule start_ok complete_ok; assumption)+

section \<open>The event loop\<close>

text \<open>
  \<open>io_service::run\<close> returns when no asynchronous operation is pending on the service. Jobs of
  the thread pool are not operations of the service.
\<close>

fun is_posted :: "pending \<Rightarrow> bool" where
  "is_posted (Posted j) \<longleftrightarrow> True"
| "is_posted _ \<longleftrightarrow> False"

definition loop_done :: "'d server \<Rightarrow> bool" where
  "loop_done sv \<longleftrightarrow> sv_accepting sv = None \<and> \<not> sv_signal_wait sv \<and>
     (\<forall>s \<in> set (sv_sessions sv). list_all is_posted (se_pending s))"

lemma listening_reachable:
  assumes "reachable env S d0 sv"
  shows "(sv_acceptor_open sv \<longleftrightarrow> sv_signal_wait sv) \<and>
    (sv_acceptor_open sv \<and> sv_dead sv = None \<longrightarrow> sv_accepting sv \<noteq> None)"
  using assms
proof (induction rule: reachable_induct)
  case (step sv sv')
  from step.hyps(2) show ?case
    by cases (use step.IH in \<open>auto simp: handle_accept_def signal_handler_def complete_session_def
        split: accept_result.splits sum.splits prod.splits\<close>)
qed (simp add: server_run_def)

section \<open>What can end the process\<close>

lemma vector_resize_total: "sv_can_alloc env n \<Longrightarrow> vector_resize env n buf = Inr (resize n buf)"
  by (simp add: vector_resize_def)

lemma session_write_fatal: "session_write env m s = Inl e \<Longrightarrow> e = Bad_alloc \<and> (\<exists>n. \<not> sv_can_alloc env n)"
  by (auto simp: session_write_def do_async_write_def vector_resize_def Let_def split: if_splits sum.splits)

lemma complete_fatal:
  assumes "complete env st c s d = (Inl e, d')"
  shows "e = Bad_alloc \<and> (\<exists>n. \<not> sv_can_alloc env n)"
proof (cases c)
  case (Job_run j)
  show ?thesis
  proof (cases "j = ParseCommand")
    case True
    with assms Job_run show ?thesis by simp
  next
    case False
    from job_writes [OF _ False] assms Job_run obtain m s1
      where "session_write env (WrappedMessage_response m) s1 = Inl e" by (metis complete.simps(4))
    then show ?thesis by (rule session_write_fatal)
  qed
qed (use assms in \<open>auto simp: on_read_prefix_def on_write_def do_async_read_prefix_def
    do_async_read_message_def vector_resize_def Let_def split: if_splits sum.splits option.splits\<close>)

lemma dead_reachable:
  assumes "reachable env S d0 sv" and "sv_dead sv = Some e"
  shows "e = Accept_error \<or> e = Bad_alloc \<and> (\<exists>n. \<not> sv_can_alloc env n)"
  using assms
proof (induction rule: reachable_induct)
  case (step sv sv')
  from step.hyps(2) show ?case
  proof cases
    case (accept c r)
    with step.prems show ?thesis
      by (auto simp: handle_accept_def start_def do_async_read_prefix_def vector_resize_def
          split: accept_result.splits sum.splits if_splits)
  next
    case (session i c st)
    with step.prems complete_fatal [of env st c "sv_sessions sv ! i" "sv_db sv"] show ?thesis
      by (auto simp: complete_session_def split: sum.splits prod.splits)
  qed (use step.prems in \<open>simp add: signal_handler_def\<close>)
qed (simp add: server_run_def)

section \<open>Jobs over the contract of the storage\<close>

text \<open>The state of a session names a client the storage knows.\<close>

definition session_known :: "('d \<Rightarrow> u64 \<Rightarrow> bytes \<Rightarrow> bool) \<Rightarrow> 'd \<Rightarrow> session \<Rightarrow> bool" where
  "session_known known d s \<longleftrightarrow> (\<forall>cs. se_state s = Some cs \<longrightarrow> known d (user_id cs) (user_name cs))"

lemma session_write_state: "session_write env m s = Inr s' \<Longrightarrow> se_state s' = se_state s"
  by (auto simp: session_write_def do_async_write_def Let_def split: if_splits sum.splits)

lemma with_login_result:
  assumes "with_login env body s d = (r, d')"
  shows "(d' = d \<or> (\<exists>cs. se_state s = Some cs \<and> d' = snd (body cs d))) \<and>
     (\<forall>s'. r = Inr s' \<longrightarrow> se_state s' = se_state s)"
  using assms
  by (auto simp: with_login_def logged_in_def state_def dest: session_write_state
      split: if_splits option.splits prod.splits)

context abstract_storage
begin

text \<open>Every job keeps the invariant of the storage and what the storage knows.\<close>

lemma job_storage:
  assumes "run_job env S j s d = (r, d')" and "inv d"
  shows "inv d' \<and> (\<forall>i n. known d i n \<longrightarrow> known d' i n)"
proof -
  have reg: "inv d' \<and> (\<forall>i n. known d i n \<longrightarrow> known d' i n)" if "j = RegisterReq m" for m
    using that assms inv_registration known_registration
    by (auto simp: RegisterRequestJob_def split: prod.splits) (metis snd_conv)+
  have login: "inv d' \<and> (\<forall>i n. known d i n \<longrightarrow> known d' i n)" if "j = LoginReq m" for m
    using that assms login_reads [of "LoginRequest_email m" "LoginRequest_password m" d]
    by (auto simp: LoginRequestJob_def state_def set_state_def split: prod.splits sum.splits)
  show ?thesis
  proof (cases j)
    case (SendMesgReq m)
    with assms inv_send_message known_send_message show ?thesis
      by (auto simp: SendMesgRequestJob_def status_of_def dest!: with_login_result)
  next
    case (AddContactReq m)
    with assms inv_add_contact known_add_contact show ?thesis
      by (auto simp: AddContactRequestJob_def status_of_def dest!: with_login_result)
  next
    case (CreateChatReq m)
    with assms inv_create_chat known_create_chat show ?thesis
      by (auto simp: CreateChatRequestJob_def status_of_def dest!: with_login_result)
  qed (use assms reg login get_chats_reads get_contacts_reads get_messages_reads in
      \<open>auto simp: ChatsRequestJob_def ContactsRequestJob_def MessagesRequestJob_def dest!: with_login_result\<close>)
qed

text \<open>A job leaves the identity of its session, or a login sets one that the storage knows.\<close>

lemma job_session:
  assumes "run_job env S j s d = (Inr s', d')" and "inv d"
  shows "se_state s' = se_state s \<or> session_known known d s'"
proof (cases j)
  case (LoginReq m)
  obtain l where l: "sc_login S (LoginRequest_email m) (LoginRequest_password m) d = (l, d)"
    using login_reads by (metis prod.collapse)
  show ?thesis
  proof (cases l)
    case (Inl e)
    with l assms LoginReq show ?thesis by (auto simp: LoginRequestJob_def dest: session_write_state)
  next
    case (Inr x)
    obtain i n where x: "x = (i, n)" by fastforce
    with l Inr have "known d i n" using login_known assms(2) by (metis fst_conv)
    with l Inr x assms LoginReq show ?thesis
      by (auto simp: LoginRequestJob_def set_state_def state_def session_known_def
          dest!: session_write_state)
  qed
next
  case ParseCommand
  with assms show ?thesis
    by (auto simp: ParseCommandJob_def post_job_def stop_def
        split: option.splits WrappedMessage.splits Request.splits)
next
  case (RegisterReq m)
  with assms show ?thesis by (auto simp: RegisterRequestJob_def dest: session_write_state split: prod.splits)
qed (use assms in \<open>auto simp: ChatsRequestJob_def ContactsRequestJob_def MessagesRequestJob_def
      SendMesgRequestJob_def AddContactRequestJob_def CreateChatRequestJob_def dest!: with_login_result\<close>)

lemma complete_storage:
  assumes "complete env S c s d = (r, d')" and "inv d"
  shows "inv d' \<and> (\<forall>i n. known d i n \<longrightarrow> known d' i n)"
  using assms job_storage by (cases c) auto

lemma complete_session_known:
  assumes run: "complete env S c s d = (Inr s', d')" and "inv d" and "session_known known d s"
  shows "session_known known d' s'"
proof -
  have "se_state s' = se_state s \<or> session_known known d s'"
  proof (cases c)
    case (Job_run j)
    with run job_session [of env j "take_pending (Posted j) s" d s' d'] assms(2) show ?thesis by simp
  qed (use run in \<open>auto simp: on_read_prefix_def on_read_message_def on_write_def do_async_read_prefix_def
      do_async_read_message_def stop_def Let_def split: if_splits sum.splits option.splits\<close>)
  then show ?thesis
    using complete_storage [OF run assms(2)] assms(3) by (auto simp: session_known_def)
qed

end

context growing_storage
begin

lemma job_upwards:
  assumes "run_job env S j s d = (r, d')" and "inv d"
  shows "d \<le> d'"
proof (cases j)
  case (RegisterReq m)
  with assms up_registration show ?thesis
    by (auto simp: RegisterRequestJob_def split: prod.splits) (metis snd_conv)
next
  case (LoginReq m)
  with assms login_reads [of "LoginRequest_email m" "LoginRequest_password m" d] show ?thesis
    by (auto simp: LoginRequestJob_def state_def set_state_def split: prod.splits sum.splits)
next
  case (SendMesgReq m)
  with assms up_send_message show ?thesis
    by (auto simp: SendMesgRequestJob_def status_of_def dest!: with_login_result)
next
  case (AddContactReq m)
  with assms up_add_contact show ?thesis
    by (auto simp: AddContactRequestJob_def status_of_def dest!: with_login_result)
next
  case (CreateChatReq m)
  with assms up_create_chat show ?thesis
    by (auto simp: CreateChatRequestJob_def status_of_def dest!: with_login_result)
qed (use assms get_chats_reads get_contacts_reads get_messages_reads in
    \<open>auto simp: ChatsRequestJob_def ContactsRequestJob_def MessagesRequestJob_def dest!: with_login_result\<close>)

lemma complete_upwards: "complete env S c s d = (r, d') \<Longrightarrow> inv d \<Longrightarrow> d \<le> d'"
  using job_upwards by (cases c) auto

end

text \<open>
  The server with any storage that keeps the contract. \<open>S\<close> are the behaviours of the
  connections.
\<close>

locale storage_pool =
  fixes S :: "'d storage set" and inv :: "'d \<Rightarrow> bool" and same :: "'d \<Rightarrow> 'd \<Rightarrow> bool"
    and known :: "'d \<Rightarrow> u64 \<Rightarrow> bytes \<Rightarrow> bool"
  assumes pool: "st \<in> S \<Longrightarrow> \<exists>doubt. abstract_storage st inv same known doubt"
begin

lemma reachable_storage:
  assumes "reachable env S d0 sv" and "inv d0"
  shows "inv (sv_db sv) \<and> (\<forall>s \<in> set (sv_sessions sv). session_known known (sv_db sv) s)"
  using assms
proof (induction rule: reachable_induct)
  case (step sv sv')
  note IH = step.IH [OF step.prems]
  from step.hyps(2) show ?case
  proof cases
    case (accept c r)
    with IH accepting_reachable [OF step.hyps(1)] show ?thesis
      by (auto simp: handle_accept_def start_def do_async_read_prefix_def ClientSession_def session_known_def
          split: accept_result.splits sum.splits if_splits)
  next
    case signal
    with IH show ?thesis by (simp add: signal_handler_def)
  next
    case (session i c st)
    obtain doubt where st: "abstract_storage st inv same known doubt" using pool session by blast
    obtain r d where run: "complete env st c (sv_sessions sv ! i) (sv_db sv) = (r, d)" by fastforce
    note d = abstract_storage.complete_storage [OF st run conjunct1 [OF IH]]
    have keep: "\<forall>s \<in> set (sv_sessions sv). session_known known d s"
      using IH d by (auto simp: session_known_def)
    show ?thesis
    proof (cases r)
      case (Inl e)
      with session run d keep show ?thesis by (simp add: complete_session_def)
    next
      case (Inr s)
      have "session_known known d s"
        using abstract_storage.complete_session_known [OF st] run Inr IH session by fastforce
      with keep have "\<forall>x \<in> set ((sv_sessions sv)[i := s]). session_known known d x" by (rule list_update_all)
      with session run Inr d show ?thesis by (simp add: complete_session_def)
    qed
  qed
qed (simp add: server_run_def)

end

locale growing_pool =
  fixes S :: "'d :: order storage set" and inv :: "'d \<Rightarrow> bool" and same :: "'d \<Rightarrow> 'd \<Rightarrow> bool"
    and known :: "'d \<Rightarrow> u64 \<Rightarrow> bytes \<Rightarrow> bool"
  assumes growing: "st \<in> S \<Longrightarrow> \<exists>doubt. growing_storage st inv same known doubt"
begin

text \<open>What is stored when the server is in one state is stored in every later one.\<close>

lemma storage_step_upwards:
  assumes "server_step env S sv sv'" and "inv (sv_db sv)"
  shows "sv_db sv \<le> sv_db sv'"
  using assms(1)
proof cases
  case (session i c st)
  obtain doubt where "growing_storage st inv same known doubt" using growing session by blast
  from growing_storage.complete_upwards [OF this _ assms(2)] session show ?thesis
    by (auto simp: complete_session_def split: prod.splits sum.splits)
qed (auto simp: handle_accept_def signal_handler_def split: accept_result.splits sum.splits)

end

sublocale growing_pool \<subseteq> storage_pool S inv same known
  by unfold_locales (use growing growing_storage.axioms(1) in blast)

context growing_pool
begin

lemma storage_upwards:
  assumes "reachable env S d0 sv" and "inv d0" and "(server_step env S)\<^sup>*\<^sup>* sv sv'"
  shows "sv_db sv \<le> sv_db sv'"
  using assms(3)
proof (induction rule: rtranclp_induct)
  case (step x y)
  have "reachable env S d0 x" using assms(1) step.hyps(1) unfolding reachable_def by (rule rtranclp_trans)
  from storage_step_upwards [OF step.hyps(2)] reachable_storage [OF this assms(2)] step.IH show ?case
    by (auto intro: order_trans)
qed simp

end

end
