(* ===== verification/Frames.thy ===== *)
theory Frames
  imports Server Packets
begin

text \<open>
  Packets at the sessions of the server: a packet with a request, read by a session in the
  two pieces it asks for, becomes the job of that request, and is answered.
\<close>

section \<open>A request packet becomes a job\<close>

fun job_of :: "Request \<Rightarrow> job option" where
  "job_of (Request_register_request r) = Some (RegisterReq r)"
| "job_of (Request_login_request r) = Some (LoginReq r)"
| "job_of (Request_chats_request r) = Some ChatsReq"
| "job_of (Request_contacts_request r) = Some ContactsReq"
| "job_of (Request_messages_request r) = Some (MessagesReq r)"
| "job_of (Request_send_mesg_request r) = Some (SendMesgReq r)"
| "job_of (Request_add_contact_request r) = Some (AddContactReq r)"
| "job_of (Request_create_chat_request r) = Some (CreateChatReq r)"
| "job_of Request_MSG_NOT_SET = None"

lemma sint_small: "n < 2 ^ 31 \<Longrightarrow> sint (of_nat n :: 32 word) = int n"
  by (simp add: signed_of_nat signed_take_bit_int_eq_self)

lemma parse_wrapped_small:
  assumes "length buf < 2 ^ 31"
  shows "parse_wrapped env buf = parse_from_array (sv_pb env)
    (WrappedMessage_MergePartialFromCodedStream (sv_pb env)) WrappedMessage_default buf"
  using sint_small [OF assms] by (simp add: parse_wrapped_def)

text \<open>The three completions that take a waiting session from the packet to the job.\<close>

definition receive_packet :: "server_env \<Rightarrow> 'd storage \<Rightarrow> bytes \<Rightarrow> session \<Rightarrow> 'd \<Rightarrow> (fatal + session) \<times> 'd" where
  "receive_packet env st p s d =
     (case complete env st (Read_prefix_done False (take PREFIX_SIZE p)) s d of
        (Inl e, d1) \<Rightarrow> (Inl e, d1)
      | (Inr s1, d1) \<Rightarrow>
          (case complete env st (Read_message_done False (drop PREFIX_SIZE p)
                  (of_nat (length p - PREFIX_SIZE))) s1 d1 of
             (Inl e, d2) \<Rightarrow> (Inl e, d2)
           | (Inr s2, d2) \<Rightarrow> complete env st (Job_run ParseCommand) s2 d2))"

definition awaiting :: "session \<Rightarrow> bool" where
  "awaiting s \<longleftrightarrow> session_ok s \<and> \<not> se_stopped s \<and> se_pending s = [Async_read_prefix]"

lemma awaiting_buffer: "awaiting s \<Longrightarrow> length (se_buffer s) = PREFIX_SIZE"
  by (auto simp: awaiting_def session_ok_def)

context pb_wire
begin

text \<open>The two writes of \<open>do_async_write\<close> fill the buffer with the packet.\<close>

lemma write_buffer_packet:
  assumes "sendable P m" and "length buf = WrappedMessage_ByteSize P m + PREFIX_SIZE"
  shows "write_buffer P m buf = packet P m"
  using poke_packet [OF assms] by (simp add: write_buffer_def prefix_of_def)

lemma receive_prefix:
  assumes "sv_pb env = P" and "sendable P m" and "sv_can_alloc env (WrappedMessage_ByteSize P m)"
    and "awaiting s"
  shows "complete env st (Read_prefix_done False (prefix_of P m)) s d =
    (Inr (s\<lparr>se_buffer := resize (WrappedMessage_ByteSize P m) (prefix_of P m),
            se_pending := [Async_read_message (of_nat (WrappedMessage_ByteSize P m))]\<rparr>), d)"
proof -
  have n: "unat (of_nat (WrappedMessage_ByteSize P m) :: u64) = WrappedMessage_ByteSize P m"
    using assms(2) by (simp add: sendable_def of_nat_u64_inverse)
  have "poke 0 (prefix_of P m) (se_buffer s) = prefix_of P m"
    using awaiting_buffer [OF assms(4)] assms(2) by (simp add: poke_def)
  with n assms show ?thesis
    by (simp add: on_read_prefix_def do_async_read_message_def vector_resize_total awaiting_def
        fill_buffer_def take_pending_def parse_prefix)
qed

lemma receive_message:
  assumes "sv_pb env = P" and "sendable P m" and "length (se_buffer s) = WrappedMessage_ByteSize P m"
    and "\<not> se_stopped s" and "se_pending s = [Async_read_message (of_nat (WrappedMessage_ByteSize P m))]"
  shows "complete env st (Read_message_done False (WrappedMessage_SerializeToArray P m)
      (of_nat (WrappedMessage_ByteSize P m))) s d =
    (Inr (s\<lparr>se_buffer := WrappedMessage_SerializeToArray P m, se_pending := [Posted ParseCommand],
            se_received := se_received s @ [WrappedMessage_SerializeToArray P m]\<rparr>), d)"
proof -
  have "poke 0 (WrappedMessage_SerializeToArray P m) (se_buffer s) = WrappedMessage_SerializeToArray P m"
    using assms(2,3) by (simp add: poke_def)
  with assms show ?thesis
    by (simp add: on_read_message_def fill_buffer_def take_pending_def)
qed

lemma parse_request:
  assumes "sv_pb env = P" and "sendable P (WrappedMessage_request r)"
    and "se_buffer s = WrappedMessage_SerializeToArray P (WrappedMessage_request r)"
  shows "ParseCommandJob env s = (case job_of r of Some j \<Rightarrow> post_job j s | None \<Rightarrow> stop s)"
proof -
  have "parse_wrapped env (se_buffer s) = Some (WrappedMessage_request r)"
    using assms parse_body [OF assms(2)] body_length [OF assms(2)]
    by (subst parse_wrapped_small) (simp_all add: sendable_def del: WrappedMessage_SerializeToArray.simps
        body_length)
  then show ?thesis by (cases r) (simp_all add: ParseCommandJob_def)
qed

lemma receive_request:
  assumes env: "sv_pb env = P" and m: "m = WrappedMessage_request r" "sendable P m"
    and mem: "sv_can_alloc env (WrappedMessage_ByteSize P m)" and s: "awaiting s"
  shows "receive_packet env st (packet P m) s d =
    (Inr (case job_of r of
            Some j \<Rightarrow> s\<lparr>se_buffer := WrappedMessage_SerializeToArray P m, se_pending := [Posted j],
                     se_received := se_received s @ [WrappedMessage_SerializeToArray P m]\<rparr>
          | None \<Rightarrow> s\<lparr>se_buffer := WrappedMessage_SerializeToArray P m, se_pending := [],
                     se_received := se_received s @ [WrappedMessage_SerializeToArray P m],
                     se_stopped := True, se_sock_open := False\<rparr>), d)"
proof -
  let ?n = "WrappedMessage_ByteSize P m" and ?b = "WrappedMessage_SerializeToArray P m"
  have split: "take PREFIX_SIZE (packet P m) = prefix_of P m" "drop PREFIX_SIZE (packet P m) = ?b"
    "length (packet P m) - PREFIX_SIZE = ?n"
    using m(2) by (simp_all add: packet_def)
  let ?s1 = "s\<lparr>se_buffer := resize ?n (prefix_of P m), se_pending := [Async_read_message (of_nat ?n)]\<rparr>"
  let ?s2 = "?s1\<lparr>se_buffer := ?b, se_pending := [Posted ParseCommand], se_received := se_received s @ [?b]\<rparr>"
  have 1: "complete env st (Read_prefix_done False (prefix_of P m)) s d = (Inr ?s1, d)"
    using receive_prefix [OF env m(2) mem s] .
  have 2: "complete env st (Read_message_done False ?b (of_nat ?n)) ?s1 d = (Inr ?s2, d)"
    using receive_message [OF env m(2), of ?s1 st d] s by (simp add: awaiting_def)
  have 3: "ParseCommandJob env (take_pending (Posted ParseCommand) ?s2) =
      (case job_of r of Some j \<Rightarrow> post_job j (take_pending (Posted ParseCommand) ?s2)
       | None \<Rightarrow> stop (take_pending (Posted ParseCommand) ?s2))"
    by (rule parse_request [OF env]) (use m in simp_all)
  show ?thesis
    unfolding receive_packet_def split 1 prod.case sum.case 2
    unfolding prod.case sum.case complete.simps(4) run_job.simps(1) 3
    using s by (simp add: post_job_def stop_def take_pending_def awaiting_def split: option.splits)
qed

end

section \<open>Progress\<close>

text \<open>A session that has read a packet answers it or closes the connection.\<close>

lemma session_write_total:
  assumes "\<forall>n. sv_can_alloc env n" and "\<not> se_stopped s"
  shows "\<exists>buf. session_write env m s =
    Inr (s\<lparr>se_buffer := buf, se_pending := se_pending s @ [Async_write], se_sent := se_sent s @ [buf]\<rparr>)"
  using assms by (simp add: session_write_def do_async_write_def vector_resize_def Let_def) blast

lemma posted_job_writes:
  assumes "session_ok s" and "se_pending s = [Posted j]" and "\<not> se_stopped s" and "j \<noteq> ParseCommand"
    and "\<forall>n. sv_can_alloc env n"
  shows "\<exists>s2 d' s3. complete env st (Job_run j) s d = (Inr s2, d') \<and> se_pending s2 = [Async_write] \<and>
     length (se_sent s2) = Suc (length (se_sent s)) \<and>
     complete env st' (Write_done False) s2 d2 = (Inr s3, d2) \<and> awaiting s3"
proof -
  obtain r d' where run: "run_job env st j (take_pending (Posted j) s) d = (r, d')" by fastforce
  obtain m s1 where r: "r = session_write env (WrappedMessage_response m) s1"
    and s1: "s1 = take_pending (Posted j) s \<or> (\<exists>cs. s1 = set_state cs (take_pending (Posted j) s))"
    using job_writes [OF run assms(4)] by blast
  have live: "\<not> se_stopped s1" "se_pending s1 = []" "se_sent s1 = se_sent s" "se_received s1 = se_received s"
    using s1 assms(2,3) by (auto simp: take_pending_def set_state_def)
  obtain buf where w: "r = Inr (s1\<lparr>se_buffer := buf, se_pending := [Async_write], se_sent := se_sent s @ [buf]\<rparr>)"
    using session_write_total [OF assms(5) live(1), of "WrappedMessage_response m"] live r by auto
  let ?s2 = "s1\<lparr>se_buffer := buf, se_pending := [Async_write], se_sent := se_sent s @ [buf]\<rparr>"
  let ?s3 = "?s2\<lparr>se_buffer := resize PREFIX_SIZE buf, se_pending := [Async_read_prefix]\<rparr>"
  have en: "enabled (Job_run j) s" using assms(2) by (simp add: enabled_def)
  have ok2: "session_ok ?s2" using complete_ok [OF assms(1) en, of env st d ?s2 d'] run w by simp
  have 3: "complete env st' (Write_done False) ?s2 d2 = (Inr ?s3, d2)"
    using live assms(5) by (simp add: on_write_def do_async_read_prefix_def vector_resize_def take_pending_def)
  have "enabled (Write_done False) ?s2" by (simp add: enabled_def)
  from complete_ok [OF ok2 this 3] have "awaiting ?s3" using live by (simp add: awaiting_def)
  with run w 3 live show ?thesis by auto
qed

lemma parsed_request_answered:
  assumes ok: "session_ok s" and pend: "se_pending s = [Posted ParseCommand]" and mem: "\<forall>n. sv_can_alloc env n"
  shows "\<exists>s1. complete env st (Job_run ParseCommand) s d = (Inr s1, d) \<and>
     (se_stopped s1 \<or>
      (\<exists>j s2 d' s3. se_pending s1 = [Posted j] \<and> complete env st' (Job_run j) s1 d1 = (Inr s2, d') \<and>
         se_pending s2 = [Async_write] \<and> length (se_sent s2) = Suc (length (se_sent s)) \<and>
         complete env st'' (Write_done False) s2 d2 = (Inr s3, d2) \<and> awaiting s3))"
proof -
  let ?t = "take_pending (Posted ParseCommand) s" and ?s1 = "ParseCommandJob env (take_pending (Posted ParseCommand) s)"
  have run: "complete env st (Job_run ParseCommand) s d = (Inr ?s1, d)" by simp
  have "enabled (Job_run ParseCommand) s" using pend by (simp add: enabled_def)
  from complete_ok [OF ok this run] have ok1: "session_ok ?s1" .
  have "?s1 = stop ?t \<or> (\<exists>j. j \<noteq> ParseCommand \<and> ?s1 = post_job j ?t)"
    by (auto simp: ParseCommandJob_def split: option.splits WrappedMessage.splits Request.splits)
  then consider "?s1 = stop ?t" | j where "j \<noteq> ParseCommand" "?s1 = post_job j ?t" by blast
  then show ?thesis
  proof cases
    case 1
    then have "se_stopped ?s1" by (simp add: stop_def)
    with run show ?thesis by blast
  next
    case (2 j)
    then have s1: "se_pending ?s1 = [Posted j]" "se_sent ?s1 = se_sent s" "\<not> se_stopped ?s1"
      using pend ok by (auto simp: post_job_def take_pending_def session_ok_def)
    from posted_job_writes [OF ok1 s1(1,3) 2(1) mem, of st' d1 st'' d2] s1(1,2) run show ?thesis by metis
  qed
qed

end
