(* ===== verification/Client_Lists.thy ===== *)
theory Client_Lists
  imports Prelude
begin

text \<open>
  The item lists of the client and the Qt models over them (\<open>client/src/model\<close>). A list
  announces its changes by signals; the model connected to it turns them into the
  \<open>beginInsertRows\<close>/\<open>endInsertRows\<close> calls that keep the views in step. A signal is recorded
  with the list as it was when the signal was emitted, because slots run at once and may
  read it. A \<open>QString\<close> is its list of UTF-16 units.
\<close>

type_synonym qstring = "16 word list"

definition qstr :: "string \<Rightarrow> qstring" where
  "qstr s = map of_char s"

datatype signal = PreItemsSetted nat | PostItemsSetted | PreListCleared "nat option" | PostListCleared

text \<open>Only the \<open>preListCleared\<close> of \<open>MessagesList\<close> has an argument.\<close>

text \<open>The calls a model makes to \<open>QAbstractItemModel\<close>: first and last row.\<close>

datatype row_op = BeginInsertRows int int | EndInsertRows | BeginRemoveRows int int | EndRemoveRows
  | BeginResetModel | EndResetModel

datatype qvariant = Invalid | QULongLong u64 | QText qstring

text \<open>The roles the models use; \<open>Qt::UserRole\<close> is 256.\<close>

definition DisplayRole :: int where "DisplayRole = 0"
definition UserRole :: int where "UserRole = 256"

definition ChatsModel_ChatIdRole :: int where "ChatsModel_ChatIdRole = UserRole"

definition ContactsModel_UserIdRole :: int where "ContactsModel_UserIdRole = UserRole"
definition ContactsModel_NameRole :: int where "ContactsModel_NameRole = ContactsModel_UserIdRole + 1"
definition ContactsModel_EmailRole :: int where "ContactsModel_EmailRole = ContactsModel_NameRole + 1"

definition MessagesModel_SenderIdRole :: int where "MessagesModel_SenderIdRole = UserRole"

record model_index =
  mi_valid :: bool
  mi_row :: int

text \<open>\<open>QVector::at\<close> asserts that the index is in range: \<open>None\<close> is the failed assertion.\<close>

definition vector_at :: "'a list \<Rightarrow> int \<Rightarrow> 'a option" where
  "vector_at xs i = (if 0 \<le> i \<and> i < int (length xs) then Some (xs ! nat i) else None)"

section \<open>ChatsList\<close>

record ChatItem =
  chat_id :: u64
  chat_title :: qstring

record ChatsList =
  ch_items :: "ChatItem list"

definition ChatsList_init :: ChatsList where
  "ChatsList_init = \<lparr>ch_items = []\<rparr>"

definition ChatsList_at :: "ChatsList \<Rightarrow> int \<Rightarrow> ChatItem option" where
  "ChatsList_at l i = vector_at (ch_items l) i"

definition ChatsList_size :: "ChatsList \<Rightarrow> nat" where
  "ChatsList_size l = length (ch_items l)"

definition ChatsList_reset :: "ChatsList \<Rightarrow> (signal \<times> ChatsList) list \<times> ChatsList" where
  "ChatsList_reset l =
     (if ch_items l \<noteq> []
      then (let l' = l\<lparr>ch_items := []\<rparr> in
            ([(PreListCleared None, l), (PostListCleared, l')], l'))
      else ([], l))"

definition ChatsList_setItems ::
  "ChatItem list option \<Rightarrow> ChatsList \<Rightarrow> (signal \<times> ChatsList) list \<times> ChatsList" where
  "ChatsList_setItems vec l =
     (case ChatsList_reset l of
        (sigs, l1) \<Rightarrow>
          (case vec of
             None \<Rightarrow> (sigs, l1)
           | Some items \<Rightarrow>
               (let l2 = l1\<lparr>ch_items := items\<rparr> in
                (sigs @ [(PreItemsSetted (length items), l1), (PostItemsSetted, l2)], l2))))"

section \<open>ContactsList\<close>

record ContactItem =
  contact_user_id :: u64
  contact_name :: qstring
  contact_email :: qstring

text \<open>
  \<open>m_idToItem\<close> holds pointers into the vector: the number of the vector and an index. A
  pointer is live while it points to an element of the vector that \<open>m_items\<close> owns.
\<close>

record ContactsList =
  co_items :: "ContactItem list"
  co_vector :: nat
  co_idToItem :: "u64 \<Rightarrow> (nat \<times> nat) option"

definition ContactsList_init :: ContactsList where
  "ContactsList_init = \<lparr>co_items = [], co_vector = 0, co_idToItem = Map.empty\<rparr>"

definition ContactsList_at :: "ContactsList \<Rightarrow> int \<Rightarrow> ContactItem option" where
  "ContactsList_at l i = vector_at (co_items l) i"

definition ContactsList_size :: "ContactsList \<Rightarrow> nat" where
  "ContactsList_size l = length (co_items l)"

definition ContactsList_reset :: "ContactsList \<Rightarrow> (signal \<times> ContactsList) list \<times> ContactsList" where
  "ContactsList_reset l =
     (if co_items l \<noteq> []
      then (let l' = l\<lparr>co_items := []\<rparr> in
            ([(PreListCleared None, l), (PostListCleared, l')], l'))
      else ([], l))"

text \<open>The result of reading through a pointer that is not live is \<open>None\<close>.\<close>

definition deref_item :: "ContactsList \<Rightarrow> nat \<times> nat \<Rightarrow> ContactItem option" where
  "deref_item l p =
     (if fst p = co_vector l \<and> snd p < length (co_items l) then Some (co_items l ! snd p) else None)"

definition unknown_user :: qstring where
  "unknown_user = qstr ''Unknown user_id (not found among contacts)''"

definition ContactsList_getUserBy :: "ContactsList \<Rightarrow> u64 \<Rightarrow> qstring option" where
  "ContactsList_getUserBy l sender_id =
     (case co_idToItem l sender_id of
        Some p \<Rightarrow> map_option contact_name (deref_item l p)
      | None \<Rightarrow> Some unknown_user)"

text \<open>The loop over the vector; later items overwrite earlier ones with the same id.\<close>

fun fill_ids :: "nat \<Rightarrow> nat \<Rightarrow> ContactItem list \<Rightarrow> (u64 \<Rightarrow> (nat \<times> nat) option) \<Rightarrow>
     (u64 \<Rightarrow> (nat \<times> nat) option)" where
  "fill_ids v i [] m = m"
| "fill_ids v i (item # items) m = fill_ids v (Suc i) items (m(contact_user_id item \<mapsto> (v, i)))"

definition ContactsList_setItems ::
  "ContactItem list option \<Rightarrow> ContactsList \<Rightarrow> (signal \<times> ContactsList) list \<times> ContactsList" where
  "ContactsList_setItems vec l =
     (case ContactsList_reset l of
        (sigs, l1) \<Rightarrow>
          (case (case vec of
                   None \<Rightarrow> (sigs, l1)
                 | Some items \<Rightarrow>
                     (let l2 = l1\<lparr>co_items := items, co_vector := Suc (co_vector l1)\<rparr> in
                      (sigs @ [(PreItemsSetted (length items), l1), (PostItemsSetted, l2)], l2))) of
             (sigs', l3) \<Rightarrow>
               (sigs', l3\<lparr>co_idToItem := fill_ids (co_vector l3) 0 (co_items l3) Map.empty\<rparr>)))"

section \<open>MessagesList\<close>

record MessageItem =
  mesg_sender_id :: u64
  mesg_text :: qstring

text \<open>The vectors behind the shared pointers are never changed, so a pointer is its vector.\<close>

record MessagesList =
  me_map :: "u64 \<Rightarrow> MessageItem list option"
  me_currentChatId :: u64
  me_items :: "MessageItem list option"

definition MessagesList_init :: MessagesList where
  "MessagesList_init = \<lparr>me_map = Map.empty, me_currentChatId = 0, me_items = None\<rparr>"

definition MessagesList_at :: "MessagesList \<Rightarrow> int \<Rightarrow> MessageItem option" where
  "MessagesList_at l i = (case me_items l of None \<Rightarrow> None | Some items \<Rightarrow> vector_at items i)"

definition MessagesList_size :: "MessagesList \<Rightarrow> nat" where
  "MessagesList_size l = (case me_items l of None \<Rightarrow> 0 | Some items \<Rightarrow> length items)"

definition MessagesList_currentChatId :: "MessagesList \<Rightarrow> u64" where
  "MessagesList_currentChatId l = me_currentChatId l"

definition MessagesList_setCurrentChatId ::
  "u64 \<Rightarrow> MessagesList \<Rightarrow> (signal \<times> MessagesList) list \<times> MessagesList" where
  "MessagesList_setCurrentChatId chatId l =
     (if me_currentChatId l \<noteq> chatId then
        (let l1 = l\<lparr>me_items := None\<rparr>;
             cleared = [(PreListCleared (Some (MessagesList_size l)), l), (PostListCleared, l1)];
             l2 = l1\<lparr>me_currentChatId := chatId\<rparr> in
         case me_map l2 chatId of
           None \<Rightarrow> (cleared, l2)
         | Some items \<Rightarrow>
             (let l3 = l2\<lparr>me_items := Some items\<rparr> in
              (cleared @ [(PreItemsSetted (length items), l2), (PostItemsSetted, l3)], l3)))
      else ([], l))"

definition MessagesList_setItems ::
  "MessageItem list option \<Rightarrow> MessagesList \<Rightarrow> (signal \<times> MessagesList) list \<times> MessagesList" where
  "MessagesList_setItems vec l =
     (case (case me_items l of
              None \<Rightarrow> ([], l)
            | Some old \<Rightarrow>
                (let l1 = l\<lparr>me_items := None\<rparr> in
                 ([(PreListCleared (Some (MessagesList_size l)), l), (PostListCleared, l1)], l1))) of
        (sigs, l1) \<Rightarrow>
          (case vec of
             None \<Rightarrow> (sigs, l1)
           | Some items \<Rightarrow>
               (let l2 = l1\<lparr>me_map := (me_map l1)(me_currentChatId l1 \<mapsto> items), me_items := Some items\<rparr> in
                (sigs @ [(PreItemsSetted (length items), l1), (PostItemsSetted, l2)], l2))))"

section \<open>The models\<close>

text \<open>
  The slots \<open>setList\<close> connects. The models of chats and contacts read the size of the list
  when it is about to be cleared; the model of messages gets it with the signal.
\<close>

fun ChatsModel_slot :: "signal \<times> ChatsList \<Rightarrow> row_op" where
  "ChatsModel_slot (PreItemsSetted n, l) = BeginInsertRows 0 (int n - 1)"
| "ChatsModel_slot (PostItemsSetted, l) = EndInsertRows"
| "ChatsModel_slot (PreListCleared _, l) = BeginRemoveRows 0 (int (ChatsList_size l) - 1)"
| "ChatsModel_slot (PostListCleared, l) = EndRemoveRows"

fun ContactsModel_slot :: "signal \<times> ContactsList \<Rightarrow> row_op" where
  "ContactsModel_slot (PreItemsSetted n, l) = BeginInsertRows 0 (int n - 1)"
| "ContactsModel_slot (PostItemsSetted, l) = EndInsertRows"
| "ContactsModel_slot (PreListCleared _, l) = BeginRemoveRows 0 (int (ContactsList_size l) - 1)"
| "ContactsModel_slot (PostListCleared, l) = EndRemoveRows"

fun MessagesModel_slot :: "signal \<times> MessagesList \<Rightarrow> row_op" where
  "MessagesModel_slot (PreItemsSetted n, l) = BeginInsertRows 0 (int n - 1)"
| "MessagesModel_slot (PostItemsSetted, l) = EndInsertRows"
| "MessagesModel_slot (PreListCleared (Some n), l) = BeginRemoveRows 0 (int n - 1)"
| "MessagesModel_slot (PreListCleared None, l) = BeginRemoveRows 0 (int (MessagesList_size l) - 1)"
| "MessagesModel_slot (PostListCleared, l) = EndRemoveRows"

text \<open>
  \<open>setList\<close>: the model leaves the list it had and connects its four slots to the new one. Lists
  are numbered objects; \<open>md_connected\<close> has one entry for each connection that was made and
  not undone, and a signal of a list runs the slot once for each of them.
\<close>

record list_model =
  md_list :: "nat option"
  md_connected :: "nat list"

definition model_init :: list_model where
  "model_init = \<lparr>md_list = None, md_connected = []\<rparr>"

definition ChatsModel_list :: "list_model \<Rightarrow> nat option" where
  "ChatsModel_list m = md_list m"

definition ContactsModel_list :: "list_model \<Rightarrow> nat option" where
  "ContactsModel_list m = md_list m"

definition MessagesModel_list :: "list_model \<Rightarrow> nat option" where
  "MessagesModel_list m = md_list m"

definition ChatsModel_setList :: "nat option \<Rightarrow> list_model \<Rightarrow> row_op list \<times> list_model" where
  "ChatsModel_setList list m =
     (let m1 = (case md_list m of
                  None \<Rightarrow> m
                | Some old \<Rightarrow> m\<lparr>md_connected := removeAll old (md_connected m)\<rparr>);
          m2 = m1\<lparr>md_list := list\<rparr>;
          m3 = (case list of
                  None \<Rightarrow> m2
                | Some l \<Rightarrow> m2\<lparr>md_connected := md_connected m2 @ [l]\<rparr>) in
      ([BeginResetModel, EndResetModel], m3))"

text \<open>The other two models have the same body.\<close>

definition ContactsModel_setList :: "nat option \<Rightarrow> list_model \<Rightarrow> row_op list \<times> list_model" where
  "ContactsModel_setList = ChatsModel_setList"

definition MessagesModel_setList :: "nat option \<Rightarrow> list_model \<Rightarrow> row_op list \<times> list_model" where
  "MessagesModel_setList = ChatsModel_setList"

lemma setList_list:
  "ChatsModel_list (snd (ChatsModel_setList l m)) = l"
  "ContactsModel_list (snd (ContactsModel_setList l m)) = l"
  "MessagesModel_list (snd (MessagesModel_setList l m)) = l"
  by (auto simp: ChatsModel_setList_def ContactsModel_setList_def MessagesModel_setList_def ChatsModel_list_def
      ContactsModel_list_def MessagesModel_list_def Let_def split: option.splits)

text \<open>What a model makes of the signals of list \<open>p\<close>.\<close>

definition received :: "list_model \<Rightarrow> nat \<Rightarrow> (signal \<times> 'l \<Rightarrow> row_op) \<Rightarrow> (signal \<times> 'l) list \<Rightarrow> row_op list" where
  "received m p slot sigs = concat (map (\<lambda>s. replicate (count_list (md_connected m) p) (slot s)) sigs)"

text \<open>\<open>m_list\<close> is null until \<open>setList\<close>; \<open>None\<close> as a result is a failed assertion of \<open>at\<close>.\<close>

definition ChatsModel_rowCount :: "ChatsList option \<Rightarrow> model_index \<Rightarrow> nat" where
  "ChatsModel_rowCount m_list parent =
     (if mi_valid parent then 0 else (case m_list of None \<Rightarrow> 0 | Some l \<Rightarrow> ChatsList_size l))"

definition ChatsModel_data :: "ChatsList option \<Rightarrow> model_index \<Rightarrow> int \<Rightarrow> qvariant option" where
  "ChatsModel_data m_list index role =
     (case m_list of
        None \<Rightarrow> Some Invalid
      | Some l \<Rightarrow>
          (if \<not> mi_valid index then Some Invalid
           else map_option (\<lambda>item.
             if role = ChatsModel_ChatIdRole then QULongLong (chat_id item)
             else if role = DisplayRole then QText (chat_title item)
             else Invalid) (ChatsList_at l (mi_row index))))"

definition ChatsModel_roleNames :: "int \<Rightarrow> bytes option" where
  "ChatsModel_roleNames = [ChatsModel_ChatIdRole \<mapsto> str ''chat_id'', DisplayRole \<mapsto> str ''chat_title'']"

definition ContactsModel_rowCount :: "ContactsList option \<Rightarrow> model_index \<Rightarrow> nat" where
  "ContactsModel_rowCount m_list parent =
     (if mi_valid parent then 0 else (case m_list of None \<Rightarrow> 0 | Some l \<Rightarrow> ContactsList_size l))"

definition ContactsModel_data :: "ContactsList option \<Rightarrow> model_index \<Rightarrow> int \<Rightarrow> qvariant option" where
  "ContactsModel_data m_list index role =
     (case m_list of
        None \<Rightarrow> Some Invalid
      | Some l \<Rightarrow>
          (if \<not> mi_valid index then Some Invalid
           else map_option (\<lambda>item.
             if role = ContactsModel_UserIdRole then QULongLong (contact_user_id item)
             else if role = ContactsModel_NameRole then QText (contact_name item)
             else if role = ContactsModel_EmailRole then QText (contact_email item)
             else Invalid) (ContactsList_at l (mi_row index))))"

definition ContactsModel_roleNames :: "int \<Rightarrow> bytes option" where
  "ContactsModel_roleNames = [ContactsModel_UserIdRole \<mapsto> str ''user_id'',
     ContactsModel_NameRole \<mapsto> str ''name'', ContactsModel_EmailRole \<mapsto> str ''email'']"

definition MessagesModel_rowCount :: "MessagesList option \<Rightarrow> model_index \<Rightarrow> nat" where
  "MessagesModel_rowCount m_list parent =
     (if mi_valid parent then 0 else (case m_list of None \<Rightarrow> 0 | Some l \<Rightarrow> MessagesList_size l))"

definition MessagesModel_data :: "MessagesList option \<Rightarrow> model_index \<Rightarrow> int \<Rightarrow> qvariant option" where
  "MessagesModel_data m_list index role =
     (case m_list of
        None \<Rightarrow> Some Invalid
      | Some l \<Rightarrow>
          (if \<not> mi_valid index then Some Invalid
           else map_option (\<lambda>item.
             if role = MessagesModel_SenderIdRole then QULongLong (mesg_sender_id item)
             else if role = DisplayRole then QText (mesg_text item)
             else Invalid) (MessagesList_at l (mi_row index))))"

definition MessagesModel_roleNames :: "int \<Rightarrow> bytes option" where
  "MessagesModel_roleNames = [MessagesModel_SenderIdRole \<mapsto> str ''sender_id'', DisplayRole \<mapsto> str ''mesg'']"

section \<open>Views stay in step with the lists\<close>

text \<open>
  What the views make of the calls: the number of rows they know, and the conditions
  \<open>QAbstractItemModel\<close> documents for the ranges (first not after last, inside the rows).
\<close>

fun replay :: "nat \<Rightarrow> row_op list \<Rightarrow> nat option" where
  "replay n [] = Some n"
| "replay n (BeginInsertRows i j # EndInsertRows # ops) =
     (if 0 \<le> i \<and> i \<le> int n \<and> i \<le> j
      then replay (n + nat (j - i + 1)) ops else None)"
| "replay n (BeginRemoveRows i j # EndRemoveRows # ops) =
     (if 0 \<le> i \<and> i \<le> j \<and> j < int n
      then replay (n - nat (j - i + 1)) ops else None)"
| "replay n _ = None"

text \<open>
  What the three lists have in common: \<open>setItems\<close> first takes away what is shown and then
  inserts the new rows.
\<close>

locale item_list =
  fixes rows :: "'l \<Rightarrow> nat" and shown :: "'l \<Rightarrow> bool" and slot :: "signal \<times> 'l \<Rightarrow> row_op"
    and set_items :: "'i list \<Rightarrow> 'l \<Rightarrow> (signal \<times> 'l) list \<times> 'l"
  assumes not_shown: "\<not> shown l \<Longrightarrow> rows l = 0"
    and set_items_ops: "map slot (fst (set_items xs l)) =
      (if shown l then [BeginRemoveRows 0 (int (rows l) - 1), EndRemoveRows] else []) @
      [BeginInsertRows 0 (int (length xs) - 1), EndInsertRows]"
    and set_items_rows: "rows (snd (set_items xs l)) = length xs"
begin

lemma set_items_in_step:
  assumes "xs \<noteq> []" and "shown l \<longrightarrow> rows l \<noteq> 0"
  shows "replay (rows l) (map slot (fst (set_items xs l))) = Some (rows (snd (set_items xs l)))"
  using assms not_shown [of l] by (auto simp: set_items_ops set_items_rows Suc_le_eq)

text \<open>
  An empty vector is announced with the rows from 0 to -1, which the documentation forbids:
  when it is inserted, and again when it is taken away.
\<close>

lemma set_items_empty: "xs = [] \<or> shown l \<and> rows l = 0 \<Longrightarrow> replay (rows l) (map slot (fst (set_items xs l))) = None"
  using not_shown [of l] by (auto simp: set_items_ops)

lemma set_items_views:
  "replay (rows l) (map slot (fst (set_items xs l))) =
    (if xs = [] \<or> shown l \<and> rows l = 0 then None else Some (rows (snd (set_items xs l))))"
  using set_items_in_step [of xs l] set_items_empty [of xs l] by auto

end

interpretation chats: item_list ChatsList_size "\<lambda>l. ch_items l \<noteq> []" ChatsModel_slot
  "\<lambda>xs. ChatsList_setItems (Some xs)"
  by unfold_locales (simp_all add: ChatsList_size_def ChatsList_setItems_def ChatsList_reset_def Let_def)

interpretation contacts: item_list ContactsList_size "\<lambda>l. co_items l \<noteq> []" ContactsModel_slot
  "\<lambda>xs. ContactsList_setItems (Some xs)"
  by unfold_locales (simp_all add: ContactsList_size_def ContactsList_setItems_def ContactsList_reset_def Let_def)

interpretation messages: item_list MessagesList_size "\<lambda>l. me_items l \<noteq> None" MessagesModel_slot
  "\<lambda>xs. MessagesList_setItems (Some xs)"
  by unfold_locales (auto simp: MessagesList_size_def MessagesList_setItems_def Let_def split: option.splits)

text \<open>Another chat: the rows that are shown go, even when there are none, and the stored ones come.\<close>

lemma setCurrentChatId_views:
  assumes "chatId \<noteq> me_currentChatId l"
  shows "replay (MessagesList_size l) (map MessagesModel_slot (fst (MessagesList_setCurrentChatId chatId l))) =
    (if MessagesList_size l = 0 \<or> me_map l chatId = Some [] then None
     else Some (MessagesList_size (snd (MessagesList_setCurrentChatId chatId l))))"
  using assms by (auto simp: MessagesList_setCurrentChatId_def MessagesList_size_def Let_def Suc_le_eq
      split: option.splits)

text \<open>However often \<open>setList\<close> is called, the model is connected once, to its list.\<close>

lemma setList_connected:
  assumes "md_connected m = (case md_list m of None \<Rightarrow> [] | Some p \<Rightarrow> [p])"
  shows "md_connected (snd (ChatsModel_setList q m)) = (case md_list (snd (ChatsModel_setList q m)) of
    None \<Rightarrow> [] | Some p \<Rightarrow> [p])"
  using assms by (auto simp: ChatsModel_setList_def Let_def split: option.splits)

definition setLists :: "(nat option \<Rightarrow> list_model \<Rightarrow> row_op list \<times> list_model) \<Rightarrow> nat option list \<Rightarrow> list_model" where
  "setLists set_list qs = fold (\<lambda>q m. snd (set_list q m)) qs model_init"

lemma setLists_connected:
  assumes "set_list = ChatsModel_setList"
  shows "md_connected (setLists set_list qs) = (case md_list (setLists set_list qs) of None \<Rightarrow> [] | Some p \<Rightarrow> [p])"
proof -
  have "md_connected (fold (\<lambda>q m. snd (ChatsModel_setList q m)) qs m) =
      (case md_list (fold (\<lambda>q m. snd (ChatsModel_setList q m)) qs m) of None \<Rightarrow> [] | Some p \<Rightarrow> [p])"
    if "md_connected m = (case md_list m of None \<Rightarrow> [] | Some p \<Rightarrow> [p])" for m
    using that by (induction qs arbitrary: m) (simp_all add: setList_connected)
  then show ?thesis using assms by (simp add: setLists_def model_init_def)
qed

lemma concat_singletons: "concat (map (\<lambda>x. [f x]) xs) = map f xs"
  by (induction xs) simp_all

lemma received_once:
  assumes "set_list = ChatsModel_setList"
  shows "received (setLists set_list qs) p slot sigs =
    (if md_list (setLists set_list qs) = Some p then map slot sigs else [])"
  using setLists_connected [OF assms, of qs] by (simp add: received_def concat_singletons split: option.splits)

text \<open>A row the model reports can be read.\<close>

lemma vector_at_Some [simp]: "vector_at xs (int i) \<noteq> None \<longleftrightarrow> i < length xs"
  by (simp add: vector_at_def)

lemma ChatsModel_data_row:
  "\<lbrakk>mi_valid index; 0 \<le> mi_row index; mi_row index < int (ChatsModel_rowCount (Some l) root); \<not> mi_valid root\<rbrakk> \<Longrightarrow>
   ChatsModel_data (Some l) index role \<noteq> None"
  by (simp add: ChatsModel_data_def ChatsModel_rowCount_def ChatsList_at_def ChatsList_size_def vector_at_def)

lemma ContactsModel_data_row:
  "\<lbrakk>mi_valid index; 0 \<le> mi_row index; mi_row index < int (ContactsModel_rowCount (Some l) root); \<not> mi_valid root\<rbrakk> \<Longrightarrow>
   ContactsModel_data (Some l) index role \<noteq> None"
  by (simp add: ContactsModel_data_def ContactsModel_rowCount_def ContactsList_at_def ContactsList_size_def
      vector_at_def)

lemma MessagesModel_data_row:
  "\<lbrakk>mi_valid index; 0 \<le> mi_row index; mi_row index < int (MessagesModel_rowCount (Some l) root); \<not> mi_valid root\<rbrakk> \<Longrightarrow>
   MessagesModel_data (Some l) index role \<noteq> None"
  by (auto simp: MessagesModel_data_def MessagesModel_rowCount_def MessagesList_at_def MessagesList_size_def
      vector_at_def split: option.splits)

section \<open>The index of contacts\<close>

text \<open>The map holds exactly the ids of the items, and every pointer is live.\<close>

definition index_ok :: "ContactsList \<Rightarrow> bool" where
  "index_ok l \<longleftrightarrow> dom (co_idToItem l) = contact_user_id ` set (co_items l) \<and>
     (\<forall>i p. co_idToItem l i = Some p \<longrightarrow> (\<exists>item. deref_item l p = Some item \<and> contact_user_id item = i))"

lemma fill_ids_absent:
  "i \<notin> contact_user_id ` set items \<Longrightarrow> fill_ids v k items m i = m i"
  by (induction items arbitrary: k m) auto

lemma fill_ids_present:
  "i \<in> contact_user_id ` set items \<Longrightarrow>
   \<exists>j < length items. fill_ids v k items m i = Some (v, k + j) \<and> contact_user_id (items ! j) = i \<and>
     (\<forall>j'. j < j' \<longrightarrow> j' < length items \<longrightarrow> contact_user_id (items ! j') \<noteq> i)"
proof (induction items arbitrary: k m)
  case (Cons item items)
  show ?case
  proof (cases "i \<in> contact_user_id ` set items")
    case True
    from Cons.IH [OF this, of "Suc k" "m(contact_user_id item \<mapsto> (v, k))"] obtain j
      where j: "j < length items"
        "fill_ids v (Suc k) items (m(contact_user_id item \<mapsto> (v, k))) i = Some (v, Suc k + j)"
        "contact_user_id (items ! j) = i"
        "\<forall>j'. j < j' \<longrightarrow> j' < length items \<longrightarrow> contact_user_id (items ! j') \<noteq> i" by blast
    have "contact_user_id ((item # items) ! j') \<noteq> i" if "Suc j < j'" "j' < length (item # items)" for j'
      using that j(4) by (cases j') auto
    with j show ?thesis by (intro exI [of _ "Suc j"]) auto
  next
    case False
    with Cons.prems have "contact_user_id item = i" by auto
    moreover have "contact_user_id ((item # items) ! j') \<noteq> i" if "0 < j'" "j' < length (item # items)" for j'
      using that False by (cases j') (auto simp: image_iff)
    ultimately show ?thesis
      using fill_ids_absent [OF False, of v "Suc k" "m(contact_user_id item \<mapsto> (v, k))"]
      by (intro exI [of _ 0]) auto
  qed
qed simp

lemma setItems_contacts:
  "co_items (snd (ContactsList_setItems vec l)) = (case vec of None \<Rightarrow> [] | Some items \<Rightarrow> items)"
  "co_idToItem (snd (ContactsList_setItems vec l)) =
     fill_ids (co_vector (snd (ContactsList_setItems vec l))) 0 (co_items (snd (ContactsList_setItems vec l))) Map.empty"
  by (simp_all add: ContactsList_setItems_def ContactsList_reset_def Let_def split: option.splits)

lemma index_ok_filled:
  assumes "co_idToItem l = fill_ids (co_vector l) 0 (co_items l) Map.empty"
  shows "index_ok l"
proof -
  let ?f = "fill_ids (co_vector l) 0 (co_items l) Map.empty"
  have in_dom: "?f i = Some p \<Longrightarrow> i \<in> contact_user_id ` set (co_items l)" for i p
    using fill_ids_absent [of i "co_items l" "co_vector l" 0 Map.empty] by force
  have "dom ?f = contact_user_id ` set (co_items l)"
    using in_dom fill_ids_present [of _ "co_items l" "co_vector l" 0 Map.empty] by (fastforce simp: dom_def)
  moreover have "\<exists>item. deref_item l p = Some item \<and> contact_user_id item = i" if "?f i = Some p" for i p
    using fill_ids_present [OF in_dom [OF that], of "co_vector l" 0 Map.empty] that
    by (auto simp: deref_item_def)
  ultimately show ?thesis using assms by (simp add: index_ok_def)
qed

section \<open>The messages of the current chat\<close>

text \<open>The shown vector is the one stored for the current chat.\<close>

definition current_ok :: "MessagesList \<Rightarrow> bool" where
  "current_ok l \<longleftrightarrow> me_items l = me_map l (me_currentChatId l)"

lemma current_ok_init: "current_ok MessagesList_init"
  by (simp add: current_ok_def MessagesList_init_def)

lemma current_ok_setItems: "current_ok (snd (MessagesList_setItems (Some items) l))"
  by (auto simp: current_ok_def MessagesList_setItems_def Let_def split: option.splits)

lemma current_ok_setCurrentChatId:
  "current_ok l \<Longrightarrow> current_ok (snd (MessagesList_setCurrentChatId c l))"
  by (auto simp: current_ok_def MessagesList_setCurrentChatId_def Let_def split: option.splits)

lemma setCurrentChatId_shows:
  "current_ok l \<Longrightarrow> me_items (snd (MessagesList_setCurrentChatId c l)) = me_map l c \<and>
     me_currentChatId (snd (MessagesList_setCurrentChatId c l)) = c \<and>
     me_map (snd (MessagesList_setCurrentChatId c l)) = me_map l"
  by (auto simp: current_ok_def MessagesList_setCurrentChatId_def Let_def split: option.splits)

lemma setItems_shows:
  "me_items (snd (MessagesList_setItems (Some items) l)) = Some items \<and>
   me_currentChatId (snd (MessagesList_setItems (Some items) l)) = me_currentChatId l \<and>
   me_map (snd (MessagesList_setItems (Some items) l)) = (me_map l)(me_currentChatId l \<mapsto> items)"
  by (auto simp: MessagesList_setItems_def Let_def split: option.splits)

end
