(* ===== verification/Client_Base.thy ===== *)
theory Client_Base
  imports Packets Client_Lists
begin

text \<open>
  The state of the client program, the slots of the facade, the sending half of the network
  session (\<open>client/src/network\<close>) and the message factory and parser
  (\<open>client/src/message_processing\<close>). All of it runs on one thread and Qt calls the slots of a
  signal at once, so the operations are functions on one state. The socket is third-party:
  its state is what the peer has sent (\<open>sock_rx\<close>) and what was written (\<open>sock_tx\<close>), and
  conversions and validators of Qt are fields of \<open>client_env\<close>.
\<close>

section \<open>State\<close>

text \<open>
  \<^item> \<open>qt_to_utf8\<close>, \<open>qt_from_utf8\<close>: \<open>QString::toStdString\<close> and \<open>QString::fromStdString\<close>;
  \<^item> \<open>qt_valid_address\<close>: \<open>QHostAddress::setAddress\<close> gives an address that is not null;
  \<^item> \<open>qt_valid_port\<close>: \<open>QIntValidator{0, 65535}\<close> accepts the text;
  \<^item> \<open>qt_abort_notifies\<close>: \<open>abort\<close> of a connected socket emits \<open>disconnected\<close> at once.
\<close>

record client_env =
  cl_pb :: pb
  qt_to_utf8 :: "qstring \<Rightarrow> bytes"
  qt_from_utf8 :: "bytes \<Rightarrow> qstring"
  qt_valid_address :: "qstring \<Rightarrow> bool"
  qt_valid_port :: "qstring \<Rightarrow> bool"
  qt_to_ushort :: "qstring \<Rightarrow> 16 word"
  qt_abort_notifies :: bool

record Profile =
  profile_userId :: u64
  profile_userName :: qstring
  profile_userEmail :: qstring

datatype client_job = LoginJob | RegisterJob | LoadChatsJob | LoadContactsJob | LoadMessagesJob
  | SendMessageJob | AddContactJob | LoadDataJob | CreateChatJob

text \<open>The signals of \<open>Backend\<close>, and the signals of \<open>BackEndFacade\<close> that QML reacts to.\<close>

datatype backend_signal = LoggedIn bool | Registered bool | AddedContact bool | LoadedChats
  | LoadedContacts | LoadedMessages | LoadedData | SendedMessage bool
  | UpdatedConnectionSettings qstring | OperationAborted qstring | ShowMessage qstring
  | ChatCreated bool | Disconnected

datatype reaction = DoLoginReaction bool | DoRegisterReaction bool | DoLoadChatsReaction
  | DoLoadContactsReaction | DoLoadMessagesReaction | DoSendMessageReaction bool
  | DoAddContactReaction bool | DoLoadDataReaction | DoUpdateConnectionSettingsReaction qstring
  | DoOperationAborted qstring | DoShowMessage qstring | DoChatCreatedReaction bool
  | DoDisconnected | ServerIpChanged | ServerPortChanged

text \<open>
  What stops the program or leaves defined behaviour: calling the empty \<open>std::function\<close>;
  resizing a buffer to a negative size, and writing or parsing past the end of a buffer. Only
  the first fault is recorded.
\<close>

datatype client_fault = Bad_function_call | Bad_buffer_size

record client =
  sock_connected :: bool
  sock_rx :: bytes
  sock_tx :: "bytes list"
  sock_peer :: "(qstring \<times> 16 word) option"
  m_buffer :: bytes
  m_callback :: "client_job option"
  m_bytesReaded :: int
  m_messageSize :: int
  m_profile :: "Profile option"
  m_chatsList :: ChatsList
  m_contactsList :: ContactsList
  m_mesagesList :: MessagesList
  m_serverIp :: qstring
  m_serverPort :: qstring
  m_availible :: bool
  m_reactions :: "reaction list"
  m_fault :: "client_fault option"

definition set_fault :: "client_fault \<Rightarrow> client \<Rightarrow> client" where
  "set_fault f c = (if m_fault c = None then c\<lparr>m_fault := Some f\<rparr> else c)"

section \<open>Slots of the facade\<close>

definition availible :: "client \<Rightarrow> bool" where
  "availible c = m_availible c"

definition setAvailible :: "bool \<Rightarrow> client \<Rightarrow> client" where
  "setAvailible a c = c\<lparr>m_availible := a\<rparr>"

definition react :: "reaction \<Rightarrow> client \<Rightarrow> client" where
  "react r c = c\<lparr>m_reactions := m_reactions c @ [r]\<rparr>"

text \<open>\<open>emit m_backend->...\<close>: the functions the constructor of the facade connected.\<close>

fun emit :: "backend_signal \<Rightarrow> client \<Rightarrow> client" where
  "emit (LoggedIn status) c = react (DoLoginReaction status) (setAvailible True c)"
| "emit (Registered status) c = react (DoRegisterReaction status) (setAvailible True c)"
| "emit LoadedChats c = react DoLoadChatsReaction (setAvailible True c)"
| "emit LoadedContacts c = react DoLoadContactsReaction (setAvailible True c)"
| "emit LoadedMessages c = react DoLoadMessagesReaction (setAvailible True c)"
| "emit (SendedMessage status) c = react (DoSendMessageReaction status) (setAvailible True c)"
| "emit (AddedContact isAdded) c = react (DoAddContactReaction isAdded) (setAvailible True c)"
| "emit LoadedData c = react DoLoadDataReaction (setAvailible True c)"
| "emit (UpdatedConnectionSettings m) c = react (DoUpdateConnectionSettingsReaction m) (setAvailible True c)"
| "emit (OperationAborted m) c = react (DoOperationAborted m) (setAvailible True c)"
| "emit (ShowMessage m) c = react (DoShowMessage m) c"
| "emit (ChatCreated isCreated) c = react (DoChatCreatedReaction isCreated) (setAvailible True c)"
| "emit Disconnected c = react DoDisconnected (setAvailible True c)"

section \<open>Session: sending and connecting\<close>

definition isConnected :: "client \<Rightarrow> bool" where
  "isConnected c = sock_connected c"

definition not_connected_text :: qstring where
  "not_connected_text = qstr ''Not connected, can't send requests! Check connection settings.''"

text \<open>The buffer that \<open>request\<close> fills.\<close>

definition request_buffer :: "pb \<Rightarrow> WrappedMessage \<Rightarrow> bytes \<Rightarrow> bytes" where
  "request_buffer P mesg buf =
     poke PREFIX_SIZE (WrappedMessage_SerializeToArray P mesg)
       (poke 0 (LengthPrefix_SerializeToArray P
                  \<lparr>LengthPrefix_length = of_nat (WrappedMessage_ByteSize P mesg)\<rparr>)
          (resize (WrappedMessage_ByteSize P mesg + PREFIX_SIZE) buf))"

definition Session_request :: "client_env \<Rightarrow> Request \<Rightarrow> client_job \<Rightarrow> client \<Rightarrow> client" where
  "Session_request env req callback c =
     (if isConnected c then
        (let out = request_buffer (cl_pb env) (WrappedMessage_request req) (m_buffer c) in
         c\<lparr>m_callback := Some callback, m_buffer := out, sock_tx := sock_tx c @ [out]\<rparr>)
      else emit (OperationAborted not_connected_text) c)"

definition Session_onConnection :: "client \<Rightarrow> client" where
  "Session_onConnection c = emit (ShowMessage (qstr ''Connected!'')) c"

definition Session_onDisconnection :: "client \<Rightarrow> client" where
  "Session_onDisconnection c = emit Disconnected c"

text \<open>\<open>QTcpSocket::abort\<close>: the connection and what was received are gone.\<close>

definition sock_abort :: "client_env \<Rightarrow> client \<Rightarrow> client" where
  "sock_abort env c =
     (let c' = c\<lparr>sock_connected := False, sock_rx := [], sock_peer := None\<rparr> in
      if sock_connected c \<and> qt_abort_notifies env then Session_onDisconnection c' else c')"

definition Session_connect :: "client_env \<Rightarrow> qstring \<Rightarrow> qstring \<Rightarrow> client \<Rightarrow> qstring option \<times> client" where
  "Session_connect env address port c =
     (if \<not> qt_valid_address env address then (Some (qstr ''Invalid ip address''), c)
      else if \<not> qt_valid_port env port then (Some (qstr ''Invalid port''), c)
      else (None, (sock_abort env c)\<lparr>sock_peer := Some (address, qt_to_ushort env port)\<rparr>))"

datatype socket_error = RemoteHostClosedError | HostNotFoundError | ConnectionRefusedError
  | OtherError qstring

fun Session_onError :: "socket_error \<Rightarrow> client \<Rightarrow> client" where
  "Session_onError RemoteHostClosedError c = c"
| "Session_onError HostNotFoundError c = emit (OperationAborted
     (qstr ''The host was not found. Please check the host name and port settings.'')) c"
| "Session_onError ConnectionRefusedError c = emit (OperationAborted
     (qstr ''The connection was refused by the peer. Make sure the Elegram server is running, and check that the host name and port settings are correct.'')) c"
| "Session_onError (OtherError m) c = emit (OperationAborted
     (qstr ''The following error occurred: '' @ m @ qstr ''.'')) c"

section \<open>MessageFactory\<close>

definition createLoginRequest :: "client_env \<Rightarrow> qstring \<Rightarrow> qstring \<Rightarrow> Request" where
  "createLoginRequest env mail password = Request_login_request
     \<lparr>LoginRequest_email = qt_to_utf8 env mail, LoginRequest_password = qt_to_utf8 env password\<rparr>"

definition createRegisterRequest :: "client_env \<Rightarrow> qstring \<Rightarrow> qstring \<Rightarrow> qstring \<Rightarrow> Request" where
  "createRegisterRequest env name mail password = Request_register_request
     \<lparr>RegisterRequest_name = qt_to_utf8 env name, RegisterRequest_email = qt_to_utf8 env mail,
      RegisterRequest_password = qt_to_utf8 env password\<rparr>"

definition createAllMyChatsRequest :: Request where
  "createAllMyChatsRequest = Request_chats_request AllMyChatsRequest_default"

definition createAllMyContactsRequest :: Request where
  "createAllMyContactsRequest = Request_contacts_request AllMyContactsRequest_default"

definition createLoadMessagesRequest :: "u64 \<Rightarrow> Request" where
  "createLoadMessagesRequest chatId = Request_messages_request \<lparr>MessagesRequest_chat_id = chatId\<rparr>"

definition createSendMessageRequest :: "client_env \<Rightarrow> u64 \<Rightarrow> qstring \<Rightarrow> Request" where
  "createSendMessageRequest env chatId text = Request_send_mesg_request
     \<lparr>SendMessageRequest_mesg = Some \<lparr>MessageToSend_chat_id = chatId, MessageToSend_text = qt_to_utf8 env text\<rparr>\<rparr>"

definition createAddContactRequest :: "client_env \<Rightarrow> qstring \<Rightarrow> Request" where
  "createAddContactRequest env mail = Request_add_contact_request
     \<lparr>AddContactRequest_email = qt_to_utf8 env mail\<rparr>"

definition createCreateChatRequest :: "u64 \<Rightarrow> Request" where
  "createCreateChatRequest friendId = Request_create_chat_request \<lparr>CreateChatRequest_friend_id = friendId\<rparr>"

text \<open>\<open>MessageParser::parse_response\<close>; its buffer is shorter than \<open>2 ^ 31\<close>.\<close>

definition parse_response :: "pb \<Rightarrow> bytes \<Rightarrow> Response option" where
  "parse_response P buf =
     (case parse_from_array P (WrappedMessage_MergePartialFromCodedStream P) WrappedMessage_default buf of
        Some (WrappedMessage_response r) \<Rightarrow> Some r
      | _ \<Rightarrow> None)"

end
