(* ===== verification/Client_Jobs.thy ===== *)
theory Client_Jobs
  imports Client_Base
begin

text \<open>
  The jobs of the client (\<open>client/src/jobs\<close>): what each one asks the server for, and what it
  does with the response, which the network session hands to the callback of the job.
\<close>

section \<open>Executing jobs\<close>

text \<open>\<open>exec\<close> makes the request and passes it to the session with the callback of the job.\<close>

definition LoginJob_exec :: "client_env \<Rightarrow> qstring \<Rightarrow> qstring \<Rightarrow> client \<Rightarrow> client" where
  "LoginJob_exec env mail password =
     Session_request env (createLoginRequest env mail password) LoginJob"

definition RegisterJob_exec :: "client_env \<Rightarrow> qstring \<Rightarrow> qstring \<Rightarrow> qstring \<Rightarrow> client \<Rightarrow> client" where
  "RegisterJob_exec env name mail password =
     Session_request env (createRegisterRequest env name mail password) RegisterJob"

definition LoadChatsJob_exec :: "client_env \<Rightarrow> client \<Rightarrow> client" where
  "LoadChatsJob_exec env = Session_request env createAllMyChatsRequest LoadChatsJob"

definition LoadContactsJob_exec :: "client_env \<Rightarrow> client \<Rightarrow> client" where
  "LoadContactsJob_exec env = Session_request env createAllMyContactsRequest LoadContactsJob"

definition LoadMessagesJob_exec :: "client_env \<Rightarrow> u64 \<Rightarrow> client \<Rightarrow> client" where
  "LoadMessagesJob_exec env chatId = Session_request env (createLoadMessagesRequest chatId) LoadMessagesJob"

definition SendMessageJob_exec :: "client_env \<Rightarrow> u64 \<Rightarrow> qstring \<Rightarrow> client \<Rightarrow> client" where
  "SendMessageJob_exec env chatId message =
     Session_request env (createSendMessageRequest env chatId message) SendMessageJob"

definition AddContactJob_exec :: "client_env \<Rightarrow> qstring \<Rightarrow> client \<Rightarrow> client" where
  "AddContactJob_exec env mail = Session_request env (createAddContactRequest env mail) AddContactJob"

definition LoadDataJob_exec :: "client_env \<Rightarrow> client \<Rightarrow> client" where
  "LoadDataJob_exec env = Session_request env createAllMyContactsRequest LoadDataJob"

definition CreateChatJob_exec :: "client_env \<Rightarrow> u64 \<Rightarrow> client \<Rightarrow> client" where
  "CreateChatJob_exec env friendId = Session_request env (createCreateChatRequest friendId) CreateChatJob"

lemmas exec_defs = LoginJob_exec_def RegisterJob_exec_def LoadChatsJob_exec_def LoadContactsJob_exec_def
  LoadMessagesJob_exec_def SendMessageJob_exec_def AddContactJob_exec_def LoadDataJob_exec_def
  CreateChatJob_exec_def

section \<open>Callbacks\<close>

text \<open>Text of a message goes through \<open>c_str()\<close> on its way into a \<open>QString\<close>.\<close>

definition text_of :: "client_env \<Rightarrow> bytes \<Rightarrow> qstring" where
  "text_of env s = qt_from_utf8 env (c_str s)"

definition Backend_chatsList :: "client \<Rightarrow> ChatsList" where
  "Backend_chatsList c = m_chatsList c"

definition Backend_contactsList :: "client \<Rightarrow> ContactsList" where
  "Backend_contactsList c = m_contactsList c"

definition Backend_mesagesList :: "client \<Rightarrow> MessagesList" where
  "Backend_mesagesList c = m_mesagesList c"

lemmas backend_lists [simp] = Backend_chatsList_def Backend_contactsList_def Backend_mesagesList_def

definition chat_item :: "client_env \<Rightarrow> Chat \<Rightarrow> ChatItem" where
  "chat_item env chat = \<lparr>chat_id = Chat_chat_id chat, chat_title = text_of env (Chat_title chat)\<rparr>"

definition setChats :: "client_env \<Rightarrow> ChatsResponse \<Rightarrow> client \<Rightarrow> client" where
  "setChats env chats c =
     c\<lparr>m_chatsList := snd (ChatsList_setItems (Some (map (chat_item env) (ChatsResponse_chats chats)))
        (Backend_chatsList c))\<rparr>"

definition contact_item :: "client_env \<Rightarrow> Contact \<Rightarrow> ContactItem" where
  "contact_item env contact = \<lparr>contact_user_id = Contact_user_id contact,
     contact_name = text_of env (Contact_name contact), contact_email = text_of env (Contact_email contact)\<rparr>"

definition setContacts :: "client_env \<Rightarrow> ContactsResponse \<Rightarrow> client \<Rightarrow> client" where
  "setContacts env contacts c =
     c\<lparr>m_contactsList := snd (ContactsList_setItems
        (Some (map (contact_item env) (ContactsResponse_contacts contacts))) (Backend_contactsList c))\<rparr>"

definition message_item :: "client_env \<Rightarrow> MessageToRecieve \<Rightarrow> MessageItem" where
  "message_item env mesg = \<lparr>mesg_sender_id = MessageToRecieve_sender_id mesg,
     mesg_text = text_of env (MessageToRecieve_text mesg)\<rparr>"

definition setMessages :: "client_env \<Rightarrow> MessagesResponse \<Rightarrow> client \<Rightarrow> client" where
  "setMessages env messages c =
     c\<lparr>m_mesagesList := snd (MessagesList_setItems
        (Some (map (message_item env) (MessagesResponse_messages messages))) (Backend_mesagesList c))\<rparr>"

definition Backend_setProfile :: "Profile \<Rightarrow> client \<Rightarrow> client" where
  "Backend_setProfile p c = c\<lparr>m_profile := Some p\<rparr>"

fun accepted :: "Response \<Rightarrow> bool" where
  "accepted (Response_status_response s) \<longleftrightarrow> StatusResponse_result s = 0"
| "accepted _ \<longleftrightarrow> False"

definition LoginJob_callback :: "client_env \<Rightarrow> Response \<Rightarrow> client \<Rightarrow> client" where
  "LoginJob_callback env response c =
     (case response of
        Response_login_response r \<Rightarrow>
          (case LoginResponse_profile r of
             Some p \<Rightarrow> emit (LoggedIn True) (Backend_setProfile
               \<lparr>profile_userId = Contact_user_id p, profile_userName = qt_from_utf8 env (Contact_name p),
                profile_userEmail = qt_from_utf8 env (Contact_email p)\<rparr> c)
           | None \<Rightarrow> emit (LoggedIn False) c)
      | _ \<Rightarrow> emit (LoggedIn False) c)"

definition LoadChatsJob_callback :: "client_env \<Rightarrow> Response \<Rightarrow> client \<Rightarrow> client" where
  "LoadChatsJob_callback env response c =
     emit LoadedChats (case response of Response_chats_response r \<Rightarrow> setChats env r c | _ \<Rightarrow> c)"

definition LoadContactsJob_callback :: "client_env \<Rightarrow> Response \<Rightarrow> client \<Rightarrow> client" where
  "LoadContactsJob_callback env response c =
     emit LoadedContacts (case response of Response_contacts_response r \<Rightarrow> setContacts env r c | _ \<Rightarrow> c)"

definition LoadMessagesJob_callback :: "client_env \<Rightarrow> Response \<Rightarrow> client \<Rightarrow> client" where
  "LoadMessagesJob_callback env response c =
     emit LoadedMessages (case response of Response_messages_response r \<Rightarrow> setMessages env r c | _ \<Rightarrow> c)"

text \<open>The two rounds of \<open>LoadDataJob\<close>: contacts, and then chats with the same callback.\<close>

definition LoadDataJob_callback :: "client_env \<Rightarrow> Response \<Rightarrow> client \<Rightarrow> client" where
  "LoadDataJob_callback env response c =
     (case response of
        Response_contacts_response r \<Rightarrow>
          Session_request env createAllMyChatsRequest LoadDataJob (setContacts env r c)
      | Response_chats_response r \<Rightarrow> emit LoadedData (setChats env r c)
      | _ \<Rightarrow> emit LoadedData c)"

definition RegisterJob_callback :: "Response \<Rightarrow> client \<Rightarrow> client" where
  "RegisterJob_callback response c = emit (Registered (accepted response)) c"

definition SendMessageJob_callback :: "Response \<Rightarrow> client \<Rightarrow> client" where
  "SendMessageJob_callback response c = emit (SendedMessage (accepted response)) c"

definition AddContactJob_callback :: "Response \<Rightarrow> client \<Rightarrow> client" where
  "AddContactJob_callback response c = emit (AddedContact (accepted response)) c"

definition CreateChatJob_callback :: "Response \<Rightarrow> client \<Rightarrow> client" where
  "CreateChatJob_callback response c = emit (ChatCreated (accepted response)) c"

lemmas status_callback_defs [simp] = RegisterJob_callback_def SendMessageJob_callback_def
  AddContactJob_callback_def CreateChatJob_callback_def

fun responseProcessingCallback :: "client_env \<Rightarrow> client_job \<Rightarrow> Response \<Rightarrow> client \<Rightarrow> client" where
  "responseProcessingCallback env LoginJob response c = LoginJob_callback env response c"
| "responseProcessingCallback env RegisterJob response c = RegisterJob_callback response c"
| "responseProcessingCallback env LoadChatsJob response c = LoadChatsJob_callback env response c"
| "responseProcessingCallback env LoadContactsJob response c = LoadContactsJob_callback env response c"
| "responseProcessingCallback env LoadMessagesJob response c = LoadMessagesJob_callback env response c"
| "responseProcessingCallback env SendMessageJob response c = SendMessageJob_callback response c"
| "responseProcessingCallback env AddContactJob response c = AddContactJob_callback response c"
| "responseProcessingCallback env LoadDataJob response c = LoadDataJob_callback env response c"
| "responseProcessingCallback env CreateChatJob response c = CreateChatJob_callback response c"

end
