(* ===== verification/Client.thy ===== *)
theory Client
  imports Client_Jobs
begin

text \<open>
  The receiving half of the network session, the backend (\<open>client/src/backend.cpp\<close>) and the
  facade that the QML code calls (\<open>client/src/backend_facade.cpp\<close>), and the program as a
  function on the events that reach it.
\<close>

section \<open>Session: receiving\<close>

abbreviation PARSE_ERROR :: int where
  "PARSE_ERROR \<equiv> - 1"

text \<open>
  The three uses of the buffer, each with what it does to a buffer that does not fit.
  \<open>QVector::resize\<close> takes an \<open>int\<close> and is undefined on a negative one. \<open>QTcpSocket::read\<close> gives
  \<open>- 1\<close> for a negative maximum and writes what it has, up to the maximum, from the start of the
  buffer. \<open>ParseFromArray\<close> reads the given number of bytes of the buffer.
\<close>

definition QVector_resize :: "int \<Rightarrow> client \<Rightarrow> client" where
  "QVector_resize n c =
     (if n < 0 then set_fault Bad_buffer_size c else c\<lparr>m_buffer := resize (nat n) (m_buffer c)\<rparr>)"

definition sock_read :: "int \<Rightarrow> client \<Rightarrow> int \<times> client" where
  "sock_read maxSize c =
     (if maxSize < 0 then (- 1, c)
      else
        (let data = take (nat maxSize) (sock_rx c);
             c1 = c\<lparr>sock_rx := drop (nat maxSize) (sock_rx c)\<rparr> in
         (int (length data),
          if length data \<le> length (m_buffer c1) then c1\<lparr>m_buffer := poke 0 data (m_buffer c1)\<rparr>
          else set_fault Bad_buffer_size c1)))"

definition parse_buffer ::
  "pb \<Rightarrow> ('m \<Rightarrow> bytes \<Rightarrow> 'm parsed) \<Rightarrow> 'm \<Rightarrow> int \<Rightarrow> client \<Rightarrow> 'm option \<times> client" where
  "parse_buffer P parse m readed c =
     (if readed < 0 \<or> int (length (m_buffer c)) < readed then (None, set_fault Bad_buffer_size c)
      else (parse_from_array P parse m (take (nat readed) (m_buffer c)), c))"

text \<open>\<open>static_cast<int>\<close> of a \<open>qint64\<close> wraps.\<close>

definition to_int :: "int \<Rightarrow> int" where
  "to_int n = signed_take_bit 31 n"

definition Session_readPrefix :: "client_env \<Rightarrow> client \<Rightarrow> int \<times> client" where
  "Session_readPrefix env c =
     (case sock_read (int PREFIX_SIZE) (QVector_resize (to_int (int PREFIX_SIZE)) c) of
        (readed, c1) \<Rightarrow>
          (case parse_buffer (cl_pb env) (LengthPrefix_MergePartialFromCodedStream (cl_pb env))
                  LengthPrefix_default readed (c1\<lparr>m_bytesReaded := readed\<rparr>) of
             (Some prefix, c2) \<Rightarrow> (sint (LengthPrefix_length prefix), c2)
           | (None, c2) \<Rightarrow> (PARSE_ERROR, c2)))"

text \<open>The size is cast to \<open>int\<close> for \<open>resize\<close>, but \<open>read\<close> gets it uncast.\<close>

definition Session_readMessage :: "client_env \<Rightarrow> int \<Rightarrow> client \<Rightarrow> WrappedMessage option \<times> client" where
  "Session_readMessage env mesg_size c =
     (case sock_read mesg_size (QVector_resize (to_int mesg_size) c) of
        (readed, c1) \<Rightarrow>
          parse_buffer (cl_pb env) (WrappedMessage_MergePartialFromCodedStream (cl_pb env))
            WrappedMessage_default readed (c1\<lparr>m_bytesReaded := m_bytesReaded c1 + readed\<rparr>))"

definition Session_processResponse :: "client_env \<Rightarrow> WrappedMessage \<Rightarrow> client \<Rightarrow> client" where
  "Session_processResponse env message c =
     (case message of
        WrappedMessage_response response \<Rightarrow>
          (case m_callback c of
             Some job \<Rightarrow> responseProcessingCallback env job response c
           | None \<Rightarrow> set_fault Bad_function_call c)
      | _ \<Rightarrow> c)"

text \<open>The lambda \<open>load_mesg\<close> of \<open>onReadyRead\<close>.\<close>

definition load_mesg :: "client_env \<Rightarrow> client \<Rightarrow> client" where
  "load_mesg env c =
     (case Session_readMessage env (m_messageSize c) c of
        (Some readedMesg, c1) \<Rightarrow> Session_processResponse env readedMesg c1
      | (None, c1) \<Rightarrow> sock_abort env c1)"

definition bytesAvailable :: "client \<Rightarrow> int" where
  "bytesAvailable c = int (length (sock_rx c))"

definition Session_onReadyRead :: "client_env \<Rightarrow> client \<Rightarrow> client" where
  "Session_onReadyRead env c =
     (if m_bytesReaded c < int PREFIX_SIZE \<and> bytesAvailable c \<ge> int PREFIX_SIZE then
        (case Session_readPrefix env (c\<lparr>m_bytesReaded := 0\<rparr>) of
           (size', c1) \<Rightarrow>
             (let c2 = c1\<lparr>m_messageSize := size'\<rparr> in
              if m_messageSize c2 = PARSE_ERROR then (sock_abort env c2)\<lparr>m_bytesReaded := 0\<rparr>
              else if bytesAvailable c2 = m_messageSize c2
              then (load_mesg env c2)\<lparr>m_bytesReaded := 0\<rparr>
              else c2))
      else if m_bytesReaded c = int PREFIX_SIZE \<and> bytesAvailable c \<ge> m_messageSize c
      then (load_mesg env c)\<lparr>m_bytesReaded := 0\<rparr>
      else c\<lparr>m_bytesReaded := 0\<rparr>)"

text \<open>The peer's bytes arrive in pieces, and each one makes the socket emit \<open>readyRead\<close>.\<close>

definition receive :: "client_env \<Rightarrow> bytes \<Rightarrow> client \<Rightarrow> client" where
  "receive env data c = Session_onReadyRead env (c\<lparr>sock_rx := sock_rx c @ data\<rparr>)"

text \<open>The state after the two readings.\<close>

lemma readPrefix_state:
  "snd (Session_readPrefix env c) =
     (let (readed, c1) = sock_read (int PREFIX_SIZE) (QVector_resize (to_int (int PREFIX_SIZE)) c) in
      snd (parse_buffer (cl_pb env) (LengthPrefix_MergePartialFromCodedStream (cl_pb env))
             LengthPrefix_default readed (c1\<lparr>m_bytesReaded := readed\<rparr>)))"
  by (simp add: Session_readPrefix_def split: prod.split option.split)

lemma readMessage_state:
  "snd (Session_readMessage env n c) =
     (let (readed, c1) = sock_read n (QVector_resize (to_int n) c) in
      snd (parse_buffer (cl_pb env) (WrappedMessage_MergePartialFromCodedStream (cl_pb env))
             WrappedMessage_default readed (c1\<lparr>m_bytesReaded := m_bytesReaded c1 + readed\<rparr>)))"
  by (simp add: Session_readMessage_def split: prod.split)

text \<open>The prefix always fits, and so does a message whose announced size is an \<open>int\<close>.\<close>

lemma to_int_id: "0 \<le> n \<Longrightarrow> n < 2 ^ 31 \<Longrightarrow> to_int n = n"
  by (simp add: to_int_def signed_take_bit_int_eq_self)

lemma readPrefix_fits:
  "Session_readPrefix env c =
     (let data = take PREFIX_SIZE (sock_rx c); buf = poke 0 data (resize PREFIX_SIZE (m_buffer c));
          c1 = c\<lparr>m_buffer := buf, sock_rx := drop PREFIX_SIZE (sock_rx c), m_bytesReaded := int (length data)\<rparr> in
      case parse_from_array (cl_pb env) (LengthPrefix_MergePartialFromCodedStream (cl_pb env))
             LengthPrefix_default (take (length data) buf) of
        Some prefix \<Rightarrow> (sint (LengthPrefix_length prefix), c1)
      | None \<Rightarrow> (PARSE_ERROR, c1))"
  by (simp add: Session_readPrefix_def sock_read_def QVector_resize_def parse_buffer_def to_int_id Let_def
      split: option.split)

lemma readMessage_fits:
  assumes "0 \<le> n" and "n < 2 ^ 31"
  shows "Session_readMessage env n c =
     (let data = take (nat n) (sock_rx c); buf = poke 0 data (resize (nat n) (m_buffer c)) in
      (parse_from_array (cl_pb env) (WrappedMessage_MergePartialFromCodedStream (cl_pb env))
         WrappedMessage_default (take (length data) buf),
       c\<lparr>m_buffer := buf, sock_rx := drop (nat n) (sock_rx c), m_bytesReaded := m_bytesReaded c + int (length data)\<rparr>))"
  using assms
  by (simp add: Session_readMessage_def sock_read_def QVector_resize_def parse_buffer_def to_int_id Let_def)

section \<open>Backend and BackEndFacade\<close>

definition Backend_updateConnectionSettings ::
  "client_env \<Rightarrow> qstring \<Rightarrow> qstring \<Rightarrow> client \<Rightarrow> bool \<times> client" where
  "Backend_updateConnectionSettings env ip port c =
     (case Session_connect env ip port c of
        (Some err, c1) \<Rightarrow> (False, emit (UpdatedConnectionSettings err) c1)
      | (None, c1) \<Rightarrow> (True, emit (UpdatedConnectionSettings []) c1))"

definition Backend_userId :: "client \<Rightarrow> u64" where
  "Backend_userId c = (case m_profile c of Some p \<Rightarrow> profile_userId p | None \<Rightarrow> 0)"

definition Backend_userName :: "client \<Rightarrow> qstring" where
  "Backend_userName c = (case m_profile c of Some p \<Rightarrow> profile_userName p | None \<Rightarrow> qstr ''Undefined'')"

definition Backend_userEmail :: "client \<Rightarrow> qstring" where
  "Backend_userEmail c = (case m_profile c of Some p \<Rightarrow> profile_userEmail p | None \<Rightarrow> qstr ''Undefined'')"

definition BackEndFacade_userId :: "client \<Rightarrow> u64" where
  "BackEndFacade_userId c = Backend_userId c"

definition BackEndFacade_userName :: "client \<Rightarrow> qstring" where
  "BackEndFacade_userName c = Backend_userName c"

definition BackEndFacade_userEmail :: "client \<Rightarrow> qstring" where
  "BackEndFacade_userEmail c = Backend_userEmail c"

definition BackEndFacade_serverIp :: "client \<Rightarrow> qstring" where
  "BackEndFacade_serverIp c = m_serverIp c"

definition BackEndFacade_serverPort :: "client \<Rightarrow> qstring" where
  "BackEndFacade_serverPort c = m_serverPort c"

lemmas facade_getters [simp] = BackEndFacade_userId_def BackEndFacade_userName_def BackEndFacade_userEmail_def
  BackEndFacade_serverIp_def BackEndFacade_serverPort_def

definition setServerIp :: "qstring \<Rightarrow> client \<Rightarrow> client" where
  "setServerIp ip c = (if m_serverIp c \<noteq> ip then react ServerIpChanged (c\<lparr>m_serverIp := ip\<rparr>) else c)"

definition setServerPort :: "qstring \<Rightarrow> client \<Rightarrow> client" where
  "setServerPort port c =
     (if m_serverPort c \<noteq> port then react ServerPortChanged (c\<lparr>m_serverPort := port\<rparr>) else c)"

text \<open>Each operation of the backend makes one job and executes it.\<close>

definition Backend_signin :: "client_env \<Rightarrow> qstring \<Rightarrow> qstring \<Rightarrow> client \<Rightarrow> client" where
  "Backend_signin env mail password = LoginJob_exec env mail password"

definition Backend_signup :: "client_env \<Rightarrow> qstring \<Rightarrow> qstring \<Rightarrow> qstring \<Rightarrow> client \<Rightarrow> client" where
  "Backend_signup env name mail password = RegisterJob_exec env name mail password"

definition Backend_sendMessage :: "client_env \<Rightarrow> u64 \<Rightarrow> qstring \<Rightarrow> client \<Rightarrow> client" where
  "Backend_sendMessage env chatId message = SendMessageJob_exec env chatId message"

definition Backend_addContact :: "client_env \<Rightarrow> qstring \<Rightarrow> client \<Rightarrow> client" where
  "Backend_addContact env mail = AddContactJob_exec env mail"

definition Backend_loadChats :: "client_env \<Rightarrow> client \<Rightarrow> client" where
  "Backend_loadChats env = LoadChatsJob_exec env"

definition Backend_loadContacts :: "client_env \<Rightarrow> client \<Rightarrow> client" where
  "Backend_loadContacts env = LoadContactsJob_exec env"

definition Backend_loadData :: "client_env \<Rightarrow> client \<Rightarrow> client" where
  "Backend_loadData env = LoadDataJob_exec env"

definition Backend_loadMessages :: "client_env \<Rightarrow> u64 \<Rightarrow> client \<Rightarrow> client" where
  "Backend_loadMessages env chatId = LoadMessagesJob_exec env chatId"

definition Backend_createChat :: "client_env \<Rightarrow> u64 \<Rightarrow> client \<Rightarrow> client" where
  "Backend_createChat env friendId = CreateChatJob_exec env friendId"

text \<open>The functions QML calls: each takes the lock of the facade if it is free.\<close>

definition BackEndFacade_signin :: "client_env \<Rightarrow> qstring \<Rightarrow> qstring \<Rightarrow> client \<Rightarrow> client" where
  "BackEndFacade_signin env mail password c =
     (if availible c then Backend_signin env mail password (setAvailible False c) else c)"

definition BackEndFacade_signup :: "client_env \<Rightarrow> qstring \<Rightarrow> qstring \<Rightarrow> qstring \<Rightarrow> client \<Rightarrow> client" where
  "BackEndFacade_signup env name mail password c =
     (if availible c then Backend_signup env name mail password (setAvailible False c) else c)"

definition BackEndFacade_sendMessage :: "client_env \<Rightarrow> u64 \<Rightarrow> qstring \<Rightarrow> client \<Rightarrow> client" where
  "BackEndFacade_sendMessage env chatId message c =
     (if availible c then Backend_sendMessage env chatId message (setAvailible False c) else c)"

definition BackEndFacade_addContact :: "client_env \<Rightarrow> qstring \<Rightarrow> client \<Rightarrow> client" where
  "BackEndFacade_addContact env mail c =
     (if availible c then Backend_addContact env mail (setAvailible False c) else c)"

definition BackEndFacade_loadChats :: "client_env \<Rightarrow> client \<Rightarrow> client" where
  "BackEndFacade_loadChats env c =
     (if availible c then Backend_loadChats env (setAvailible False c) else c)"

definition BackEndFacade_loadContacts :: "client_env \<Rightarrow> client \<Rightarrow> client" where
  "BackEndFacade_loadContacts env c =
     (if availible c then Backend_loadContacts env (setAvailible False c) else c)"

definition BackEndFacade_loadData :: "client_env \<Rightarrow> client \<Rightarrow> client" where
  "BackEndFacade_loadData env c =
     (if availible c then Backend_loadData env (setAvailible False c) else c)"

definition BackEndFacade_loadMessages :: "client_env \<Rightarrow> u64 \<Rightarrow> client \<Rightarrow> client" where
  "BackEndFacade_loadMessages env chatId c =
     (if availible c then Backend_loadMessages env chatId (setAvailible False c) else c)"

definition BackEndFacade_createChat :: "client_env \<Rightarrow> u64 \<Rightarrow> client \<Rightarrow> client" where
  "BackEndFacade_createChat env friendId c =
     (if availible c then Backend_createChat env friendId (setAvailible False c) else c)"

text \<open>The same operations as data, and what they have in common.\<close>

datatype user_op =
    Signin qstring qstring
  | Signup qstring qstring qstring
  | Send_message u64 qstring
  | Add_contact qstring
  | Load_chats
  | Load_contacts
  | Load_data
  | Load_messages u64
  | Create_chat u64

fun BackEndFacade_op :: "client_env \<Rightarrow> user_op \<Rightarrow> client \<Rightarrow> client" where
  "BackEndFacade_op env (Signin mail password) = BackEndFacade_signin env mail password"
| "BackEndFacade_op env (Signup name mail password) = BackEndFacade_signup env name mail password"
| "BackEndFacade_op env (Send_message chatId message) = BackEndFacade_sendMessage env chatId message"
| "BackEndFacade_op env (Add_contact mail) = BackEndFacade_addContact env mail"
| "BackEndFacade_op env Load_chats = BackEndFacade_loadChats env"
| "BackEndFacade_op env Load_contacts = BackEndFacade_loadContacts env"
| "BackEndFacade_op env Load_data = BackEndFacade_loadData env"
| "BackEndFacade_op env (Load_messages chatId) = BackEndFacade_loadMessages env chatId"
| "BackEndFacade_op env (Create_chat friendId) = BackEndFacade_createChat env friendId"

text \<open>The request of an operation and the job whose callback waits for the response.\<close>

fun job_request :: "client_env \<Rightarrow> user_op \<Rightarrow> Request" where
  "job_request env (Signin mail password) = createLoginRequest env mail password"
| "job_request env (Signup name mail password) = createRegisterRequest env name mail password"
| "job_request env (Send_message chatId message) = createSendMessageRequest env chatId message"
| "job_request env (Add_contact mail) = createAddContactRequest env mail"
| "job_request env Load_chats = createAllMyChatsRequest"
| "job_request env Load_contacts = createAllMyContactsRequest"
| "job_request env Load_data = createAllMyContactsRequest"
| "job_request env (Load_messages chatId) = createLoadMessagesRequest chatId"
| "job_request env (Create_chat friendId) = createCreateChatRequest friendId"

fun op_job :: "user_op \<Rightarrow> client_job" where
  "op_job (Signin mail password) = LoginJob"
| "op_job (Signup name mail password) = RegisterJob"
| "op_job (Send_message chatId message) = SendMessageJob"
| "op_job (Add_contact mail) = AddContactJob"
| "op_job Load_chats = LoadChatsJob"
| "op_job Load_contacts = LoadContactsJob"
| "op_job Load_data = LoadDataJob"
| "op_job (Load_messages chatId) = LoadMessagesJob"
| "op_job (Create_chat friendId) = CreateChatJob"

lemmas Backend_defs = Backend_signin_def Backend_signup_def Backend_sendMessage_def Backend_addContact_def
  Backend_loadChats_def Backend_loadContacts_def Backend_loadData_def Backend_loadMessages_def Backend_createChat_def

lemmas BackEndFacade_defs = BackEndFacade_signin_def BackEndFacade_signup_def BackEndFacade_sendMessage_def
  BackEndFacade_addContact_def BackEndFacade_loadChats_def BackEndFacade_loadContacts_def
  BackEndFacade_loadData_def BackEndFacade_loadMessages_def BackEndFacade_createChat_def

lemma BackEndFacade_op_request:
  "BackEndFacade_op env op c =
    (if availible c then Session_request env (job_request env op) (op_job op) (setAvailible False c) else c)"
  by (cases op) (simp_all add: BackEndFacade_defs Backend_defs exec_defs)

declare BackEndFacade_op.simps [simp del]

definition BackEndFacade_updateConnectionSettings ::
  "client_env \<Rightarrow> qstring \<Rightarrow> qstring \<Rightarrow> client \<Rightarrow> client" where
  "BackEndFacade_updateConnectionSettings env ip port c =
     (if availible c then
        (case Backend_updateConnectionSettings env ip port (setAvailible False c) of
           (True, c1) \<Rightarrow> setServerPort port (setServerIp ip c1)
         | (False, c1) \<Rightarrow> c1)
      else c)"

text \<open>\<open>None\<close>: the lookup went through a pointer that is not live.\<close>

definition get_contact_name :: "u64 \<Rightarrow> client \<Rightarrow> qstring option" where
  "get_contact_name sender_id c =
     (if sender_id = BackEndFacade_userId c then Some (BackEndFacade_userName c)
      else ContactsList_getUserBy (Backend_contactsList c) sender_id)"

text \<open>The constructors: the facade makes the backend, which starts to connect.\<close>

definition Backend_init :: "client_env \<Rightarrow> qstring \<Rightarrow> qstring \<Rightarrow> client \<Rightarrow> client" where
  "Backend_init env serverIp serverPort c = snd (Session_connect env serverIp serverPort c)"

definition BackEndFacade :: "client_env \<Rightarrow> client" where
  "BackEndFacade env = Backend_init env (qstr ''127.0.0.1'') (qstr ''8000'')
     \<lparr>sock_connected = False, sock_rx = [], sock_tx = [], sock_peer = None, m_buffer = [],
      m_callback = None, m_bytesReaded = 0, m_messageSize = 0, m_profile = None,
      m_chatsList = ChatsList_init, m_contactsList = ContactsList_init, m_mesagesList = MessagesList_init,
      m_serverIp = qstr ''127.0.0.1'', m_serverPort = qstr ''8000'', m_availible = True,
      m_reactions = [], m_fault = None\<rparr>"

text \<open>What happens to the program from outside; QML also writes the two properties of the server.\<close>

datatype client_event =
    User_op user_op
  | Update_settings qstring qstring
  | Set_server_ip qstring
  | Set_server_port qstring
  | Set_current_chat u64
  | Receive bytes
  | Socket_error socket_error
  | Socket_connected
  | Socket_disconnected

fun client_step :: "client_env \<Rightarrow> client_event \<Rightarrow> client \<Rightarrow> client" where
  "client_step env (User_op op) c = BackEndFacade_op env op c"
| "client_step env (Update_settings ip port) c = BackEndFacade_updateConnectionSettings env ip port c"
| "client_step env (Set_server_ip ip) c = setServerIp ip c"
| "client_step env (Set_server_port port) c = setServerPort port c"
| "client_step env (Set_current_chat chatId) c =
     c\<lparr>m_mesagesList := snd (MessagesList_setCurrentChatId chatId (m_mesagesList c))\<rparr>"
| "client_step env (Receive data) c = receive env data c"
| "client_step env (Socket_error e) c = Session_onError e c"
| "client_step env Socket_connected c = Session_onConnection (c\<lparr>sock_connected := True\<rparr>)"
| "client_step env Socket_disconnected c = Session_onDisconnection (c\<lparr>sock_connected := False\<rparr>)"

fun client_run :: "client_env \<Rightarrow> client_event list \<Rightarrow> client \<Rightarrow> client" where
  "client_run env [] c = c"
| "client_run env (ev # evs) c = client_run env evs (client_step env ev c)"

end
