(* ===== verification/Client_Props.thy ===== *)
theory Client_Props
  imports Client
begin

text \<open>
  What holds of the client: the lock of the facade, requests as packets, the reception of a
  response in pieces, and the reaction of QML to each response.
\<close>

section \<open>Sending\<close>

lemma react_simps [simp]:
  "m_availible (react r c) = m_availible c" "m_reactions (react r c) = m_reactions c @ [r]"
  "sock_tx (react r c) = sock_tx c" "sock_rx (react r c) = sock_rx c" "m_callback (react r c) = m_callback c"
  "sock_connected (react r c) = sock_connected c" "m_profile (react r c) = m_profile c"
  "m_fault (react r c) = m_fault c" "m_contactsList (react r c) = m_contactsList c"
  "m_mesagesList (react r c) = m_mesagesList c"
  by (simp_all add: react_def)

lemma setAvailible_simps [simp]:
  "m_availible (setAvailible a c) = a" "m_reactions (setAvailible a c) = m_reactions c"
  "sock_tx (setAvailible a c) = sock_tx c" "sock_rx (setAvailible a c) = sock_rx c"
  "m_callback (setAvailible a c) = m_callback c" "m_profile (setAvailible a c) = m_profile c"
  "sock_connected (setAvailible a c) = sock_connected c" "m_fault (setAvailible a c) = m_fault c"
  "m_contactsList (setAvailible a c) = m_contactsList c" "m_mesagesList (setAvailible a c) = m_mesagesList c"
  by (simp_all add: setAvailible_def)

lemma op_locked: "\<not> availible c \<Longrightarrow> BackEndFacade_op env op c = c"
  "\<not> availible c \<Longrightarrow> BackEndFacade_updateConnectionSettings env ip port c = c"
  by (simp_all add: BackEndFacade_op_request BackEndFacade_updateConnectionSettings_def)

lemma op_not_connected:
  assumes "availible c" and "\<not> isConnected c"
  shows "BackEndFacade_op env op c = c\<lparr>m_reactions := m_reactions c @ [DoOperationAborted not_connected_text]\<rparr>"
  using assms by (simp add: BackEndFacade_op_request Session_request_def isConnected_def
      setAvailible_def react_def availible_def)

lemma op_connected:
  assumes "availible c" and "isConnected c"
  shows "BackEndFacade_op env op c =
    (let out = request_buffer (cl_pb env) (WrappedMessage_request (job_request env op)) (m_buffer c) in
     c\<lparr>m_availible := False, m_callback := Some (op_job op), m_buffer := out, sock_tx := sock_tx c @ [out]\<rparr>)"
  using assms by (simp add: BackEndFacade_op_request Session_request_def isConnected_def
      setAvailible_def availible_def Let_def)

section \<open>Reacting\<close>

text \<open>The reaction that a response of the server means for each job.\<close>

definition logged_profile :: "Response \<Rightarrow> bool" where
  "logged_profile r = (case r of Response_login_response l \<Rightarrow> LoginResponse_profile l \<noteq> None | _ \<Rightarrow> False)"

fun reaction_of :: "client_job \<Rightarrow> Response \<Rightarrow> reaction" where
  "reaction_of LoginJob r = DoLoginReaction (logged_profile r)"
| "reaction_of RegisterJob r = DoRegisterReaction (accepted r)"
| "reaction_of LoadChatsJob r = DoLoadChatsReaction"
| "reaction_of LoadContactsJob r = DoLoadContactsReaction"
| "reaction_of LoadMessagesJob r = DoLoadMessagesReaction"
| "reaction_of SendMessageJob r = DoSendMessageReaction (accepted r)"
| "reaction_of AddContactJob r = DoAddContactReaction (accepted r)"
| "reaction_of LoadDataJob r = DoLoadDataReaction"
| "reaction_of CreateChatJob r = DoChatCreatedReaction (accepted r)"

text \<open>The only response that is not the last of its job.\<close>

fun second_round :: "client_job \<Rightarrow> Response \<Rightarrow> bool" where
  "second_round LoadDataJob (Response_contacts_response r) \<longleftrightarrow> True"
| "second_round _ _ \<longleftrightarrow> False"

lemma set_lists_simps [simp]:
  "m_reactions (setChats env a c) = m_reactions c" "m_reactions (setContacts env b c) = m_reactions c"
  "m_reactions (setMessages env m c) = m_reactions c" "m_reactions (Backend_setProfile p c) = m_reactions c"
  "sock_tx (setChats env a c) = sock_tx c" "sock_tx (setContacts env b c) = sock_tx c"
  "sock_tx (setMessages env m c) = sock_tx c" "sock_tx (Backend_setProfile p c) = sock_tx c"
  "sock_connected (setChats env a c) = sock_connected c" "sock_connected (setContacts env b c) = sock_connected c"
  "sock_connected (setMessages env m c) = sock_connected c" "sock_connected (Backend_setProfile p c) = sock_connected c"
  "m_fault (setChats env a c) = m_fault c" "m_fault (setContacts env b c) = m_fault c"
  "m_fault (setMessages env m c) = m_fault c" "m_fault (Backend_setProfile p c) = m_fault c"
  "sock_rx (setChats env a c) = sock_rx c" "sock_rx (setContacts env b c) = sock_rx c"
  "sock_rx (setMessages env m c) = sock_rx c" "sock_rx (Backend_setProfile p c) = sock_rx c"
  "m_availible (setContacts env b c) = m_availible c" "m_buffer (setContacts env b c) = m_buffer c"
  by (simp_all add: setChats_def setContacts_def setMessages_def Backend_setProfile_def)

lemma callback_reaction:
  assumes "\<not> second_round j r"
  shows "m_availible (responseProcessingCallback env j r c)"
    "m_reactions (responseProcessingCallback env j r c) = m_reactions c @ [reaction_of j r]"
    "sock_tx (responseProcessingCallback env j r c) = sock_tx c"
    "sock_connected (responseProcessingCallback env j r c) = sock_connected c"
    "sock_rx (responseProcessingCallback env j r c) = sock_rx c"
    "m_fault (responseProcessingCallback env j r c) = m_fault c"
  using assms
  by (cases j; cases r; force simp: LoginJob_callback_def LoadChatsJob_callback_def LoadContactsJob_callback_def
      LoadMessagesJob_callback_def LoadDataJob_callback_def logged_profile_def split: option.splits)+

text \<open>The profile that the backend keeps after a response.\<close>

fun profile_after :: "client_env \<Rightarrow> client_job \<Rightarrow> Response \<Rightarrow> Profile option \<Rightarrow> Profile option" where
  "profile_after env LoginJob (Response_login_response r) old =
     (case LoginResponse_profile r of
        None \<Rightarrow> old
      | Some p \<Rightarrow> Some \<lparr>profile_userId = Contact_user_id p, profile_userName = qt_from_utf8 env (Contact_name p),
          profile_userEmail = qt_from_utf8 env (Contact_email p)\<rparr>)"
| "profile_after _ _ _ old = old"

lemma callback_profile: "m_profile (responseProcessingCallback env j r c) = profile_after env j r (m_profile c)"
  by (cases j; cases r) (simp_all add: LoginJob_callback_def LoadChatsJob_callback_def LoadContactsJob_callback_def
      LoadMessagesJob_callback_def LoadDataJob_callback_def Backend_setProfile_def setChats_def setContacts_def
      setMessages_def Session_request_def react_def setAvailible_def Let_def split: option.splits)

lemma callback_second_round:
  assumes "second_round j r"
  shows "\<exists>cs. r = Response_contacts_response cs \<and> j = LoadDataJob \<and>
    responseProcessingCallback env j r c =
      Session_request env createAllMyChatsRequest LoadDataJob (setContacts env cs c)"
  using assms by (cases "(j, r)" rule: second_round.cases) (simp_all add: LoadDataJob_callback_def)

section \<open>Receiving\<close>

text \<open>The state of the session right before the callback is called for message \<open>m\<close>.\<close>

definition loaded :: "pb \<Rightarrow> WrappedMessage \<Rightarrow> client \<Rightarrow> client" where
  "loaded P m c = c\<lparr>m_buffer := WrappedMessage_SerializeToArray P m, sock_rx := [],
     m_messageSize := int (WrappedMessage_ByteSize P m),
     m_bytesReaded := int (PREFIX_SIZE + WrappedMessage_ByteSize P m)\<rparr>"

definition after_prefix :: "pb \<Rightarrow> WrappedMessage \<Rightarrow> bytes \<Rightarrow> client \<Rightarrow> client" where
  "after_prefix P m body c = c\<lparr>m_buffer := prefix_of P m, sock_rx := body,
     m_bytesReaded := int PREFIX_SIZE, m_messageSize := int (WrappedMessage_ByteSize P m)\<rparr>"

text \<open>Pieces that do not complete the prefix wait in the socket.\<close>

lemma receive_short:
  assumes "m_bytesReaded c = 0" and "length (sock_rx c @ data) < PREFIX_SIZE"
  shows "receive env data c = c\<lparr>sock_rx := sock_rx c @ data\<rparr>"
  using assms by (simp add: receive_def Session_onReadyRead_def bytesAvailable_def)

lemma receive_shorts:
  assumes "m_bytesReaded c = 0" and "length (sock_rx c @ concat ps) < PREFIX_SIZE"
  shows "fold (receive env) ps c = c\<lparr>sock_rx := sock_rx c @ concat ps\<rparr>"
  using assms
proof (induction ps arbitrary: c)
  case (Cons p ps)
  then have "receive env p c = c\<lparr>sock_rx := sock_rx c @ p\<rparr>" by (intro receive_short) auto
  with Cons show ?case by simp
qed simp

context pb_wire
begin

lemma request_buffer_packet: "sendable P m \<Longrightarrow> request_buffer P m buf = packet P m"
  using poke_packet [of m "resize (WrappedMessage_ByteSize P m + PREFIX_SIZE) buf"]
  by (simp add: request_buffer_def prefix_of_def)

lemma sint_size: "sendable P m \<Longrightarrow> sint (of_nat (WrappedMessage_ByteSize P m) :: u64) = int (WrappedMessage_ByteSize P m)"
  by (simp add: sendable_def signed_of_nat signed_take_bit_int_eq_self)

lemma readPrefix_packet:
  assumes "cl_pb env = P" and "sendable P m" and "sock_rx c = prefix_of P m @ body"
  shows "Session_readPrefix env c = (int (WrappedMessage_ByteSize P m),
     c\<lparr>m_buffer := prefix_of P m, sock_rx := body, m_bytesReaded := int PREFIX_SIZE\<rparr>)"
proof -
  have "poke 0 (prefix_of P m) (resize PREFIX_SIZE (m_buffer c)) = prefix_of P m"
    using assms(2) by (simp add: poke_def)
  with assms show ?thesis
    by (simp add: readPrefix_fits parse_prefix sint_size)
qed

lemma load_mesg_response:
  assumes "cl_pb env = P" and "sendable P m" and "m = WrappedMessage_response r"
    and "m_messageSize c = int (WrappedMessage_ByteSize P m)" and "m_bytesReaded c = int PREFIX_SIZE"
    and "sock_rx c = WrappedMessage_SerializeToArray P m" and "m_callback c = Some j"
  shows "load_mesg env c = responseProcessingCallback env j r (loaded P m c)"
proof -
  have "poke 0 (WrappedMessage_SerializeToArray P m) (resize (WrappedMessage_ByteSize P m) (m_buffer c)) =
      WrappedMessage_SerializeToArray P m"
    using assms(2) by (simp add: poke_def)
  moreover have "int (WrappedMessage_ByteSize P m) < 2 ^ 31" using assms(2) by (simp add: sendable_def)
  ultimately have "Session_readMessage env (m_messageSize c) c = (Some m, loaded P m c)"
    using assms parse_body [OF assms(2)]
    by (simp add: readMessage_fits loaded_def del: WrappedMessage_SerializeToArray.simps
        WrappedMessage_ByteSize.simps)
  moreover have "m_callback (loaded P m c) = Some j" using assms(7) by (simp add: loaded_def)
  ultimately show ?thesis using assms(3) by (simp add: load_mesg_def Session_processResponse_def)
qed

lemma receive_prefix_piece:
  assumes "cl_pb env = P" and "sendable P m" and "m_bytesReaded c = 0"
    and "sock_rx c @ data = prefix_of P m @ body" and "length body \<noteq> WrappedMessage_ByteSize P m"
  shows "receive env data c = after_prefix P m body c"
proof -
  have "Session_readPrefix env (c\<lparr>sock_rx := prefix_of P m @ body, m_bytesReaded := 0\<rparr>) =
      (int (WrappedMessage_ByteSize P m), (after_prefix P m body c)\<lparr>m_messageSize := m_messageSize c\<rparr>)"
    using readPrefix_packet [OF assms(1,2), of "c\<lparr>sock_rx := prefix_of P m @ body, m_bytesReaded := 0\<rparr>" body]
    by (simp add: after_prefix_def)
  with assms show ?thesis
    by (simp add: receive_def Session_onReadyRead_def bytesAvailable_def after_prefix_def)
qed

lemma receive_whole:
  assumes "cl_pb env = P" and "sendable P m" and "m = WrappedMessage_response r" and "m_bytesReaded c = 0"
    and "sock_rx c @ data = packet P m" and "m_callback c = Some j"
  shows "receive env data c = (responseProcessingCallback env j r (loaded P m c))\<lparr>m_bytesReaded := 0\<rparr>"
proof -
  let ?c1 = "after_prefix P m (WrappedMessage_SerializeToArray P m) c"
  have "Session_readPrefix env (c\<lparr>sock_rx := sock_rx c @ data, m_bytesReaded := 0\<rparr>) =
     (int (WrappedMessage_ByteSize P m), ?c1\<lparr>m_messageSize := m_messageSize c\<rparr>)"
    using readPrefix_packet [OF assms(1,2), of "c\<lparr>sock_rx := sock_rx c @ data, m_bytesReaded := 0\<rparr>"
        "WrappedMessage_SerializeToArray P m"]
      assms(4,5) by (simp add: packet_def after_prefix_def)
  moreover have "load_mesg env ?c1 = responseProcessingCallback env j r (loaded P m ?c1)"
    using assms by (intro load_mesg_response) (simp_all add: after_prefix_def)
  moreover have "loaded P m ?c1 = loaded P m c" by (simp add: loaded_def after_prefix_def)
  moreover have "PREFIX_SIZE \<le> length (packet P m)" using packet_length [OF assms(2)] by simp
  ultimately show ?thesis
    using assms(2,4,5)
    by (simp add: receive_def Session_onReadyRead_def bytesAvailable_def after_prefix_def
        del: WrappedMessage_SerializeToArray.simps WrappedMessage_ByteSize.simps)
qed

lemma after_prefix_rx [simp]:
  "(after_prefix P m a c)\<lparr>sock_rx := x\<rparr> = after_prefix P m x c"
  "sock_rx (after_prefix P m a c) = a" "m_bytesReaded (after_prefix P m a c) = int PREFIX_SIZE"
  "m_messageSize (after_prefix P m a c) = int (WrappedMessage_ByteSize P m)"
  "m_callback (after_prefix P m a c) = m_callback c" "loaded P m (after_prefix P m a c) = loaded P m c"
  by (simp_all add: after_prefix_def loaded_def)

lemma receive_rest:
  assumes "cl_pb env = P" and "sendable P m" and "m = WrappedMessage_response r"
    and "a @ b = WrappedMessage_SerializeToArray P m" and "m_callback c = Some j"
  shows "receive env b (after_prefix P m a c) =
    (responseProcessingCallback env j r (loaded P m c))\<lparr>m_bytesReaded := 0\<rparr>"
proof -
  have "load_mesg env (after_prefix P m (a @ b) c) = responseProcessingCallback env j r (loaded P m c)"
    using assms load_mesg_response [of env m r "after_prefix P m (a @ b) c" j] by simp
  moreover have "length (a @ b) = WrappedMessage_ByteSize P m" using assms(2,4) body_length by metis
  ultimately show ?thesis
    by (simp add: receive_def Session_onReadyRead_def bytesAvailable_def)
qed

text \<open>Pieces that end between the prefix and the last byte: the session remembers the prefix.\<close>

lemma receive_cut:
  assumes env: "cl_pb env = P" and m: "sendable P m" and c: "m_bytesReaded c = 0" "sock_rx c = []"
    and ps: "concat pre @ q @ rest = packet P m" "length (concat pre) < PREFIX_SIZE"
      "PREFIX_SIZE \<le> length (concat pre @ q)" "rest \<noteq> []"
  shows "\<exists>a. a @ rest = WrappedMessage_SerializeToArray P m \<and>
    fold (receive env) (pre @ [q]) c = after_prefix P m a c"
proof -
  have pre: "fold (receive env) pre c = c\<lparr>sock_rx := concat pre\<rparr>" using receive_shorts [of c pre env] c ps(2) by simp
  obtain a where a: "concat pre @ q = prefix_of P m @ a" "a @ rest = WrappedMessage_SerializeToArray P m"
  proof -
    obtain z where z: "z = concat pre @ q" by blast
    have "length (prefix_of P m) \<le> length z" using ps(3) prefix_length [OF m] z by simp
    moreover have "z @ rest = prefix_of P m @ WrappedMessage_SerializeToArray P m"
      using ps(1) z by (simp add: packet_def)
    ultimately have "\<exists>a. z = prefix_of P m @ a \<and> a @ rest = WrappedMessage_SerializeToArray P m"
      by (auto simp: append_eq_append_conv2) (metis append_Nil2 append_eq_conv_conj order.eq_iff length_append
        le_add1 add_le_same_cancel1 le_zero_eq length_0_conv)+
    then show ?thesis using that unfolding z by blast
  qed
  have "length a \<noteq> WrappedMessage_ByteSize P m"
    using a(2) ps(4) body_length [OF m] by (metis length_append add_right_cancel add_cancel_right_right length_0_conv)
  then have "receive env q (c\<lparr>sock_rx := concat pre\<rparr>) = after_prefix P m a (c\<lparr>sock_rx := concat pre\<rparr>)"
    using a(1) c by (intro receive_prefix_piece [OF env m]) simp_all
  with pre a(2) show ?thesis by (intro exI [of _ a]) (simp add: after_prefix_def)
qed

text \<open>
  A response is delivered when the first piece that completes the prefix is followed by at
  most one more piece.
\<close>

lemma receive_pieces:
  assumes env: "cl_pb env = P" and m: "sendable P m" "m = WrappedMessage_response r"
    and c: "m_bytesReaded c = 0" "sock_rx c = []" "m_callback c = Some j"
    and ps: "concat pre @ q @ rest = packet P m" "length (concat pre) < PREFIX_SIZE"
      "PREFIX_SIZE \<le> length (concat pre @ q)"
  shows "fold (receive env) (pre @ q # (if rest = [] then [] else [rest])) c =
    (responseProcessingCallback env j r (loaded P m c))\<lparr>m_bytesReaded := 0\<rparr>"
proof (cases "rest = []")
  case True
  let ?c1 = "c\<lparr>sock_rx := concat pre\<rparr>"
  have "fold (receive env) pre c = ?c1" using receive_shorts [of c pre env] c ps(2) by simp
  moreover have "loaded P m ?c1 = loaded P m c" by (simp add: loaded_def)
  ultimately show ?thesis using True receive_whole [OF env m, of ?c1 q j] c ps(1) by simp
next
  case False
  obtain a where a: "a @ rest = WrappedMessage_SerializeToArray P m"
    "fold (receive env) (pre @ [q]) c = after_prefix P m a c"
    using receive_cut [OF env m(1) c(1,2) ps False] by blast
  with False receive_rest [OF env m a(1) c(3)] show ?thesis by simp
qed

text \<open>
  A response whose body comes in two further pieces after the prefix: the first of them makes the
  session forget that the prefix was read, and the body is then received as a packet would be.
\<close>

lemma receive_incomplete:
  assumes "length a < WrappedMessage_ByteSize P m"
  shows "receive env a (after_prefix P m [] c) = (after_prefix P m a c)\<lparr>m_bytesReaded := 0\<rparr>"
  using assms by (simp add: receive_def Session_onReadyRead_def bytesAvailable_def)

lemma receive_body_split:
  assumes env: "cl_pb env = P" and m: "sendable P m" "m = WrappedMessage_response r"
    and c: "m_bytesReaded c = 0" "sock_rx c = []"
    and ps: "a @ b = WrappedMessage_SerializeToArray P m" "b \<noteq> []"
  shows "fold (receive env) [prefix_of P m, a] c = (after_prefix P m a c)\<lparr>m_bytesReaded := 0\<rparr>"
proof -
  have "length a + length b = WrappedMessage_ByteSize P m" using ps(1) body_length [OF m(1)] by (metis length_append)
  then have "length a < WrappedMessage_ByteSize P m" using ps(2) by (cases b) auto
  moreover have "WrappedMessage_ByteSize P m \<noteq> 0" using wrapped_size_pos [of m] m(2) by auto
  then have "receive env (prefix_of P m) c = after_prefix P m [] c"
    using c by (intro receive_prefix_piece [OF env m(1)]) simp_all
  ultimately show ?thesis using receive_incomplete by simp
qed

end

end
