(* ===== verification/Storage_Ops.thy ===== *)
theory Storage_Ops
  imports Storage_Props
begin

text \<open>
  The functional behaviour of the storage operations: when each of them succeeds, what it
  returns, and what the other operations read afterwards. Statements about success
  assume that no library call fails (\<open>pg_up\<close>); statements about soundness hold for every
  behaviour of the engine.
\<close>

section \<open>Operations of an engine that does not fail\<close>

definition pg_up :: "pg_env \<Rightarrow> bool" where
  "pg_up env \<longleftrightarrow> (\<forall>n. pg_fault env n = None)"

lemma pg_up_fault [simp]: "pg_up env \<Longrightarrow> pg_fault env n = None"
  by (simp add: pg_up_def)

text \<open>Rows as the elements of a response.\<close>

definition chat_of_row :: "client_to_chat_row \<Rightarrow> Chat" where
  "chat_of_row row = \<lparr>Chat_chat_id = word_of_int (cc_chat_id row), Chat_title = cc_title row\<rparr>"

definition contact_of_row :: "client_row \<Rightarrow> Contact" where
  "contact_of_row row = \<lparr>Contact_user_id = word_of_int (cl_id row), Contact_name = cl_name row,
     Contact_email = cl_email row\<rparr>"

definition message_of_row :: "message_row \<Rightarrow> MessageToRecieve" where
  "message_of_row row = \<lparr>MessageToRecieve_sender_id = word_of_int (ms_sender_id row),
     MessageToRecieve_text = ms_mesg row\<rparr>"

lemma fill_chats_map:
  "\<forall>r \<in> set rows. 0 \<le> cc_chat_id r \<and> cc_chat_id r \<le> max_int4 \<Longrightarrow> fill_chats rows = map chat_of_row rows"
  by (induction rows) (simp_all add: chat_of_row_def)

lemma fill_contacts_map:
  "\<forall>r \<in> set rows. 0 \<le> cl_id r \<and> cl_id r \<le> max_int4 \<Longrightarrow> fill_contacts rows = map contact_of_row rows"
  by (induction rows) (simp_all add: contact_of_row_def)

lemma fill_messages_map:
  "\<forall>r \<in> set rows. 0 \<le> ms_sender_id r \<and> ms_sender_id r \<le> max_int4 \<Longrightarrow>
   fill_messages rows = map message_of_row rows"
  by (induction rows) (simp_all add: message_of_row_def)

section \<open>Ranges of the identifiers\<close>

lemma client_id_image_range:
  assumes "tables_ok d" and "i \<in> cl_id ` set (Client d)"
  shows "1 \<le> i" "i \<le> max_int4"
  using assms client_id_range by blast+

lemma chat_id_range:
  assumes "tables_ok d" and "l \<in> set (ClientToChat d)"
  shows "1 \<le> cc_chat_id l" "cc_chat_id l \<le> max_int4"
  using assms by (force simp: tables_ok_def chats_ok_def)+

lemma chat_member_client:
  assumes "tables_ok d" and "chat_member d i c"
  shows "i \<in> cl_id ` set (Client d)" "c \<in> set (Chat_ids d)"
  using assms by (auto simp: tables_ok_def chats_ok_def chat_member_def)

lemma sender_range:
  assumes "tables_ok d" and "m \<in> set (Message d)"
  shows "1 \<le> ms_sender_id m" "ms_sender_id m \<le> max_int4"
proof -
  have "chat_member d (ms_sender_id m) (ms_chat_id m)"
    using assms by (simp add: tables_ok_def messages_ok_def)
  then show "1 \<le> ms_sender_id m" "ms_sender_id m \<le> max_int4"
    using chat_member_client assms(1) client_id_image_range by blast+
qed

lemma int4_word: "int4 u = Some i \<Longrightarrow> word_of_int i = u"
  by (auto simp: int4_def split: if_splits)

lemma int4_inj: "int4 u = Some i \<Longrightarrow> int4 v = Some i \<Longrightarrow> u = v"
  using int4_word by blast

section \<open>Reading\<close>

lemma get_chats_reads_rows:
  assumes "tables_ok d" and "pg_up env" and "int4 u = Some i"
  shows "mset (ChatsResponse_chats (fst (get_chats env u d))) =
     image_mset chat_of_row (mset (filter (\<lambda>l. cc_client_id l = i) (ClientToChat d)))"
proof -
  have "get_chats env u d = (\<lparr>ChatsResponse_chats = map chat_of_row
      (result_rows env (filter (\<lambda>l. cc_client_id l = i) (ClientToChat d)))\<rparr>, d)"
    using assms chat_id_range
    by (simp add: get_chats_def txn_defs stmt_get_chats_def) (intro fill_chats_map; fastforce)
  then show ?thesis by simp
qed

lemma contacts_of_range:
  assumes "tables_ok d" and "c \<in> set (contacts_of i d)"
  shows "0 \<le> cl_id c" "cl_id c \<le> max_int4"
proof -
  have "c \<in> set (Client d)" using assms(2) by (auto simp: contacts_of_def)
  with client_id_range [OF assms(1)] show "0 \<le> cl_id c" "cl_id c \<le> max_int4" by force+
qed

lemma get_contacts_reads_rows:
  assumes "tables_ok d" and "pg_up env" and "int4 u = Some i"
  shows "mset (ContactsResponse_contacts (fst (get_contacts env u d))) =
     image_mset contact_of_row (mset (contacts_of i d))"
proof -
  have "get_contacts env u d = (\<lparr>ContactsResponse_contacts = map contact_of_row
      (result_rows env (contacts_of i d))\<rparr>, d)"
    using assms contacts_of_range
    by (simp add: get_contacts_def txn_defs stmt_get_contacts_def) (intro fill_contacts_map; fastforce)
  then show ?thesis by simp
qed

lemma get_messages_reads_rows:
  assumes "tables_ok d" and "pg_up env" and "int4 c = Some i"
  shows "mset (MessagesResponse_messages (fst (get_messages env c d))) =
     image_mset message_of_row (mset (filter (\<lambda>m. ms_chat_id m = i) (Message d)))"
proof -
  have "get_messages env c d = (\<lparr>MessagesResponse_messages = map message_of_row
      (result_rows env (filter (\<lambda>m. ms_chat_id m = i) (Message d)))\<rparr>, d)"
    using assms sender_range
    by (simp add: get_messages_def txn_defs stmt_get_messages_def) (intro fill_messages_map; fastforce)
  then show ?thesis by simp
qed

section \<open>Registration and login\<close>

lemma registration_success:
  assumes "tables_ok d" and "pg_up env"
  shows "fst (registration sha env name email password d) \<longleftrightarrow>
    (\<exists>n e. pg_text env name = Some n \<and> pg_text env email = Some e \<and> e \<notin> cl_email ` set (Client d)) \<and>
    Client_seq d < max_int4"
proof -
  have "Client_seq d + 1 \<notin> cl_id ` set (Client d)"
    using assms(1) by (force simp: tables_ok_def clients_ok_def)
  with assms(2) show ?thesis
    by (auto simp: registration_def txn_defs stmt_registration_def Let_def split: option.splits)
qed

lemma login_row:
  assumes "tables_ok d" and "pg_up env" and "row \<in> set (Client d)" and "pg_quote env email = Some (cl_email row)"
  shows "login sha env email password d =
    (if cl_password_hash row = hash_password sha password
     then Inr (word_of_int (cl_id row), cl_name row) else Inl Invalid_argument, d)"
  using assms client_id_range [OF assms(1,3)]
  by (simp add: login_def txn_defs stmt_login_def login_rows)

section \<open>Messages\<close>

lemma send_message_success:
  assumes "tables_ok d" and "pg_up env"
  shows "fst (send_message env u m d) \<longleftrightarrow>
    (\<exists>s c. int4 u = Some s \<and> int4 (MessageToSend_chat_id m) = Some c \<and> chat_member d s c) \<and>
    pg_text env (MessageToSend_text m) \<noteq> None \<and> Message_seq d < max_int8"
proof -
  have new: "Message_seq d + 1 \<notin> ms_id ` set (Message d)"
    using assms(1) by (force simp: tables_ok_def messages_ok_def)
  show ?thesis
  proof (cases "\<exists>s c. int4 u = Some s \<and> int4 (MessageToSend_chat_id m) = Some c \<and> chat_member d s c")
    case True
    then obtain s c where "int4 u = Some s" "int4 (MessageToSend_chat_id m) = Some c" "chat_member d s c"
      by blast
    moreover from this chat_member_client [OF assms(1)]
    have "s \<in> cl_id ` set (Client d)" "c \<in> set (Chat_ids d)" by blast+
    ultimately show ?thesis using assms(2) new
      by (auto simp: send_message_def send_message_rest_def txn_defs can_write_eq stmt_send_message_def Let_def
          split: option.splits)
  next
    case False
    moreover have "message_sent env u m d (snd (send_message env u m d))" if "fst (send_message env u m d)"
      using that send_message_outcome [of env u m d] by (metis prod.collapse)
    ultimately show ?thesis by (auto simp: message_sent_def)
  qed
qed

lemma send_message_then_read:
  assumes inv: "tables_ok d" and run: "send_message env u m d = (True, d')" and up: "pg_up env'"
  shows "\<exists>t. pg_text env (MessageToSend_text m) = Some t \<and>
     mset (MessagesResponse_messages (fst (get_messages env' (MessageToSend_chat_id m) d'))) =
     add_mset \<lparr>MessageToRecieve_sender_id = u, MessageToRecieve_text = t\<rparr>
       (mset (MessagesResponse_messages (fst (get_messages env' (MessageToSend_chat_id m) d))))"
proof -
  have "message_sent env u m d d'" using send_message_outcome [OF run] by simp
  then obtain s c t where *: "int4 u = Some s" "int4 (MessageToSend_chat_id m) = Some c"
    "pg_text env (MessageToSend_text m) = Some t"
    "d' = d\<lparr>Message := Message d @ [\<lparr>ms_id = Message_seq d + 1, ms_sender_id = s, ms_chat_id = c,
                 ms_mesg = t\<rparr>], Message_seq := Message_seq d + 1\<rparr>"
    by (auto simp: message_sent_def)
  have "tables_ok d'" using operations_tables_ok(2) [OF inv, of env u m] run by simp
  with * show ?thesis
    by (simp add: get_messages_reads_rows [OF _ up] inv message_of_row_def int4_word)
qed

text \<open>The messages of every other chat read as before.\<close>

lemma send_message_other_chats:
  assumes inv: "tables_ok d" and run: "send_message env u m d = (True, d')" and up: "pg_up env'"
    and "int4 c = Some i" and "c \<noteq> MessageToSend_chat_id m"
  shows "mset (MessagesResponse_messages (fst (get_messages env' c d'))) =
     mset (MessagesResponse_messages (fst (get_messages env' c d)))"
proof -
  have "message_sent env u m d d'" using send_message_outcome [OF run] by simp
  moreover have "tables_ok d'" using operations_tables_ok(2) [OF inv, of env u m] run by simp
  moreover have "int4 (MessageToSend_chat_id m) \<noteq> Some i" using assms(4,5) int4_inj by blast
  ultimately show ?thesis using assms(4)
    by (auto simp: get_messages_reads_rows [OF _ up] inv message_sent_def)
qed

section \<open>Contacts\<close>

lemma stmt_get_user_by_email_row:
  assumes "tables_ok d" and "row \<in> set (Client d)" and "pg_text env email = Some (cl_email row)"
  shows "stmt_get_user_by_email env email d = (Inr [row], d)"
  using assms by (simp add: stmt_get_user_by_email_def login_rows)

lemma add_contact_success:
  assumes inv: "tables_ok d" and up: "pg_up env"
  shows "fst (add_contact env u email d) \<longleftrightarrow>
    (\<exists>i row. int4 u = Some i \<and> i \<in> cl_id ` set (Client d) \<and> row \<in> set (Client d) \<and>
       pg_text env email = Some (cl_email row) \<and> i \<noteq> cl_id row \<and> \<not> linked d i (cl_id row))"
    (is "_ \<longleftrightarrow> ?ok")
proof
  assume "fst (add_contact env u email d)"
  then have "contact_added env u email d (snd (add_contact env u email d))"
    using add_contact_outcome [of env u email d] by (metis prod.collapse)
  then show ?ok by (auto simp: contact_added_def linked_def)
next
  assume ?ok
  then obtain i row where *: "int4 u = Some i" "i \<in> cl_id ` set (Client d)" "row \<in> set (Client d)"
    "pg_text env email = Some (cl_email row)" "i \<noteq> cl_id row" "\<not> linked d i (cl_id row)" by blast
  have "\<not> linked d (cl_id row) i" using inv *(6) by (auto simp: tables_ok_def contacts_ok_def)
  with * up client_id_range [OF inv *(3)] show "fst (add_contact env u email d)"
    by (auto simp: add_contact_def add_contact_rest_def txn_defs stmt_get_user_by_email_row [OF inv] stmt_add_contact_def
        linked_def)
qed

lemma contacts_of_append:
  "contacts_of i (d\<lparr>ClientToContact := ClientToContact d @ ks\<rparr>) =
   contacts_of i d @ contacts_of i (d\<lparr>ClientToContact := ks\<rparr>)"
  by (simp add: contacts_of_def)

lemma filter_client_id:
  assumes "tables_ok d" and "row \<in> set (Client d)"
  shows "filter (\<lambda>c. cl_id c = cl_id row) (Client d) = [row]"
  using assms by (intro filter_distinct_map_singleton) (simp_all add: tables_ok_def clients_ok_def)

text \<open>The contact appears on both sides, and nobody else's list changes.\<close>

lemma add_contact_then_read:
  assumes inv: "tables_ok d" and run: "add_contact env u email d = (True, d')" and up: "pg_up env'"
  shows "\<exists>me friend. me \<in> set (Client d) \<and> friend \<in> set (Client d) \<and> me \<noteq> friend \<and>
     u = word_of_int (cl_id me) \<and> pg_text env email = Some (cl_email friend) \<and>
     (\<forall>row \<in> set (Client d).
        mset (ContactsResponse_contacts (fst (get_contacts env' (word_of_int (cl_id row)) d'))) =
        mset (ContactsResponse_contacts (fst (get_contacts env' (word_of_int (cl_id row)) d))) +
        (if row = me then {#contact_of_row friend#}
         else if row = friend then {#contact_of_row me#} else {#}))"
proof -
  have "contact_added env u email d d'" using add_contact_outcome [OF run] by simp
  then obtain me friend where m: "int4 u = Some (cl_id me)" "me \<in> set (Client d)" "friend \<in> set (Client d)"
    "cl_id me \<noteq> cl_id friend" "pg_text env email = Some (cl_email friend)"
    and d': "d' = d\<lparr>ClientToContact := ClientToContact d @
      [\<lparr>ct_client_id = cl_id me, ct_friend_id = cl_id friend\<rparr>,
       \<lparr>ct_client_id = cl_id friend, ct_friend_id = cl_id me\<rparr>]\<rparr>"
    unfolding contact_added_def by blast
  have inv': "tables_ok d'" using operations_tables_ok(3) [OF inv, of env u email] run by simp
  have "mset (ContactsResponse_contacts (fst (get_contacts env' (word_of_int (cl_id row)) d'))) =
        mset (ContactsResponse_contacts (fst (get_contacts env' (word_of_int (cl_id row)) d))) +
        (if row = me then {#contact_of_row friend#}
         else if row = friend then {#contact_of_row me#} else {#})" if row: "row \<in> set (Client d)" for row
  proof -
    have id: "int4 (word_of_int (cl_id row)) = Some (cl_id row)"
      using client_id_range [OF inv row] by simp
    have uniq: "cl_id a = cl_id b \<longleftrightarrow> a = b" if "a \<in> set (Client d)" "b \<in> set (Client d)" for a b
      using inv that distinct_map_unique by (fastforce simp: tables_ok_def clients_ok_def)
    have "contacts_of (cl_id row) d' = contacts_of (cl_id row) d @
       (if row = me then [friend] else if row = friend then [me] else [])"
      unfolding d' contacts_of_append using m uniq row filter_client_id [OF inv]
      by (auto simp: contacts_of_def)
    then show ?thesis
      by (simp add: get_contacts_reads_rows [OF inv' up id] get_contacts_reads_rows [OF inv up id])
  qed
  with m show ?thesis
    by (intro exI [of _ me] exI [of _ friend]) (auto simp: int4_word)
qed

section \<open>Chats\<close>

text \<open>The two clients can be given a chat.\<close>

definition may_create_chat :: "pg_env \<Rightarrow> u64 \<Rightarrow> bytes \<Rightarrow> u64 \<Rightarrow> db \<Rightarrow> bool" where
  "may_create_chat env u user_name f d \<longleftrightarrow>
     (\<exists>i row. int4 u = Some i \<and> i \<in> cl_id ` set (Client d) \<and> row \<in> set (Client d) \<and>
        int4 f = Some (cl_id row) \<and> \<not> (\<exists>c. chat_member d i c \<and> chat_member d (cl_id row) c) \<and>
        pg_text env (str ''Chat with '' @ cl_name row) \<noteq> None \<and>
        pg_text env (str ''Chat with '' @ user_name) \<noteq> None) \<and>
     Chat_seq d < max_int4"

lemma stmt_common_chat_none:
  assumes "int4 a = Some i" and "int4 b = Some j" and "\<not> (\<exists>c. chat_member d i c \<and> chat_member d j c)"
  shows "stmt_check_users_have_common_chat env a b d = (Inr [], d)"
proof -
  have "filter (\<lambda>(c, c'). c = c') (List.product (chats_of i d) (chats_of j d)) = []"
    using assms(3) by (auto simp: filter_empty_conv chats_of_def chat_member_def)
  then have "result_rows env (filter (\<lambda>(c, c'). c = c') (List.product (chats_of i d) (chats_of j d))) = []"
    by simp
  with assms show ?thesis by (simp add: stmt_check_users_have_common_chat_def)
qed

lemma create_chat_success:
  assumes inv: "tables_ok d" and up: "pg_up env"
  shows "fst (create_chat env u user_name f d) \<longleftrightarrow> may_create_chat env u user_name f d"
proof
  assume "fst (create_chat env u user_name f d)"
  then have "chat_created env u user_name f d (snd (create_chat env u user_name f d))"
    using create_chat_outcome [of env u user_name f d] by (metis prod.collapse)
  then obtain i row where "int4 u = Some i" "int4 f = Some (cl_id row)" "i \<in> cl_id ` set (Client d)"
    "row \<in> set (Client d)" "\<not> (\<exists>c. chat_member d i c \<and> chat_member d (cl_id row) c)" "Chat_seq d < max_int4"
    "pg_text env (str ''Chat with '' @ cl_name row) \<noteq> None" "pg_text env (str ''Chat with '' @ user_name) \<noteq> None"
    by (auto simp: chat_created_defs)
  then show "may_create_chat env u user_name f d" unfolding may_create_chat_def by blast
next
  assume "may_create_chat env u user_name f d"
  then obtain i row t1 t2 where *: "int4 u = Some i" "i \<in> cl_id ` set (Client d)" "row \<in> set (Client d)"
    "int4 f = Some (cl_id row)" "\<not> (\<exists>c. chat_member d i c \<and> chat_member d (cl_id row) c)"
    "Chat_seq d < max_int4"
    "pg_text env (str ''Chat with '' @ cl_name row) = Some t1"
    "pg_text env (str ''Chat with '' @ user_name) = Some t2"
    by (auto simp: may_create_chat_def)
  obtain k where k: "k = Chat_seq d + 1" by blast
  have new: "k \<notin> set (Chat_ids d)" "0 \<le> k" "k \<le> max_int4"
    using inv *(6) by (force simp: k tables_ok_def chats_ok_def)+
  have "stmt_create_chat d = (Inr k, d\<lparr>Chat_seq := k, Chat_ids := Chat_ids d @ [k]\<rparr>)"
    using stmt_create_chat_Inr [of d k] *(6) new(1) by (simp add: k)
  with * up new filter_client_id [OF inv *(3)] show "fst (create_chat env u user_name f d)"
    by (auto simp: create_chat_def create_chat_rest_def txn_defs stmt_common_chat_none stmt_get_info_def
        stmt_create_chat_connection_def)
qed

lemma create_chat_then_read:
  assumes inv: "tables_ok d" and run: "create_chat env u user_name f d = (True, d')" and up: "pg_up env'"
    and differ: "u \<noteq> f"
  shows "\<exists>c friend t1 t2. friend \<in> set (Client d) \<and> f = word_of_int (cl_id friend) \<and>
     pg_text env (str ''Chat with '' @ cl_name friend) = Some t1 \<and>
     pg_text env (str ''Chat with '' @ user_name) = Some t2 \<and>
     MessagesResponse_messages (fst (get_messages env' c d')) = [] \<and>
     mset (ChatsResponse_chats (fst (get_chats env' u d'))) =
       add_mset \<lparr>Chat_chat_id = c, Chat_title = t1\<rparr> (mset (ChatsResponse_chats (fst (get_chats env' u d)))) \<and>
     mset (ChatsResponse_chats (fst (get_chats env' f d'))) =
       add_mset \<lparr>Chat_chat_id = c, Chat_title = t2\<rparr> (mset (ChatsResponse_chats (fst (get_chats env' f d))))"
proof -
  have "chat_created env u user_name f d d'" using create_chat_outcome [OF run] by simp
  then obtain i friend t1 t2 where m: "int4 u = Some i" "int4 f = Some (cl_id friend)"
    "friend \<in> set (Client d)" "Chat_seq d + 1 \<notin> set (Chat_ids d)"  "Chat_seq d < max_int4"
    "pg_text env (str ''Chat with '' @ cl_name friend) = Some t1"
    "pg_text env (str ''Chat with '' @ user_name) = Some t2"
    and d': "d' = d\<lparr>Chat_ids := Chat_ids d @ [Chat_seq d + 1], Chat_seq := Chat_seq d + 1,
               ClientToChat := ClientToChat d @
                 [\<lparr>cc_client_id = i, cc_chat_id = Chat_seq d + 1, cc_title = t1\<rparr>,
                  \<lparr>cc_client_id = cl_id friend, cc_chat_id = Chat_seq d + 1, cc_title = t2\<rparr>]\<rparr>"
    unfolding chat_created_defs by blast
  obtain k where k: "k = Chat_seq d + 1" by blast
  define c :: u64 where "c = word_of_int k"
  have inv': "tables_ok d'" using operations_tables_ok(4) [OF inv, of env u user_name f] run by simp
  have "0 \<le> k" "k \<le> max_int4" using inv m(5) by (simp_all add: k tables_ok_def chats_ok_def)
  then have c: "int4 c = Some k" by (simp add: c_def)
  have "filter (\<lambda>m. ms_chat_id m = k) (Message d') = []"
    using inv m(4) by (auto simp: d' k [symmetric] filter_empty_conv tables_ok_def messages_ok_def)
      (metis chat_member_client(2) inv)
  then have "mset (MessagesResponse_messages (fst (get_messages env' c d'))) = {#}"
    by (simp only: get_messages_reads_rows [OF inv' up c]) simp
  moreover have "i \<noteq> cl_id friend" using differ m(1,2) int4_inj by blast
  ultimately show ?thesis
    using m int4_word [OF m(2)]
    by (intro exI [of _ c] exI [of _ friend] exI [of _ t1] exI [of _ t2])
      (simp add: get_chats_reads_rows [OF inv' up] get_chats_reads_rows [OF inv up], simp add: d' k [symmetric]
        chat_of_row_def c_def)
qed

text \<open>A second chat for the same two clients is refused, whoever asks.\<close>

section \<open>Identifiers in responses\<close>

text \<open>A number of the protocol that denotes an existing row and is accepted as a parameter.\<close>

definition identifies :: "int set \<Rightarrow> u64 \<Rightarrow> bool" where
  "identifies ids v \<longleftrightarrow> uint v \<in> ids \<and> 1 \<le> uint v \<and> uint v \<le> max_int4"

lemma identifies_of_int: "i \<in> ids \<Longrightarrow> 1 \<le> i \<Longrightarrow> i \<le> max_int4 \<Longrightarrow> identifies ids (word_of_int i)"
  by (simp add: identifies_def uint_word_of_int_eq take_bit_int_eq_self)

lemma query_commit_rows: "fst (query_commit env st d) = Inr r \<Longrightarrow> fst (st d) = Inr r"
  by (cases "st d") (auto simp: txn_defs split: option.splits sum.splits prod.splits)

lemma get_chats_identify:
  assumes "tables_ok d" and "chat \<in> set (ChatsResponse_chats (fst (get_chats env u d)))"
  shows "identifies (set (Chat_ids d)) (Chat_chat_id chat)"
proof (cases "fst (query_commit env (stmt_get_chats env u) d)")
  case (Inl e)
  with assms(2) show ?thesis by (auto simp: get_chats_def ChatsResponse_default_def split: prod.splits)
next
  case (Inr rows)
  with query_commit_rows [OF this] have "set rows \<subseteq> set (ClientToChat d)"
    by (auto simp: stmt_get_chats_def split: option.splits)
  then have rows: "\<forall>r \<in> set rows. cc_chat_id r \<in> set (Chat_ids d) \<and> 1 \<le> cc_chat_id r \<and> cc_chat_id r \<le> max_int4"
    using assms(1) chat_id_range [OF assms(1)] by (auto simp: tables_ok_def chats_ok_def)
  then have "fill_chats rows = map chat_of_row rows" by (intro fill_chats_map) force
  with assms(2) Inr rows show ?thesis
    by (auto simp: get_chats_def chat_of_row_def intro!: identifies_of_int split: prod.splits)
qed

lemma get_contacts_identify:
  assumes "tables_ok d" and "contact \<in> set (ContactsResponse_contacts (fst (get_contacts env u d)))"
  shows "identifies (cl_id ` set (Client d)) (Contact_user_id contact)"
proof (cases "fst (query_commit env (stmt_get_contacts env u) d)")
  case (Inl e)
  with assms(2) show ?thesis by (auto simp: get_contacts_def ContactsResponse_default_def split: prod.splits)
next
  case (Inr rows)
  with query_commit_rows [OF this] have "set rows \<subseteq> set (Client d)"
    by (auto simp: stmt_get_contacts_def contacts_of_def split: option.splits)
  then have rows: "\<forall>r \<in> set rows. cl_id r \<in> cl_id ` set (Client d) \<and> 1 \<le> cl_id r \<and> cl_id r \<le> max_int4"
    using client_id_range [OF assms(1)] by blast
  then have "fill_contacts rows = map contact_of_row rows" by (intro fill_contacts_map) force
  with assms(2) Inr rows show ?thesis
    by (auto simp: get_contacts_def contact_of_row_def intro!: identifies_of_int split: prod.splits)
qed

lemma get_messages_identify:
  assumes "tables_ok d" and "mesg \<in> set (MessagesResponse_messages (fst (get_messages env c d)))"
  shows "identifies (cl_id ` set (Client d)) (MessageToRecieve_sender_id mesg)"
proof (cases "fst (query_commit env (stmt_get_messages env c) d)")
  case (Inl e)
  with assms(2) show ?thesis by (auto simp: get_messages_def MessagesResponse_default_def split: prod.splits)
next
  case (Inr rows)
  with query_commit_rows [OF this] have "set rows \<subseteq> set (Message d)"
    by (auto simp: stmt_get_messages_def split: option.splits)
  then have rows: "\<forall>r \<in> set rows. ms_sender_id r \<in> cl_id ` set (Client d) \<and> 1 \<le> ms_sender_id r \<and> ms_sender_id r \<le> max_int4"
    using assms(1) sender_range [OF assms(1)] chat_member_client(1)
    by (fastforce simp: tables_ok_def messages_ok_def)
  then have "fill_messages rows = map message_of_row rows" by (intro fill_messages_map) force
  with assms(2) Inr rows show ?thesis
    by (auto simp: get_messages_def message_of_row_def intro!: identifies_of_int split: prod.splits)
qed

lemma login_identifies:
  assumes "tables_ok d" and "fst (login sha env mail password d) = Inr (i, name)"
  shows "identifies (cl_id ` set (Client d)) i"
  using login_sound [OF assms] client_id_range [OF assms(1)] by (auto intro!: identifies_of_int)

end
