(* ===== verification/System.thy ===== *)
theory System
  imports Frames Client_Props Storage_Ops
begin

text \<open>
  Client and server together. \<open>answer\<close> is the specification of the jobs of the server: the
  response, the new identity of the session and the new storage, without buffers, sockets
  or pending operations. \<open>exchange\<close> is one request and its response through both programs.
\<close>

section \<open>The specification of the jobs\<close>

definition status_response :: "bool \<Rightarrow> Response" where
  "status_response ok = Response_status_response \<lparr>StatusResponse_result = if ok then ACCEPTED else REJECTED\<rparr>"

definition for_client ::
  "(ClientState \<Rightarrow> 'd \<Rightarrow> Response \<times> 'd) \<Rightarrow> ClientState option \<Rightarrow> 'd \<Rightarrow> Response \<times> ClientState option \<times> 'd" where
  "for_client f cs d =
     (case cs of
        None \<Rightarrow> (Response_MSG_NOT_SET, None, d)
      | Some c \<Rightarrow> (case f c d of (r, d') \<Rightarrow> (r, Some c, d')))"

fun answer ::
  "'d storage \<Rightarrow> job \<Rightarrow> ClientState option \<Rightarrow> 'd \<Rightarrow> Response \<times> ClientState option \<times> 'd" where
  "answer st ParseCommand cs d = (Response_MSG_NOT_SET, cs, d)"
| "answer st (RegisterReq m) cs d =
     (case sc_registration st (RegisterRequest_name m) (RegisterRequest_email m) (RegisterRequest_password m) d of
        (ok, d') \<Rightarrow> (status_response ok, cs, d'))"
| "answer st (LoginReq m) cs d =
     (case sc_login st (LoginRequest_email m) (LoginRequest_password m) d of
        (Inl e, d') \<Rightarrow> (Response_login_response \<lparr>LoginResponse_profile = None\<rparr>, cs, d')
      | (Inr (i, name), d') \<Rightarrow>
          (Response_login_response \<lparr>LoginResponse_profile = Some \<lparr>Contact_user_id = i, Contact_name = name,
             Contact_email = LoginRequest_email m\<rparr>\<rparr>,
           Some \<lparr>user_id = i, user_name = name, email = LoginRequest_email m\<rparr>, d'))"
| "answer st ChatsReq cs d =
     for_client (\<lambda>c d. apfst Response_chats_response (sc_get_chats st (user_id c) d)) cs d"
| "answer st ContactsReq cs d =
     for_client (\<lambda>c d. apfst Response_contacts_response (sc_get_contacts st (user_id c) d)) cs d"
| "answer st (MessagesReq m) cs d =
     for_client (\<lambda>c d. apfst Response_messages_response (sc_get_messages st (MessagesRequest_chat_id m) d)) cs d"
| "answer st (SendMesgReq m) cs d =
     for_client (\<lambda>c d. apfst status_response
       (sc_send_message st (user_id c) (SendMessageRequest_mutable_mesg m) d)) cs d"
| "answer st (AddContactReq m) cs d =
     for_client (\<lambda>c d. apfst status_response (sc_add_contact st (user_id c) (AddContactRequest_email m) d)) cs d"
| "answer st (CreateChatReq m) cs d =
     for_client (\<lambda>c d. apfst status_response
       (sc_create_chat st (user_id c) (user_name c) (CreateChatRequest_friend_id m) d)) cs d"

lemma keep_state: "se_state s = x \<Longrightarrow> s\<lparr>se_state := x\<rparr> = s"
  by auto

lemma with_login_answer:
  "with_login env f s d =
    (case for_client f (se_state s) d of
       (r, cs, d') \<Rightarrow> (session_write env (WrappedMessage_response r) (s\<lparr>se_state := cs\<rparr>), d'))"
  by (auto simp: with_login_def for_client_def logged_in_def state_def empty_response_def Response_default_def
      keep_state split: option.splits prod.splits)

lemma status_of_response: "status_of x = apfst status_response x"
  by (cases x) (simp add: status_of_def status_response_def)

text \<open>The jobs implement the specification.\<close>

lemma run_job_answer:
  assumes "j \<noteq> ParseCommand"
  shows "run_job env st j s d =
    (case answer st j (se_state s) d of
       (r, cs, d') \<Rightarrow> (session_write env (WrappedMessage_response r) (s\<lparr>se_state := cs\<rparr>), d'))"
proof (cases j)
  case (RegisterReq m)
  then show ?thesis
    by (auto simp: RegisterRequestJob_def status_message_def status_response_def keep_state split: prod.splits)
next
  case (LoginReq m)
  then show ?thesis
    by (auto simp: LoginRequestJob_def state_def set_state_def LoginResponse_default_def keep_state
        split: prod.splits sum.splits)
qed (use assms in \<open>simp_all add: ChatsRequestJob_def ContactsRequestJob_def MessagesRequestJob_def
    SendMesgRequestJob_def AddContactRequestJob_def CreateChatRequestJob_def status_of_response
    with_login_answer del: SendMessageRequest_mutable_mesg.simps\<close>)

section \<open>One request and its response\<close>

text \<open>
  The session of the server reads the packet that the client wrote last, runs the job and
  writes; the client receives what was written.
\<close>

definition serve ::
  "client_env \<Rightarrow> server_env \<Rightarrow> 'd storage \<Rightarrow> client \<times> session \<times> 'd \<Rightarrow> (fatal + client \<times> session \<times> 'd)" where
  "serve ce se st x =
     (case x of (c1, s, d) \<Rightarrow>
       (case receive_packet se st (last (sock_tx c1)) s d of
          (Inl e, d1) \<Rightarrow> Inl e
        | (Inr s1, d1) \<Rightarrow>
            (case se_pending s1 of
               [Posted j] \<Rightarrow>
                 (case complete se st (Job_run j) s1 d1 of
                    (Inl e, d2) \<Rightarrow> Inl e
                  | (Inr s2, d2) \<Rightarrow>
                      (case complete se st (Write_done False) s2 d2 of
                         (Inl e, d3) \<Rightarrow> Inl e
                       | (Inr s3, d3) \<Rightarrow> Inr (receive ce (last (se_sent s2)) c1, s3, d3)))
             | _ \<Rightarrow> Inr (c1, s1, d1))))"

text \<open>The user calls an operation of the facade, and the request is served.\<close>

definition exchange ::
  "client_env \<Rightarrow> server_env \<Rightarrow> 'd storage \<Rightarrow> user_op \<Rightarrow> client \<times> session \<times> 'd \<Rightarrow>
     (fatal + client \<times> session \<times> 'd)" where
  "exchange ce se st op x = (case x of (c, s, d) \<Rightarrow> serve ce se st (BackEndFacade_op ce op c, s, d))"

text \<open>
  The operation from the call until the client waits no more: a client that is still locked
  after a response has written another request, which is served as well.
\<close>

definition operate ::
  "client_env \<Rightarrow> server_env \<Rightarrow> 'd storage \<Rightarrow> user_op \<Rightarrow> client \<times> session \<times> 'd \<Rightarrow>
     (fatal + client \<times> session \<times> 'd)" where
  "operate ce se st op x =
     (case exchange ce se st op x of
        Inl e \<Rightarrow> Inl e
      | Inr (c1, s1, d1) \<Rightarrow> if availible c1 then Inr (c1, s1, d1) else serve ce se st (c1, s1, d1))"

text \<open>A client that waits for nothing, connected and available.\<close>

definition ready :: "client \<Rightarrow> bool" where
  "ready c \<longleftrightarrow> availible c \<and> isConnected c \<and> m_bytesReaded c = 0 \<and> sock_rx c = [] \<and> m_fault c = None"

text \<open>The job of the server that an operation asks for.\<close>

definition op_server_job :: "client_env \<Rightarrow> user_op \<Rightarrow> job" where
  "op_server_job ce op = the (job_of (job_request ce op))"

lemma job_of_request: "job_of (job_request ce op) = Some (op_server_job ce op)"
  "op_server_job ce op \<noteq> ParseCommand"
  by (cases op; simp add: op_server_job_def createLoginRequest_def createRegisterRequest_def
      createAllMyChatsRequest_def createAllMyContactsRequest_def createLoadMessagesRequest_def
      createSendMessageRequest_def createAddContactRequest_def createCreateChatRequest_def)+

text \<open>
  The specification of an operation: the responses to its request, or to its two requests, the
  new identity and the new storage.
\<close>

definition op_answer ::
  "client_env \<Rightarrow> 'd storage \<Rightarrow> user_op \<Rightarrow> ClientState option \<Rightarrow> 'd \<Rightarrow> Response list \<times> ClientState option \<times> 'd" where
  "op_answer ce st op cs d =
     (case answer st (op_server_job ce op) cs d of
        (r, cs1, d1) \<Rightarrow>
          if second_round (op_job op) r
          then (case answer st ChatsReq cs1 d1 of (r', cs2, d2) \<Rightarrow> ([r, r'], cs2, d2))
          else ([r], cs1, d1))"

lemma chats_answer: "answer st ChatsReq cs d = (r, x) \<Longrightarrow> \<not> second_round w r"
  by (cases "(w, r)" rule: second_round.cases) (auto simp: for_client_def apfst_def map_prod_def split: option.splits prod.splits)

text \<open>A client that has written a request and waits for nothing else.\<close>

definition waiting :: "pb \<Rightarrow> Request \<Rightarrow> client_job \<Rightarrow> client \<Rightarrow> bool" where
  "waiting P rq j c \<longleftrightarrow> m_callback c = Some j \<and> last (sock_tx c) = packet P (WrappedMessage_request rq) \<and>
     m_bytesReaded c = 0 \<and> sock_rx c = [] \<and> isConnected c \<and> m_fault c = None"

lemma job_of_not_parse: "job_of rq = Some j \<Longrightarrow> j \<noteq> ParseCommand"
  by (cases rq) auto

context pb_wire
begin

lemma session_write_packet:
  assumes "sv_pb env = P" and "sendable P m" and "sv_can_alloc env (WrappedMessage_ByteSize P m + PREFIX_SIZE)"
    and "\<not> se_stopped s"
  shows "session_write env m s = Inr (s\<lparr>se_buffer := packet P m, se_pending := se_pending s @ [Async_write],
     se_sent := se_sent s @ [packet P m]\<rparr>)"
  using assms by (simp add: session_write_def do_async_write_def vector_resize_total write_buffer_packet Let_def)

text \<open>The server side: from a waiting session to a waiting session, with one packet sent.\<close>

lemma server_answers:
  assumes env: "sv_pb env = P" "\<forall>n. sv_can_alloc env n"
    and s: "\<not> se_stopped s" "se_sock_open s" "se_pending s = [Posted j]" "j \<noteq> ParseCommand"
      "length (se_received s) = Suc (length (se_sent s))"
    and ans: "answer st j (se_state s) d = (r, cs, d')" and out: "sendable P (WrappedMessage_response r)"
  shows "\<exists>s2 s3. complete env st (Job_run j) s d = (Inr s2, d') \<and>
     complete env st (Write_done False) s2 d' = (Inr s3, d') \<and>
     last (se_sent s2) = packet P (WrappedMessage_response r) \<and> awaiting s3 \<and> se_state s3 = cs"
proof -
  let ?p = "packet P (WrappedMessage_response r)"
  let ?s2 = "s\<lparr>se_pending := [Async_write], se_state := cs, se_buffer := ?p, se_sent := se_sent s @ [?p]\<rparr>"
  have "run_job env st j (take_pending (Posted j) s) d = (Inr ?s2, d')"
    using run_job_answer [OF s(4), of env st "take_pending (Posted j) s" d] ans s env
      session_write_packet [OF env(1) out, of "(take_pending (Posted j) s)\<lparr>se_state := cs\<rparr>"]
    by (simp add: take_pending_def)
  then have 2: "complete env st (Job_run j) s d = (Inr ?s2, d')" by simp
  let ?s3 = "?s2\<lparr>se_pending := [Async_read_prefix], se_buffer := resize PREFIX_SIZE ?p\<rparr>"
  have 3: "complete env st (Write_done False) ?s2 d' = (Inr ?s3, d')"
    using s env by (simp add: on_write_def do_async_read_prefix_def vector_resize_total take_pending_def)
  have "awaiting ?s3" using s by (simp add: awaiting_def session_ok_def)
  with 2 3 show ?thesis by (intro exI [of _ ?s2] exI [of _ ?s3]) simp
qed

lemma serve_ok:
  assumes envs: "cl_pb ce = P" "sv_pb se = P" "\<forall>n. sv_can_alloc se n"
    and start: "waiting P rq j c" "awaiting s" and req: "sendable P (WrappedMessage_request rq)" "job_of rq = Some sj"
    and ans: "answer st sj (se_state s) d = (r, cs, d')" and resp: "sendable P (WrappedMessage_response r)"
  shows "\<exists>s'. serve ce se st (c, s, d) = Inr ((responseProcessingCallback ce j r
      (loaded P (WrappedMessage_response r) c))\<lparr>m_bytesReaded := 0\<rparr>, s', d') \<and> awaiting s' \<and> se_state s' = cs"
proof -
  let ?m = "WrappedMessage_request rq" and ?resp = "WrappedMessage_response r"
  let ?b = "WrappedMessage_SerializeToArray P ?m"
  let ?s1 = "s\<lparr>se_buffer := ?b, se_pending := [Posted sj], se_received := se_received s @ [?b]\<rparr>"
  have s1: "receive_packet se st (packet P ?m) s d = (Inr ?s1, d)"
    using receive_request [OF envs(2) refl req(1), of s st d] envs(3) start(2) req(2) by simp
  have live: "\<not> se_stopped s" "se_sock_open s" "length (se_sent s) = length (se_received s)"
    using start(2) by (auto simp: awaiting_def session_ok_def)
  obtain s2 s3 where s23: "complete se st (Job_run sj) ?s1 d = (Inr s2, d')"
    "complete se st (Write_done False) s2 d' = (Inr s3, d')"
    "last (se_sent s2) = packet P ?resp" "awaiting s3" "se_state s3 = cs"
    using server_answers [OF envs(2,3), of ?s1 sj st d r cs d'] live ans resp job_of_not_parse [OF req(2)] by auto
  have "receive ce (packet P ?resp) c = (responseProcessingCallback ce j r (loaded P ?resp c))\<lparr>m_bytesReaded := 0\<rparr>"
    using start(1) by (intro receive_whole [OF envs(1) resp refl]) (simp_all add: waiting_def)
  moreover have "serve ce se st (c, s, d) = Inr (receive ce (packet P ?resp) c, s3, d')"
    using start(1) s1 s23 by (simp add: serve_def waiting_def del: complete.simps)
  ultimately show ?thesis using s23(4,5) by auto
qed

lemma op_waiting:
  assumes "cl_pb ce = P" and "ready c" and "sendable P (WrappedMessage_request (job_request ce op))"
  shows "waiting P (job_request ce op) (op_job op) (BackEndFacade_op ce op c)"
    "m_reactions (BackEndFacade_op ce op c) = m_reactions c" "\<not> m_availible (BackEndFacade_op ce op c)"
    "m_profile (BackEndFacade_op ce op c) = m_profile c"
  using op_connected [of c ce op] assms
  by (simp_all add: ready_def waiting_def request_buffer_packet Let_def isConnected_def)

lemma loaded_simps [simp]:
  "m_reactions (loaded P m c) = m_reactions c" "m_fault (loaded P m c) = m_fault c"
  "sock_connected (loaded P m c) = sock_connected c" "sock_rx (loaded P m c) = []"
  "m_availible (loaded P m c) = m_availible c" "sock_tx (loaded P m c) = sock_tx c"
  "m_profile (loaded P m c) = m_profile c"
  by (simp_all add: loaded_def)

text \<open>After the last response of its job a client is ready again.\<close>

lemma ready_again:
  assumes "waiting P rq j c" and "\<not> second_round j r"
  shows "ready ((responseProcessingCallback ce j r (loaded P m c))\<lparr>m_bytesReaded := 0\<rparr>)"
    "m_reactions ((responseProcessingCallback ce j r (loaded P m c))\<lparr>m_bytesReaded := 0\<rparr>) =
       m_reactions c @ [reaction_of j r]"
  using assms(1) callback_reaction [OF assms(2)] by (simp_all add: ready_def availible_def isConnected_def waiting_def)

lemma exchange_ok:
  assumes envs: "cl_pb ce = P" "sv_pb se = P" "\<forall>n. sv_can_alloc se n"
    and start: "ready c" "awaiting s"
    and req: "sendable P (WrappedMessage_request (job_request ce op))"
    and ans: "answer st (op_server_job ce op) (se_state s) d = (r, cs, d')"
    and resp: "sendable P (WrappedMessage_response r)" "\<not> second_round (op_job op) r"
  shows "\<exists>c' s'. exchange ce se st op (c, s, d) = Inr (c', s', d') \<and> ready c' \<and> awaiting s' \<and>
     se_state s' = cs \<and> m_reactions c' = m_reactions c @ [reaction_of (op_job op) r] \<and>
     m_profile c' = profile_after ce (op_job op) r (m_profile c)"
proof -
  note w = op_waiting [OF envs(1) start(1) req]
  from serve_ok [OF envs w(1) start(2) req job_of_request(1) ans resp(1)] ready_again [OF w(1) resp(2)] w(2,4)
  show ?thesis by (auto simp: exchange_def callback_profile)
qed

text \<open>A response that is not the last of its job: the client writes the next request.\<close>

lemma second_waiting:
  fixes m :: WrappedMessage
  assumes env: "cl_pb ce = P" and wait: "waiting P rq j c" and more: "second_round j r"
    and fit: "sendable P (WrappedMessage_request createAllMyChatsRequest)"
  defines "c1 \<equiv> (responseProcessingCallback ce j r (loaded P m c))\<lparr>m_bytesReaded := 0\<rparr>"
  shows "waiting P createAllMyChatsRequest j c1"
    "sock_tx c1 = sock_tx c @ [packet P (WrappedMessage_request createAllMyChatsRequest)]"
    "m_reactions c1 = m_reactions c" "m_availible c1 = m_availible c" "m_profile c1 = m_profile c"
proof -
  obtain cs where j: "j = LoadDataJob" and cb: "responseProcessingCallback ce j r (loaded P m c) =
      Session_request ce createAllMyChatsRequest LoadDataJob (setContacts ce cs (loaded P m c))"
    using callback_second_round [OF more, of ce "loaded P m c"] by blast
  have conn: "isConnected (setContacts ce cs (loaded P m c))" using wait by (simp add: waiting_def isConnected_def)
  have "m_profile (setContacts ce cs x) = m_profile x" for x by (simp add: setContacts_def)
  with conn wait show "waiting P createAllMyChatsRequest j c1"
    "sock_tx c1 = sock_tx c @ [packet P (WrappedMessage_request createAllMyChatsRequest)]"
    "m_reactions c1 = m_reactions c" "m_availible c1 = m_availible c" "m_profile c1 = m_profile c"
    unfolding c1_def cb
    by (simp_all add: Session_request_def Let_def waiting_def isConnected_def env j request_buffer_packet [OF fit])
qed

text \<open>An operation, in one round or in two.\<close>

lemma operate_ok:
  assumes envs: "cl_pb ce = P" "sv_pb se = P" "\<forall>n. sv_can_alloc se n"
    and start: "ready c" "awaiting s"
    and req: "sendable P (WrappedMessage_request (job_request ce op))"
      "sendable P (WrappedMessage_request createAllMyChatsRequest)"
    and ans: "op_answer ce st op (se_state s) d = (rs, cs, d')"
    and resp: "\<forall>r \<in> set rs. sendable P (WrappedMessage_response r)"
  shows "\<exists>c' s'. operate ce se st op (c, s, d) = Inr (c', s', d') \<and> ready c' \<and> awaiting s' \<and> se_state s' = cs \<and>
     m_reactions c' = m_reactions c @ [reaction_of (op_job op) (last rs)] \<and>
     m_profile c' = profile_after ce (op_job op) (last rs) (m_profile c) \<and>
     length (sock_tx c') = length (sock_tx c) + length rs"
proof -
  let ?c0 = "BackEndFacade_op ce op c"
  note w = op_waiting [OF envs(1) start(1) req(1)]
  have tx: "length (sock_tx ?c0) = Suc (length (sock_tx c))"
    using op_connected [of c ce op] start(1) by (simp add: ready_def Let_def)
  obtain r cs1 d1 where a1: "answer st (op_server_job ce op) (se_state s) d = (r, cs1, d1)" by (metis prod_cases3)
  have r: "sendable P (WrappedMessage_response r)"
    using ans resp a1 by (auto simp: op_answer_def split: if_splits prod.splits)
  let ?c1 = "(responseProcessingCallback ce (op_job op) r (loaded P (WrappedMessage_response r) ?c0))\<lparr>m_bytesReaded := 0\<rparr>"
  obtain s1 where 1: "exchange ce se st op (c, s, d) = Inr (?c1, s1, d1)" "awaiting s1" "se_state s1 = cs1"
    using serve_ok [OF envs w(1) start(2) req(1) job_of_request(1) a1 r] by (auto simp: exchange_def)
  show ?thesis
  proof (cases "second_round (op_job op) r")
    case False
    then have rs: "rs = [r]" "cs1 = cs" "d1 = d'" using ans a1 by (simp_all add: op_answer_def)
    have "availible ?c1" using ready_again(1) [OF w(1) False] by (simp add: ready_def)
    with 1 rs ready_again [OF w(1) False] callback_reaction(3) [OF False] w tx show ?thesis
      by (simp add: operate_def callback_profile)
  next
    case True
    note w1 = second_waiting [OF envs(1) w(1) True req(2), of "WrappedMessage_response r"]
    obtain r' where a2: "answer st ChatsReq cs1 d1 = (r', cs, d')" "rs = [r, r']"
      using ans a1 True by (auto simp: op_answer_def split: prod.splits)
    have last: "\<not> second_round (op_job op) r'" by (rule chats_answer [OF a2(1)])
    have job: "job_of createAllMyChatsRequest = Some ChatsReq" by (simp add: createAllMyChatsRequest_def)
    let ?c2 = "(responseProcessingCallback ce (op_job op) r' (loaded P (WrappedMessage_response r') ?c1))\<lparr>m_bytesReaded := 0\<rparr>"
    obtain s2 where 2: "serve ce se st (?c1, s1, d1) = Inr (?c2, s2, d')" "awaiting s2" "se_state s2 = cs"
      using serve_ok [OF envs w1(1) 1(2) req(2) job, of st d1 r' cs d'] a2 resp 1(3) by auto
    have "\<not> availible ?c1" using w1(4) w(3) by (simp add: availible_def)
    with 1(1) 2 a2(2) ready_again [OF w1(1) last] callback_reaction(3) [OF last] w w1 tx show ?thesis
      by (simp add: operate_def callback_profile)
  qed
qed

text \<open>Loading the data: two requests and two responses for one operation.\<close>

lemma load_data_ok:
  assumes envs: "cl_pb ce = P" "sv_pb se = P" "\<forall>n. sv_can_alloc se n"
    and start: "ready c" "awaiting s" "se_state s = Some cs"
    and req: "sendable P (WrappedMessage_request createAllMyContactsRequest)"
      "sendable P (WrappedMessage_request createAllMyChatsRequest)"
    and st: "sc_get_contacts st (user_id cs) d = (contacts, d1)" "sc_get_chats st (user_id cs) d1 = (chats, d2)"
    and resp: "sendable P (WrappedMessage_response (Response_contacts_response contacts))"
      "sendable P (WrappedMessage_response (Response_chats_response chats))"
  shows "\<exists>c1 s1 c2 s2. exchange ce se st Load_data (c, s, d) = Inr (c1, s1, d1) \<and>
     \<not> availible c1 \<and> m_reactions c1 = m_reactions c \<and>
     serve ce se st (c1, s1, d1) = Inr (c2, s2, d2) \<and> ready c2 \<and> awaiting s2 \<and> se_state s2 = Some cs \<and>
     m_reactions c2 = m_reactions c @ [DoLoadDataReaction] \<and>
     co_items (m_contactsList c2) = map (contact_item ce) (ContactsResponse_contacts contacts) \<and>
     ch_items (m_chatsList c2) = map (chat_item ce) (ChatsResponse_chats chats)"
proof -
  let ?c0 = "BackEndFacade_op ce Load_data c" and ?r1 = "Response_contacts_response contacts"
  have rq: "job_request ce Load_data = createAllMyContactsRequest" "op_job Load_data = LoadDataJob" by simp_all
  note w0 = op_waiting [OF envs(1) start(1), of Load_data, unfolded rq, OF req(1)]
  let ?l = "setContacts ce contacts (loaded P (WrappedMessage_response ?r1) ?c0)"
  let ?c1 = "(Session_request ce createAllMyChatsRequest LoadDataJob ?l)\<lparr>m_bytesReaded := 0\<rparr>"
  have job: "job_of createAllMyContactsRequest = Some ContactsReq" "job_of createAllMyChatsRequest = Some ChatsReq"
    by (simp_all add: createAllMyContactsRequest_def createAllMyChatsRequest_def)
  have a1: "answer st ContactsReq (se_state s) d = (?r1, Some cs, d1)"
    using start(3) st(1) by (simp add: for_client_def)
  have "responseProcessingCallback ce LoadDataJob ?r1 (loaded P (WrappedMessage_response ?r1) ?c0) =
      Session_request ce createAllMyChatsRequest LoadDataJob ?l"
    by (simp add: LoadDataJob_callback_def)
  with serve_ok [OF envs w0(1) start(2) req(1) job(1) a1 resp(1)] obtain s1 where
    1: "exchange ce se st Load_data (c, s, d) = Inr (?c1, s1, d1)" "awaiting s1" "se_state s1 = Some cs"
    by (auto simp: exchange_def)
  have conn: "isConnected ?l" using w0(1) by (simp add: waiting_def isConnected_def)
  then have w1: "waiting P createAllMyChatsRequest LoadDataJob ?c1" "m_reactions ?c1 = m_reactions c"
      "\<not> m_availible ?c1" "m_contactsList ?c1 = m_contactsList ?l"
    using w0 envs(1) by (simp_all add: Session_request_def Let_def waiting_def request_buffer_packet [OF req(2)]
        isConnected_def)
  have a2: "answer st ChatsReq (se_state s1) d1 = (Response_chats_response chats, Some cs, d2)"
    using 1(3) st(2) by (simp add: for_client_def)
  let ?c2 = "(responseProcessingCallback ce LoadDataJob (Response_chats_response chats)
      (loaded P (WrappedMessage_response (Response_chats_response chats)) ?c1))\<lparr>m_bytesReaded := 0\<rparr>"
  from serve_ok [OF envs w1(1) 1(2) req(2) job(2) a2 resp(2)] obtain s2 where
    2: "serve ce se st (?c1, s1, d1) = Inr (?c2, s2, d2)" "awaiting s2" "se_state s2 = Some cs" by blast
  have "ready ?c2" "m_reactions ?c2 = m_reactions ?c1 @ [DoLoadDataReaction]"
    using ready_again [OF w1(1), of "Response_chats_response chats"] by simp_all
  moreover have "co_items (m_contactsList ?c2) = map (contact_item ce) (ContactsResponse_contacts contacts)"
    "ch_items (m_chatsList ?c2) = map (chat_item ce) (ChatsResponse_chats chats)"
    using w1(4) by (simp_all add: LoadDataJob_callback_def setChats_def setContacts_def setItems_contacts
        ChatsList_setItems_def ChatsList_reset_def Let_def react_def setAvailible_def loaded_def)
  ultimately show ?thesis using 1(1) 2 w1(2,3)
    by (intro exI [of _ ?c1] exI [of _ s1] exI [of _ ?c2] exI [of _ s2]) (simp add: availible_def)
qed

end

end
