(* ===== verification/Network.thy ===== *)
theory Network
  imports System
begin

text \<open>
  Any number of clients with one server. The steps of the network interleave the operations of
  the users, the completions of the sessions, the arrival of responses in pieces of any size and
  the loss of connections in any order. The events record when a job ran; they are a history that
  no program reads. The theorems show that the programs, with all their buffers and partial
  reads, behave as if every job ran alone at one moment between its request and its response.
  What a client shows is followed as long as the code keeps its place in the stream; a client that
  loses it is \<open>jammed\<close>, and then only its session is followed, with whatever bytes it gets.
\<close>

section \<open>The network\<close>

text \<open>A job of session \<open>ev_client\<close> ran; the callback of \<open>ev_waits\<close> waits for its response.\<close>

record 'd event =
  ev_client :: nat
  ev_waits :: client_job
  ev_job :: job
  ev_storage :: "'d storage"

text \<open>
  For each connection: the program of the client, the reactions it had shown when it connected,
  the operations its facade accepted since, and the bytes on the way to and from its session.
  The connections in \<open>nt_left\<close> were lost and their programs have made another one since. The
  clients in \<open>nt_jammed\<close> have lost their place in the stream of responses, see \<open>loses_prefix\<close>.
\<close>

record 'd network =
  nt_clients :: "client list"
  nt_shown :: "reaction list list"
  nt_calls :: "user_op list list"
  nt_up :: "bytes list"
  nt_down :: "bytes list"
  nt_left :: "nat list"
  nt_jammed :: "nat list"
  nt_server :: "'d server"
  nt_events :: "'d event list"

definition network_init :: "'d \<Rightarrow> 'd network" where
  "network_init d = \<lparr>nt_clients = [], nt_shown = [], nt_calls = [], nt_up = [], nt_down = [],
     nt_left = [], nt_jammed = [], nt_server = server_run d, nt_events = []\<rparr>"

text \<open>What a client wrote to its socket between two states.\<close>

definition written :: "client \<Rightarrow> client \<Rightarrow> bytes" where
  "written c c' = concat (drop (length (sock_tx c)) (sock_tx c'))"

definition net_join :: "server_env \<Rightarrow> client \<Rightarrow> 'd network \<Rightarrow> 'd network" where
  "net_join se c N = N\<lparr>nt_clients := nt_clients N @ [c], nt_shown := nt_shown N @ [m_reactions c],
     nt_calls := nt_calls N @ [[]], nt_up := nt_up N @ [[]], nt_down := nt_down N @ [[]],
     nt_server := handle_accept se ClientSession Accepted ((nt_server N)\<lparr>sv_accepting := None\<rparr>)\<rparr>"

definition net_call :: "client_env \<Rightarrow> nat \<Rightarrow> user_op \<Rightarrow> 'd network \<Rightarrow> 'd network" where
  "net_call ce i op N =
     (let c = nt_clients N ! i; c' = BackEndFacade_op ce op c in
      N\<lparr>nt_clients := (nt_clients N)[i := c'], nt_up := (nt_up N)[i := nt_up N ! i @ written c c'],
        nt_calls := (nt_calls N)[i := nt_calls N ! i @ (if availible c \<and> isConnected c then [op] else [])]\<rparr>)"

text \<open>
  The bytes that a completion takes from the connection; completions without an error; and those
  of a session whose connection is lost, where no read succeeds.
\<close>

fun consumed :: "completion \<Rightarrow> bytes" where
  "consumed (Read_prefix_done err data) = data"
| "consumed (Read_message_done err data n) = data"
| "consumed _ = []"

fun sound :: "completion \<Rightarrow> bool" where
  "sound (Read_prefix_done err data) \<longleftrightarrow> \<not> err"
| "sound (Read_message_done err data n) \<longleftrightarrow> \<not> err"
| "sound (Write_done err) \<longleftrightarrow> \<not> err"
| "sound (Job_run j) \<longleftrightarrow> True"

fun cut_off :: "completion \<Rightarrow> bool" where
  "cut_off (Read_prefix_done err data) \<longleftrightarrow> err"
| "cut_off (Read_message_done err data n) \<longleftrightarrow> err"
| "cut_off _ \<longleftrightarrow> True"

fun answers :: "completion \<Rightarrow> job option" where
  "answers (Job_run j) = (if j = ParseCommand then None else Some j)"
| "answers _ = None"

definition net_work :: "server_env \<Rightarrow> 'd storage \<Rightarrow> nat \<Rightarrow> completion \<Rightarrow> 'd network \<Rightarrow> 'd network" where
  "net_work se st i x N =
     (let s = sv_sessions (nt_server N) ! i; sv = complete_session se st i x (nt_server N);
          s' = sv_sessions sv ! i in
      N\<lparr>nt_server := sv, nt_up := (nt_up N)[i := drop (length (consumed x)) (nt_up N ! i)],
        nt_down := (nt_down N)[i := nt_down N ! i @
          (if isConnected (nt_clients N ! i) then concat (drop (length (se_sent s)) (se_sent s')) else [])],
        nt_events := nt_events N @ (case answers x of None \<Rightarrow> [] | Some j \<Rightarrow>
          [\<lparr>ev_client = i, ev_waits = the (m_callback (nt_clients N ! i)), ev_job = j, ev_storage = st\<rparr>])\<rparr>)"

text \<open>
  A piece of a response that comes after its prefix but does not complete its body makes
  \<open>onReadyRead\<close> forget the prefix: the client will take the middle of a body for a prefix.
\<close>

definition loses_prefix :: "client \<Rightarrow> bytes \<Rightarrow> bool" where
  "loses_prefix c p \<longleftrightarrow>
     m_bytesReaded c = int PREFIX_SIZE \<and> bytesAvailable c + int (length p) < m_messageSize c"

definition net_deliver :: "client_env \<Rightarrow> nat \<Rightarrow> bytes \<Rightarrow> 'd network \<Rightarrow> 'd network" where
  "net_deliver ce i p N =
     (let c = nt_clients N ! i; c' = receive ce p c in
      N\<lparr>nt_clients := (nt_clients N)[i := c'], nt_up := (nt_up N)[i := nt_up N ! i @ written c c'],
        nt_down := (nt_down N)[i := drop (length p) (nt_down N ! i)],
        nt_jammed := (if loses_prefix c p then i # nt_jammed N else nt_jammed N)\<rparr>)"

text \<open>The connection is lost, with the bytes on their way.\<close>

definition net_break :: "client_env \<Rightarrow> nat \<Rightarrow> 'd network \<Rightarrow> 'd network" where
  "net_break ce i N = N\<lparr>nt_clients := (nt_clients N)[i := client_step ce Socket_disconnected (nt_clients N ! i)],
     nt_up := (nt_up N)[i := []], nt_down := (nt_down N)[i := []]\<rparr>"

text \<open>
  A client that lost its connection makes another one: the user updates the connection settings
  and the server accepts. The program goes on with a new session. A client that still holds the
  prefix of a response that it did not get is not ready: it will take the first bytes of the
  new stream for the body.
\<close>

definition reconnected :: "client_env \<Rightarrow> qstring \<Rightarrow> qstring \<Rightarrow> client \<Rightarrow> client" where
  "reconnected ce ip port c = client_run ce [Update_settings ip port, Socket_connected] c"

definition net_reconnect ::
  "client_env \<Rightarrow> server_env \<Rightarrow> nat \<Rightarrow> qstring \<Rightarrow> qstring \<Rightarrow> 'd network \<Rightarrow> 'd network" where
  "net_reconnect ce se i ip port N =
     (let c = reconnected ce ip port (nt_clients N ! i) in
      (net_join se c N)\<lparr>nt_left := i # nt_left N,
        nt_jammed := (if ready c then nt_jammed N else length (nt_clients N) # nt_jammed N)\<rparr>)"

text \<open>
  The steps. \<open>S\<close> is any set of storage connections, such as those of \<open>Server_Workers\<close>: nothing is
  assumed of them. Clients join connected and idle; the requests that users make and the
  responses that jobs send stay within the limits of the runtime; accepts succeed, and reads and
  writes while the connection lasts. The bytes of a response arrive in order, in pieces of any
  size at any time, and the connection may be lost before the next one. A client without a
  connection, whose facade is not locked, can make another.
\<close>

inductive net_step :: "client_env \<Rightarrow> server_env \<Rightarrow> 'd storage set \<Rightarrow> 'd network \<Rightarrow> 'd network \<Rightarrow> bool"
  for ce se S where
  join: "\<lbrakk>sv_accepting (nt_server N) \<noteq> None; ready c\<rbrakk> \<Longrightarrow> net_step ce se S N (net_join se c N)"
| call: "\<lbrakk>i < length (nt_clients N); i \<notin> set (nt_left N); sendable (cl_pb ce) (WrappedMessage_request (job_request ce op))\<rbrakk> \<Longrightarrow>
    net_step ce se S N (net_call ce i op N)"
| work: "\<lbrakk>i < length (nt_clients N); st \<in> S; enabled x (sv_sessions (nt_server N) ! i);
    if isConnected (nt_clients N ! i) then sound x \<and> consumed x = take (length (consumed x)) (nt_up N ! i)
    else cut_off x;
    \<And>j. answers x = Some j \<Longrightarrow> sendable (sv_pb se) (WrappedMessage_response
      (fst (answer st j (se_state (sv_sessions (nt_server N) ! i)) (sv_db (nt_server N)))))\<rbrakk> \<Longrightarrow>
    net_step ce se S N (net_work se st i x N)"
| deliver: "\<lbrakk>i < length (nt_clients N); isConnected (nt_clients N ! i); p \<noteq> []; nt_down N ! i = p @ rest\<rbrakk> \<Longrightarrow>
    net_step ce se S N (net_deliver ce i p N)"
| break: "\<lbrakk>i < length (nt_clients N); isConnected (nt_clients N ! i)\<rbrakk> \<Longrightarrow>
    net_step ce se S N (net_break ce i N)"
| reconnect: "\<lbrakk>i < length (nt_clients N); i \<notin> set (nt_left N); \<not> isConnected (nt_clients N ! i);
    availible (nt_clients N ! i); qt_valid_address ce ip; qt_valid_port ce port; sv_accepting (nt_server N) \<noteq> None\<rbrakk> \<Longrightarrow>
    net_step ce se S N (net_reconnect ce se i ip port N)"
| signal: "sv_signal_wait (nt_server N) \<Longrightarrow>
    net_step ce se S N (N\<lparr>nt_server := signal_handler ((nt_server N)\<lparr>sv_signal_wait := False\<rparr>)\<rparr>)"

definition net_reachable ::
  "client_env \<Rightarrow> server_env \<Rightarrow> 'd storage set \<Rightarrow> 'd \<Rightarrow> 'd network \<Rightarrow> bool" where
  "net_reachable ce se S d0 N \<longleftrightarrow> (net_step ce se S)\<^sup>*\<^sup>* (network_init d0) N"

text \<open>Whatever job session \<open>i\<close> comes to run on \<open>st\<close>, the response is within the limits.\<close>

definition answers_fit :: "client_env \<Rightarrow> server_env \<Rightarrow> 'd storage set \<Rightarrow> 'd storage \<Rightarrow> nat \<Rightarrow> 'd network \<Rightarrow> bool" where
  "answers_fit ce se S st i N \<longleftrightarrow>
     (\<forall>N' j. (net_step ce se S)\<^sup>*\<^sup>* N N' \<longrightarrow> Posted j \<in> set (se_pending (sv_sessions (nt_server N') ! i)) \<longrightarrow>
        sendable (sv_pb se) (WrappedMessage_response
          (fst (answer st j (se_state (sv_sessions (nt_server N') ! i)) (sv_db (nt_server N'))))))"

section \<open>Atomic jobs\<close>

text \<open>The specification: the jobs of the history one after the other, on identities and storage.\<close>

definition apply_event :: "'d event \<Rightarrow> ('d event \<times> Response) list \<times> (nat \<Rightarrow> ClientState option) \<times> 'd \<Rightarrow>
    ('d event \<times> Response) list \<times> (nat \<Rightarrow> ClientState option) \<times> 'd" where
  "apply_event e x = (case x of (log, ids, d) \<Rightarrow>
     (case answer (ev_storage e) (ev_job e) (ids (ev_client e)) d of
        (r, cs, d') \<Rightarrow> (log @ [(e, r)], ids(ev_client e := cs), d')))"

definition run_atomically :: "'d event list \<Rightarrow> 'd \<Rightarrow>
    ('d event \<times> Response) list \<times> (nat \<Rightarrow> ClientState option) \<times> 'd" where
  "run_atomically es d0 = fold apply_event es ([], \<lambda>_. None, d0)"

lemma run_atomically_Nil [simp]: "run_atomically [] d0 = ([], \<lambda>_. None, d0)"
  by (simp add: run_atomically_def)

lemma run_atomically_snoc [simp]: "run_atomically (es @ [e]) d0 = apply_event e (run_atomically es d0)"
  by (simp add: run_atomically_def)

text \<open>What a client gets from the log, and what it shows of it.\<close>

definition of_client :: "nat \<Rightarrow> ('d event \<times> Response) list \<Rightarrow> (client_job \<times> job \<times> Response) list" where
  "of_client i log = map (\<lambda>(e, r). (ev_waits e, ev_job e, r)) (filter (\<lambda>(e, r). ev_client e = i) log)"

lemma of_client_Nil [simp]: "of_client i [] = []"
  by (simp add: of_client_def)

lemma of_client_snoc [simp]:
  "of_client i (log @ [(e, r)]) = of_client i log @ (if ev_client e = i then [(ev_waits e, ev_job e, r)] else [])"
  by (simp add: of_client_def)

definition shown_of :: "(client_job \<times> job \<times> Response) list \<Rightarrow> reaction list" where
  "shown_of log = map (\<lambda>(w, j, r). reaction_of w r) (filter (\<lambda>(w, j, r). \<not> second_round w r) log)"

lemma shown_of_append [simp]: "shown_of (xs @ ys) = shown_of xs @ shown_of ys"
  and shown_of_Nil [simp]: "shown_of [] = []"
  and shown_of_one [simp]: "shown_of [(w, j, r)] = (if second_round w r then [] else [reaction_of w r])"
  by (simp_all add: shown_of_def)

text \<open>
  The log of a client whose operations are all finished: one job for each operation in the
  order of the calls, and a second one after the contacts of \<open>Load_data\<close>.
\<close>

inductive explained :: "client_env \<Rightarrow> user_op list \<Rightarrow> (client_job \<times> job \<times> Response) list \<Rightarrow> bool"
  for ce where
  none: "explained ce [] []"
| one: "\<lbrakk>explained ce ops log; \<not> second_round (op_job op) r\<rbrakk> \<Longrightarrow>
    explained ce (ops @ [op]) (log @ [(op_job op, op_server_job ce op, r)])"
| two: "\<lbrakk>explained ce ops log; second_round (op_job op) r; \<not> second_round (op_job op) r'\<rbrakk> \<Longrightarrow>
    explained ce (ops @ [op]) (log @ [(op_job op, op_server_job ce op, r), (op_job op, ChatsReq, r')])"

text \<open>The jobs that an operation may have run so far: at most once each.\<close>

definition started :: "client_env \<Rightarrow> user_op \<Rightarrow> (client_job \<times> job \<times> Response) list \<Rightarrow> bool" where
  "started ce op part \<longleftrightarrow> part = [] \<or> (\<exists>r. part = [(op_job op, op_server_job ce op, r)]) \<or>
     (\<exists>r r'. part = [(op_job op, op_server_job ce op, r), (op_job op, ChatsReq, r')] \<and> second_round (op_job op) r)"

text \<open>
  What a client may see. It has shown one reaction for each finished operation, as the log
  explains them. While it is connected and available it waits for nothing; while it is locked
  it waits for its last operation, which may have run. Without a connection it shows that, and
  the operation that it waited for, if any, may have run or not.
\<close>

definition in_step :: "client_env \<Rightarrow> reaction list \<Rightarrow> user_op list \<Rightarrow> (client_job \<times> job \<times> Response) list \<Rightarrow>
    client \<Rightarrow> bool" where
  "in_step ce shown ops log c \<longleftrightarrow>
     (\<exists>ops1 log1 waits part after. ops = ops1 @ waits \<and> log = log1 @ part \<and>
        explained ce ops1 log1 \<and> m_reactions c = shown @ shown_of log1 @ after \<and>
        (waits = [] \<and> part = [] \<or> (\<exists>op. waits = [op] \<and> started ce op part)) \<and>
        (if isConnected c then after = [] \<and> (availible c \<longleftrightarrow> waits = [])
         else availible c \<and> set after \<subseteq> {DoDisconnected, DoOperationAborted not_connected_text}))"

section \<open>A client and its session\<close>

text \<open>The session waits for a request, or still for the end of its last write.\<close>

definition resting :: "session \<Rightarrow> bool" where
  "resting s \<longleftrightarrow> session_ok s \<and> \<not> se_stopped s \<and> (se_pending s = [Async_read_prefix] \<or> se_pending s = [Async_write])"

text \<open>How far a request has come.\<close>

definition underway :: "pb \<Rightarrow> Request \<Rightarrow> session \<Rightarrow> bytes \<Rightarrow> bool" where
  "underway P rq s up \<longleftrightarrow> (let m = WrappedMessage_request rq in
     resting s \<and> up = packet P m \<or>
     session_ok s \<and> \<not> se_stopped s \<and>
      (se_pending s = [Async_read_message (of_nat (WrappedMessage_ByteSize P m))] \<and>
         up = WrappedMessage_SerializeToArray P m \<or>
       se_pending s = [Posted ParseCommand] \<and> se_buffer s = WrappedMessage_SerializeToArray P m \<and> up = [] \<or>
       (\<exists>j. se_pending s = [Posted j] \<and> job_of rq = Some j \<and> up = [])))"

text \<open>How many completions away the job is.\<close>

fun stage :: "pending list \<Rightarrow> nat" where
  "stage [Async_write] = 5"
| "stage [Async_read_prefix] = 4"
| "stage [Async_read_message n] = 3"
| "stage [Posted j] = (if j = ParseCommand then 2 else 1)"
| "stage _ = 0"

definition asking :: "pb \<Rightarrow> Request \<Rightarrow> client_job \<Rightarrow> client \<Rightarrow> bool" where
  "asking P rq w c \<longleftrightarrow> waiting P rq w c \<and> \<not> m_availible c \<and> sendable P (WrappedMessage_request rq)"

text \<open>
  A client with its connection and the part of the log that is its own: it has finished all its
  operations; or its last operation waits, in its first or second round \<open>cur\<close>, and either the
  request is underway or the response is, of which the client may have got a part.
\<close>

definition first_rounds :: "client_env \<Rightarrow> user_op \<Rightarrow> Request \<Rightarrow> (client_job \<times> job \<times> Response) list \<Rightarrow> bool" where
  "first_rounds ce op rq cur \<longleftrightarrow> cur = [] \<and> rq = job_request ce op \<or>
     (\<exists>r. cur = [(op_job op, op_server_job ce op, r)] \<and> second_round (op_job op) r \<and> rq = createAllMyChatsRequest)"

definition partly :: "pb \<Rightarrow> WrappedMessage \<Rightarrow> bytes \<Rightarrow> client \<Rightarrow> client" where
  "partly P m got c =
     (if length got < PREFIX_SIZE then c\<lparr>sock_rx := got\<rparr> else after_prefix P m (drop PREFIX_SIZE got) c)"

definition pair_ok :: "client_env \<Rightarrow> pb \<Rightarrow> reaction list \<Rightarrow> user_op list \<Rightarrow> (client_job \<times> job \<times> Response) list \<Rightarrow>
    client \<Rightarrow> session \<Rightarrow> bytes \<Rightarrow> bytes \<Rightarrow> bool" where
  "pair_ok ce P shown ops log c s up down \<longleftrightarrow>
     (\<exists>ops1 log1. explained ce ops1 log1 \<and> m_reactions c = shown @ shown_of log1 \<and>
       (ops = ops1 \<and> log = log1 \<and> ready c \<and> resting s \<and> up = [] \<and> down = [] \<or>
        (\<exists>op rq cur. ops = ops1 @ [op] \<and> first_rounds ce op rq cur \<and>
          (asking P rq (op_job op) c \<and> log = log1 @ cur \<and> underway P rq s up \<and> down = [] \<or>
           (\<exists>c0 got j r. asking P rq (op_job op) c0 \<and> c = partly P (WrappedMessage_response r) got c0 \<and>
              job_of rq = Some j \<and> log = log1 @ cur @ [(op_job op, j, r)] \<and>
              sendable P (WrappedMessage_response r) \<and> (cur \<noteq> [] \<longrightarrow> \<not> second_round (op_job op) r) \<and>
              resting s \<and> up = [] \<and> got @ down = packet P (WrappedMessage_response r) \<and> down \<noteq> [])))))"

text \<open>
  A client without a connection and its session, which may still run the job of a request that
  it has read.
\<close>

definition broken_ok :: "client_env \<Rightarrow> pb \<Rightarrow> reaction list \<Rightarrow> user_op list \<Rightarrow> (client_job \<times> job \<times> Response) list \<Rightarrow>
    client \<Rightarrow> session \<Rightarrow> bytes \<Rightarrow> bytes \<Rightarrow> bool" where
  "broken_ok ce P shown ops log c s up down \<longleftrightarrow>
     \<not> isConnected c \<and> availible c \<and> session_ok s \<and> up = [] \<and> down = [] \<and>
     (\<exists>ops1 log1 waits part after. ops = ops1 @ waits \<and> log = log1 @ part \<and>
        explained ce ops1 log1 \<and> m_reactions c = shown @ shown_of log1 @ after \<and>
        set after \<subseteq> {DoDisconnected, DoOperationAborted not_connected_text} \<and>
        (waits = [] \<and> part = [] \<and> (\<forall>j. Posted j \<notin> set (se_pending s)) \<or>
         (\<exists>op. waits = [op] \<and> started ce op part \<and>
            ((\<forall>j. Posted j \<notin> set (se_pending s)) \<or>
             (\<exists>rq. first_rounds ce op rq part \<and> m_callback c = Some (op_job op) \<and> underway P rq s [] \<and>
                sendable P (WrappedMessage_request rq))))))"

definition link_ok :: "client_env \<Rightarrow> pb \<Rightarrow> reaction list \<Rightarrow> user_op list \<Rightarrow> (client_job \<times> job \<times> Response) list \<Rightarrow>
    client \<Rightarrow> session \<Rightarrow> bytes \<Rightarrow> bytes \<Rightarrow> bool" where
  "link_ok ce P shown ops log c s up down \<longleftrightarrow>
     pair_ok ce P shown ops log c s up down \<or> broken_ok ce P shown ops log c s up down \<and> m_fault c = None"

text \<open>Nothing is said of a jammed client, but its session is as good as any.\<close>

definition pair_at :: "client_env \<Rightarrow> pb \<Rightarrow> 'd network \<Rightarrow> ('d event \<times> Response) list \<Rightarrow> (nat \<Rightarrow> ClientState option) \<Rightarrow>
    nat \<Rightarrow> bool" where
  "pair_at ce P N log ids i \<longleftrightarrow>
     (let s = sv_sessions (nt_server N) ! i in
      ids i = se_state s \<and> session_ok s \<and>
      (i \<notin> set (nt_jammed N) \<longrightarrow>
       link_ok ce P (nt_shown N ! i) (nt_calls N ! i) (of_client i log) (nt_clients N ! i) s (nt_up N ! i) (nt_down N ! i)))"

text \<open>The storage and the identities are those of the replayed history, and every pair is in step with it.\<close>

definition net_ok :: "client_env \<Rightarrow> pb \<Rightarrow> 'd \<Rightarrow> 'd network \<Rightarrow> bool" where
  "net_ok ce P d0 N \<longleftrightarrow>
     (let n = length (nt_clients N) in
      length (nt_shown N) = n \<and> length (nt_calls N) = n \<and> length (nt_up N) = n \<and> length (nt_down N) = n \<and>
      length (sv_sessions (nt_server N)) = n \<and> sv_dead (nt_server N) = None \<and>
      (case run_atomically (nt_events N) d0 of (log, ids, d) \<Rightarrow>
         sv_db (nt_server N) = d \<and> (\<forall>i\<ge>n. ids i = None \<and> of_client i log = []) \<and>
         (\<forall>i<n. pair_at ce P N log ids i)))"

section \<open>Steps of one session\<close>

text \<open>Here packets are opaque: their sizes and bytes are not computed.\<close>

lemmas packet_bytes = WrappedMessage_ByteSize.simps WrappedMessage_SerializeToArray.simps

declare packet_bytes [simp del]

locale wired = pb_wire +
  fixes ce :: client_env and se :: server_env
  assumes client_runtime: "cl_pb ce = P" and server_runtime: "sv_pb se = P"
    and memory: "sv_can_alloc se n"
    and chats_fit: "sendable P (WrappedMessage_request createAllMyChatsRequest)"
begin

lemma resting_prefix: "resting s \<Longrightarrow> enabled (Read_prefix_done err data) s \<Longrightarrow> awaiting s"
  by (auto simp: resting_def awaiting_def enabled_def)

lemma awaiting_read:
  "awaiting s \<Longrightarrow> enabled (Read_prefix_done err data) s \<Longrightarrow> \<not> err \<Longrightarrow> length data = PREFIX_SIZE"
  using awaiting_buffer [of s] by (auto simp: enabled_def)

text \<open>The end of a write.\<close>

lemma resting_write:
  assumes "resting s" and "enabled (Write_done False) s"
  shows "\<exists>s'. complete se st (Write_done False) s d = (Inr s', d) \<and> resting s' \<and> se_state s' = se_state s \<and>
    se_sent s' = se_sent s \<and> stage (se_pending s') < stage (se_pending s)"
proof -
  have s: "session_ok s" "\<not> se_stopped s" "se_pending s = [Async_write]"
    using assms by (auto simp: resting_def enabled_def)
  let ?s' = "s\<lparr>se_buffer := resize PREFIX_SIZE (se_buffer s), se_pending := [Async_read_prefix]\<rparr>"
  have run: "complete se st (Write_done False) s d = (Inr ?s', d)"
    using s by (simp add: on_write_def do_async_read_prefix_def vector_resize_total [OF memory] take_pending_def)
  from complete_ok [OF s(1) assms(2) run] s(2,3) run show ?thesis by (auto simp: resting_def)
qed

text \<open>A session that has nothing to read only ends its write.\<close>

lemma resting_step:
  assumes "resting s" and "enabled x s" and "sound x" and "consumed x = []"
  shows "x = Write_done False \<and> answers x = None"
proof (cases x)
  case (Read_prefix_done err data)
  with assms awaiting_read [OF resting_prefix] show ?thesis by fastforce
qed (use assms in \<open>auto simp: resting_def enabled_def\<close>)

text \<open>The two reads of a request, and a completion other than that of the job takes it further.\<close>

lemma resting_reads:
  assumes rest: "resting s" and fit: "sendable P m" and en: "enabled (Read_prefix_done False data) s"
    and data: "data = take (length data) (packet P m)"
  shows "\<exists>s'. complete se st (Read_prefix_done False data) s d = (Inr s', d) \<and> se_state s' = se_state s \<and>
    se_sent s' = se_sent s \<and> session_ok s' \<and> \<not> se_stopped s' \<and> se_pending s = [Async_read_prefix] \<and>
    se_pending s' = [Async_read_message (of_nat (WrappedMessage_ByteSize P m))] \<and>
    drop (length data) (packet P m) = WrappedMessage_SerializeToArray P m"
proof -
  have aw: "awaiting s" by (rule resting_prefix [OF rest en])
  have "length data = PREFIX_SIZE" using awaiting_read [OF aw en] by simp
  then have bytes: "data = prefix_of P m" "drop (length data) (packet P m) = WrappedMessage_SerializeToArray P m"
    using data fit by (simp_all add: packet_def)
  note run = receive_prefix [OF server_runtime fit memory aw, of st d]
  have "session_ok (s\<lparr>se_buffer := resize (WrappedMessage_ByteSize P m) (prefix_of P m),
      se_pending := [Async_read_message (of_nat (WrappedMessage_ByteSize P m))]\<rparr>)"
    using complete_ok [OF _ en] rest run bytes(1) by (simp add: resting_def)
  with run bytes aw show ?thesis by (auto simp: awaiting_def)
qed

lemma body_read:
  assumes s: "session_ok s" "\<not> se_stopped s"
      "se_pending s = [Async_read_message (of_nat (WrappedMessage_ByteSize P m))]"
    and fit: "sendable P m" and en: "enabled (Read_message_done False data (of_nat (WrappedMessage_ByteSize P m))) s"
    and data: "data = take (length data) (WrappedMessage_SerializeToArray P m)"
  shows "\<exists>s'. complete se st (Read_message_done False data (of_nat (WrappedMessage_ByteSize P m))) s d = (Inr s', d) \<and>
    se_state s' = se_state s \<and> se_sent s' = se_sent s \<and> session_ok s' \<and> \<not> se_stopped s' \<and>
    se_pending s' = [Posted ParseCommand] \<and> se_buffer s' = WrappedMessage_SerializeToArray P m \<and>
    drop (length data) (WrappedMessage_SerializeToArray P m) = []"
proof -
  let ?n = "of_nat (WrappedMessage_ByteSize P m) :: u64" and ?b = "WrappedMessage_SerializeToArray P m"
  have "unat ?n = WrappedMessage_ByteSize P m"
    using fit by (simp add: sendable_def of_nat_u64_inverse)
  moreover have "length (se_buffer s) = unat ?n" using s by (simp add: session_ok_def)
  ultimately have buf: "length (se_buffer s) = WrappedMessage_ByteSize P m" by simp
  then have bytes: "data = ?b" "drop (length data) ?b = []"
    using en data fit by (simp_all add: enabled_def)
  note run = receive_message [OF server_runtime fit buf s(2,3), of st d]
  have "session_ok (s\<lparr>se_buffer := ?b, se_pending := [Posted ParseCommand], se_received := se_received s @ [?b]\<rparr>)"
    using complete_ok [OF s(1) en] run bytes(1) by simp
  with run bytes s(2) show ?thesis by auto
qed


lemma underway_step:
  assumes under: "underway P rq s up" and fit: "sendable P (WrappedMessage_request rq)"
    and en: "enabled x s" "sound x" "consumed x = take (length (consumed x)) up"
    and job: "answers x = None" "job_of rq = Some j"
  shows "\<exists>s'. complete se st x s d = (Inr s', d) \<and> se_state s' = se_state s \<and> se_sent s' = se_sent s \<and>
    underway P rq s' (drop (length (consumed x)) up) \<and> stage (se_pending s') < stage (se_pending s)"
proof -
  let ?m = "WrappedMessage_request rq"
  let ?n = "of_nat (WrappedMessage_ByteSize P ?m) :: u64" and ?b = "WrappedMessage_SerializeToArray P ?m"
  from under consider
    (waiting) "resting s" "up = packet P ?m"
  | (body) "session_ok s" "\<not> se_stopped s" "se_pending s = [Async_read_message ?n]" "up = ?b"
  | (parse) "session_ok s" "\<not> se_stopped s" "se_pending s = [Posted ParseCommand]" "se_buffer s = ?b" "up = []"
  | (posted) k where "se_pending s = [Posted k]" "job_of rq = Some k"
    by (auto simp: underway_def Let_def)
  then show ?thesis
  proof cases
    case waiting
    show ?thesis
    proof (cases "x = Write_done False")
      case True
      with resting_write [OF waiting(1), of st d] en waiting show ?thesis
        by (auto simp: underway_def Let_def)
    next
      case False
      then obtain data where x: "x = Read_prefix_done False data"
        using waiting(1) en(1,2) by (cases x) (auto simp: resting_def enabled_def)
      from resting_reads [OF waiting(1) fit en(1) [unfolded x], of st d] en(3) waiting(2) x show ?thesis
        by (auto simp: underway_def Let_def)
    qed
  next
    case body
    then obtain data where x: "x = Read_message_done False data ?n"
      using en(1,2) by (cases x) (auto simp: enabled_def)
    from body_read [OF body(1-3) fit en(1) [unfolded x], of st d] en(3) body x show ?thesis
      by (auto simp: underway_def Let_def)
  next
    case parse
    then have x: "x = Job_run ParseCommand" using en(1,2) by (cases x) (auto simp: enabled_def)
    let ?s' = "s\<lparr>se_pending := [Posted j]\<rparr>"
    have "ParseCommandJob se (take_pending (Posted ParseCommand) s) = post_job j (take_pending (Posted ParseCommand) s)"
      using parse_request [OF server_runtime fit, of "take_pending (Posted ParseCommand) s"] parse(4) job(2) by simp
    then have run: "complete se st x s d = (Inr ?s', d)" using x parse(3) by (simp add: post_job_def take_pending_def)
    from complete_ok [OF parse(1) en(1) run] run x parse job(2) job_of_not_parse [OF job(2)] show ?thesis
      by (auto simp: underway_def Let_def)
  next
    case posted
    then have "x = Job_run k" using en(1,2) by (cases x) (auto simp: enabled_def)
    with job posted job_of_not_parse show ?thesis by simp
  qed
qed

text \<open>A request that is underway can always go on.\<close>

lemma underway_enabled:
  assumes under: "underway P rq s up" and fit: "sendable P (WrappedMessage_request rq)"
  shows "\<exists>x. enabled x s \<and> sound x \<and> consumed x = take (length (consumed x)) up"
proof -
  let ?m = "WrappedMessage_request rq"
  let ?n = "of_nat (WrappedMessage_ByteSize P ?m) :: u64" and ?b = "WrappedMessage_SerializeToArray P ?m"
  from under consider
    (writing) "se_pending s = [Async_write]"
  | (waiting) "session_ok s" "\<not> se_stopped s" "se_pending s = [Async_read_prefix]" "up = packet P ?m"
  | (body) "session_ok s" "\<not> se_stopped s" "se_pending s = [Async_read_message ?n]" "up = ?b"
  | (posted) k where "se_pending s = [Posted k]"
    by (auto simp: underway_def Let_def resting_def)
  then show ?thesis
  proof cases
    case writing
    then show ?thesis by (intro exI [of _ "Write_done False"]) (simp add: enabled_def)
  next
    case waiting
    then have "length (se_buffer s) = PREFIX_SIZE" by (simp add: session_ok_def)
    with waiting fit show ?thesis
      by (intro exI [of _ "Read_prefix_done False (prefix_of P ?m)"]) (simp add: enabled_def packet_def)
  next
    case body
    have "unat ?n = WrappedMessage_ByteSize P ?m" using fit by (simp add: sendable_def of_nat_u64_inverse)
    with body have "length (se_buffer s) = WrappedMessage_ByteSize P ?m" by (simp add: session_ok_def)
    with body fit show ?thesis by (intro exI [of _ "Read_message_done False ?b ?n"]) (simp add: enabled_def)
  next
    case posted
    then show ?thesis by (intro exI [of _ "Job_run k"]) (simp add: enabled_def)
  qed
qed

text \<open>The job answers with one packet, as the specification says.\<close>

lemma job_step:
  assumes under: "underway P rq s up" and job: "job_of rq = Some j"
    and en: "enabled x s" "answers x = Some k"
    and ans: "answer st k (se_state s) d = (r, cs, d')" and out: "sendable P (WrappedMessage_response r)"
  shows "k = j \<and> x = Job_run j \<and> up = [] \<and> (\<exists>s'. complete se st x s d = (Inr s', d') \<and> se_state s' = cs \<and>
    se_sent s' = se_sent s @ [packet P (WrappedMessage_response r)] \<and> resting s')"
proof -
  let ?p = "packet P (WrappedMessage_response r)"
  have x: "x = Job_run k" "k \<noteq> ParseCommand" using en(2) by (cases x; auto split: if_splits)+
  then have s: "session_ok s" "\<not> se_stopped s" "se_pending s = [Posted k]" "k = j" "up = []"
    using under en(1) job by (auto simp: underway_def Let_def resting_def enabled_def)
  let ?s' = "s\<lparr>se_pending := [Async_write], se_state := cs, se_buffer := ?p, se_sent := se_sent s @ [?p]\<rparr>"
  have "run_job se st k (take_pending (Posted k) s) d = (Inr ?s', d')"
    using run_job_answer [OF x(2), of se st "take_pending (Posted k) s" d] ans s(2,3)
      session_write_packet [OF server_runtime out memory, of "(take_pending (Posted k) s)\<lparr>se_state := cs\<rparr>"]
    by (simp add: take_pending_def)
  then have run: "complete se st x s d = (Inr ?s', d')" using x(1) by simp
  from complete_ok [OF s(1) en(1) run] s x run show ?thesis by (auto simp: resting_def)
qed

text \<open>Whatever a session reads, it goes on or stops: the process does not end.\<close>

lemma any_session_ends:
  assumes "session_ok s" and "enabled x s"
  shows "\<exists>s' d'. complete se st x s d = (Inr s', d') \<and> session_ok s'"
proof -
  obtain res d' where run: "complete se st x s d = (res, d')" by fastforce
  show ?thesis
  proof (cases res)
    case (Inl e)
    with complete_fatal [of se st x s d e d'] run assms memory show ?thesis by auto
  next
    case (Inr s')
    with complete_ok [OF assms, of se st d s' d'] run show ?thesis by blast
  qed
qed

lemma any_session_step:
  assumes ok: "session_ok s" and en: "enabled x s" and none: "answers x = None"
  shows "\<exists>s'. complete se st x s d = (Inr s', d) \<and> se_state s' = se_state s \<and> session_ok s'"
proof -
  obtain s' d' where s': "complete se st x s d = (Inr s', d')" "session_ok s'" using any_session_ends [OF ok en, of st d] by blast
  have "se_state s' = se_state s \<and> d' = d"
  proof (cases x)
    case (Job_run j)
    then have "x = Job_run ParseCommand" using none by (simp split: if_splits)
    with s'(1) show ?thesis
      by (auto simp: ParseCommandJob_def post_job_def stop_def take_pending_def
          split: option.splits WrappedMessage.splits Request.splits)
  qed (use s'(1) in \<open>auto simp: on_read_prefix_def on_read_message_def on_write_def do_async_read_prefix_def
      do_async_read_message_def stop_def take_pending_def fill_buffer_def vector_resize_total [OF memory] Let_def
      split: option.splits if_splits\<close>)
  with s' show ?thesis by blast
qed

lemma any_session_job:
  assumes ok: "session_ok s" and en: "enabled x s" and some: "answers x = Some k"
    and ans: "answer st k (se_state s) d = (r, cs, d')" and out: "sendable P (WrappedMessage_response r)"
  shows "\<exists>s'. complete se st x s d = (Inr s', d') \<and> se_state s' = cs \<and> session_ok s'"
proof -
  have x: "x = Job_run k" "k \<noteq> ParseCommand" using some by (cases x; auto split: if_splits)+
  have live: "\<not> se_stopped s" using enabled_live [OF ok en] by simp
  obtain s' d'' where s': "complete se st x s d = (Inr s', d'')" "session_ok s'" using any_session_ends [OF ok en, of st d] by blast
  moreover have "se_state s' = cs \<and> d'' = d'"
    using s'(1) run_job_answer [OF x(2), of se st "take_pending (Posted k) s" d] ans x(1) live
      session_write_packet [OF server_runtime out memory, of "(take_pending (Posted k) s)\<lparr>se_state := cs\<rparr>"]
    by (auto simp: take_pending_def)
  ultimately show ?thesis by blast
qed

section \<open>Steps of one client\<close>

lemma ready_call:
  assumes "ready c" and "sendable P (WrappedMessage_request (job_request ce op))"
  shows "asking P (job_request ce op) (op_job op) (BackEndFacade_op ce op c)"
    and "written c (BackEndFacade_op ce op c) = packet P (WrappedMessage_request (job_request ce op))"
    and "m_reactions (BackEndFacade_op ce op c) = m_reactions c"
  using op_waiting [OF client_runtime assms] op_connected [of c ce op] assms
  by (simp_all add: asking_def written_def ready_def Let_def client_runtime request_buffer_packet)

lemma locked_call:
  assumes "asking P rq w c"
  shows "BackEndFacade_op ce op c = c" and "\<not> availible c"
  using assms op_locked(1) [of c ce op] by (simp_all add: asking_def availible_def)

lemma written_same: "sock_tx c' = sock_tx c \<Longrightarrow> written c c' = []"
  by (simp add: written_def)

lemma partly_simps [simp]:
  "m_reactions (partly P m got c) = m_reactions c" "m_callback (partly P m got c) = m_callback c"
  "m_availible (partly P m got c) = m_availible c" "sock_connected (partly P m got c) = sock_connected c"
  "sock_tx (partly P m got c) = sock_tx c" "m_fault (partly P m got c) = m_fault c"
  by (simp_all add: partly_def after_prefix_def)

lemma partly_Nil: "asking P rq w c \<Longrightarrow> partly P m [] c = c"
  by (simp add: partly_def asking_def waiting_def)

text \<open>One more piece of a response, unless the client loses the prefix by it.\<close>

lemma partly_receives:
  assumes ask: "asking P rq w c" and fit: "sendable P (WrappedMessage_response r)"
    and pieces: "got @ p @ rest = packet P (WrappedMessage_response r)" "p \<noteq> []"
    and keeps: "\<not> loses_prefix (partly P (WrappedMessage_response r) got c) p"
  shows "receive ce p (partly P (WrappedMessage_response r) got c) =
    (if rest = []
     then (responseProcessingCallback ce w r (loaded P (WrappedMessage_response r) c))\<lparr>m_bytesReaded := 0\<rparr>
     else partly P (WrappedMessage_response r) (got @ p) c)"
proof -
  let ?m = "WrappedMessage_response r" and ?b = "WrappedMessage_SerializeToArray P (WrappedMessage_response r)"
  have c: "m_bytesReaded c = 0" "sock_rx c = []" "m_callback c = Some w" using ask by (simp_all add: asking_def waiting_def)
  have size: "length got + length p + length rest = PREFIX_SIZE + WrappedMessage_ByteSize P ?m"
    using packet_length [OF fit] arg_cong [OF pieces(1), of length] by simp
  show ?thesis
  proof (cases "length got < PREFIX_SIZE")
    case early: True
    let ?c = "c\<lparr>sock_rx := got\<rparr>"
    have now: "partly P ?m got c = ?c" using early by (simp add: partly_def)
    consider "rest = []" | "rest \<noteq> []" "length (got @ p) < PREFIX_SIZE" | "rest \<noteq> []" "PREFIX_SIZE \<le> length (got @ p)"
      by linarith
    then show ?thesis
    proof cases
      case 1
      have "loaded P ?m ?c = loaded P ?m c" by (simp add: loaded_def)
      with receive_whole [OF client_runtime fit refl, of ?c p w] pieces(1) c 1 now show ?thesis by simp
    next
      case 2
      with receive_short [of ?c p ce] c now show ?thesis by (simp add: partly_def)
    next
      case 3
      have "take PREFIX_SIZE (got @ p) = take PREFIX_SIZE (packet P ?m)"
        using 3(2) pieces(1) by (metis append_assoc take_append diff_is_0_eq take0 append_Nil2)
      also have "\<dots> = prefix_of P ?m" using fit by (simp add: packet_def)
      finally have cut: "got @ p = prefix_of P ?m @ drop PREFIX_SIZE (got @ p)" by (metis append_take_drop_id)
      obtain b where b: "b = drop PREFIX_SIZE (got @ p)" by simp
      have "length b \<noteq> WrappedMessage_ByteSize P ?m" using size 3 by (cases rest) (simp_all add: b)
      with cut [folded b] c have "receive ce p ?c = after_prefix P ?m b ?c"
        by (intro receive_prefix_piece [OF client_runtime fit]) simp_all
      with 3 now show ?thesis by (simp add: partly_def after_prefix_def b)
    qed
  next
    case late: False
    let ?a = "drop PREFIX_SIZE got"
    have now: "partly P ?m got c = after_prefix P ?m ?a c" using late by (simp add: partly_def)
    have "drop PREFIX_SIZE (got @ p @ rest) = ?b" using pieces(1) fit by (simp add: packet_def)
    then have body: "?a @ p @ rest = ?b" using late by simp
    have "rest = []"
    proof (rule ccontr)
      assume "rest \<noteq> []"
      then have "length rest > 0" by simp
      with keeps size late show False by (simp add: now loses_prefix_def bytesAvailable_def)
    qed
    with receive_rest [OF client_runtime fit refl, of ?a p c w] body c now show ?thesis by simp
  qed
qed

text \<open>The last piece of the last response, and of a response that is followed by another request.\<close>

lemma last_response:
  assumes ask: "asking P rq w c" and last: "\<not> second_round w r"
    and c': "c' = (responseProcessingCallback ce w r (loaded P m c))\<lparr>m_bytesReaded := 0\<rparr>"
  shows "ready c'" and "written c c' = []" and "m_reactions c' = m_reactions c @ [reaction_of w r]"
proof -
  have "waiting P rq w c" using ask by (simp add: asking_def)
  from ready_again [OF this last] show "ready c'" "m_reactions c' = m_reactions c @ [reaction_of w r]" by (simp_all add: c')
  show "written c c' = []" using callback_reaction(3) [OF last] by (simp add: c' written_same)
qed

lemma first_response:
  assumes ask: "asking P rq w c" and more: "second_round w r"
    and c': "c' = (responseProcessingCallback ce w r (loaded P m c))\<lparr>m_bytesReaded := 0\<rparr>"
  shows "asking P createAllMyChatsRequest w c'"
    and "written c c' = packet P (WrappedMessage_request createAllMyChatsRequest)" and "m_reactions c' = m_reactions c"
proof -
  have wait: "waiting P rq w c" and "\<not> m_availible c" using ask by (simp_all add: asking_def)
  with second_waiting [OF client_runtime wait more chats_fit, of m]
  show "asking P createAllMyChatsRequest w c'"
    "written c c' = packet P (WrappedMessage_request createAllMyChatsRequest)" "m_reactions c' = m_reactions c"
    by (simp_all add: c' asking_def written_def chats_fit)
qed

section \<open>Steps of a client with its session\<close>

lemma pair_cases [consumes 1, case_names idle requested answered]:
  assumes "pair_ok ce P shown ops log c s up down"
  obtains "explained ce ops log" "m_reactions c = shown @ shown_of log" "ready c" "resting s" "up = []" "down = []"
  | ops1 log1 op rq cur j where "explained ce ops1 log1" "m_reactions c = shown @ shown_of log1" "ops = ops1 @ [op]"
      "first_rounds ce op rq cur" "asking P rq (op_job op) c" "job_of rq = Some j"
      "log = log1 @ cur" "underway P rq s up" "down = []"
  | ops1 log1 op rq cur c0 got j r where "explained ce ops1 log1" "m_reactions c = shown @ shown_of log1"
      "ops = ops1 @ [op]" "first_rounds ce op rq cur" "asking P rq (op_job op) c0" "job_of rq = Some j"
      "log = log1 @ cur @ [(op_job op, j, r)]" "sendable P (WrappedMessage_response r)"
      "cur \<noteq> [] \<longrightarrow> \<not> second_round (op_job op) r" "resting s" "up = []"
      "c = partly P (WrappedMessage_response r) got c0" "got @ down = packet P (WrappedMessage_response r)" "down \<noteq> []"
proof -
  have job: "\<exists>j. job_of rq = Some j" if "first_rounds ce op rq cur" for op rq cur
    using that job_of_request(1) [of ce op] by (auto simp: first_rounds_def createAllMyChatsRequest_def)
  from assms consider
    (idle) "explained ce ops log" "m_reactions c = shown @ shown_of log" "ready c" "resting s" "up = []" "down = []"
  | (asked) ops1 log1 op rq cur where "explained ce ops1 log1" "m_reactions c = shown @ shown_of log1"
      "ops = ops1 @ [op]" "first_rounds ce op rq cur" "asking P rq (op_job op) c"
      "log = log1 @ cur" "underway P rq s up" "down = []"
  | (answered) ops1 log1 op rq cur c0 got j r where "explained ce ops1 log1" "m_reactions c = shown @ shown_of log1"
      "ops = ops1 @ [op]" "first_rounds ce op rq cur" "asking P rq (op_job op) c0" "job_of rq = Some j"
      "log = log1 @ cur @ [(op_job op, j, r)]" "sendable P (WrappedMessage_response r)"
      "cur \<noteq> [] \<longrightarrow> \<not> second_round (op_job op) r" "resting s" "up = []"
      "c = partly P (WrappedMessage_response r) got c0" "got @ down = packet P (WrappedMessage_response r)" "down \<noteq> []"
    unfolding pair_ok_def by (elim exE conjE disjE) simp_all
  then show thesis
  proof cases
    case idle
    then show thesis by (rule that(1))
  next
    case (asked ops1 log1 op rq cur)
    obtain j where "job_of rq = Some j" using job asked(4) by blast
    with asked show thesis by (intro that(2))
  next
    case answered
    then show thesis by (rule that(3))
  qed
qed

lemma pair_idle:
  assumes "explained ce ops log" and "m_reactions c = shown @ shown_of log" and "ready c" and "resting s"
  shows "pair_ok ce P shown ops log c s [] []"
  unfolding pair_ok_def using assms by blast

lemma pair_answered:
  assumes "explained ce ops1 log1" and "m_reactions c = shown @ shown_of log1"
    and "first_rounds ce op rq cur" and "asking P rq (op_job op) c0" and "job_of rq = Some j"
    and "sendable P (WrappedMessage_response r)" and "cur \<noteq> [] \<longrightarrow> \<not> second_round (op_job op) r" and "resting s"
    and "c = partly P (WrappedMessage_response r) got c0" and "got @ down = packet P (WrappedMessage_response r)"
    and "down \<noteq> []"
  shows "pair_ok ce P shown (ops1 @ [op]) (log1 @ cur @ [(op_job op, j, r)]) c s [] down"
  unfolding pair_ok_def using assms by blast

lemma pair_requested:
  assumes "explained ce ops1 log1" and "m_reactions c = shown @ shown_of log1"
    and "first_rounds ce op rq cur" and "asking P rq (op_job op) c" and "underway P rq s up"
  shows "pair_ok ce P shown (ops1 @ [op]) (log1 @ cur) c s up []"
  unfolding pair_ok_def using assms by blast

lemma pair_call:
  assumes pair: "pair_ok ce P shown ops log c s up down"
    and fit: "sendable P (WrappedMessage_request (job_request ce op))"
  shows "pair_ok ce P shown (ops @ (if availible c \<and> isConnected c then [op] else [])) log (BackEndFacade_op ce op c) s
    (up @ written c (BackEndFacade_op ce op c)) down"
  using pair
proof (cases rule: pair_cases)
  case idle
  note call = ready_call [OF idle(3) fit]
  have "underway P (job_request ce op) s (packet P (WrappedMessage_request (job_request ce op)))"
    using idle(4) by (simp add: underway_def)
  then have "pair_ok ce P shown (ops @ [op]) (log @ []) (BackEndFacade_op ce op c) s
      (packet P (WrappedMessage_request (job_request ce op))) []"
    using idle call by (intro pair_requested) (simp_all add: first_rounds_def)
  then show ?thesis using idle call by (simp add: ready_def)
next
  case (requested ops1 log1 op' rq cur j)
  from pair locked_call [OF requested(5)] show ?thesis by (simp add: written_def)
next
  case (answered ops1 log1 op' rq cur c0 got j r)
  then have "\<not> availible c" by (simp add: asking_def availible_def)
  with pair op_locked(1) [of c ce op] show ?thesis by (simp add: written_def)
qed

lemma pair_connected: "pair_ok ce P shown ops log c s up down \<Longrightarrow> isConnected c"
  by (cases rule: pair_cases) (auto simp: ready_def asking_def waiting_def isConnected_def)

text \<open>The last piece of a response ends its round, and with the last round the operation.\<close>

lemma pair_round:
  assumes a: "explained ce ops1 log1" "m_reactions c = shown @ shown_of log1" "first_rounds ce op rq cur"
      "asking P rq (op_job op) c" "job_of rq = Some j" "cur \<noteq> [] \<longrightarrow> \<not> second_round (op_job op) r" "resting s"
    and c': "c' = (responseProcessingCallback ce (op_job op) r (loaded P m c))\<lparr>m_bytesReaded := 0\<rparr>"
  shows "pair_ok ce P shown (ops1 @ [op]) (log1 @ cur @ [(op_job op, j, r)]) c' s (written c c') []"
proof (cases "second_round (op_job op) r")
  case True
  note again = first_response [OF a(4) True c']
  have cur: "cur = []" "j = op_server_job ce op"
    using a(3,5,6) True job_of_request(1) [of ce op] by (auto simp: first_rounds_def)
  have "pair_ok ce P shown (ops1 @ [op]) (log1 @ [(op_job op, op_server_job ce op, r)]) c' s
      (packet P (WrappedMessage_request createAllMyChatsRequest)) []"
    using a(1,2,7) again True by (intro pair_requested) (auto simp: first_rounds_def underway_def)
  with cur again(2) show ?thesis by simp
next
  case False
  note last = last_response [OF a(4) False c']
  have "explained ce (ops1 @ [op]) (log1 @ cur @ [(op_job op, j, r)])"
  proof (cases "cur = []")
    case True
    with a(3,5) job_of_request(1) [of ce op] have "j = op_server_job ce op" by (simp add: first_rounds_def)
    with explained.one [OF a(1) False] True show ?thesis by simp
  next
    case two: False
    with a(3) obtain r1 where "cur = [(op_job op, op_server_job ce op, r1)]" "second_round (op_job op) r1"
      "rq = createAllMyChatsRequest" by (auto simp: first_rounds_def)
    moreover from this(3) a(5) have "j = ChatsReq" by (simp add: createAllMyChatsRequest_def)
    ultimately show ?thesis using explained.two [OF a(1) _ False] by simp
  qed
  moreover have "shown_of (log1 @ cur @ [(op_job op, j, r)]) = shown_of log1 @ [reaction_of (op_job op) r]"
    using a(3) False by (auto simp: first_rounds_def)
  ultimately show ?thesis using a(2,7) last by (simp add: pair_idle)
qed

lemma written_partly: "written (partly P m got c) c' = written c c'"
  by (simp add: written_def)

lemma pair_deliver:
  assumes pair: "pair_ok ce P shown ops log c s up down" and piece: "p \<noteq> []" "down = p @ rest"
    and keeps: "\<not> loses_prefix c p"
  shows "pair_ok ce P shown ops log (receive ce p c) s (up @ written c (receive ce p c)) rest"
proof -
  have "down \<noteq> []" using piece by simp
  with pair obtain ops1 log1 op rq cur c0 got j r where a: "explained ce ops1 log1" "m_reactions c = shown @ shown_of log1"
      "ops = ops1 @ [op]" "first_rounds ce op rq cur" "asking P rq (op_job op) c0" "job_of rq = Some j"
      "log = log1 @ cur @ [(op_job op, j, r)]" "sendable P (WrappedMessage_response r)"
      "cur \<noteq> [] \<longrightarrow> \<not> second_round (op_job op) r" "resting s" "up = []"
      "c = partly P (WrappedMessage_response r) got c0" "got @ down = packet P (WrappedMessage_response r)"
    by (cases rule: pair_cases) auto
  have cut: "got @ p @ rest = packet P (WrappedMessage_response r)" using a(13) piece(2) by simp
  note c' = partly_receives [OF a(5,8) cut piece(1) keeps [unfolded a(12)], folded a(12)]
  have "m_reactions c0 = shown @ shown_of log1" using a(2,12) by simp
  show ?thesis
  proof (cases "rest = []")
    case True
    with pair_round [OF a(1) \<open>m_reactions c0 = _\<close> a(4-6,9,10), of "receive ce p c" "WrappedMessage_response r"] c'
    show ?thesis by (simp add: a(3,7,11)) (simp add: a(12) written_partly)
  next
    case False
    with c' have "receive ce p c = partly P (WrappedMessage_response r) (got @ p) c0" by simp
    moreover from this have "written c (receive ce p c) = []" by (simp add: a(12) written_def)
    moreover have "pair_ok ce P shown ops log (partly P (WrappedMessage_response r) (got @ p) c0) s [] rest"
      unfolding a(3,7)
      by (rule pair_answered [OF a(1) _ a(4-6,8-10) refl _ False]) (simp_all add: cut \<open>m_reactions c0 = _\<close>)
    ultimately show ?thesis using a(11) by simp
  qed
qed

text \<open>The session goes on, without and with a job.\<close>

lemma pair_work:
  assumes pair: "pair_ok ce P shown ops log c s up down"
    and en: "enabled x s" "sound x" "consumed x = take (length (consumed x)) up" and none: "answers x = None"
  shows "\<exists>s'. complete se st x s d = (Inr s', d) \<and> se_state s' = se_state s \<and> se_sent s' = se_sent s \<and>
    pair_ok ce P shown ops log c s' (drop (length (consumed x)) up) down"
proof -
  have rest: "\<exists>s'. complete se st x s d = (Inr s', d) \<and> resting s' \<and> se_state s' = se_state s \<and>
      se_sent s' = se_sent s \<and> consumed x = []" if "resting s" "up = []"
  proof -
    have "x = Write_done False" using resting_step [OF that(1) en(1,2)] en(3) that(2) by simp
    with resting_write [OF that(1), of st d] en(1) show ?thesis by auto
  qed
  from pair show ?thesis
  proof (cases rule: pair_cases)
    case idle
    from rest [OF idle(4,5)] obtain s' where "complete se st x s d = (Inr s', d)" "resting s'"
      "se_state s' = se_state s" "se_sent s' = se_sent s" "consumed x = []" by blast
    with pair_idle [OF idle(1-3)] idle(5,6) show ?thesis by auto
  next
    case (requested ops1 log1 op rq cur j)
    have "sendable P (WrappedMessage_request rq)" using requested(5) by (simp add: asking_def)
    from underway_step [OF requested(8) this en none requested(6), of st d] obtain s' where
      "complete se st x s d = (Inr s', d)" "se_state s' = se_state s" "se_sent s' = se_sent s"
      "underway P rq s' (drop (length (consumed x)) up)" by blast
    with pair_requested [OF requested(1,2,4,5)] requested(3,7,9) show ?thesis by blast
  next
    case (answered ops1 log1 op rq cur c0 got j r)
    from rest [OF answered(10,11)] obtain s' where "complete se st x s d = (Inr s', d)" "resting s'"
      "se_state s' = se_state s" "se_sent s' = se_sent s" "consumed x = []" by blast
    with pair_answered [OF answered(1,2,4-6,8,9) _ answered(12-14)] answered(3,7,11) show ?thesis by auto
  qed
qed

lemma pair_job:
  assumes pair: "pair_ok ce P shown ops log c s up down"
    and en: "enabled x s" "sound x" "consumed x = take (length (consumed x)) up" and some: "answers x = Some k"
    and ans: "answer st k (se_state s) d = (r, cs, d')" and out: "sendable P (WrappedMessage_response r)"
  shows "\<exists>s'. complete se st x s d = (Inr s', d') \<and> se_state s' = cs \<and> consumed x = [] \<and> down = [] \<and>
    se_sent s' = se_sent s @ [packet P (WrappedMessage_response r)] \<and>
    pair_ok ce P shown ops (log @ [(the (m_callback c), k, r)]) c s' up (packet P (WrappedMessage_response r))"
proof -
  have x: "x = Job_run k" using some by (cases x) (auto split: if_splits)
  have busy: "\<not> resting s" using en(1) x by (auto simp: resting_def enabled_def)
  from pair busy obtain ops1 log1 op rq cur j where q: "explained ce ops1 log1" "m_reactions c = shown @ shown_of log1"
      "ops = ops1 @ [op]" "first_rounds ce op rq cur" "asking P rq (op_job op) c" "job_of rq = Some j"
      "log = log1 @ cur" "underway P rq s up" "down = []"
    by (cases rule: pair_cases) auto
  from job_step [OF q(8,6) en(1) some ans out] obtain s' where s': "k = j" "up = []"
    "complete se st x s d = (Inr s', d')" "se_state s' = cs"
    "se_sent s' = se_sent s @ [packet P (WrappedMessage_response r)]" "resting s'" by blast
  have "the (m_callback c) = op_job op" using q(5) by (simp add: asking_def waiting_def)
  moreover have "cur \<noteq> [] \<longrightarrow> \<not> second_round (op_job op) r"
  proof
    assume "cur \<noteq> []"
    with q(4,6) s'(1) have "k = ChatsReq" by (auto simp: first_rounds_def createAllMyChatsRequest_def)
    with ans have "answer st ChatsReq (se_state s) d = (r, cs, d')" by simp
    then show "\<not> second_round (op_job op) r" by (rule chats_answer)
  qed
  ultimately have "pair_ok ce P shown ops (log @ [(the (m_callback c), k, r)]) c s' up (packet P (WrappedMessage_response r))"
    using pair_answered [OF q(1,2,4-6) out _ s'(6) _ append_Nil] q(3,7) s'(1,2) partly_Nil [OF q(5)]
      packet_length [OF out] by (auto simp flip: length_greater_0_conv)
  with s' x q(9) show ?thesis by simp
qed

section \<open>Lost connections\<close>

lemma underway_read:
  assumes "underway P rq s up" and "Posted j \<in> set (se_pending s)"
  shows "underway P rq s []"
  using assms by (auto simp: underway_def Let_def resting_def)

lemma first_rounds_started: "first_rounds ce op rq cur \<Longrightarrow> started ce op cur"
  by (auto simp: first_rounds_def started_def)

lemma next_started:
  assumes "first_rounds ce op rq cur" and "job_of rq = Some j"
  shows "started ce op (cur @ [(op_job op, j, r)])"
  using assms job_of_request(1) [of ce op] by (auto simp: first_rounds_def started_def createAllMyChatsRequest_def)

lemma resting_not_posted: "resting s \<Longrightarrow> Posted j \<notin> set (se_pending s)"
  by (auto simp: resting_def)

lemma disconnected:
  "\<not> isConnected (client_step ce Socket_disconnected c)" "availible (client_step ce Socket_disconnected c)"
  "m_reactions (client_step ce Socket_disconnected c) = m_reactions c @ [DoDisconnected]"
  "m_callback (client_step ce Socket_disconnected c) = m_callback c"
  "m_fault (client_step ce Socket_disconnected c) = m_fault c"
  "m_bytesReaded (client_step ce Socket_disconnected c) = m_bytesReaded c"
  by (simp_all add: Session_onDisconnection_def isConnected_def availible_def react_def setAvailible_def)

lemma pair_break:
  assumes pair: "pair_ok ce P shown ops log c s up down"
  shows "broken_ok ce P shown ops log (client_step ce Socket_disconnected c) s [] []"
  using pair
proof (cases rule: pair_cases)
  case idle
  with disconnected [of c] show ?thesis unfolding broken_ok_def
    by (intro conjI exI [of _ ops] exI [of _ log] exI [of _ "[]"] exI [of _ "[DoDisconnected]"])
      (auto simp: resting_not_posted resting_def)
next
  case (requested ops1 log1 op rq cur j)
  have rq: "m_callback c = Some (op_job op)" "sendable P (WrappedMessage_request rq)" "session_ok s"
    using requested(5,8) by (auto simp: asking_def waiting_def underway_def resting_def Let_def)
  have "(\<forall>j. Posted j \<notin> set (se_pending s)) \<or> underway P rq s []" using underway_read [OF requested(8)] by blast
  with requested rq disconnected [of c] first_rounds_started [OF requested(4)] show ?thesis unfolding broken_ok_def
    by (intro conjI exI [of _ ops1] exI [of _ log1] exI [of _ "[op]"] exI [of _ cur] exI [of _ "[DoDisconnected]"]) auto
next
  case (answered ops1 log1 op rq cur c0 got j r)
  with disconnected [of c] next_started [OF answered(4,6), of r] show ?thesis unfolding broken_ok_def
    by (intro conjI exI [of _ ops1] exI [of _ log1] exI [of _ "[op]"] exI [of _ "cur @ [(op_job op, j, r)]"]
        exI [of _ "[DoDisconnected]"]) (auto simp: resting_not_posted resting_def)
qed

lemma broken_call:
  assumes "broken_ok ce P shown ops log c s up down"
  shows "broken_ok ce P shown (ops @ (if availible c \<and> isConnected c then [op] else [])) log (BackEndFacade_op ce op c) s
    (up @ written c (BackEndFacade_op ce op c)) down"
proof -
  have c: "availible c" "\<not> isConnected c" using assms by (simp_all add: broken_ok_def)
  let ?c' = "c\<lparr>m_reactions := m_reactions c @ [DoOperationAborted not_connected_text]\<rparr>"
  have "broken_ok ce P shown ops log ?c' s up down"
    using assms unfolding broken_ok_def
    apply (elim conjE exE)
    subgoal for ops1 log1 waits part after
      by (intro conjI exI [of _ ops1] exI [of _ log1] exI [of _ waits] exI [of _ part]
          exI [of _ "after @ [DoOperationAborted not_connected_text]"]) (auto simp: isConnected_def availible_def)
    done
  with op_not_connected [OF c, of ce op] c show ?thesis by (simp add: written_def)
qed

lemma pair_no_fault: "pair_ok ce P shown ops log c s up down \<Longrightarrow> m_fault c = None"
  by (cases rule: pair_cases) (auto simp: ready_def asking_def waiting_def)

text \<open>The session of a lost connection: no read succeeds, and a posted job is still run.\<close>

lemma cut_off_step:
  assumes ok: "session_ok s" and en: "enabled x s" "cut_off x" "\<And>j. x \<noteq> Job_run j"
  shows "\<exists>s'. complete se st x s d = (Inr s', d) \<and> se_state s' = se_state s \<and> session_ok s' \<and>
    (\<forall>j. Posted j \<notin> set (se_pending s'))"
proof -
  have live: "\<not> se_stopped s" "se_pending s = [completes x]" using enabled_live [OF ok en(1)] by simp_all
  have "\<exists>s'. complete se st x s d = (Inr s', d) \<and> se_state s' = se_state s \<and> (\<forall>j. Posted j \<notin> set (se_pending s'))"
  proof (cases x)
    case (Write_done err)
    with live en(2) show ?thesis
      by (cases err) (simp_all add: on_write_def do_async_read_prefix_def vector_resize_total [OF memory] take_pending_def
          stop_def)
  qed (use live en in \<open>auto simp: on_read_prefix_def on_read_message_def stop_def take_pending_def fill_buffer_def\<close>)
  then obtain s' where s': "complete se st x s d = (Inr s', d)" "se_state s' = se_state s"
    "\<forall>j. Posted j \<notin> set (se_pending s')" by blast
  from complete_ok [OF ok en(1) s'(1)] s' show ?thesis by blast
qed

lemma broken_work:
  assumes broken: "broken_ok ce P shown ops log c s up down"
    and en: "enabled x s" "cut_off x" and none: "answers x = None"
  shows "\<exists>s'. complete se st x s d = (Inr s', d) \<and> se_state s' = se_state s \<and>
    broken_ok ce P shown ops log c s' [] []"
proof (cases "x = Job_run ParseCommand")
  case True
  have posted: "Posted ParseCommand \<in> set (se_pending s)" using en(1) True by (simp add: enabled_def)
  from broken posted obtain ops1 log1 waits part after op rq where b: "\<not> isConnected c" "availible c" "session_ok s"
    "ops = ops1 @ waits" "log = log1 @ part" "explained ce ops1 log1" "m_reactions c = shown @ shown_of log1 @ after"
    "set after \<subseteq> {DoDisconnected, DoOperationAborted not_connected_text}" "waits = [op]" "started ce op part"
    "first_rounds ce op rq part" "m_callback c = Some (op_job op)" "underway P rq s []"
    "sendable P (WrappedMessage_request rq)"
    unfolding broken_ok_def by blast
  obtain j where job: "job_of rq = Some j"
    using b(11) job_of_request(1) [of ce op] by (auto simp: first_rounds_def createAllMyChatsRequest_def)
  obtain s' where s': "complete se st x s d = (Inr s', d)" "se_state s' = se_state s" "underway P rq s' []"
    using underway_step [OF b(13,14) en(1) _ _ none job, of st d] True by auto
  have "session_ok s'" by (rule complete_ok [OF b(3) en(1) s'(1)])
  with b s' show ?thesis unfolding broken_ok_def by blast
next
  case False
  have "x \<noteq> Job_run j" for j using none False by (auto split: if_splits)
  moreover have "session_ok s" using broken by (simp add: broken_ok_def)
  ultimately obtain s' where "complete se st x s d = (Inr s', d)" "se_state s' = se_state s" "session_ok s'"
    "\<forall>j. Posted j \<notin> set (se_pending s')" using cut_off_step [OF _ en, of st d] by blast
  with broken show ?thesis unfolding broken_ok_def by blast
qed

lemma broken_job:
  assumes broken: "broken_ok ce P shown ops log c s up down"
    and en: "enabled x s" and some: "answers x = Some k"
    and ans: "answer st k (se_state s) d = (r, cs, d')" and out: "sendable P (WrappedMessage_response r)"
  shows "\<exists>s'. complete se st x s d = (Inr s', d') \<and> se_state s' = cs \<and>
    broken_ok ce P shown ops (log @ [(the (m_callback c), k, r)]) c s' [] []"
proof -
  have "x = Job_run k" using some by (cases x) (auto split: if_splits)
  then have posted: "Posted k \<in> set (se_pending s)" using en by (simp add: enabled_def)
  from broken posted obtain ops1 log1 waits part after op rq where b: "\<not> isConnected c" "availible c" "session_ok s"
    "ops = ops1 @ waits" "log = log1 @ part" "explained ce ops1 log1" "m_reactions c = shown @ shown_of log1 @ after"
    "set after \<subseteq> {DoDisconnected, DoOperationAborted not_connected_text}" "waits = [op]" "started ce op part"
    "first_rounds ce op rq part" "m_callback c = Some (op_job op)" "underway P rq s []"
    "sendable P (WrappedMessage_request rq)"
    unfolding broken_ok_def by blast
  obtain j where job: "job_of rq = Some j"
    using b(11) job_of_request(1) [of ce op] by (auto simp: first_rounds_def createAllMyChatsRequest_def)
  from job_step [OF b(13) job en some ans out] obtain s' where s': "k = j" "complete se st x s d = (Inr s', d')"
    "se_state s' = cs" "resting s'" by blast
  have "started ce op (part @ [(op_job op, k, r)])" using next_started [OF b(11) job] s'(1) by simp
  with b s' resting_not_posted [OF s'(4)] show ?thesis unfolding broken_ok_def
    by (intro exI [of _ s'] conjI exI [of _ ops1] exI [of _ log1] exI [of _ waits] exI [of _ "part @ [(op_job op, k, r)]"]
        exI [of _ after]) (auto simp: resting_def)
qed

section \<open>Steps of a client with its session, connected or not\<close>

lemma link_call:
  assumes link: "link_ok ce P shown ops log c s up down" and fit: "sendable P (WrappedMessage_request (job_request ce op))"
  shows "link_ok ce P shown (ops @ (if availible c \<and> isConnected c then [op] else [])) log (BackEndFacade_op ce op c) s
    (up @ written c (BackEndFacade_op ce op c)) down"
proof (cases "pair_ok ce P shown ops log c s up down")
  case True
  with fit pair_call show ?thesis unfolding link_ok_def by blast
next
  case False
  with link have broken: "broken_ok ce P shown ops log c s up down" and "m_fault c = None" by (simp_all add: link_ok_def)
  moreover have "availible c" "\<not> isConnected c" using broken by (simp_all add: broken_ok_def)
  ultimately have "m_fault (BackEndFacade_op ce op c) = None" by (simp add: op_not_connected)
  with broken_call [OF broken, of op] show ?thesis by (simp add: link_ok_def)
qed

lemma link_deliver:
  assumes "link_ok ce P shown ops log c s up down" and "p \<noteq> []" and "down = p @ rest" and "\<not> loses_prefix c p"
  shows "link_ok ce P shown ops log (receive ce p c) s (up @ written c (receive ce p c)) rest"
proof -
  have "pair_ok ce P shown ops log c s up down" using assms(1-3) by (auto simp: link_ok_def broken_ok_def)
  from pair_deliver [OF this assms(2-4)] show ?thesis by (simp add: link_ok_def)
qed

lemma link_break:
  assumes "link_ok ce P shown ops log c s up down" and "isConnected c"
  shows "link_ok ce P shown ops log (client_step ce Socket_disconnected c) s [] []"
proof -
  have pair: "pair_ok ce P shown ops log c s up down" using assms by (auto simp: link_ok_def broken_ok_def)
  have "m_fault (client_step ce Socket_disconnected c) = None" using pair_no_fault [OF pair] disconnected [of c] by simp
  with pair_break [OF pair] show ?thesis by (simp add: link_ok_def)
qed

lemma link_session: "link_ok ce P shown ops log c s up down \<Longrightarrow> session_ok s"
  by (auto simp: link_ok_def broken_ok_def pair_ok_def underway_def resting_def Let_def)

lemma link_work:
  assumes link: "link_ok ce P shown ops log c s up down" and en: "enabled x s"
    and conn: "if isConnected c then sound x \<and> consumed x = take (length (consumed x)) up else cut_off x"
    and none: "answers x = None"
  shows "\<exists>s'. complete se st x s d = (Inr s', d) \<and> se_state s' = se_state s \<and>
    link_ok ce P shown ops log c s' (drop (length (consumed x)) up)
      (down @ (if isConnected c then concat (drop (length (se_sent s)) (se_sent s')) else []))"
proof (cases "isConnected c")
  case True
  then have pair: "pair_ok ce P shown ops log c s up down" using link by (auto simp: link_ok_def broken_ok_def)
  from pair_work [OF pair en _ _ none, of st d] True conn obtain s' where "complete se st x s d = (Inr s', d)"
    "se_state s' = se_state s" "se_sent s' = se_sent s" "pair_ok ce P shown ops log c s' (drop (length (consumed x)) up) down"
    by auto
  with True show ?thesis by (auto simp: link_ok_def)
next
  case False
  then have broken: "broken_ok ce P shown ops log c s up down" and rest: "m_fault c = None"
    using link pair_connected by (auto simp: link_ok_def)
  then have "up = []" "down = []" using broken by (simp_all add: broken_ok_def)
  with rest broken_work [OF broken en _ none, of st d] False conn show ?thesis by (auto simp: link_ok_def)
qed

lemma link_job:
  assumes link: "link_ok ce P shown ops log c s up down" and en: "enabled x s"
    and conn: "if isConnected c then sound x \<and> consumed x = take (length (consumed x)) up else cut_off x"
    and some: "answers x = Some k"
    and ans: "answer st k (se_state s) d = (r, cs, d')" and out: "sendable P (WrappedMessage_response r)"
  shows "\<exists>s'. complete se st x s d = (Inr s', d') \<and> se_state s' = cs \<and>
    link_ok ce P shown ops (log @ [(the (m_callback c), k, r)]) c s' (drop (length (consumed x)) up)
      (down @ (if isConnected c then concat (drop (length (se_sent s)) (se_sent s')) else []))"
proof (cases "isConnected c")
  case True
  then have pair: "pair_ok ce P shown ops log c s up down" using link by (auto simp: link_ok_def broken_ok_def)
  from pair_job [OF pair en _ _ some ans out] True conn show ?thesis by (auto simp: link_ok_def)
next
  case False
  then have broken: "broken_ok ce P shown ops log c s up down" and rest: "m_fault c = None"
    using link pair_connected by (auto simp: link_ok_def)
  then have "up = []" "down = []" using broken by (simp_all add: broken_ok_def)
  with rest broken_job [OF broken en some ans out] False show ?thesis by (auto simp: link_ok_def)
qed

section \<open>Steps of the network\<close>

text \<open>
  Only the pair \<open>i\<close> takes part in a step of client \<open>i\<close> or of its session. A client that is
  jammed stays so.
\<close>

lemma pair_at_session: "pair_at ce P N log ids i \<Longrightarrow> session_ok (sv_sessions (nt_server N) ! i)"
  by (simp add: pair_at_def Let_def)

lemma net_ok_call:
  assumes ok: "net_ok ce P d0 N" and i: "i < length (nt_clients N)"
    and fit: "sendable P (WrappedMessage_request (job_request ce op))"
  shows "net_ok ce P d0 (net_call ce i op N)"
proof -
  obtain log ids d where r: "run_atomically (nt_events N) d0 = (log, ids, d)" by (metis prod_cases3)
  have "pair_at ce P (net_call ce i op N) log ids k" if "pair_at ce P N log ids k" "k < length (nt_clients N)" for k
    using that ok link_call [OF _ fit] by (cases "k = i") (auto simp: pair_at_def net_call_def Let_def net_ok_def)
  with ok r show ?thesis by (auto simp: net_ok_def net_call_def Let_def)
qed

lemma net_ok_deliver:
  assumes ok: "net_ok ce P d0 N" and i: "i < length (nt_clients N)"
    and piece: "p \<noteq> []" "nt_down N ! i = p @ rest"
  shows "net_ok ce P d0 (net_deliver ce i p N)"
proof -
  obtain log ids d where r: "run_atomically (nt_events N) d0 = (log, ids, d)" by (metis prod_cases3)
  have "pair_at ce P (net_deliver ce i p N) log ids k" if "pair_at ce P N log ids k" "k < length (nt_clients N)" for k
    using that ok piece link_deliver [OF _ piece]
    by (cases "k = i") (auto simp: pair_at_def net_deliver_def Let_def net_ok_def)
  with ok r show ?thesis by (auto simp: net_ok_def net_deliver_def Let_def)
qed

text \<open>The session goes on, whether or not its client is jammed.\<close>

lemma at_work:
  assumes at: "pair_at ce P N log ids i" and en: "enabled x (sv_sessions (nt_server N) ! i)"
    and conn: "if isConnected (nt_clients N ! i) then sound x \<and> consumed x = take (length (consumed x)) (nt_up N ! i)
      else cut_off x" and none: "answers x = None"
  shows "\<exists>s'. complete se st x (sv_sessions (nt_server N) ! i) d = (Inr s', d) \<and>
    se_state s' = se_state (sv_sessions (nt_server N) ! i) \<and> session_ok s' \<and>
    (i \<notin> set (nt_jammed N) \<longrightarrow>
     link_ok ce P (nt_shown N ! i) (nt_calls N ! i) (of_client i log) (nt_clients N ! i) s'
      (drop (length (consumed x)) (nt_up N ! i))
      (nt_down N ! i @ (if isConnected (nt_clients N ! i)
        then concat (drop (length (se_sent (sv_sessions (nt_server N) ! i))) (se_sent s')) else [])))"
proof -
  obtain s' where "complete se st x (sv_sessions (nt_server N) ! i) d = (Inr s', d)"
    "se_state s' = se_state (sv_sessions (nt_server N) ! i)" "session_ok s'"
    using any_session_step [OF pair_at_session [OF at] en none, of st d] by blast
  moreover have "i \<notin> set (nt_jammed N) \<longrightarrow> link_ok ce P (nt_shown N ! i) (nt_calls N ! i) (of_client i log)
      (nt_clients N ! i) (sv_sessions (nt_server N) ! i) (nt_up N ! i) (nt_down N ! i)"
    using at by (simp add: pair_at_def Let_def)
  ultimately show ?thesis using link_work [OF _ en conn none, where st = st and d = d] by fastforce
qed

lemma at_job:
  assumes at: "pair_at ce P N log ids i" and en: "enabled x (sv_sessions (nt_server N) ! i)"
    and conn: "if isConnected (nt_clients N ! i) then sound x \<and> consumed x = take (length (consumed x)) (nt_up N ! i)
      else cut_off x" and some: "answers x = Some k"
    and ans: "answer st k (se_state (sv_sessions (nt_server N) ! i)) d = (r, cs, d')"
    and out: "sendable P (WrappedMessage_response r)"
  shows "\<exists>s'. complete se st x (sv_sessions (nt_server N) ! i) d = (Inr s', d') \<and> se_state s' = cs \<and> session_ok s' \<and>
    (i \<notin> set (nt_jammed N) \<longrightarrow>
     link_ok ce P (nt_shown N ! i) (nt_calls N ! i) (of_client i log @ [(the (m_callback (nt_clients N ! i)), k, r)])
      (nt_clients N ! i) s' (drop (length (consumed x)) (nt_up N ! i))
      (nt_down N ! i @ (if isConnected (nt_clients N ! i)
        then concat (drop (length (se_sent (sv_sessions (nt_server N) ! i))) (se_sent s')) else [])))"
proof -
  obtain s' where "complete se st x (sv_sessions (nt_server N) ! i) d = (Inr s', d')" "se_state s' = cs" "session_ok s'"
    using any_session_job [OF pair_at_session [OF at] en some ans out] by blast
  moreover have "i \<notin> set (nt_jammed N) \<longrightarrow> link_ok ce P (nt_shown N ! i) (nt_calls N ! i) (of_client i log)
      (nt_clients N ! i) (sv_sessions (nt_server N) ! i) (nt_up N ! i) (nt_down N ! i)"
    using at by (simp add: pair_at_def Let_def)
  ultimately show ?thesis using link_job [OF _ en conn some ans out] by fastforce
qed

lemma net_ok_work:
  assumes ok: "net_ok ce P d0 N" and i: "i < length (nt_clients N)"
    and en: "enabled x (sv_sessions (nt_server N) ! i)"
      "if isConnected (nt_clients N ! i) then sound x \<and> consumed x = take (length (consumed x)) (nt_up N ! i)
       else cut_off x"
    and fit: "\<And>j. answers x = Some j \<Longrightarrow> sendable P (WrappedMessage_response
      (fst (answer st j (se_state (sv_sessions (nt_server N) ! i)) (sv_db (nt_server N)))))"
  shows "net_ok ce P d0 (net_work se st i x N)"
proof -
  let ?s = "sv_sessions (nt_server N) ! i" and ?db = "sv_db (nt_server N)" and ?n = "length (nt_clients N)"
  obtain log ids d where r: "run_atomically (nt_events N) d0 = (log, ids, d)" by (metis prod_cases3)
  have n: "length (nt_shown N) = ?n" "length (nt_calls N) = ?n" "length (nt_up N) = ?n" "length (nt_down N) = ?n"
    "length (sv_sessions (nt_server N)) = ?n" "sv_dead (nt_server N) = None" "?db = d"
    and far: "\<And>k. ?n \<le> k \<Longrightarrow> ids k = None \<and> of_client k log = []"
    and ind: "\<And>k. k < ?n \<Longrightarrow> pair_at ce P N log ids k"
    using ok r by (auto simp: net_ok_def Let_def)
  note at = ind [OF i]
  have id: "ids i = se_state ?s" using at by (simp add: pair_at_def Let_def)
  show ?thesis
  proof (cases "answers x")
    case None
    from at_work [OF at en None, of st ?db] obtain s' where s': "complete se st x ?s ?db = (Inr s', ?db)"
      "se_state s' = se_state ?s" "session_ok s'"
      "i \<notin> set (nt_jammed N) \<longrightarrow>
       link_ok ce P (nt_shown N ! i) (nt_calls N ! i) (of_client i log) (nt_clients N ! i) s'
        (drop (length (consumed x)) (nt_up N ! i))
        (nt_down N ! i @ (if isConnected (nt_clients N ! i) then concat (drop (length (se_sent ?s)) (se_sent s')) else []))"
      by blast
    have "pair_at ce P (net_work se st i x N) log ids k" if "k < ?n" for k
      using ind [OF that] n i s' id None
      by (cases "k = i") (auto simp: pair_at_def net_work_def Let_def complete_session_def)
    with n i r s' None far show ?thesis by (auto simp: net_ok_def net_work_def Let_def complete_session_def)
  next
    case (Some j)
    obtain res cs d' where ans: "answer st j (se_state ?s) ?db = (res, cs, d')" by (metis prod_cases3)
    then have "sendable P (WrappedMessage_response res)" using fit [OF Some] by simp
    from at_job [OF at en Some ans this] obtain s' where s': "complete se st x ?s ?db = (Inr s', d')" "se_state s' = cs"
      "session_ok s'"
      "i \<notin> set (nt_jammed N) \<longrightarrow>
       link_ok ce P (nt_shown N ! i) (nt_calls N ! i)
        (of_client i log @ [(the (m_callback (nt_clients N ! i)), j, res)]) (nt_clients N ! i) s'
        (drop (length (consumed x)) (nt_up N ! i))
        (nt_down N ! i @ (if isConnected (nt_clients N ! i) then concat (drop (length (se_sent ?s)) (se_sent s')) else []))"
      by blast
    let ?e = "\<lparr>ev_client = i, ev_waits = the (m_callback (nt_clients N ! i)), ev_job = j, ev_storage = st\<rparr>"
    have r': "run_atomically (nt_events N @ [?e]) d0 = (log @ [(?e, res)], ids(i := cs), d')"
      using r ans id n(7) by (simp add: apply_event_def)
    have "pair_at ce P (net_work se st i x N) (log @ [(?e, res)]) (ids(i := cs)) k" if "k < ?n" for k
      using ind [OF that] n i s' Some
      by (cases "k = i") (auto simp: pair_at_def net_work_def Let_def complete_session_def)
    with n i r' s' Some far show ?thesis by (auto simp: net_ok_def net_work_def Let_def complete_session_def)
  qed
qed

lemma net_ok_break:
  assumes ok: "net_ok ce P d0 N" and i: "i < length (nt_clients N)" and conn: "isConnected (nt_clients N ! i)"
  shows "net_ok ce P d0 (net_break ce i N)"
proof -
  obtain log ids d where r: "run_atomically (nt_events N) d0 = (log, ids, d)" by (metis prod_cases3)
  have "pair_at ce P (net_break ce i N) log ids k" if "pair_at ce P N log ids k" "k < length (nt_clients N)" for k
    using that ok link_break [OF _ conn]
    by (cases "k = i") (auto simp: pair_at_def net_break_def Let_def net_ok_def simp del: client_step.simps)
  with ok r show ?thesis by (auto simp: net_ok_def net_break_def Let_def)
qed

lemma start_resting: "\<exists>s. start se ClientSession = Inr s \<and> resting s \<and> se_state s = None"
proof -
  obtain s where s: "start se ClientSession = Inr s" "se_state s = None" "\<not> se_stopped s"
      "se_pending s = [Async_read_prefix]"
    by (simp add: start_def do_async_read_prefix_def vector_resize_total [OF memory] ClientSession_def)
  with start_ok [OF s(1)] show ?thesis by (auto simp: resting_def)
qed

text \<open>A new client is ready, or it is jammed from the beginning.\<close>

lemma net_ok_added:
  assumes ok: "net_ok ce P d0 N" and c: "ready c \<or> length (nt_clients N) \<in> set J" and J: "set (nt_jammed N) \<subseteq> set J"
  shows "net_ok ce P d0 ((net_join se c N)\<lparr>nt_left := L, nt_jammed := J\<rparr>)"
proof -
  let ?n = "length (nt_clients N)" and ?N = "(net_join se c N)\<lparr>nt_left := L, nt_jammed := J\<rparr>"
  obtain log ids d where r: "run_atomically (nt_events N) d0 = (log, ids, d)" by (metis prod_cases3)
  obtain s where s: "start se ClientSession = Inr s" "resting s" "se_state s = None" using start_resting by blast
  have new: "of_client ?n log = []" "ids ?n = None" using ok r by (auto simp: net_ok_def Let_def)
  have "pair_at ce P ?N log ids k" if "k < Suc ?n" for k
  proof (cases "k = ?n")
    case True
    have "link_ok ce P (m_reactions c) [] [] c s [] []" if "ready c"
      using pair_idle [OF explained.none _ that s(2), of "m_reactions c"] by (simp add: link_ok_def)
    with True ok new s c show ?thesis
      by (auto simp: pair_at_def net_join_def handle_accept_def net_ok_def Let_def nth_append resting_def)
  next
    case False
    with that ok r s(1) J show ?thesis
      by (auto simp: pair_at_def net_join_def handle_accept_def net_ok_def Let_def nth_append less_Suc_eq)
  qed
  with ok r s(1) new show ?thesis by (auto simp: net_ok_def net_join_def handle_accept_def Let_def)
qed

lemma net_ok_join:
  assumes "net_ok ce P d0 N" and "ready c"
  shows "net_ok ce P d0 (net_join se c N)"
proof -
  have "(net_join se c N)\<lparr>nt_left := nt_left N, nt_jammed := nt_jammed N\<rparr> = net_join se c N" by (simp add: net_join_def)
  with net_ok_added [OF assms(1) disjI1 [OF assms(2)] order.refl, of "nt_left N"] show ?thesis by simp
qed

text \<open>Reconnecting: a client that is unlocked and holds no prefix is ready.\<close>

lemma reconnected_ready:
  assumes "availible c" and "m_bytesReaded c = 0" and "m_fault c = None" and "qt_valid_address ce ip" and "qt_valid_port ce port"
  shows "ready (reconnected ce ip port c)"
  using assms by (simp add: reconnected_def ready_def BackEndFacade_updateConnectionSettings_def
      Backend_updateConnectionSettings_def Session_connect_def sock_abort_def Session_onDisconnection_def
      Session_onConnection_def Let_def isConnected_def availible_def react_def setAvailible_def
      setServerIp_def setServerPort_def)

lemma lost_unlocked:
  assumes "net_ok ce P d0 N" and "i < length (nt_clients N)" and "\<not> isConnected (nt_clients N ! i)"
    and "i \<notin> set (nt_jammed N)"
  shows "availible (nt_clients N ! i)" "m_fault (nt_clients N ! i) = None"
  using assms pair_connected
  by (fastforce simp: net_ok_def Let_def pair_at_def link_ok_def broken_ok_def split: prod.splits)+

lemma net_ok_reconnect:
  assumes "net_ok ce P d0 N"
  shows "net_ok ce P d0 (net_reconnect ce se i ip port N)"
  by (auto simp: net_reconnect_def Let_def intro!: net_ok_added [OF assms])

lemma net_ok_step:
  assumes "net_ok ce P d0 N" and "net_step ce se S N N'"
  shows "net_ok ce P d0 N'"
  using assms(2)
proof cases
  case (join c)
  with net_ok_join [OF assms(1)] show ?thesis by simp
next
  case (call i op)
  with net_ok_call [OF assms(1)] show ?thesis by (simp add: client_runtime)
next
  case (work i st x)
  with net_ok_work [OF assms(1)] show ?thesis by (simp add: server_runtime)
next
  case (deliver i p rest)
  with net_ok_deliver [OF assms(1)] show ?thesis by simp
next
  case (break i)
  with net_ok_break [OF assms(1)] show ?thesis by simp
next
  case (reconnect i ip port)
  with net_ok_reconnect [OF assms(1)] show ?thesis by simp
next
  case signal
  with assms(1) show ?thesis by (simp add: net_ok_def pair_at_def Let_def signal_handler_def)
qed

lemma net_ok_init: "net_ok ce P d0 (network_init d0)"
  by (simp add: net_ok_def network_init_def server_run_def)

lemma net_ok_reachable:
  assumes "net_reachable ce se S d0 N"
  shows "net_ok ce P d0 N"
  using assms unfolding net_reachable_def
  by (induction rule: rtranclp_induct) (auto intro: net_ok_init net_ok_step)

section \<open>Progress\<close>

lemma answers_fit_step: "answers_fit ce se S st i N \<Longrightarrow> (net_step ce se S)\<^sup>*\<^sup>* N N' \<Longrightarrow> answers_fit ce se S st i N'"
  unfolding answers_fit_def by (meson rtranclp_trans)

lemma answers_fit_now:
  "answers_fit ce se S st i N \<Longrightarrow> enabled x (sv_sessions (nt_server N) ! i) \<Longrightarrow> answers x = Some j \<Longrightarrow>
    sendable P (WrappedMessage_response
      (fst (answer st j (se_state (sv_sessions (nt_server N) ! i)) (sv_db (nt_server N)))))"
  unfolding answers_fit_def server_runtime by (cases x) (auto simp: enabled_def split: if_splits)

lemma net_ok_steps: "net_ok ce P d0 N \<Longrightarrow> (net_step ce se S)\<^sup>*\<^sup>* N N' \<Longrightarrow> net_ok ce P d0 N'"
  by (rotate_tac, induction rule: rtranclp_induct) (auto intro: net_ok_step)

lemma net_pair:
  assumes "net_ok ce P d0 N" and "i < length (nt_clients N)"
    and "isConnected (nt_clients N ! i) \<or> \<not> availible (nt_clients N ! i)" and "i \<notin> set (nt_jammed N)"
  obtains log where "pair_ok ce P (nt_shown N ! i) (nt_calls N ! i) log (nt_clients N ! i)
    (sv_sessions (nt_server N) ! i) (nt_up N ! i) (nt_down N ! i)"
  using assms by (fastforce simp: net_ok_def Let_def pair_at_def link_ok_def broken_ok_def split: prod.splits)

text \<open>A request that is underway can be answered.\<close>

lemma reaches_answer:
  assumes "net_ok ce P d0 N" and "i < length (nt_clients N)"
    and "asking P rq w (nt_clients N ! i)" and "job_of rq = Some j"
    and "underway P rq (sv_sessions (nt_server N) ! i) (nt_up N ! i)" and "nt_down N ! i = []"
    and "answers_fit ce se S st i N" and st: "st \<in> S"
  shows "\<exists>N' cs d. (net_step ce se S)\<^sup>*\<^sup>* N N' \<and> nt_clients N' = nt_clients N \<and> nt_calls N' = nt_calls N \<and>
    nt_jammed N' = nt_jammed N \<and> nt_down N' ! i = packet P (WrappedMessage_response (fst (answer st j cs d))) \<and>
    sendable P (WrappedMessage_response (fst (answer st j cs d)))"
  using assms(1-7)
proof (induction "stage (se_pending (sv_sessions (nt_server N) ! i))" arbitrary: N rule: less_induct)
  case less
  let ?s = "sv_sessions (nt_server N) ! i" and ?db = "sv_db (nt_server N)" and ?n = "length (nt_clients N)"
  have n: "length (nt_up N) = ?n" "length (nt_down N) = ?n" "length (sv_sessions (nt_server N)) = ?n"
    using less.prems(1) by (simp_all add: net_ok_def Let_def)
  have fit: "sendable P (WrappedMessage_request rq)" using less.prems(3) by (simp add: asking_def)
  obtain x where en: "enabled x ?s" "sound x" "consumed x = take (length (consumed x)) (nt_up N ! i)"
    using underway_enabled [OF less.prems(5) fit] by blast
  let ?N = "net_work se st i x N"
  have conn: "isConnected (nt_clients N ! i)" using less.prems(3) by (simp add: asking_def waiting_def)
  have step: "net_step ce se S N ?N" using less.prems(2) st en conn answers_fit_now [OF less.prems(7) en(1)]
    by (intro work) (simp_all add: server_runtime)
  have ok: "net_ok ce P d0 ?N" by (rule net_ok_step [OF less.prems(1) step])
  have fits: "answers_fit ce se S st i ?N" using answers_fit_step [OF less.prems(7)] step by blast
  have same: "nt_clients ?N = nt_clients N" "nt_calls ?N = nt_calls N" "nt_jammed ?N = nt_jammed N"
    by (simp_all add: net_work_def Let_def)
  show ?case
  proof (cases "answers x")
    case None
    from underway_step [OF less.prems(5) fit en None less.prems(4), of st ?db] obtain s' where
      s': "complete se st x ?s ?db = (Inr s', ?db)" "se_sent s' = se_sent ?s"
        "underway P rq s' (drop (length (consumed x)) (nt_up N ! i))" "stage (se_pending s') < stage (se_pending ?s)"
      by blast
    have at: "sv_sessions (nt_server ?N) ! i = s'" "nt_up ?N ! i = drop (length (consumed x)) (nt_up N ! i)"
      "nt_down ?N ! i = []"
      using s'(1,2) n less.prems(2,6) conn by (simp_all add: net_work_def complete_session_def Let_def)
    from less.hyps [OF _ ok, unfolded at same, OF s'(4) less.prems(2-4) s'(3) refl fits]
    show ?thesis using step by (meson converse_rtranclp_into_rtranclp)
  next
    case (Some k)
    obtain res cs d' where ans: "answer st k (se_state ?s) ?db = (res, cs, d')" by (metis prod_cases3)
    have out: "sendable P (WrappedMessage_response res)" using answers_fit_now [OF less.prems(7) en(1) Some] ans by simp
    from job_step [OF less.prems(5,4) en(1) Some ans out] obtain s' where k: "k = j"
      and s': "complete se st x ?s ?db = (Inr s', d')" "se_sent s' = se_sent ?s @ [packet P (WrappedMessage_response res)]"
      by blast
    have "nt_down ?N ! i = packet P (WrappedMessage_response res)"
      using s' n less.prems(2,6) conn by (simp add: net_work_def complete_session_def Let_def)
    moreover have "res = fst (answer st j (se_state ?s) ?db)" using ans k by simp
    ultimately show ?thesis using step same out by blast
  qed
qed

text \<open>The rest of a response can arrive in one piece.\<close>

lemma delivered_rest:
  assumes ok: "net_ok ce P d0 N" and i: "i < length (nt_clients N)" "i \<notin> set (nt_jammed N)"
    and ask: "asking P rq w c0" and out: "sendable P (WrappedMessage_response r)"
    and got: "nt_clients N ! i = partly P (WrappedMessage_response r) got c0"
      "got @ nt_down N ! i = packet P (WrappedMessage_response r)" "nt_down N ! i \<noteq> []"
  shows "\<exists>N'. net_step ce se S N N' \<and> length (nt_clients N') = length (nt_clients N) \<and>
    nt_calls N' = nt_calls N \<and> nt_jammed N' = nt_jammed N \<and>
    (if second_round w r
     then asking P createAllMyChatsRequest w (nt_clients N' ! i) \<and> nt_down N' ! i = [] \<and>
       underway P createAllMyChatsRequest (sv_sessions (nt_server N') ! i) (nt_up N' ! i)
     else ready (nt_clients N' ! i))"
proof -
  let ?p = "nt_down N ! i" and ?n = "length (nt_clients N)" and ?c = "nt_clients N ! i"
  let ?N = "net_deliver ce i ?p N" and ?c' = "receive ce (nt_down N ! i) (nt_clients N ! i)"
  have n: "length (nt_up N) = ?n" "length (nt_down N) = ?n" using ok by (simp_all add: net_ok_def Let_def)
  have "length got + length ?p = PREFIX_SIZE + WrappedMessage_ByteSize P (WrappedMessage_response r)"
    using packet_length [OF out] arg_cong [OF got(2), of length] by simp
  then have keeps: "\<not> loses_prefix ?c ?p"
    using ask by (auto simp: got(1) loses_prefix_def bytesAvailable_def partly_def asking_def waiting_def split: if_splits)
  have cut: "got @ ?p @ [] = packet P (WrappedMessage_response r)" using got(2) by simp
  from partly_receives [OF ask out cut got(3)] keeps got(1) have
    c': "?c' = (responseProcessingCallback ce w r (loaded P (WrappedMessage_response r) c0))\<lparr>m_bytesReaded := 0\<rparr>" by simp
  have conn: "isConnected ?c" using ask by (simp add: got(1) isConnected_def asking_def waiting_def)
  obtain log where "pair_ok ce P (nt_shown N ! i) (nt_calls N ! i) log ?c (sv_sessions (nt_server N) ! i) (nt_up N ! i) ?p"
    using net_pair [OF ok i(1) disjI1 [OF conn] i(2)] by blast
  then have "resting (sv_sessions (nt_server N) ! i) \<and> nt_up N ! i = []"
    using got(3) by (cases rule: pair_cases) simp_all
  then have rest: "resting (sv_sessions (nt_server N) ! i)" "nt_up N ! i = []" by simp_all
  have "net_step ce se S N ?N" using i(1) conn got(3) by (intro deliver [where rest = "[]"]) simp_all
  moreover have "asking P createAllMyChatsRequest w (nt_clients ?N ! i) \<and> nt_down ?N ! i = [] \<and>
      underway P createAllMyChatsRequest (sv_sessions (nt_server ?N) ! i) (nt_up ?N ! i)" if "second_round w r"
  proof -
    note again = first_response [OF ask that c']
    then have "written ?c ?c' = packet P (WrappedMessage_request createAllMyChatsRequest)" by (simp add: got(1) written_partly)
    with again(1) rest n i(1) show ?thesis by (simp add: net_deliver_def Let_def underway_def)
  qed
  moreover have "ready (nt_clients ?N ! i)" if "\<not> second_round w r"
    using last_response(1) [OF ask that c'] n i(1) by (simp add: net_deliver_def Let_def)
  moreover have "nt_jammed ?N = nt_jammed N" using keeps by (simp add: net_deliver_def Let_def)
  ultimately show ?thesis by (intro exI [of _ ?N]) (simp add: net_deliver_def Let_def)
qed

text \<open>A request that is underway is answered and the response arrives.\<close>

lemma asked_again:
  assumes ok: "net_ok ce P d0 N" and i: "i < length (nt_clients N)" "i \<notin> set (nt_jammed N)"
    and ask: "asking P rq w (nt_clients N ! i)" "job_of rq = Some j"
    and under: "underway P rq (sv_sessions (nt_server N) ! i) (nt_up N ! i)" "nt_down N ! i = []"
    and fits: "answers_fit ce se S st i N" and st: "st \<in> S"
  shows "\<exists>N' r cs d. (net_step ce se S)\<^sup>*\<^sup>* N N' \<and> length (nt_clients N') = length (nt_clients N) \<and>
    nt_calls N' = nt_calls N \<and> nt_jammed N' = nt_jammed N \<and> r = fst (answer st j cs d) \<and>
    (if second_round w r
     then asking P createAllMyChatsRequest w (nt_clients N' ! i) \<and> nt_down N' ! i = [] \<and>
       underway P createAllMyChatsRequest (sv_sessions (nt_server N') ! i) (nt_up N' ! i)
     else ready (nt_clients N' ! i))"
proof -
  obtain N1 cs d where 1: "(net_step ce se S)\<^sup>*\<^sup>* N N1" "nt_clients N1 = nt_clients N" "nt_calls N1 = nt_calls N"
    "nt_jammed N1 = nt_jammed N" "nt_down N1 ! i = packet P (WrappedMessage_response (fst (answer st j cs d)))"
    "sendable P (WrappedMessage_response (fst (answer st j cs d)))"
    using reaches_answer [OF ok i(1) ask under fits st] by blast
  let ?r = "fst (answer st j cs d)"
  have "nt_clients N1 ! i = partly P (WrappedMessage_response ?r) [] (nt_clients N ! i)"
    "[] @ nt_down N1 ! i = packet P (WrappedMessage_response ?r)" "nt_down N1 ! i \<noteq> []"
    using 1 partly_Nil [OF ask(1)] packet_length [OF 1(6)] by (auto simp flip: length_greater_0_conv)
  from delivered_rest [OF net_ok_steps [OF ok 1(1)] _ _ ask(1) 1(6) this, of S] i 1(2,4) obtain N2 where
    2: "net_step ce se S N1 N2" "length (nt_clients N2) = length (nt_clients N1)" "nt_calls N2 = nt_calls N1"
    "nt_jammed N2 = nt_jammed N1"
    "if second_round w ?r
     then asking P createAllMyChatsRequest w (nt_clients N2 ! i) \<and> nt_down N2 ! i = [] \<and>
       underway P createAllMyChatsRequest (sv_sessions (nt_server N2) ! i) (nt_up N2 ! i)
     else ready (nt_clients N2 ! i)" by auto
  have "(net_step ce se S)\<^sup>*\<^sup>* N N2" using 1(1) 2(1) by (rule rtranclp.rtrancl_into_rtrancl)
  with 1(2-4) 2(2-5) show ?thesis by (intro exI [of _ N2] exI [of _ ?r] exI [of _ cs] exI [of _ d]) simp
qed

text \<open>After the first round of an operation comes at most one more.\<close>

lemma round_reaches_ready:
  assumes ok: "net_ok ce P d0 N" and i: "i < length (nt_clients N)" "i \<notin> set (nt_jammed N)"
    and round: "if second_round w r
     then asking P createAllMyChatsRequest w (nt_clients N ! i) \<and> nt_down N ! i = [] \<and>
       underway P createAllMyChatsRequest (sv_sessions (nt_server N) ! i) (nt_up N ! i)
     else ready (nt_clients N ! i)"
    and fits: "answers_fit ce se S st i N" and st: "st \<in> S"
  shows "\<exists>N'. (net_step ce se S)\<^sup>*\<^sup>* N N' \<and> ready (nt_clients N' ! i) \<and>
    length (nt_clients N') = length (nt_clients N) \<and> nt_calls N' = nt_calls N \<and> nt_jammed N' = nt_jammed N"
proof (cases "second_round w r")
  case True
  with round have ask: "asking P createAllMyChatsRequest w (nt_clients N ! i)"
    and under: "underway P createAllMyChatsRequest (sv_sessions (nt_server N) ! i) (nt_up N ! i)" "nt_down N ! i = []"
    by simp_all
  have job: "job_of createAllMyChatsRequest = Some ChatsReq" by (simp add: createAllMyChatsRequest_def)
  have "\<not> second_round w (fst (answer st ChatsReq cs d))" for cs d by (metis chats_answer prod.collapse)
  with asked_again [OF ok i ask job under fits st] show ?thesis by auto
next
  case False
  with round show ?thesis by (intro exI [of _ N]) simp
qed

lemma locked_reaches_ready:
  assumes ok: "net_ok ce P d0 N" and i: "i < length (nt_clients N)" "i \<notin> set (nt_jammed N)"
    and locked: "\<not> availible (nt_clients N ! i)"
    and fits: "answers_fit ce se S st i N" and st: "st \<in> S"
  shows "\<exists>N'. (net_step ce se S)\<^sup>*\<^sup>* N N' \<and> ready (nt_clients N' ! i) \<and>
    length (nt_clients N') = length (nt_clients N) \<and> nt_calls N' = nt_calls N \<and> nt_jammed N' = nt_jammed N"
proof -
  have "\<exists>N1 w r. (net_step ce se S)\<^sup>*\<^sup>* N N1 \<and> length (nt_clients N1) = length (nt_clients N) \<and>
    nt_calls N1 = nt_calls N \<and> nt_jammed N1 = nt_jammed N \<and>
    (if second_round w r
     then asking P createAllMyChatsRequest w (nt_clients N1 ! i) \<and> nt_down N1 ! i = [] \<and>
       underway P createAllMyChatsRequest (sv_sessions (nt_server N1) ! i) (nt_up N1 ! i)
     else ready (nt_clients N1 ! i))"
  proof -
    obtain log where "pair_ok ce P (nt_shown N ! i) (nt_calls N ! i) log (nt_clients N ! i)
        (sv_sessions (nt_server N) ! i) (nt_up N ! i) (nt_down N ! i)"
      using net_pair [OF ok i(1) disjI2 [OF locked] i(2)] by blast
    then show ?thesis
    proof (cases rule: pair_cases)
      case idle
      with locked show ?thesis by (simp add: ready_def)
    next
      case (requested ops1 log1 op rq cur j)
      from asked_again [OF ok i requested(5,6,8,9) fits st] show ?thesis by blast
    next
      case (answered ops1 log1 op rq cur c0 got j r)
      from delivered_rest [OF ok i answered(5,8,12-14), of S] show ?thesis by blast
    qed
  qed
  then obtain N1 w r where 1: "(net_step ce se S)\<^sup>*\<^sup>* N N1" "length (nt_clients N1) = length (nt_clients N)"
    "nt_calls N1 = nt_calls N" "nt_jammed N1 = nt_jammed N" and
    round: "if second_round w r
     then asking P createAllMyChatsRequest w (nt_clients N1 ! i) \<and> nt_down N1 ! i = [] \<and>
       underway P createAllMyChatsRequest (sv_sessions (nt_server N1) ! i) (nt_up N1 ! i)
     else ready (nt_clients N1 ! i)" by blast
  from round_reaches_ready [OF net_ok_steps [OF ok 1(1)] _ _ round answers_fit_step [OF fits 1(1)] st] i 1(2,4)
  obtain N' where "(net_step ce se S)\<^sup>*\<^sup>* N1 N'" "ready (nt_clients N' ! i)"
    "length (nt_clients N') = length (nt_clients N1)" "nt_calls N' = nt_calls N1" "nt_jammed N' = nt_jammed N1" by auto
  with 1 show ?thesis by (metis rtranclp_trans)
qed

section \<open>What the network shows\<close>

text \<open>The server of a network is a server: everything that holds of reachable servers holds of it.\<close>

lemma net_server_step:
  assumes "net_ok ce P d0 N" and "reachable se S d0 (nt_server N)" and "net_step ce se S N N'"
  shows "reachable se S d0 (nt_server N')"
proof -
  have alive: "sv_dead (nt_server N) = None" "length (sv_sessions (nt_server N)) = length (nt_clients N)"
    using assms(1) by (simp_all add: net_ok_def Let_def)
  from assms(3) have "nt_server N' = nt_server N \<or> server_step se S (nt_server N) (nt_server N')"
  proof cases
    case (join c)
    then have "sv_accepting (nt_server N) = Some ClientSession" using accepting_reachable [OF assms(2)] by auto
    with join alive server_step.accept [of "nt_server N" ClientSession Accepted se S] show ?thesis
      by (simp add: net_join_def)
  next
    case (work i st x)
    with alive show ?thesis by (auto simp: net_work_def Let_def intro: server_step.session)
  next
    case (reconnect i ip port)
    then have "sv_accepting (nt_server N) = Some ClientSession" using accepting_reachable [OF assms(2)] by auto
    with reconnect alive server_step.accept [of "nt_server N" ClientSession Accepted se S] show ?thesis
      by (simp add: net_reconnect_def net_join_def Let_def)
  next
    case signal
    with alive show ?thesis by (auto intro: server_step.signal)
  qed (simp_all add: net_call_def net_deliver_def net_break_def Let_def)
  with assms(2) show ?thesis unfolding reachable_def by (auto intro: rtranclp.rtrancl_into_rtrancl)
qed

lemma net_server_reachable:
  assumes "net_reachable ce se S d0 N"
  shows "reachable se S d0 (nt_server N)"
  using assms unfolding net_reachable_def
proof (induction rule: rtranclp_induct)
  case base
  show ?case by (simp add: network_init_def reachable_def)
next
  case (step N N')
  then have "net_ok ce P d0 N" by (intro net_ok_reachable) (simp add: net_reachable_def)
  from net_server_step [OF this step.IH step.hyps(2)] show ?case .
qed

text \<open>The user of a lost connection gets a new one, on a session that knows nobody.\<close>

lemma reconnected_profile:
  assumes "availible c" and "qt_valid_address ce ip" and "qt_valid_port ce port"
  shows "m_profile (reconnected ce ip port c) = m_profile c"
  using assms by (simp add: reconnected_def BackEndFacade_updateConnectionSettings_def
      Backend_updateConnectionSettings_def Session_connect_def sock_abort_def Session_onDisconnection_def
      Session_onConnection_def Let_def react_def setAvailible_def setServerIp_def setServerPort_def)

lemma net_reconnects:
  assumes reach: "net_reachable ce se S d0 N" and i: "i < length (nt_clients N)" "i \<notin> set (nt_left N)"
    and keeps: "i \<notin> set (nt_jammed N) \<or> availible (nt_clients N ! i) \<and> m_fault (nt_clients N ! i) = None"
    and lost: "\<not> isConnected (nt_clients N ! i)" "m_bytesReaded (nt_clients N ! i) = 0" and valid: "qt_valid_address ce ip" "qt_valid_port ce port"
    and acc: "sv_accepting (nt_server N) \<noteq> None"
  shows "let N' = net_reconnect ce se i ip port N; n = length (nt_clients N) in net_step ce se S N N' \<and>
    ready (nt_clients N' ! n) \<and> m_profile (nt_clients N' ! n) = m_profile (nt_clients N ! i) \<and>
    awaiting (sv_sessions (nt_server N') ! n) \<and> se_state (sv_sessions (nt_server N') ! n) = None"
proof -
  have ok: "net_ok ce P d0 N" by (rule net_ok_reachable [OF reach])
  have rest: "availible (nt_clients N ! i)" "m_fault (nt_clients N ! i) = None"
    using lost_unlocked [OF ok i(1) lost(1)] keeps by blast+
  obtain s where s: "start se ClientSession = Inr s" "se_state s = None" "\<not> se_stopped s"
      "se_pending s = [Async_read_prefix]"
    by (simp add: start_def do_async_read_prefix_def vector_resize_total [OF memory] ClientSession_def)
  have "awaiting s" using start_ok [OF s(1)] s by (simp add: awaiting_def)
  moreover have "length (sv_sessions (nt_server N)) = length (nt_clients N)" using ok by (simp add: net_ok_def Let_def)
  moreover have "net_step ce se S N (net_reconnect ce se i ip port N)" by (rule net_step.reconnect [OF i lost(1) rest(1) valid acc])
  ultimately show ?thesis
    using s reconnected_ready [OF rest(1) lost(2) rest(2) valid] reconnected_profile [OF rest(1) valid]
    by (simp add: Let_def net_reconnect_def net_join_def handle_accept_def nth_append)
qed

lemma pair_in_step:
  assumes "pair_ok ce P shown ops log c s up down"
  shows "in_step ce shown ops log c"
  using assms
proof (cases rule: pair_cases)
  case idle
  then show ?thesis unfolding in_step_def
    by (intro exI [of _ ops] exI [of _ log] exI [of _ "[]"]) (simp add: ready_def)
next
  case (requested ops1 log1 op rq cur j)
  then show ?thesis using pair_connected [OF assms] first_rounds_started [OF requested(4)] unfolding in_step_def
    by (intro exI [of _ ops1] exI [of _ log1] exI [of _ "[op]"] exI [of _ cur] exI [of _ "[]"])
      (simp add: asking_def availible_def)
next
  case (answered ops1 log1 op rq cur c0 got j r)
  then show ?thesis using pair_connected [OF assms] next_started [OF answered(4,6), of r] unfolding in_step_def
    by (intro exI [of _ ops1] exI [of _ log1] exI [of _ "[op]"] exI [of _ "cur @ [(op_job op, j, r)]"] exI [of _ "[]"])
      (simp add: asking_def availible_def)
qed

lemma link_in_step:
  assumes "link_ok ce P shown ops log c s up down"
  shows "in_step ce shown ops log c"
proof (cases "isConnected c")
  case True
  then show ?thesis using assms pair_in_step by (auto simp: link_ok_def broken_ok_def)
next
  case False
  then have "broken_ok ce P shown ops log c s up down" using assms pair_connected by (auto simp: link_ok_def)
  then show ?thesis unfolding broken_ok_def in_step_def
    apply (elim conjE exE)
    subgoal for ops1 log1 waits part after
      by (intro exI [of _ ops1] exI [of _ log1] exI [of _ waits] exI [of _ part] exI [of _ after]) auto
    done
qed

lemma net_atomic:
  assumes "net_reachable ce se S d0 N" and "run_atomically (nt_events N) d0 = (log, ids, d)"
  shows "sv_db (nt_server N) = d \<and>
    (\<forall>i < length (nt_clients N). se_state (sv_sessions (nt_server N) ! i) = ids i \<and>
       (i \<notin> set (nt_jammed N) \<longrightarrow>
       in_step ce (nt_shown N ! i) (nt_calls N ! i) (of_client i log) (nt_clients N ! i)))"
  using net_ok_reachable [OF assms(1)] assms(2) by (auto simp: net_ok_def Let_def pair_at_def intro: link_in_step)

lemma explained_reactions: "explained ce ops log \<Longrightarrow> length (shown_of log) = length ops"
  by (induction rule: explained.induct) (simp_all add: shown_of_def)

lemma net_answers:
  assumes "net_reachable ce se S d0 N" and "i < length (nt_clients N)" and "i \<notin> set (nt_jammed N)"
    and "\<not> availible (nt_clients N ! i)" and "st \<in> S" and "answers_fit ce se S st i N"
  shows "\<exists>N'. (net_step ce se S)\<^sup>*\<^sup>* N N' \<and> ready (nt_clients N' ! i) \<and> nt_calls N' = nt_calls N \<and>
    nt_jammed N' = nt_jammed N \<and>
    length (m_reactions (nt_clients N' ! i)) = length (nt_shown N' ! i) + length (nt_calls N' ! i)"
proof -
  note ok = net_ok_reachable [OF assms(1)]
  obtain N' where N': "(net_step ce se S)\<^sup>*\<^sup>* N N'" "ready (nt_clients N' ! i)"
    "length (nt_clients N') = length (nt_clients N)" "nt_calls N' = nt_calls N" "nt_jammed N' = nt_jammed N"
    using locked_reaches_ready [OF ok assms(2-4,6,5)] by blast
  have at: "i < length (nt_clients N')" "i \<notin> set (nt_jammed N')" using assms(2,3) N'(3,5) by simp_all
  have "isConnected (nt_clients N' ! i)" using N'(2) by (simp add: ready_def)
  from net_pair [OF net_ok_steps [OF ok N'(1)] at(1) disjI1 [OF this] at(2)]
  obtain log where "pair_ok ce P (nt_shown N' ! i) (nt_calls N' ! i) log (nt_clients N' ! i)
      (sv_sessions (nt_server N') ! i) (nt_up N' ! i) (nt_down N' ! i)" by blast
  from pair_in_step [OF this] N'(2) have "explained ce (nt_calls N' ! i) log"
    "m_reactions (nt_clients N' ! i) = nt_shown N' ! i @ shown_of log"
    by (auto simp: in_step_def ready_def)
  with N' show ?thesis using explained_reactions by fastforce
qed

end

declare packet_bytes [simp]

lemma wired_intro:
  assumes "pb_wire P" and "cl_pb ce = P" and "sv_pb se = P" and "\<forall>n. sv_can_alloc se n"
    and "sendable P (WrappedMessage_request createAllMyChatsRequest)"
  shows "wired P ce se"
  using assms by (simp add: wired_def wired_axioms_def)

end
