(* ===== verification/Client_Inv.thy ===== *)
theory Client_Inv
  imports Client_Props
begin

text \<open>
  The invariant of the client over every sequence of events: pointers into the contacts are
  live, the shown messages are those of the current chat, the facade is only locked while a
  callback is set, and only requests were written to the socket.
\<close>

definition requests_only :: "pb \<Rightarrow> bytes list \<Rightarrow> bool" where
  "requests_only P outs \<longleftrightarrow> (\<forall>out \<in> set outs. \<exists>r buf. out = request_buffer P (WrappedMessage_request r) buf)"

definition client_inv :: "client_env \<Rightarrow> client \<Rightarrow> bool" where
  "client_inv env c \<longleftrightarrow> index_ok (m_contactsList c) \<and> current_ok (m_mesagesList c) \<and>
     (m_availible c \<or> m_callback c \<noteq> None) \<and> requests_only (cl_pb env) (sock_tx c)"

text \<open>The fields the invariant does not read.\<close>

lemma client_inv_frame [simp]:
  "client_inv env (c\<lparr>sock_rx := a\<rparr>) = client_inv env c" "client_inv env (c\<lparr>sock_connected := b\<rparr>) = client_inv env c"
  "client_inv env (c\<lparr>sock_peer := p\<rparr>) = client_inv env c" "client_inv env (c\<lparr>m_buffer := a\<rparr>) = client_inv env c"
  "client_inv env (c\<lparr>m_bytesReaded := i\<rparr>) = client_inv env c" "client_inv env (c\<lparr>m_messageSize := i\<rparr>) = client_inv env c"
  "client_inv env (c\<lparr>m_profile := q\<rparr>) = client_inv env c" "client_inv env (c\<lparr>m_chatsList := l\<rparr>) = client_inv env c"
  "client_inv env (c\<lparr>m_serverIp := t\<rparr>) = client_inv env c" "client_inv env (c\<lparr>m_serverPort := t\<rparr>) = client_inv env c"
  "client_inv env (c\<lparr>m_reactions := rs\<rparr>) = client_inv env c" "client_inv env (c\<lparr>m_fault := f\<rparr>) = client_inv env c"
  "client_inv env (react r c) = client_inv env c"
  by (simp_all add: client_inv_def react_def)

lemma client_inv_emit [simp]: "client_inv env c \<Longrightarrow> client_inv env (emit sig c)"
  by (cases sig) (simp_all add: client_inv_def setAvailible_def)

text \<open>A request repairs a lock that has just been taken.\<close>

lemma client_inv_request:
  assumes "client_inv env (setAvailible True c)"
  shows "client_inv env (Session_request env r j c)"
  using assms by (auto simp: Session_request_def client_inv_def requests_only_def Let_def)

lemma client_inv_unlock: "client_inv env c \<Longrightarrow> client_inv env (setAvailible True c)"
  by (simp add: client_inv_def)

lemma client_inv_setItems:
  "client_inv env c \<Longrightarrow> client_inv env (setChats env chats c)"
  "client_inv env c \<Longrightarrow> client_inv env (setContacts env contacts c)"
  "client_inv env c \<Longrightarrow> client_inv env (setMessages env messages c)"
  using setItems_contacts(2)
  by (auto simp: client_inv_def setChats_def setContacts_def setMessages_def current_ok_setItems
      intro!: index_ok_filled)

lemma client_inv_callback:
  assumes "client_inv env c"
  shows "client_inv env (responseProcessingCallback env j r c)"
proof (cases "second_round j r")
  case True
  from callback_second_round [OF this, of env c] obtain cs where "responseProcessingCallback env j r c =
      Session_request env createAllMyChatsRequest LoadDataJob (setContacts env cs c)" by blast
  with assms show ?thesis by (simp add: client_inv_request client_inv_unlock client_inv_setItems)
next
  case False
  with assms show ?thesis
    by (cases j; cases r) (auto simp: LoginJob_callback_def LoadChatsJob_callback_def LoadContactsJob_callback_def
        LoadMessagesJob_callback_def LoadDataJob_callback_def Backend_setProfile_def client_inv_setItems
        simp del: emit.simps split: option.splits)
qed

lemma client_inv_abort: "client_inv env c \<Longrightarrow> client_inv env (sock_abort env c)"
  by (simp add: sock_abort_def Session_onDisconnection_def Let_def del: emit.simps)

lemma buffer_frame:
  "client_inv env (set_fault f c) = client_inv env c" "client_inv env (QVector_resize k c) = client_inv env c"
  "client_inv env (snd (sock_read k c)) = client_inv env c"
  "client_inv env (snd (parse_buffer P parse m k c)) = client_inv env c"
  by (simp_all add: set_fault_def QVector_resize_def sock_read_def parse_buffer_def Let_def)

lemma read_frame:
  "client_inv env (snd (Session_readPrefix env c)) = client_inv env c"
  "client_inv env (snd (Session_readMessage env n c)) = client_inv env c"
  by (simp_all add: readPrefix_state readMessage_state split_beta Let_def buffer_frame)

lemma client_inv_load_mesg:
  assumes "client_inv env c"
  shows "client_inv env (load_mesg env c)"
proof -
  obtain m c1 where read: "Session_readMessage env (m_messageSize c) c = (m, c1)" by fastforce
  then have "client_inv env c1" using assms read_frame(2) [of env "m_messageSize c" c] by simp
  with read show ?thesis
    by (auto simp: load_mesg_def Session_processResponse_def client_inv_abort client_inv_callback buffer_frame
        split: option.splits WrappedMessage.splits)
qed

lemma client_inv_readyRead:
  assumes "client_inv env c"
  shows "client_inv env (Session_onReadyRead env c)"
proof -
  obtain n c1 where read: "Session_readPrefix env (c\<lparr>m_bytesReaded := 0\<rparr>) = (n, c1)" by fastforce
  then have "client_inv env c1" using assms read_frame(1) [of env "c\<lparr>m_bytesReaded := 0\<rparr>"] by simp
  with read assms show ?thesis
    by (simp add: Session_onReadyRead_def client_inv_load_mesg client_inv_abort Let_def)
qed

lemma client_inv_step:
  assumes "client_inv env c"
  shows "client_inv env (client_step env ev c)"
proof (cases ev)
  case (User_op op)
  have "client_inv env (setAvailible True (setAvailible False c))"
    using assms by (simp add: client_inv_def)
  with User_op assms show ?thesis
    by (simp add: BackEndFacade_op_request client_inv_request)
next
  case (Update_settings ip port)
  have pass: "client_inv env (setServerPort port (setServerIp ip x))" if "client_inv env x" for x
    using that by (simp add: setServerPort_def setServerIp_def)
  have unlock: "client_inv env (emit (UpdatedConnectionSettings m) x)"
    if "client_inv env (setAvailible True x)" for m x
    using that by simp
  have relock: "client_inv env (setAvailible True x)" if "client_inv env x" for x
    using that by (rule client_inv_unlock)
  have c0: "client_inv env (setAvailible True (setAvailible False c))"
    using assms by (simp add: client_inv_def)
  have ab: "client_inv env (setAvailible True (sock_abort env (setAvailible False c)))"
    using c0 by (auto simp: sock_abort_def Session_onDisconnection_def Let_def setAvailible_def react_def client_inv_def)
  then have ab': "client_inv env (setAvailible True ((sock_abort env (setAvailible False c))\<lparr>sock_peer := p\<rparr>))" for p
    by (simp add: client_inv_def)
  from Update_settings assms show ?thesis
    by (auto simp: BackEndFacade_updateConnectionSettings_def Backend_updateConnectionSettings_def
        Session_connect_def simp del: emit.simps intro!: pass unlock ab' c0)
next
  case (Set_server_ip ip)
  with assms show ?thesis by (simp add: setServerIp_def)
next
  case (Set_server_port port)
  with assms show ?thesis by (simp add: setServerPort_def)
next
  case (Set_current_chat k)
  with assms show ?thesis by (simp add: client_inv_def current_ok_setCurrentChatId)
next
  case (Receive data)
  with assms show ?thesis by (simp add: receive_def client_inv_readyRead)
next
  case (Socket_error e)
  with assms show ?thesis by (cases e) (simp_all del: emit.simps)
qed (use assms in \<open>simp_all add: Session_onConnection_def Session_onDisconnection_def del: emit.simps\<close>)

lemma client_inv_init: "client_inv env (BackEndFacade env)"
proof -
  have idx: "index_ok ContactsList_init" by (simp add: index_ok_def ContactsList_init_def)
  then show ?thesis
    by (simp add: BackEndFacade_def Backend_init_def Session_connect_def sock_abort_def client_inv_def requests_only_def
        current_ok_init Let_def)
qed

lemma client_inv_run: "client_inv env c \<Longrightarrow> client_inv env (client_run env evs c)"
  by (induction evs arbitrary: c) (simp_all add: client_inv_step)

text \<open>With a good index no lookup goes through a dead pointer.\<close>

lemma index_ok_lookup: "index_ok l \<Longrightarrow> ContactsList_getUserBy l i \<noteq> None"
  by (fastforce simp: index_ok_def ContactsList_getUserBy_def split: option.splits)

end
