(* ===== verification/Instances.thy ===== *)
theory Instances
  imports Network Client_Inv
begin

text \<open>
  Concrete surroundings of the programs, on which the theorems are instantiated: the runtime
  \<open>pb_ref\<close>, a database engine that does not fail, ASCII text, tables with two clients who
  share a chat, a client program that is connected and a session that waits for a request.
\<close>

section \<open>Engine and tables\<close>

definition ex_pg :: pg_env where
  "ex_pg = \<lparr>pg_fault = (\<lambda>_. None), pg_in_doubt = False, pg_text = Some, pg_quote = Some,
     pg_rank = (\<lambda>n i. i), pg_missing_name = Inl Other_exception\<rparr>"

text \<open>An engine whose fourth call of a transaction raises.\<close>

definition ex_faulty :: pg_env where
  "ex_faulty = ex_pg\<lparr>pg_fault := (\<lambda>n. if n = 3 then Some Sql_error else None)\<rparr>"

definition ex_sha :: "bytes \<Rightarrow> bytes" where
  "ex_sha p = take 32 (p @ replicate 32 7)"

definition ex_ann :: client_row where
  "ex_ann = \<lparr>cl_id = 1, cl_name = [97], cl_email = [97, 64], cl_password_hash = hash_password ex_sha [1]\<rparr>"

definition ex_bob :: client_row where
  "ex_bob = \<lparr>cl_id = 2, cl_name = [98], cl_email = [98, 64], cl_password_hash = hash_password ex_sha [2]\<rparr>"

definition ex_eve :: client_row where
  "ex_eve = \<lparr>cl_id = 3, cl_name = [101], cl_email = [101, 64], cl_password_hash = hash_password ex_sha [3]\<rparr>"

definition ex_db :: db where
  "ex_db = \<lparr>Client = [ex_ann, ex_bob, ex_eve], Chat_ids = [1],
     ClientToChat = [\<lparr>cc_client_id = 1, cc_chat_id = 1, cc_title = [98]\<rparr>,
                     \<lparr>cc_client_id = 2, cc_chat_id = 1, cc_title = [97]\<rparr>],
     Message = [\<lparr>ms_id = 1, ms_sender_id = 2, ms_chat_id = 1, ms_mesg = [104, 105]\<rparr>],
     ClientToContact = [\<lparr>ct_client_id = 1, ct_friend_id = 2\<rparr>, \<lparr>ct_client_id = 2, ct_friend_id = 1\<rparr>],
     Client_seq = 3, Chat_seq = 1, Message_seq = 1\<rparr>"

lemmas ex_tables = ex_db_def ex_ann_def ex_bob_def ex_eve_def

lemma ex_pg_simps [simp]:
  "pg_up ex_pg" "pg_fault ex_pg n = None" "pg_text ex_pg = Some" "pg_quote ex_pg = Some" "\<not> pg_in_doubt ex_pg"
  by (simp_all add: ex_pg_def pg_up_def)

lemma ex_rows [simp]: "result_rows ex_pg rows = rows"
proof -
  have "sort_key (\<lambda>i. i) [0..<length rows] = [0..<length rows]"
    by (simp add: sort_key_id_if_sorted)
  then show ?thesis by (simp add: result_rows_def ex_pg_def map_nth)
qed

lemma ex_member: "chat_member ex_db i c \<longleftrightarrow> c = 1 \<and> (i = 1 \<or> i = 2)"
  by (auto simp: chat_member_def ex_tables)

lemma ex_linked: "linked ex_db i j \<longleftrightarrow> i = 1 \<and> j = 2 \<or> i = 2 \<and> j = 1"
  by (auto simp: linked_def ex_tables)

lemma ex_tables_ok [simp]: "tables_ok ex_db"
proof -
  have "clients_ok ex_db" by (simp add: clients_ok_def ex_tables)
  moreover have "chats_ok ex_db" by (simp add: chats_ok_def ex_member) (simp add: ex_tables)
  moreover have "messages_ok ex_db" by (simp add: messages_ok_def ex_member) (simp add: ex_tables)
  moreover have "contacts_ok ex_db" by (simp add: contacts_ok_def ex_linked) (auto simp: ex_tables)
  ultimately show ?thesis by (simp add: tables_ok_def)
qed

lemma ex_db_inv: "db_inv ex_db"
  by (simp add: db_inv_def one_chat_def ex_member)

lemma ex_login: "login ex_sha ex_pg [97, 64] [1] ex_db = (Inr (1, [97]), ex_db)"
proof -
  have "ex_ann \<in> set (Client ex_db)" by (simp add: ex_db_def)
  from login_row [OF ex_tables_ok _ this, of ex_pg "[97, 64]" ex_sha "[1]"] show ?thesis
    by (simp add: ex_ann_def)
qed

lemma ex_new_email: "registration ex_sha ex_pg [122] [122, 64] [9] ex_db =
    (True, snd (registration ex_sha ex_pg [122] [122, 64] [9] ex_db))"
proof -
  have "fst (registration ex_sha ex_pg [122] [122, 64] [9] ex_db)"
    by (simp add: registration_success) (simp add: ex_tables)
  then show ?thesis by (metis prod.collapse)
qed

text \<open>Ann writes to the chat, adds Eve and opens a chat with her.\<close>

definition ex_mesg :: MessageToSend where
  "ex_mesg = \<lparr>MessageToSend_chat_id = 1, MessageToSend_text = [33]\<rparr>"

lemma ex_int4 [simp]: "int4 1 = Some 1" "int4 2 = Some 2" "int4 3 = Some 3"
  by (simp_all add: int4_def)

lemma ex_send: "send_message ex_pg 1 ex_mesg ex_db = (True, snd (send_message ex_pg 1 ex_mesg ex_db))"
proof -
  have "fst (send_message ex_pg 1 ex_mesg ex_db)"
    by (simp add: send_message_success ex_member ex_mesg_def) (simp add: ex_db_def)
  then show ?thesis by (metis prod.collapse)
qed

lemma ex_add: "add_contact ex_pg 1 [101, 64] ex_db = (True, snd (add_contact ex_pg 1 [101, 64] ex_db))"
proof -
  have "fst (add_contact ex_pg 1 [101, 64] ex_db)"
    by (simp add: add_contact_success ex_linked) (simp add: ex_tables, intro exI [of _ ex_eve], simp add: ex_tables)
  then show ?thesis by (metis prod.collapse)
qed

lemma ex_create: "create_chat ex_pg 1 [97] 3 ex_db = (True, snd (create_chat ex_pg 1 [97] 3 ex_db))"
proof -
  have "may_create_chat ex_pg 1 [97] 3 ex_db"
    by (simp add: may_create_chat_def ex_member)
      (simp add: ex_tables, intro exI [of _ ex_eve], simp add: ex_tables)
  then have "fst (create_chat ex_pg 1 [97] 3 ex_db)" by (simp add: create_chat_success)
  then show ?thesis by (metis prod.collapse)
qed

definition ex_storage :: "db storage" where
  "ex_storage = postgres_storage ex_sha ex_pg"

section \<open>The two programs\<close>

definition ex_server :: server_env where
  "ex_server = \<lparr>sv_pb = pb_ref, sv_can_alloc = (\<lambda>_. True), sv_parse_negative = (\<lambda>_. None)\<rparr>"

definition ex_session :: session where
  "ex_session = ClientSession\<lparr>se_stopped := False, se_buffer := replicate 9 0,
     se_pending := [Async_read_prefix]\<rparr>"

definition ex_eve_session :: session where
  "ex_eve_session = set_state \<lparr>user_id = 3, user_name = [101], email = [101, 64]\<rparr> ex_session"

definition ex_ann_state :: ClientState where
  "ex_ann_state = \<lparr>user_id = 1, user_name = [97], email = [97, 64]\<rparr>"

definition ex_ann_session :: session where
  "ex_ann_session = set_state ex_ann_state ex_session"

definition ex_ce :: client_env where
  "ex_ce = \<lparr>cl_pb = pb_ref, qt_to_utf8 = map ucast, qt_from_utf8 = map ucast, qt_valid_address = (\<lambda>_. True),
     qt_valid_port = (\<lambda>_. True), qt_to_ushort = (\<lambda>_. 8000), qt_abort_notifies = True\<rparr>"

definition ex_client :: client where
  "ex_client = client_run ex_ce [Socket_connected] (BackEndFacade ex_ce)"

lemma ex_env_simps [simp]:
  "sv_pb ex_server = pb_ref" "sv_can_alloc ex_server n" "cl_pb ex_ce = pb_ref"
  "qt_valid_address ex_ce t" "qt_valid_port ex_ce t"
  by (simp_all add: ex_server_def ex_ce_def)

lemma ex_session_start: "start ex_server ClientSession = Inr ex_session"
  by (simp add: start_def do_async_read_prefix_def vector_resize_def ex_session_def ClientSession_def resize_def)

lemma ex_session_awaiting [simp]: "awaiting ex_session"
  using start_ok [OF ex_session_start]
  by (simp add: awaiting_def) (simp add: ex_session_def ClientSession_def)

lemma ex_ann_awaiting [simp]: "awaiting ex_ann_session" "se_state ex_ann_session = Some ex_ann_state"
  using ex_session_awaiting by (auto simp: ex_ann_session_def set_state_def awaiting_def session_ok_def)

lemma ex_client_ready [simp]: "ready ex_client"
  by (simp add: ex_client_def BackEndFacade_def Backend_init_def Session_connect_def sock_abort_def Session_onConnection_def
      ready_def availible_def isConnected_def react_def Let_def)

section \<open>Messages\<close>

lemmas message_ok_defs = sendable_def wire_string_def RegisterRequest_ok_def LoginRequest_ok_def
  AllMyChatsRequest_ok_def MessageToSend_ok_def SendMessageRequest_ok_def StatusResponse_ok_def
  Contact_ok_def LoginResponse_ok_def

lemmas message_size_defs = RegisterRequest_ByteSize_def LoginRequest_ByteSize_def
  AllMyChatsRequest_ByteSize_def MessageToSend_ByteSize_def SendMessageRequest_ByteSize_def
  StatusResponse_ByteSize_def Contact_ByteSize_def LoginResponse_ByteSize_def

definition ex_send_request :: WrappedMessage where
  "ex_send_request = WrappedMessage_request (Request_send_mesg_request \<lparr>SendMessageRequest_mesg = Some ex_mesg\<rparr>)"

definition ex_accepted :: WrappedMessage where
  "ex_accepted = WrappedMessage_response (Response_status_response \<lparr>StatusResponse_result = 0\<rparr>)"

lemma ex_send_request_sendable [simp]: "sendable pb_ref ex_send_request"
  by (simp add: ex_send_request_def message_ok_defs message_size_defs ex_mesg_def pb_ref_def enc_varint.simps)

lemma ex_accepted_sendable [simp]: "sendable pb_ref ex_accepted"
  by (simp add: ex_accepted_def message_ok_defs message_size_defs pb_ref_def enc_varint.simps)

lemma ex_accepted_size [simp]: "WrappedMessage_ByteSize pb_ref ex_accepted = 4"
  by (simp add: ex_accepted_def message_size_defs pb_ref_def enc_varint.simps)

lemma ex_sendable_ok: "sendable P m \<Longrightarrow> WrappedMessage_ok P m"
  "sendable P m \<Longrightarrow> WrappedMessage_ByteSize P m \<le> total_bytes_limit P"
  by (simp_all add: sendable_def)

text \<open>What Ann finds in the tables.\<close>

definition ex_contacts :: ContactsResponse where
  "ex_contacts = \<lparr>ContactsResponse_contacts =
     [\<lparr>Contact_user_id = 2, Contact_name = [98], Contact_email = [98, 64]\<rparr>]\<rparr>"

definition ex_chats :: ChatsResponse where
  "ex_chats = \<lparr>ChatsResponse_chats = [\<lparr>Chat_chat_id = 1, Chat_title = [98]\<rparr>]\<rparr>"

lemma ex_ann_reads:
  "sc_get_contacts ex_storage (user_id ex_ann_state) ex_db = (ex_contacts, ex_db)"
  "sc_get_chats ex_storage (user_id ex_ann_state) ex_db = (ex_chats, ex_db)"
  by (simp_all add: ex_storage_def postgres_storage_def ex_ann_state_def ex_contacts_def ex_chats_def
      get_contacts_def get_chats_def txn_defs stmt_get_contacts_def stmt_get_chats_def
      contacts_of_def ex_tables)

text \<open>A client that waits for the status of its message.\<close>

definition ex_waiting :: client where
  "ex_waiting = BackEndFacade_op ex_ce (Send_message 1 [33]) ex_client"

definition ex_chat_items :: "ChatItem list" where
  "ex_chat_items = [\<lparr>chat_id = 1, chat_title = [97]\<rparr>]"

lemma ex_send_job: "WrappedMessage_request (job_request ex_ce (Send_message 1 [33])) = ex_send_request"
  by (simp add: ex_send_request_def createSendMessageRequest_def ex_ce_def ex_mesg_def)

lemma ex_waiting_simps [simp]:
  "m_bytesReaded ex_waiting = 0" "sock_rx ex_waiting = []" "m_callback ex_waiting = Some SendMessageJob"
  "m_availible ex_waiting = False"
  using ex_client_ready op_connected [of ex_client ex_ce "Send_message 1 [33]"]
  by (simp_all add: ex_waiting_def ready_def Let_def)

section \<open>A network\<close>

text \<open>A connection that refuses everything: small responses for any request.\<close>

definition ex_refusing :: "unit storage" where
  "ex_refusing = \<lparr>sc_registration = (\<lambda>_ _ _ d. (False, d)), sc_login = (\<lambda>_ _ d. (Inl Sql_error, d)),
     sc_send_message = (\<lambda>_ _ d. (False, d)), sc_add_contact = (\<lambda>_ _ d. (False, d)),
     sc_create_chat = (\<lambda>_ _ _ d. (False, d)), sc_get_chats = (\<lambda>_ d. (ChatsResponse_default, d)),
     sc_get_contacts = (\<lambda>_ d. (ContactsResponse_default, d)),
     sc_get_messages = (\<lambda>_ d. (MessagesResponse_default, d))\<rparr>"

lemma ex_small_responses:
  "sendable pb_ref (WrappedMessage_response Response_MSG_NOT_SET)"
  "sendable pb_ref (WrappedMessage_response (status_response ok))"
  "sendable pb_ref (WrappedMessage_response (Response_login_response \<lparr>LoginResponse_profile = None\<rparr>))"
  "sendable pb_ref (WrappedMessage_response (Response_chats_response ChatsResponse_default))"
  "sendable pb_ref (WrappedMessage_response (Response_contacts_response ContactsResponse_default))"
  "sendable pb_ref (WrappedMessage_response (Response_messages_response MessagesResponse_default))"
  by (simp_all add: message_ok_defs message_size_defs status_response_def ACCEPTED_def REJECTED_def
      ChatsResponse_ok_def ChatsResponse_ByteSize_def ChatsResponse_default_def
      ContactsResponse_ok_def ContactsResponse_ByteSize_def ContactsResponse_default_def
      MessagesResponse_ok_def MessagesResponse_ByteSize_def MessagesResponse_default_def pb_ref_def enc_varint.simps)

lemma ex_refusing_fits: "sendable pb_ref (WrappedMessage_response (fst (answer ex_refusing j cs d)))"
  by (cases j; cases cs) (simp_all add: ex_refusing_def for_client_def ex_small_responses)

lemma ex_chats_fit: "sendable pb_ref (WrappedMessage_request createAllMyChatsRequest)"
  by (simp add: createAllMyChatsRequest_def message_ok_defs message_size_defs pb_ref_def enc_varint.simps)

interpretation exw: wired pb_ref ex_ce ex_server
  by unfold_locales (simp_all add: ex_chats_fit)

text \<open>One client has connected and sends a message.\<close>

definition ex_network :: "unit network" where
  "ex_network = net_call ex_ce 0 (Send_message 1 [33]) (net_join ex_server ex_client (network_init ()))"

lemma ex_network_reachable: "net_reachable ex_ce ex_server {ex_refusing} () ex_network"
proof -
  let ?N = "net_join ex_server ex_client (network_init ())"
  have fit: "sendable (cl_pb ex_ce) (WrappedMessage_request (job_request ex_ce (Send_message 1 [33])))"
    unfolding ex_send_job by simp
  have "net_step ex_ce ex_server {ex_refusing} (network_init ()) ?N"
    by (rule join) (simp_all add: network_init_def server_run_def)
  moreover have "net_step ex_ce ex_server {ex_refusing} ?N ex_network"
    unfolding ex_network_def
    by (rule call [OF _ _ fit]) (simp_all add: net_join_def network_init_def)
  ultimately show ?thesis unfolding net_reachable_def by (meson rtranclp.simps)
qed

lemma ex_network_simps:
  "length (nt_clients ex_network) = 1" "nt_calls ex_network = [[Send_message 1 [33]]]"
  "\<not> availible (nt_clients ex_network ! 0)"
  using exw.ready_call [OF ex_client_ready, of "Send_message 1 [33]"] ex_client_ready
  by (simp_all add: ex_network_def net_call_def net_join_def network_init_def Let_def ex_send_job
      [unfolded job_request.simps] asking_def ready_def availible_def)

lemma ex_network_connected: "isConnected (nt_clients ex_network ! 0)"
  and ex_network_left: "nt_left ex_network = []" "nt_jammed ex_network = []" "sv_accepting (nt_server ex_network) = Some ClientSession"
  using ex_client_ready op_connected [of ex_client ex_ce "Send_message 1 [33]"]
  by (simp_all add: ex_network_def net_call_def net_join_def network_init_def Let_def ready_def isConnected_def
      handle_accept_def ex_session_start server_run_def)

lemma ex_network_between: "m_bytesReaded (nt_clients ex_network ! 0) = 0"
  using exw.ready_call(1) [OF ex_client_ready, of "Send_message 1 [33]"]
  by (simp add: ex_network_def net_call_def net_join_def network_init_def Let_def ex_send_job [unfolded job_request.simps]
      asking_def waiting_def)

lemma ex_network_fits: "answers_fit ex_ce ex_server {ex_refusing} ex_refusing 0 ex_network"
  by (simp add: answers_fit_def ex_refusing_fits)

end
