(* ===== verification/Codec_Theorems.thy ===== *)
theory Codec_Theorems
  imports Instances
begin

text \<open>The properties of the generated message code and of the packets, for every runtime that
  satisfies \<open>pb_wire\<close>; the instances use the executable runtime \<open>pb_ref\<close>.\<close>

text \<open>C4. Round trip: parsing what a message was serialised to gives the message back, for every
  request and response, when its strings are valid and its size is within the limits.\<close>

theorem wrapped_message_roundtrip:
  assumes "pb_wire P" and "WrappedMessage_ok P m" and "WrappedMessage_ByteSize P m \<le> total_bytes_limit P"
  shows "parse_from_array P (WrappedMessage_MergePartialFromCodedStream P) WrappedMessage_default
    (WrappedMessage_SerializeToArray P m) = Some m"
proof -
  have "length (WrappedMessage_SerializeToArray P m) \<le> total_bytes_limit P"
    using assms pb_wire.WrappedMessage_size by metis
  with assms(1,2) show ?thesis
    by (simp add: parse_from_array_def pb_wire.WrappedMessage_parse pb_wire.consumed)
qed

theorem wrapped_message_roundtrip_witness:
  "parse_from_array pb_ref (WrappedMessage_MergePartialFromCodedStream pb_ref) WrappedMessage_default
    (WrappedMessage_SerializeToArray pb_ref ex_send_request) = Some ex_send_request"
  by (rule wrapped_message_roundtrip [OF pbr.pb_wire_axioms]) (simp_all add: ex_sendable_ok)

text \<open>C34. Termination of the generated parsers on arbitrary input: whatever bytes a peer sends, the
  tag loop of every one of the 21 messages, nested parsers included, ends with a message or a
  failure within the bound of the model (two steps for each byte and one more); a nested parser
  that exhausted its steps would exhaust those of the parser that calls it.\<close>

theorem parsers_terminate:
  assumes "pb_wire P"
  shows "RegisterRequest_MergePartialFromCodedStream P rr input \<noteq> OutOfFuel \<and>
    LoginRequest_MergePartialFromCodedStream P lr input \<noteq> OutOfFuel \<and>
    AllMyChatsRequest_MergePartialFromCodedStream P ar input \<noteq> OutOfFuel \<and>
    AllMyContactsRequest_MergePartialFromCodedStream P acr input \<noteq> OutOfFuel \<and>
    MessagesRequest_MergePartialFromCodedStream P mr input \<noteq> OutOfFuel \<and>
    MessageToSend_MergePartialFromCodedStream P ms input \<noteq> OutOfFuel \<and>
    SendMessageRequest_MergePartialFromCodedStream P sr input \<noteq> OutOfFuel \<and>
    AddContactRequest_MergePartialFromCodedStream P cr input \<noteq> OutOfFuel \<and>
    CreateChatRequest_MergePartialFromCodedStream P ccr input \<noteq> OutOfFuel \<and>
    Request_MergePartialFromCodedStream P rq input \<noteq> OutOfFuel \<and>
    StatusResponse_MergePartialFromCodedStream P st input \<noteq> OutOfFuel \<and>
    Chat_MergePartialFromCodedStream P ch input \<noteq> OutOfFuel \<and>
    ChatsResponse_MergePartialFromCodedStream P chs input \<noteq> OutOfFuel \<and>
    Contact_MergePartialFromCodedStream P co input \<noteq> OutOfFuel \<and>
    ContactsResponse_MergePartialFromCodedStream P cos input \<noteq> OutOfFuel \<and>
    MessageToRecieve_MergePartialFromCodedStream P me input \<noteq> OutOfFuel \<and>
    MessagesResponse_MergePartialFromCodedStream P mes input \<noteq> OutOfFuel \<and>
    LoginResponse_MergePartialFromCodedStream P lo input \<noteq> OutOfFuel \<and>
    Response_MergePartialFromCodedStream P rs input \<noteq> OutOfFuel \<and>
    WrappedMessage_MergePartialFromCodedStream P w input \<noteq> OutOfFuel \<and>
    LengthPrefix_MergePartialFromCodedStream P lp input \<noteq> OutOfFuel"
  using assms by (simp add: pb_wire.RegisterRequest_total pb_wire.LoginRequest_total pb_wire.AllMyChatsRequest_total
      pb_wire.AllMyContactsRequest_total pb_wire.MessagesRequest_total pb_wire.MessageToSend_total
      pb_wire.SendMessageRequest_total pb_wire.AddContactRequest_total pb_wire.CreateChatRequest_total
      pb_wire.Request_total pb_wire.StatusResponse_total pb_wire.Chat_total
      pb_wire.ChatsResponse_total pb_wire.Contact_total pb_wire.ContactsResponse_total
      pb_wire.MessageToRecieve_total pb_wire.MessagesResponse_total pb_wire.LoginResponse_total
      pb_wire.Response_total pb_wire.WrappedMessage_total pb_wire.LengthPrefix_total)

theorem parsers_terminate_witness:
  "WrappedMessage_MergePartialFromCodedStream pb_ref WrappedMessage_default [255, 255, 10, 200] \<noteq> OutOfFuel"
  by (simp only: parsers_terminate [OF pbr.pb_wire_axioms] not_False_eq_True)

text \<open>C35. The optimised parsers agree with the plain tag loop: in every one of the 21 messages the
  \<open>ExpectTag\<close> jumps between the cases and the \<open>ExpectAtEnd\<close> exits that the generator adds never
  change what is parsed, on any input.\<close>

theorem fast_paths_are_sound:
  assumes "pb_wire P"
  shows "RegisterRequest_MergePartialFromCodedStream P rr input =
      plain_loop P (RegisterRequest_fields P) (Suc (length input)) rr input \<and>
    LoginRequest_MergePartialFromCodedStream P lr input =
      plain_loop P (LoginRequest_fields P) (Suc (length input)) lr input \<and>
    AllMyChatsRequest_MergePartialFromCodedStream P ar input =
      plain_loop P (AllMyChatsRequest_fields P) (Suc (length input)) ar input \<and>
    AllMyContactsRequest_MergePartialFromCodedStream P acr input =
      plain_loop P (AllMyContactsRequest_fields P) (Suc (length input)) acr input \<and>
    MessagesRequest_MergePartialFromCodedStream P mr input =
      plain_loop P (MessagesRequest_fields P) (Suc (length input)) mr input \<and>
    MessageToSend_MergePartialFromCodedStream P ms input =
      plain_loop P (MessageToSend_fields P) (Suc (length input)) ms input \<and>
    SendMessageRequest_MergePartialFromCodedStream P sr input =
      plain_loop P (SendMessageRequest_fields P) (Suc (length input)) sr input \<and>
    AddContactRequest_MergePartialFromCodedStream P cr input =
      plain_loop P (AddContactRequest_fields P) (Suc (length input)) cr input \<and>
    CreateChatRequest_MergePartialFromCodedStream P ccr input =
      plain_loop P (CreateChatRequest_fields P) (Suc (length input)) ccr input \<and>
    Request_MergePartialFromCodedStream P rq input =
      plain_loop P (Request_fields P) (Suc (length input)) rq input \<and>
    StatusResponse_MergePartialFromCodedStream P st input =
      plain_loop P (StatusResponse_fields P) (Suc (length input)) st input \<and>
    Chat_MergePartialFromCodedStream P ch input =
      plain_loop P (Chat_fields P) (Suc (length input)) ch input \<and>
    ChatsResponse_MergePartialFromCodedStream P chs input =
      plain_loop P (ChatsResponse_fields P) (Suc (length input)) chs input \<and>
    Contact_MergePartialFromCodedStream P co input =
      plain_loop P (Contact_fields P) (Suc (length input)) co input \<and>
    ContactsResponse_MergePartialFromCodedStream P cos input =
      plain_loop P (ContactsResponse_fields P) (Suc (length input)) cos input \<and>
    MessageToRecieve_MergePartialFromCodedStream P me input =
      plain_loop P (MessageToRecieve_fields P) (Suc (length input)) me input \<and>
    MessagesResponse_MergePartialFromCodedStream P mes input =
      plain_loop P (MessagesResponse_fields P) (Suc (length input)) mes input \<and>
    LoginResponse_MergePartialFromCodedStream P lo input =
      plain_loop P (LoginResponse_fields P) (Suc (length input)) lo input \<and>
    Response_MergePartialFromCodedStream P rs input =
      plain_loop P (Response_fields P) (Suc (length input)) rs input \<and>
    WrappedMessage_MergePartialFromCodedStream P w input =
      plain_loop P (WrappedMessage_fields P) (Suc (length input)) w input \<and>
    LengthPrefix_MergePartialFromCodedStream P lp input =
      plain_loop P (LengthPrefix_fields P) (Suc (length input)) lp input"
  using assms by (simp add: pb_wire.RegisterRequest_plain pb_wire.LoginRequest_plain pb_wire.AllMyChatsRequest_plain
      pb_wire.AllMyContactsRequest_plain pb_wire.MessagesRequest_plain pb_wire.MessageToSend_plain
      pb_wire.SendMessageRequest_plain pb_wire.AddContactRequest_plain pb_wire.CreateChatRequest_plain
      pb_wire.Request_plain pb_wire.StatusResponse_plain pb_wire.Chat_plain
      pb_wire.ChatsResponse_plain pb_wire.Contact_plain pb_wire.ContactsResponse_plain
      pb_wire.MessageToRecieve_plain pb_wire.MessagesResponse_plain pb_wire.LoginResponse_plain
      pb_wire.Response_plain pb_wire.WrappedMessage_plain pb_wire.LengthPrefix_plain
      del: plain_loop.simps)

theorem fast_paths_are_sound_witness:
  "RegisterRequest_MergePartialFromCodedStream pb_ref RegisterRequest_default [10, 1, 97, 18, 1, 98] =
   plain_loop pb_ref (RegisterRequest_fields pb_ref) (Suc (length [10, 1, 97, 18, 1, 98 :: byte]))
     RegisterRequest_default [10, 1, 97, 18, 1, 98]"
  by (simp only: fast_paths_are_sound [OF pbr.pb_wire_axioms])

end
