(* ===== verification/Storage_Stale.thy ===== *)
theory Storage_Stale
  imports Storage_Ops
begin

text \<open>
  Two connections at work on the tables at once. The server has two workers and every session
  a connection of its own, and the transactions run at the default isolation level of
  PostgreSQL, where each statement sees what was committed before it began. The operations
  that first query and then write are run here with another transaction that commits between
  the two: the query sees the tables \<open>d\<close>, everything after it the tables \<open>d1\<close>.
\<close>

section \<open>Operations with a commit in between\<close>

definition run_between :: "pg_env \<Rightarrow> 'a txn \<Rightarrow> ('a \<Rightarrow> 'b txn) \<Rightarrow> db \<Rightarrow> db \<Rightarrow> (exn + 'b) \<times> db" where
  "run_between env query rest d d1 =
     (case pg_fault env 0 of
        Some e \<Rightarrow> (Inl e, d1)
      | None \<Rightarrow>
          (case query \<lparr>calls = 1, view = d, committed = d\<rparr> of
             (Inl e, w) \<Rightarrow> (Inl e, d1)
           | (Inr x, w) \<Rightarrow>
               (case rest x (w\<lparr>view := d1, committed := d1\<rparr>) of (r, w') \<Rightarrow> (r, work_end w'))))"

definition send_message_between :: "pg_env \<Rightarrow> u64 \<Rightarrow> MessageToSend \<Rightarrow> db \<Rightarrow> db \<Rightarrow> bool \<times> db" where
  "send_message_between env sender_id mesg d d1 =
     catch_false (run_between env (can_write env sender_id (MessageToSend_chat_id mesg))
       (send_message_rest env sender_id mesg) d d1)"

definition add_contact_between :: "pg_env \<Rightarrow> u64 \<Rightarrow> bytes \<Rightarrow> db \<Rightarrow> db \<Rightarrow> bool \<times> db" where
  "add_contact_between env user_id email d d1 =
     catch_false (run_between env (txn_exec env (stmt_get_user_by_email env email))
       (add_contact_rest env user_id) d d1)"

definition create_chat_between :: "pg_env \<Rightarrow> u64 \<Rightarrow> bytes \<Rightarrow> u64 \<Rightarrow> db \<Rightarrow> db \<Rightarrow> bool \<times> db" where
  "create_chat_between env user_id user_name friend_id d d1 =
     catch_false (run_between env (txn_exec env (stmt_check_users_have_common_chat env user_id friend_id))
       (create_chat_rest env user_id user_name friend_id) d d1)"

lemmas between_defs = send_message_between_def add_contact_between_def create_chat_between_def

text \<open>With nothing committed in between they are the operations of the connection.\<close>

lemma run_between_same:
  assumes "\<And>w. view (snd (query w)) = view w \<and> committed (snd (query w)) = committed w"
  shows "run_between env query rest d d = run_work env (txn_bind query rest) d"
proof -
  obtain r w where q: "query \<lparr>calls = 1, view = d, committed = d\<rparr> = (r, w)" by fastforce
  then have w: "view w = d" "committed w = d"
    using assms [of "\<lparr>calls = 1, view = d, committed = d\<rparr>"] by simp_all
  then have "work_end w = d" "w\<lparr>view := d, committed := d\<rparr> = w" by (simp_all add: work_end_def)
  with q show ?thesis
    by (cases r) (simp_all add: run_between_def run_work_def txn_bind_def split: option.splits)
qed

lemma txn_exec_reads:
  assumes "\<And>d. snd (st d) = d"
  shows "view (snd (txn_exec env st w)) = view w \<and> committed (snd (txn_exec env st w)) = committed w"
  using assms [of "view w"] by (simp add: txn_exec_def split: option.splits prod.splits) auto

lemma can_write_snd:
  "snd (can_write env s c w) =
    snd (txn_exec env (stmt_check_sender_able_to_write_to_chat env s c) w)"
  by (simp add: can_write_def split: prod.splits sum.splits)

lemma between_alone:
  "send_message_between env u m d d = send_message env u m d"
  "add_contact_between env u mail d d = add_contact env u mail d"
  "create_chat_between env u name f d d = create_chat env u name f d"
  unfolding between_defs send_message_def add_contact_def create_chat_def
  by (subst run_between_same; simp add: can_write_snd txn_exec_reads query_stmts_read)+

section \<open>What the other connections do\<close>

text \<open>No operation removes or changes a row of the tables the queries read.\<close>

definition grows :: "db \<Rightarrow> db \<Rightarrow> bool" where
  "grows d d1 \<longleftrightarrow> set (Client d) \<subseteq> set (Client d1) \<and> set (ClientToChat d) \<subseteq> set (ClientToChat d1)"

lemma operations_grow:
  "grows d (snd (registration sha env name mail password d))" "grows d (snd (send_message env u m d))"
  "grows d (snd (add_contact env u mail d))" "grows d (snd (create_chat env u name f d))"
  using operations_upwards upwards_clients upwards_links unfolding grows_def by metis+

lemma grows_member: "grows d d1 \<Longrightarrow> chat_member d i c \<Longrightarrow> chat_member d1 i c"
  by (auto simp: grows_def chat_member_def)

section \<open>Old answers that stay true\<close>

text \<open>
  A membership and the owner of an email never change, so the writes of \<open>send_message\<close> and
  \<open>add_contact\<close> do the same as if the query had come after the other commit.
\<close>

lemma run_between_eq:
  assumes "pg_fault env 0 = None"
    and "query \<lparr>calls = 1, view = d, committed = d\<rparr> = (Inr x, \<lparr>calls = k, view = d, committed = d\<rparr>)"
    and "query \<lparr>calls = 1, view = d1, committed = d1\<rparr> = (Inr x, \<lparr>calls = k, view = d1, committed = d1\<rparr>)"
  shows "run_between env query rest d d1 = run_work env (txn_bind query rest) d1"
  using assms by (simp add: run_between_def run_work_def txn_bind_def)

lemma send_message_between_eq:
  assumes "grows d d1"
  shows "send_message_between env u m d d1 = send_message env u m d1 \<or> send_message_between env u m d d1 = (False, d1)"
proof (cases "pg_fault env 0")
  case None
  let ?w = "\<lambda>d. \<lparr>calls = 1, view = d, committed = d\<rparr>" and ?v = "\<lambda>d. \<lparr>calls = 2, view = d, committed = d\<rparr>"
  let ?q = "can_write env u (MessageToSend_chat_id m)"
  have "\<exists>b. ?q (?w d) = (Inr b, ?v d)"
    by (auto simp: can_write_def txn_exec_def stmt_check_sender_able_to_write_to_chat_def split: option.splits)
  then obtain b where b: "?q (?w d) = (Inr b, ?v d)" ..
  show ?thesis
  proof (cases b)
    case True
    then have "pg_fault env 1 = None" and "\<exists>i c. int4 u = Some i \<and> int4 (MessageToSend_chat_id m) = Some c \<and> chat_member d i c"
      using b by (auto simp: can_write_def txn_exec_def stmt_check_sender_able_to_write_to_chat_def
          filter_empty_conv chat_member_def split: option.splits)
    then have "?q (?w d1) = (Inr b, ?v d1)"
      using grows_member [OF assms] True can_write_eq [of env "?w d1" u _ "MessageToSend_chat_id m"] by auto
    with b run_between_eq [OF None, of ?q d b 2 d1 "send_message_rest env u m"] show ?thesis
      by (simp add: send_message_between_def send_message_def)
  next
    case False
    with b None have "send_message_between env u m d d1 = (False, d1)"
      by (simp add: send_message_between_def run_between_def send_message_rest_def txn_throw_def)
    then show ?thesis ..
  qed
next
  case (Some e)
  then show ?thesis by (cases e) (simp_all add: send_message_between_def run_between_def)
qed

lemma add_contact_between_eq:
  assumes "grows d d1" and "tables_ok d" and "tables_ok d1"
  shows "add_contact_between env u mail d d1 = add_contact env u mail d1 \<or> add_contact_between env u mail d d1 = (False, d1)"
proof (cases "pg_fault env 0")
  case None
  let ?w = "\<lambda>d. \<lparr>calls = 1, view = d, committed = d\<rparr>" and ?v = "\<lambda>d. \<lparr>calls = 2, view = d, committed = d\<rparr>"
  let ?q = "txn_exec env (stmt_get_user_by_email env mail)"
  show ?thesis
  proof (cases "\<exists>row \<in> set (Client d). pg_text env mail = Some (cl_email row)")
    case True
    then obtain row where row: "row \<in> set (Client d)" "row \<in> set (Client d1)" "pg_text env mail = Some (cl_email row)"
      using assms(1) by (auto simp: grows_def)
    show ?thesis
    proof (cases "pg_fault env 1")
      case None
      have "?q (?w d) = (Inr [row], ?v d)" "?q (?w d1) = (Inr [row], ?v d1)"
        using stmt_get_user_by_email_row [OF assms(2) row(1,3)] stmt_get_user_by_email_row [OF assms(3) row(2,3)] None
        by (simp_all add: txn_exec_def)
      with run_between_eq [OF \<open>pg_fault env 0 = None\<close>, of ?q d "[row]" 2 d1 "add_contact_rest env u"] show ?thesis
        by (simp add: add_contact_between_def add_contact_def)
    next
      case (Some e)
      then show ?thesis using None
        by (cases e) (simp_all add: add_contact_between_def run_between_def txn_exec_def)
    qed
  next
    case False
    then have "\<exists>r. ?q (?w d) = (r, ?v d) \<and> (r = Inr [] \<or> (\<exists>e. r = Inl e))"
      by (auto simp: txn_exec_def stmt_get_user_by_email_def filter_empty_conv split: option.splits)
    then obtain r where r: "?q (?w d) = (r, ?v d)" "r = Inr [] \<or> (\<exists>e. r = Inl e)" by blast
    have "fst (add_contact_between env u mail d d1) = False" "snd (add_contact_between env u mail d d1) = d1"
      using r None by (auto simp: add_contact_between_def run_between_def add_contact_rest_def txn_return_def)
    then show ?thesis by (metis prod.collapse)
  qed
next
  case (Some e)
  then show ?thesis by (cases e) (simp_all add: add_contact_between_def run_between_def)
qed

section \<open>An old answer that does not\<close>

text \<open>The writes of \<open>create_chat\<close>, from tables where both clients exist.\<close>

lemma create_chat_rest_success:
  assumes inv: "tables_ok d1" and up: "pg_up env"
    and m: "int4 u = Some i" "i \<in> cl_id ` set (Client d1)" "row \<in> set (Client d1)" "int4 f = Some (cl_id row)"
      "pg_text env (str ''Chat with '' @ cl_name row) = Some t1"
      "pg_text env (str ''Chat with '' @ name) = Some t2" "Chat_seq d1 < max_int4"
  shows "\<exists>w. create_chat_rest env u name f [] \<lparr>calls = k, view = d1, committed = d1\<rparr> = (Inr True, w) \<and>
    work_end w = d1\<lparr>Chat_ids := Chat_ids d1 @ [Chat_seq d1 + 1], Chat_seq := Chat_seq d1 + 1,
      ClientToChat := ClientToChat d1 @
        [\<lparr>cc_client_id = i, cc_chat_id = Chat_seq d1 + 1, cc_title = t1\<rparr>,
         \<lparr>cc_client_id = cl_id row, cc_chat_id = Chat_seq d1 + 1, cc_title = t2\<rparr>]\<rparr>"
proof -
  obtain k' where k: "k' = Chat_seq d1 + 1" by blast
  have new: "k' \<notin> set (Chat_ids d1)" "0 \<le> k'" "k' \<le> max_int4"
    using inv m(7) by (force simp: k tables_ok_def chats_ok_def)+
  have "stmt_create_chat d1 = (Inr k', d1\<lparr>Chat_seq := k', Chat_ids := Chat_ids d1 @ [k']\<rparr>)"
    using stmt_create_chat_Inr [of d1 k'] m(7) new(1) by (simp add: k)
  with m up new filter_client_id [OF inv m(3)] show ?thesis
    by (simp add: create_chat_rest_def txn_defs stmt_get_info_def stmt_create_chat_connection_def k [symmetric])
qed

text \<open>Whatever the query saw, the chat is written as a whole on the tables as they are now, or nothing is.\<close>

lemma create_chat_between_outcome:
  assumes "create_chat_between env u name f d d1 = (b, d')"
  shows "chat_written env u name f d1 d' \<and> (b \<or> pg_in_doubt env)
       \<or> \<not> b \<and> same_tables d1 d' \<and> seqs_forward d1 d'"
proof (cases "pg_fault env 0")
  case None
  let ?q = "txn_exec env (stmt_check_users_have_common_chat env u f)"
  obtain r w where q: "?q \<lparr>calls = 1, view = d, committed = d\<rparr> = (r, w)" by fastforce
  show ?thesis
  proof (cases r)
    case (Inl e)
    with assms q None show ?thesis by (simp add: create_chat_between_def run_between_def)
  next
    case (Inr req)
    let ?w = "\<lparr>calls = calls w, view = d1, committed = d1\<rparr>"
    obtain r' w' where rest: "create_chat_rest env u name f req ?w = (r', w')" by fastforce
    have "catch_false (r', work_end w') = (b, d')"
      using assms q None Inr rest by (cases w) (simp add: create_chat_between_def run_between_def)
    with tx_create_chat_rest rest show ?thesis by (rule tx_result)
  qed
qed (use assms in \<open>simp add: create_chat_between_def run_between_def\<close>)

lemma create_chat_between_keeps:
  shows "tables_ok d1 \<Longrightarrow> tables_ok (snd (create_chat_between env u name f d d1))"
    and "d1 \<le> snd (create_chat_between env u name f d d1)"
    and "\<not> fst (create_chat_between env u name f d d1) \<Longrightarrow> \<not> pg_in_doubt env \<Longrightarrow>
      visible_same d1 (snd (create_chat_between env u name f d d1))"
proof -
  note made = create_chat_between_outcome [of env u name f d d1, OF prod.collapse [symmetric]]
  show "tables_ok d1 \<Longrightarrow> tables_ok (snd (create_chat_between env u name f d d1))"
    using made tables_ok_chat_written tables_ok_same_tables by blast
  show "d1 \<le> snd (create_chat_between env u name f d d1)"
    using made outcomes_upwards(4) forward_upwards by blast
  show "\<not> fst (create_chat_between env u name f d d1) \<Longrightarrow> \<not> pg_in_doubt env \<Longrightarrow>
      visible_same d1 (snd (create_chat_between env u name f d d1))"
    using made by (auto simp: visible_same_def)
qed

text \<open>
  Two clients who create their chat at the same time, each before the other has committed, get
  two chats, and the tables lose the invariant that they have at most one in common.
\<close>

lemma create_chat_between_twice:
  assumes inv: "tables_ok d" and up: "pg_up env" and seq: "Chat_seq d + 1 < max_int4"
    and one: "create_chat env u name f d = (True, d1)" and two: "fst (create_chat env f name' u d)"
    and differ: "u \<noteq> f"
  shows "\<exists>d2 i j c c'. create_chat_between env f name' u d d1 = (True, d2) \<and> c \<noteq> c' \<and> i \<noteq> j \<and>
    int4 u = Some i \<and> int4 f = Some j \<and> chat_member d2 i c \<and> chat_member d2 j c \<and>
    chat_member d2 i c' \<and> chat_member d2 j c'"
proof -
  have made: "chat_created env u name f d d1" using create_chat_outcome [OF one] by simp
  have inv1: "tables_ok d1" using operations_tables_ok(4) [OF inv, of env u name f] one by simp
  from made have "\<exists>i j. int4 u = Some i \<and> int4 f = Some j \<and> Chat_seq d1 = Chat_seq d + 1 \<and>
      chat_member d1 i (Chat_seq d1) \<and> chat_member d1 j (Chat_seq d1)"
    by (auto simp: chat_created_defs chat_member_def)
  then obtain i j where ij: "int4 u = Some i" "int4 f = Some j" and seq1: "Chat_seq d1 = Chat_seq d + 1"
    and old: "chat_member d1 i (Chat_seq d1)" "chat_member d1 j (Chat_seq d1)" by blast
  have differ': "i \<noteq> j" using differ ij int4_inj by blast
  obtain row t1 t2 where row: "row \<in> set (Client d)" "int4 u = Some (cl_id row)" "j \<in> cl_id ` set (Client d)"
    "\<not> (\<exists>c. chat_member d j c \<and> chat_member d i c)"
    "pg_text env (str ''Chat with '' @ cl_name row) = Some t1" "pg_text env (str ''Chat with '' @ name') = Some t2"
    using two create_chat_success [OF inv up, of f name' u] ij by (auto simp: may_create_chat_def)
  have "grows d d1" using operations_grow(4) [of d env u name f] one by simp
  then have now: "row \<in> set (Client d1)" "j \<in> cl_id ` set (Client d1)" using row by (auto simp: grows_def)
  have "Chat_seq d1 < max_int4" using seq seq1 by simp
  from create_chat_rest_success [OF inv1 up ij(2) now(2,1) row(2) row(5,6) this, of "Suc (Suc 0)"] obtain w where
    w: "create_chat_rest env f name' u [] \<lparr>calls = Suc (Suc 0), view = d1, committed = d1\<rparr> = (Inr True, w)"
    and d2: "work_end w = d1\<lparr>Chat_ids := Chat_ids d1 @ [Chat_seq d1 + 1], Chat_seq := Chat_seq d1 + 1,
      ClientToChat := ClientToChat d1 @
        [\<lparr>cc_client_id = j, cc_chat_id = Chat_seq d1 + 1, cc_title = t1\<rparr>,
         \<lparr>cc_client_id = cl_id row, cc_chat_id = Chat_seq d1 + 1, cc_title = t2\<rparr>]\<rparr>" by blast
  have "create_chat_between env f name' u d d1 = (True, work_end w)"
    using w up stmt_common_chat_none [OF ij(2,1) row(4), of env]
    by (simp add: create_chat_between_def run_between_def txn_exec_def)
  moreover have "cl_id row = i" using row(2) ij(1) by simp
  then have "chat_member (work_end w) i (Chat_seq d1 + 1)" "chat_member (work_end w) j (Chat_seq d1 + 1)"
    "chat_member (work_end w) i (Chat_seq d1)" "chat_member (work_end w) j (Chat_seq d1)"
    using old by (auto simp: d2 chat_member_def)
  ultimately show ?thesis using ij differ'
    by (intro exI [of _ "work_end w"] exI [of _ i] exI [of _ j] exI [of _ "Chat_seq d1"] exI [of _ "Chat_seq d1 + 1"]) simp
qed

lemma two_common_chats: "\<lbrakk>c \<noteq> c'; i \<noteq> j; chat_member d i c; chat_member d j c; chat_member d i c';
    chat_member d j c'\<rbrakk> \<Longrightarrow> \<not> one_chat d"
  unfolding one_chat_def by blast

end
