(* ===== verification/Storage_Theorems.thy ===== *)
theory Storage_Theorems
  imports Instances Storage_Stale
begin

text \<open>The properties of the storage layer, each with an instance on concrete tables.\<close>

section \<open>Every operation, every behaviour of the engine\<close>

text \<open>C3. The invariants of the tables (unique clients and emails, every chat with its two
  links, every message from a member of its chat, contacts symmetric and irreflexive,
  sequences ahead of the keys; and in \<open>db_inv\<close> at most one chat between two clients) survive
  every operation of the connection, whatever call of the database library fails and even when
  the outcome of a commit is unknown.\<close>

theorem operations_keep_tables_consistent:
  assumes "I \<in> {tables_ok, db_inv}" and "I d"
  shows "I (snd (registration sha env name mail password d)) \<and>
    I (snd (send_message env u m d)) \<and> I (snd (add_contact env u mail d)) \<and>
    I (snd (create_chat env u name f d)) \<and> snd (login sha env mail password d) = d \<and>
    snd (get_chats env u d) = d \<and> snd (get_contacts env u d) = d \<and> snd (get_messages env c d) = d"
  by (simp add: operations_keep [OF assms] login_snd get_chats_snd get_contacts_snd get_messages_snd)

theorem operations_keep_tables_consistent_witness:
  "db_inv (snd (add_contact ex_pg 1 [101, 64] ex_db))"
  using operations_keep_tables_consistent [of db_inv ex_db _ ex_pg _ "[101, 64]" _ 1] ex_db_inv by blast

text \<open>C14. The identifiers the server hands out: whatever the engine does, those of a login and of
  the chats, contacts and senders in a response are positive, fit the \<open>INTEGER\<close> columns, so that
  the server takes each of them back as a parameter, and name a row of the tables. In
  particular no conversion of a column fails and no response has an element with the default
  identifier 0.\<close>

theorem identifiers_in_range:
  assumes "tables_ok d"
  shows "(\<forall>i name. fst (login sha env mail password d) = Inr (i, name) \<longrightarrow> identifies (cl_id ` set (Client d)) i) \<and>
    (\<forall>chat \<in> set (ChatsResponse_chats (fst (get_chats env u d))).
       identifies (set (Chat_ids d)) (Chat_chat_id chat)) \<and>
    (\<forall>contact \<in> set (ContactsResponse_contacts (fst (get_contacts env u d))).
       identifies (cl_id ` set (Client d)) (Contact_user_id contact)) \<and>
    (\<forall>mesg \<in> set (MessagesResponse_messages (fst (get_messages env c d))).
       identifies (cl_id ` set (Client d)) (MessageToRecieve_sender_id mesg))"
  using login_identifies [OF assms] get_chats_identify [OF assms] get_contacts_identify [OF assms]
    get_messages_identify [OF assms] by blast

theorem identifiers_in_range_witness:
  "identifies (cl_id ` set (Client ex_db)) 1"
  using identifiers_in_range [OF ex_tables_ok, of ex_sha ex_pg "[97, 64]" "[1]"] ex_login by (metis fst_conv)

text \<open>C23. Atomicity: an operation that returns false has changed no table (sequences may have
  moved), unless the connection was lost during the commit and the server applied it.\<close>

theorem refused_operations_change_nothing:
  assumes "\<not> pg_in_doubt env"
  shows "(\<not> fst (registration sha env name mail password d) \<longrightarrow>
      same_tables d (snd (registration sha env name mail password d))) \<and>
    (\<not> fst (send_message env u m d) \<longrightarrow> same_tables d (snd (send_message env u m d))) \<and>
    (\<not> fst (add_contact env u mail d) \<longrightarrow> same_tables d (snd (add_contact env u mail d))) \<and>
    (\<not> fst (create_chat env u name f d) \<longrightarrow> same_tables d (snd (create_chat env u name f d)))"
  using refused_same [OF assms] by (auto simp: visible_same_def)

theorem refused_operations_change_nothing_witness:
  "\<not> fst (add_contact ex_faulty 1 [101, 64] ex_db) \<and>
   same_tables ex_db (snd (add_contact ex_faulty 1 [101, 64] ex_db))"
proof -
  have "\<not> fst (add_contact ex_faulty 1 [101, 64] ex_db)"
    by (simp add: add_contact_def add_contact_rest_def txn_defs ex_faulty_def ex_pg_def stmt_get_user_by_email_def
        stmt_add_contact_def ex_tables int4_def as_u64_def)
  moreover have "\<not> pg_in_doubt ex_faulty" by (simp add: ex_faulty_def)
  ultimately show ?thesis using refused_operations_change_nothing by blast
qed

text \<open>C15. Soundness of login for every behaviour of the engine: when \<open>login\<close> returns an
  identifier and a name, they are those of the client with the given email, and the hash of
  the given password is the stored one.\<close>

theorem login_only_with_the_password:
  assumes "tables_ok d" and "fst (login sha env mail password d) = Inr (i, name)"
  shows "\<exists>row \<in> set (Client d). pg_quote env mail = Some (cl_email row) \<and>
    cl_password_hash row = hash_password sha password \<and> i = word_of_int (cl_id row) \<and> name = cl_name row"
  by (rule login_sound [OF assms])

theorem login_only_with_the_password_witness:
  "\<exists>row \<in> set (Client ex_db). pg_quote ex_pg [97, 64] = Some (cl_email row) \<and>
    cl_password_hash row = hash_password ex_sha [1] \<and> (1 :: u64) = word_of_int (cl_id row) \<and> [97] = cl_name row"
  by (rule login_only_with_the_password [OF ex_tables_ok]) (simp add: ex_login)

section \<open>Registration and login\<close>

text \<open>Registration succeeds exactly when the engine accepts the texts, no client has the
  email and a key is left; then one client row with the hash of the password is added and
  nothing else changes, otherwise the tables stay as they are.\<close>

lemma registration_outcome_iff:
  assumes "tables_ok d" and "pg_up env" and "\<not> pg_in_doubt env"
  shows "(fst (registration sha env name mail password d) \<longleftrightarrow>
      (\<exists>n e. pg_text env name = Some n \<and> pg_text env mail = Some e \<and> e \<notin> cl_email ` set (Client d)) \<and>
      Client_seq d < max_int4) \<and>
    (if fst (registration sha env name mail password d)
     then registered env name mail (hash_password sha password) d (snd (registration sha env name mail password d))
     else same_tables d (snd (registration sha env name mail password d)))"
proof -
  obtain b d' where run: "registration sha env name mail password d = (b, d')" by fastforce
  from registration_outcome [OF run] assms(3) have "if b then registered env name mail (hash_password sha password) d d'
      else same_tables d d'" by auto
  with registration_success [OF assms(1,2), of sha name mail password] run show ?thesis by simp
qed

lemma registration_outcome_iff_example:
  "fst (registration ex_sha ex_pg [122] [122, 64] [9] ex_db) \<and>
   registered ex_pg [122] [122, 64] (hash_password ex_sha [9]) ex_db
     (snd (registration ex_sha ex_pg [122] [122, 64] [9] ex_db))"
  using registration_outcome_iff [of ex_db ex_pg ex_sha "[122]" "[122, 64]" "[9]"] ex_new_email
  by (metis ex_tables_ok ex_pg_simps(1,5) fst_conv)

text \<open>C16. After a registration a login with the same email and password returns the name that
  was registered and an identifier no client had before; with a password of another hash
  it raises \<open>std::invalid_argument\<close>.\<close>

theorem registration_then_login:
  assumes "tables_ok d" and run: "registration sha env name mail password d = (True, d')"
    and up: "pg_up env'" and "pg_quote env' mail = pg_text env mail"
  shows "\<exists>i n. pg_text env name = Some n \<and> (\<forall>row \<in> set (Client d). i \<noteq> word_of_int (cl_id row)) \<and>
     (\<forall>password'. login sha env' mail password' d' =
        (if hash_password sha password' = hash_password sha password then Inr (i, n)
         else Inl Invalid_argument, d'))"
proof -
  have "registered env name mail (hash_password sha password) d d'"
    using registration_outcome [OF run] by simp
  then obtain n e where new: "pg_text env name = Some n" "pg_text env mail = Some e" "Client_seq d < max_int4"
    and d': "d' = d\<lparr>Client := Client d @ [\<lparr>cl_id = Client_seq d + 1, cl_name = n, cl_email = e,
                 cl_password_hash = hash_password sha password\<rparr>], Client_seq := Client_seq d + 1\<rparr>"
    by (auto simp: registered_def)
  let ?row = "\<lparr>cl_id = Client_seq d + 1, cl_name = n, cl_email = e, cl_password_hash = hash_password sha password\<rparr>"
  have inv': "tables_ok d'" using operations_tables_ok(1) [OF assms(1), of sha env name mail password] run by simp
  have row: "?row \<in> set (Client d')" by (simp add: d')
  have "word_of_int (Client_seq d + 1) \<noteq> (word_of_int (cl_id c) :: u64)" if "c \<in> set (Client d)" for c
  proof -
    have "cl_id c < Client_seq d + 1" "1 \<le> cl_id c"
      using assms(1) that by (force simp: tables_ok_def clients_ok_def)+
    with new(3) int4_of_int [of "cl_id c"] int4_of_int [of "Client_seq d + 1"] show ?thesis by force
  qed
  moreover have "login sha env' mail password' d' =
      (if hash_password sha password' = hash_password sha password
       then Inr (word_of_int (Client_seq d + 1), n) else Inl Invalid_argument, d')" for password'
    using login_row [OF inv' up row, of mail sha password'] assms(4) new(2) by (auto simp del: of_int_add)
  ultimately show ?thesis using new(1) by blast
qed

theorem registration_then_login_witness:
  "\<exists>i n. pg_text ex_pg [122] = Some n \<and> (\<forall>row \<in> set (Client ex_db). i \<noteq> word_of_int (cl_id row)) \<and>
     (\<forall>password'. login ex_sha ex_pg [122, 64] password' (snd (registration ex_sha ex_pg [122] [122, 64] [9] ex_db)) =
        (if hash_password ex_sha password' = hash_password ex_sha [9] then Inr (i, n)
         else Inl Invalid_argument, snd (registration ex_sha ex_pg [122] [122, 64] [9] ex_db)))"
  by (rule registration_then_login [OF ex_tables_ok ex_new_email]) simp_all

section \<open>Messages, contacts and chats\<close>

text \<open>C17. A message is accepted exactly when its sender is linked to the chat (and the engine
  takes the text and has a key left); an accepted message is one new row and a refused one
  leaves the tables as they are.\<close>

theorem only_members_write:
  assumes "tables_ok d" and "pg_up env" and "\<not> pg_in_doubt env"
  shows "(fst (send_message env u m d) \<longleftrightarrow>
      (\<exists>s c. int4 u = Some s \<and> int4 (MessageToSend_chat_id m) = Some c \<and> chat_member d s c) \<and>
      pg_text env (MessageToSend_text m) \<noteq> None \<and> Message_seq d < max_int8) \<and>
    (if fst (send_message env u m d) then message_sent env u m d (snd (send_message env u m d))
     else same_tables d (snd (send_message env u m d)))"
proof -
  obtain b d' where run: "send_message env u m d = (b, d')" by fastforce
  from send_message_outcome [OF run] assms(3) have "if b then message_sent env u m d d' else same_tables d d'"
    by auto
  with send_message_success [OF assms(1,2), of u m] run show ?thesis by simp
qed

theorem only_members_write_witness:
  "message_sent ex_pg 1 ex_mesg ex_db (snd (send_message ex_pg 1 ex_mesg ex_db)) \<and>
   same_tables ex_db (snd (send_message ex_pg 3 ex_mesg ex_db))"
proof -
  have "\<not> fst (send_message ex_pg 3 ex_mesg ex_db)"
    using only_members_write [of ex_db ex_pg 3 ex_mesg] by (simp add: ex_member ex_mesg_def)
  with only_members_write [of ex_db ex_pg 1 ex_mesg] only_members_write [of ex_db ex_pg 3 ex_mesg] ex_send
  show ?thesis by (metis ex_tables_ok ex_pg_simps(1,5) fst_conv)
qed

text \<open>C31. After an accepted message a read of its chat gives the earlier messages and this one,
  with the identifier of its sender; every other chat reads as before.\<close>

theorem sent_messages_are_read:
  assumes "tables_ok d" and "send_message env u m d = (True, d')" and "pg_up env'"
  shows "(\<exists>t. pg_text env (MessageToSend_text m) = Some t \<and>
      mset (MessagesResponse_messages (fst (get_messages env' (MessageToSend_chat_id m) d'))) =
      add_mset \<lparr>MessageToRecieve_sender_id = u, MessageToRecieve_text = t\<rparr>
        (mset (MessagesResponse_messages (fst (get_messages env' (MessageToSend_chat_id m) d))))) \<and>
    (\<forall>c i. int4 c = Some i \<longrightarrow> c \<noteq> MessageToSend_chat_id m \<longrightarrow>
      mset (MessagesResponse_messages (fst (get_messages env' c d'))) =
      mset (MessagesResponse_messages (fst (get_messages env' c d))))"
  using send_message_then_read [OF assms] send_message_other_chats [OF assms] by blast

theorem sent_messages_are_read_witness:
  "mset (MessagesResponse_messages (fst (get_messages ex_pg 1 (snd (send_message ex_pg 1 ex_mesg ex_db))))) =
   {#\<lparr>MessageToRecieve_sender_id = 1, MessageToRecieve_text = [33]\<rparr>,
     \<lparr>MessageToRecieve_sender_id = 2, MessageToRecieve_text = [104, 105]\<rparr>#}"
proof -
  have "mset (MessagesResponse_messages (fst (get_messages ex_pg 1 ex_db))) =
      {#\<lparr>MessageToRecieve_sender_id = 2, MessageToRecieve_text = [104, 105]\<rparr>#}"
    by (simp add: get_messages_reads_rows [where i = 1]) (simp add: ex_tables message_of_row_def)
  with sent_messages_are_read [OF ex_tables_ok ex_send, of ex_pg] show ?thesis
    by (simp add: ex_mesg_def)
qed

text \<open>C29. A contact is added exactly when the email belongs to another client who is not yet a
  contact; the tables then gain the links in both directions, and otherwise stay.\<close>

theorem contact_added_iff:
  assumes "tables_ok d" and "pg_up env" and "\<not> pg_in_doubt env"
  shows "(fst (add_contact env u mail d) \<longleftrightarrow>
      (\<exists>i row. int4 u = Some i \<and> i \<in> cl_id ` set (Client d) \<and> row \<in> set (Client d) \<and>
         pg_text env mail = Some (cl_email row) \<and> i \<noteq> cl_id row \<and> \<not> linked d i (cl_id row))) \<and>
    (if fst (add_contact env u mail d) then contact_added env u mail d (snd (add_contact env u mail d))
     else same_tables d (snd (add_contact env u mail d)))"
proof -
  obtain b d' where run: "add_contact env u mail d = (b, d')" by fastforce
  from add_contact_outcome [OF run] assms(3) have "if b then contact_added env u mail d d' else same_tables d d'"
    by auto
  with add_contact_success [OF assms(1,2), of u mail] run show ?thesis by simp
qed

theorem contact_added_iff_witness:
  "contact_added ex_pg 1 [101, 64] ex_db (snd (add_contact ex_pg 1 [101, 64] ex_db))"
  using contact_added_iff [of ex_db ex_pg 1 "[101, 64]"] ex_add by (metis ex_tables_ok ex_pg_simps(1,5) fst_conv)

text \<open>C30. After a contact was added both clients have each other in the contacts they read,
  and the contacts of every other client read as before.\<close>

theorem contacts_are_mutual:
  assumes "tables_ok d" and "add_contact env u mail d = (True, d')" and "pg_up env'"
  shows "\<exists>me friend. me \<in> set (Client d) \<and> friend \<in> set (Client d) \<and> me \<noteq> friend \<and>
     u = word_of_int (cl_id me) \<and> pg_text env mail = Some (cl_email friend) \<and>
     (\<forall>row \<in> set (Client d).
        mset (ContactsResponse_contacts (fst (get_contacts env' (word_of_int (cl_id row)) d'))) =
        mset (ContactsResponse_contacts (fst (get_contacts env' (word_of_int (cl_id row)) d))) +
        (if row = me then {#contact_of_row friend#}
         else if row = friend then {#contact_of_row me#} else {#}))"
  by (rule add_contact_then_read [OF assms])

theorem contacts_are_mutual_witness:
  "\<exists>me friend. me \<in> set (Client ex_db) \<and> friend \<in> set (Client ex_db) \<and> me \<noteq> friend \<and>
     (1 :: u64) = word_of_int (cl_id me) \<and> pg_text ex_pg [101, 64] = Some (cl_email friend) \<and>
     (\<forall>row \<in> set (Client ex_db).
        mset (ContactsResponse_contacts (fst (get_contacts ex_pg (word_of_int (cl_id row))
          (snd (add_contact ex_pg 1 [101, 64] ex_db))))) =
        mset (ContactsResponse_contacts (fst (get_contacts ex_pg (word_of_int (cl_id row)) ex_db))) +
        (if row = me then {#contact_of_row friend#}
         else if row = friend then {#contact_of_row me#} else {#}))"
  by (rule contacts_are_mutual [OF ex_tables_ok ex_add]) simp

text \<open>C27. A chat between two clients is created exactly when both exist and have none yet (and
  the engine takes the titles and has a key left); the new chat then has the two links, and
  otherwise the tables stay.\<close>

theorem chat_created_iff:
  assumes "tables_ok d" and "pg_up env" and "\<not> pg_in_doubt env"
  shows "(fst (create_chat env u name f d) \<longleftrightarrow>
      (\<exists>i row. int4 u = Some i \<and> i \<in> cl_id ` set (Client d) \<and> row \<in> set (Client d) \<and>
         int4 f = Some (cl_id row) \<and> \<not> (\<exists>c. chat_member d i c \<and> chat_member d (cl_id row) c) \<and>
         pg_text env (str ''Chat with '' @ cl_name row) \<noteq> None \<and>
         pg_text env (str ''Chat with '' @ name) \<noteq> None) \<and>
      Chat_seq d < max_int4) \<and>
    (if fst (create_chat env u name f d) then chat_created env u name f d (snd (create_chat env u name f d))
     else same_tables d (snd (create_chat env u name f d)))"
proof -
  obtain b d' where run: "create_chat env u name f d = (b, d')" by fastforce
  from create_chat_outcome [OF run] assms(3) have "if b then chat_created env u name f d d' else same_tables d d'"
    by auto
  with create_chat_success [OF assms(1,2), of u name f] run show ?thesis by (simp add: may_create_chat_def)
qed

theorem chat_created_iff_witness:
  "chat_created ex_pg 1 [97] 3 ex_db (snd (create_chat ex_pg 1 [97] 3 ex_db))"
  using chat_created_iff [of ex_db ex_pg 1 "[97]" 3] ex_create by (metis ex_tables_ok ex_pg_simps(1,5) fst_conv)

text \<open>C28. A created chat is empty and appears in the chats both clients read, each with the
  name of the other in its title.\<close>

theorem created_chats_are_read:
  assumes "tables_ok d" and "create_chat env u name f d = (True, d')" and "pg_up env'" and "u \<noteq> f"
  shows "\<exists>c friend t1 t2. friend \<in> set (Client d) \<and> f = word_of_int (cl_id friend) \<and>
     pg_text env (str ''Chat with '' @ cl_name friend) = Some t1 \<and>
     pg_text env (str ''Chat with '' @ name) = Some t2 \<and>
     MessagesResponse_messages (fst (get_messages env' c d')) = [] \<and>
     mset (ChatsResponse_chats (fst (get_chats env' u d'))) =
       add_mset \<lparr>Chat_chat_id = c, Chat_title = t1\<rparr> (mset (ChatsResponse_chats (fst (get_chats env' u d)))) \<and>
     mset (ChatsResponse_chats (fst (get_chats env' f d'))) =
       add_mset \<lparr>Chat_chat_id = c, Chat_title = t2\<rparr> (mset (ChatsResponse_chats (fst (get_chats env' f d))))"
  by (rule create_chat_then_read [OF assms])

theorem created_chats_are_read_witness:
  "\<exists>c t. mset (ChatsResponse_chats (fst (get_chats ex_pg 3 (snd (create_chat ex_pg 1 [97] 3 ex_db))))) =
     add_mset \<lparr>Chat_chat_id = c, Chat_title = t\<rparr> (mset (ChatsResponse_chats (fst (get_chats ex_pg 3 ex_db))))"
  using created_chats_are_read [OF ex_tables_ok ex_create, of ex_pg] by auto

section \<open>Two connections at once\<close>

text \<open>C32. Operations that query and then write, when a transaction of another connection commits in
  between: sending a message and adding a contact are safe against it, since a decision taken on
  the old tables still holds on the new ones, so that the operation has the outcome it would
  have had after the other commit, or is refused, and both invariants stay. A chat is written
  as a whole or not at all, and every row stays consistent with the others.\<close>

theorem stale_decisions_stay_valid:
  assumes "tables_ok d" and "grows d d1" and "I \<in> {tables_ok, db_inv}" and "I d1"
  shows "(send_message_between env u m d d1 = send_message env u m d1 \<or> send_message_between env u m d d1 = (False, d1)) \<and>
    (add_contact_between env u mail d d1 = add_contact env u mail d1 \<or> add_contact_between env u mail d d1 = (False, d1)) \<and>
    I (snd (send_message_between env u m d d1)) \<and> I (snd (add_contact_between env u mail d d1)) \<and>
    tables_ok (snd (create_chat_between env u name f d d1))"
  using send_message_between_eq [OF assms(2), of env u m]
    add_contact_between_eq [OF assms(2,1) tables_of_either [OF assms(3,4)], of env u mail]
    operations_keep(2,3) [OF assms(3,4)] assms(4) create_chat_between_keeps(1) [OF tables_of_either [OF assms(3,4)]]
  by auto

theorem stale_decisions_stay_valid_witness:
  "db_inv (snd (add_contact_between ex_pg 1 [101, 64] ex_db (snd (send_message ex_pg 1 ex_mesg ex_db))))"
proof -
  have "db_inv (snd (send_message ex_pg 1 ex_mesg ex_db))" by (rule operations_db_inv(2) [OF ex_db_inv])
  with stale_decisions_stay_valid [OF ex_tables_ok operations_grow(2), of db_inv] show ?thesis by blast
qed

text \<open>C33. Creating a chat is not: when two clients who have no chat create one at the same time,
  and the second queries before the first has committed, both are told that it was created.
  They then have two chats in common and the invariant of the tables is lost.\<close>

theorem simultaneous_chats_are_both_created:
  assumes "db_inv d" and "pg_up env" and "Chat_seq d + 1 < max_int4" and "u \<noteq> f"
    and "create_chat env u name f d = (True, d1)" and "fst (create_chat env f name' u d)"
  shows "\<exists>d2 i j c c'. create_chat_between env f name' u d d1 = (True, d2) \<and> c \<noteq> c' \<and>
    int4 u = Some i \<and> int4 f = Some j \<and> chat_member d2 i c \<and> chat_member d2 j c \<and>
    chat_member d2 i c' \<and> chat_member d2 j c' \<and> tables_ok d2 \<and> \<not> db_inv d2"
proof -
  have "tables_ok d1" using operations_tables_ok(4) [OF db_inv_tables [OF assms(1)], of env u name f] assms(5) by simp
  then have "tables_ok (snd (create_chat_between env f name' u d d1))" by (rule create_chat_between_keeps)
  with create_chat_between_twice [OF db_inv_tables [OF assms(1)] assms(2,3,5,6,4)] two_common_chats show ?thesis
    unfolding db_inv_def by (metis snd_conv)
qed

theorem simultaneous_chats_are_both_created_witness:
  "fst (create_chat_between ex_pg 3 [101] 1 ex_db (snd (create_chat ex_pg 1 [97] 3 ex_db)))"
proof -
  have "may_create_chat ex_pg 3 [101] 1 ex_db"
    by (simp add: may_create_chat_def ex_member) (simp add: ex_tables, intro exI [of _ ex_ann], simp add: ex_tables)
  then have "fst (create_chat ex_pg 3 [101] 1 ex_db)" by (simp add: create_chat_success)
  moreover have "Chat_seq ex_db + 1 < max_int4" by (simp add: ex_db_def)
  ultimately show ?thesis
    using simultaneous_chats_are_both_created [OF ex_db_inv _ _ _ ex_create, of "[101]"] by fastforce
qed

end
