(* ===== verification/Server_Main.thy ===== *)
theory Server_Main
  imports Server
begin

text \<open>
  The main program of the server (\<open>server/src/main.cpp\<close>), the storage factory and the
  connection string (\<open>storage/postgresql_storage.cpp\<close>, \<open>storage/pimpl\<close>) and the exception that
  ends the program after the help text (\<open>exceptions\<close>). Boost.Program_options is third-party:
  the record \<open>po\<close>. The text it prints and the switch of the log are left out.
\<close>

section \<open>Arguments\<close>

text \<open>
  \<open>terminate_exception\<close> is derived from \<open>std::runtime_error\<close>; \<open>Other_error\<close> stands for every
  exception that \<open>main\<close> has no handler for.
\<close>

datatype main_exn = Std_invalid_argument | Terminate_exception bytes | Other_error

text \<open>
  \<^item> \<open>po_store\<close>: \<open>parse_command_line\<close> and \<open>store\<close> on the arguments, with what the map then holds;
  \<^item> \<open>po_help\<close>: \<open>vm.count("help")\<close>;
  \<^item> \<open>po_notify\<close>: \<open>notify\<close>, which checks the required options and sets the two variables.
\<close>

record 'vm po =
  po_store :: "bytes list \<Rightarrow> main_exn + 'vm"
  po_help :: "'vm \<Rightarrow> bool"
  po_notify :: "'vm \<Rightarrow> main_exn + 16 word \<times> bool"

definition set_up_arguments :: "'vm po \<Rightarrow> bytes list \<Rightarrow> main_exn + 16 word \<times> bool" where
  "set_up_arguments po argv =
     (case po_store po argv of
        Inl e \<Rightarrow> Inl e
      | Inr vm \<Rightarrow>
          (if po_help po vm then Inl (Terminate_exception (str ''Help information printed''))
           else po_notify po vm))"

section \<open>The storage of the program\<close>

record PostgresStorageFactory =
  factory_user_name :: bytes
  factory_db_name :: bytes

text \<open>The default arguments of its constructor.\<close>

definition default_factory :: PostgresStorageFactory where
  "default_factory = \<lparr>factory_user_name = str ''avallon'', factory_db_name = str ''postgres''\<rparr>"

text \<open>What \<open>LazyConnectionImpl\<close> hands to \<open>pqxx::lazyconnection\<close>.\<close>

definition connection_string :: "bytes \<Rightarrow> bytes \<Rightarrow> bytes" where
  "connection_string usr dbname = str ''dbname='' @ dbname @ str '' user='' @ usr"

definition create_connection :: "PostgresStorageFactory \<Rightarrow> bytes" where
  "create_connection f = connection_string (factory_user_name f) (factory_db_name f)"

section \<open>The program\<close>

datatype main_end = Exit_success | Exit_failure | Std_terminate

text \<open>
  \<open>main\<close> up to the event loop: it has ended, or the log is switched as the arguments say and the
  server runs with the storage that the connection string opens. The constructor of the acceptor raises when the port cannot be
  bound, and nothing catches that.
\<close>

definition main_start ::
  "'vm po \<Rightarrow> (16 word \<Rightarrow> bool) \<Rightarrow> (bytes \<Rightarrow> 'd) \<Rightarrow> bytes list \<Rightarrow> main_end + bool \<times> 'd server" where
  "main_start po can_bind database argv =
     (case set_up_arguments po argv of
        Inl Std_invalid_argument \<Rightarrow> Inl Exit_failure
      | Inl (Terminate_exception what) \<Rightarrow> Inl Exit_success
      | Inl Other_error \<Rightarrow> Inl Std_terminate
      | Inr (port, logging_enabled) \<Rightarrow>
          (if can_bind port then Inr (logging_enabled, server_run (database (create_connection default_factory)))
           else Inl Std_terminate))"

text \<open>\<open>main\<close> after \<open>run\<close>: an exception that left the event loop, or its return.\<close>

definition main_end :: "'d server \<Rightarrow> main_end option" where
  "main_end sv =
     (if sv_dead sv \<noteq> None then Some Std_terminate
      else if loop_done sv then Some Exit_success
      else None)"

text \<open>
  What the documentation of the library says of its exceptions: they are derived from
  \<open>boost::program_options::error\<close>, a \<open>std::logic_error\<close> that is not a \<open>std::invalid_argument\<close>.
\<close>

definition po_documented :: "'vm po \<Rightarrow> bool" where
  "po_documented po \<longleftrightarrow>
     (\<forall>argv e. po_store po argv = Inl e \<longrightarrow> e = Other_error) \<and>
     (\<forall>vm e. po_notify po vm = Inl e \<longrightarrow> e = Other_error)"

lemma main_start_cases:
  assumes "po_documented po"
  shows "main_start po can_bind database argv =
    (case po_store po argv of
       Inl e \<Rightarrow> Inl Std_terminate
     | Inr vm \<Rightarrow>
         (if po_help po vm then Inl Exit_success
          else case po_notify po vm of
                 Inl e \<Rightarrow> Inl Std_terminate
               | Inr (port, logging) \<Rightarrow>
                   (if can_bind port then Inr (logging, server_run (database (create_connection default_factory)))
                    else Inl Std_terminate)))"
proof -
  have 1: "e = Other_error" if "po_store po argv = Inl e" for e
    using assms that by (simp add: po_documented_def)
  have 2: "e = Other_error" if "po_notify po vm = Inl e" for e vm
    using assms that by (auto simp: po_documented_def)
  show ?thesis
    by (auto simp: main_start_def set_up_arguments_def split: sum.split dest!: 1 2)
qed

end
