(* ===== verification/Codec_Text.thy ===== *)
theory Codec_Text
  imports Messages
begin

text \<open>
  The type of what the generated parsers return: every string of a parsed message passed
  \<open>VerifyUtf8String\<close> or is the empty default. No property of the runtime is needed for it.
\<close>

section \<open>What a tag loop keeps\<close>

definition utf8_ok :: "pb \<Rightarrow> bytes \<Rightarrow> bool" where
  "utf8_ok P s \<longleftrightarrow> s = [] \<or> VerifyUtf8String P s"

lemma utf8_ok_Nil [simp]: "utf8_ok P []"
  by (simp add: utf8_ok_def)

definition reads :: "('m \<Rightarrow> bool) \<Rightarrow> ('m \<Rightarrow> bytes \<Rightarrow> 'm reading) \<Rightarrow> bool" where
  "reads V rd \<longleftrightarrow> (\<forall>m i m' r. V m \<longrightarrow> rd m i = Value m' r \<longrightarrow> V m')"

definition parses :: "('m \<Rightarrow> bool) \<Rightarrow> ('m \<Rightarrow> bytes \<Rightarrow> 'm parsed) \<Rightarrow> bool" where
  "parses V parse \<longleftrightarrow> (\<forall>m i m' t r. V m \<longrightarrow> parse m i = Parsed m' t r \<longrightarrow> V m')"

definition keeps :: "('m \<Rightarrow> bool) \<Rightarrow> 'm field list \<Rightarrow> bool" where
  "keeps V fs \<longleftrightarrow> (\<forall>f \<in> set fs. reads V (f_read f) \<and> (\<forall>t j. f_expect f = Some (t, j) \<longrightarrow> j < length fs))"

lemma merge_partial_keeps:
  assumes "keeps V fs" and "V m" and "\<forall>j. pc = Some j \<longrightarrow> j < length fs"
    and "merge_partial P fs n pc m i = Parsed m' t r"
  shows "V m'"
  using assms(2-)
proof (induction n arbitrary: pc m i)
  case (Suc n)
  show ?case
  proof (cases pc)
    case None
    obtain tag known rest where rd: "ReadTagWithCutoff P 127 i = ((tag, known), rest)" by (metis surj_pair)
    show ?thesis
    proof (cases "if known then find_case P fs tag else None")
      case None
      with \<open>pc = None\<close> rd Suc show ?thesis by (auto split: option.splits if_splits)
    next
      case (Some k)
      then have "k < length fs" by (auto split: if_splits dest: find_case_SomeD)
      with Some \<open>pc = None\<close> rd Suc.prems show ?thesis by (intro Suc.IH [of m "Some k" rest]) simp_all
    qed
  next
    case (Some j)
    with Suc.prems have "fs ! j \<in> set fs" by simp
    with assms(1) have rd: "reads V (f_read (fs ! j))"
      and jump: "\<And>t k. f_expect (fs ! j) = Some (t, k) \<Longrightarrow> k < length fs" by (auto simp: keeps_def)
    obtain m1 rest where one: "f_read (fs ! j) m i = Value m1 rest"
      using Suc.prems(3) Some by (auto split: reading.splits)
    then have "V m1" using rd Suc.prems(1) unfolding reads_def by blast
    then have head: "\<And>i. merge_partial P fs n None m1 i = Parsed m' t r \<Longrightarrow> V m'"
      and label: "\<And>k i. k < length fs \<Longrightarrow> merge_partial P fs n (Some k) m1 i = Parsed m' t r \<Longrightarrow> V m'"
      using Suc.IH [of m1] by auto
    from one Some Suc.prems(3) \<open>V m1\<close> show ?thesis
      by (auto split: option.splits prod.splits bool.splits if_splits dest: head label [OF jump])
  qed
qed simp

lemma parse_loop_parses: "keeps V fs \<Longrightarrow> parses V (parse_loop P fs)"
  unfolding parses_def parse_loop_def by (metis merge_partial_keeps option.distinct(1))

lemma parse_from_array_keeps: "parses V parse \<Longrightarrow> V m0 \<Longrightarrow> parse_from_array P parse m0 data = Some m \<Longrightarrow> V m"
  unfolding parses_def parse_from_array_def by (auto split: parsed.splits if_splits) metis

lemma reads_string:
  "(\<And>s m. V m \<Longrightarrow> utf8_ok P s \<Longrightarrow> V (upd s m)) \<Longrightarrow> reads V (read_string P upd)"
  by (auto simp: reads_def read_string_def utf8_ok_def split: option.splits if_splits)

lemma reads_scalar:
  assumes "\<And>v m. V m \<Longrightarrow> V (upd v m)"
  shows "reads V (read_uint64 P upd)" and "reads V (read_fixed64 P upd)"
  using assms by (auto simp: reads_def read_uint64_def read_fixed64_def read_scalar_def split: option.splits)

lemma reads_enum: "(\<And>v m. V m \<Longrightarrow> V (upd v m)) \<Longrightarrow> reads V (read_enum P upd)"
  by (auto simp: reads_def read_enum_def read_scalar_def split: option.splits)

lemma reads_message:
  assumes "parses W parse" and "\<And>m. V m \<Longrightarrow> W (sub m)" and "\<And>s m. V m \<Longrightarrow> W s \<Longrightarrow> V (upd s m)"
  shows "reads V (read_message P parse sub upd)"
  unfolding reads_def
proof (intro allI impI)
  fix m i m' r
  assume "V m" and "read_message P parse sub upd m i = Value m' r"
  then obtain l s t rest where "parse (sub m) l = Parsed s t rest" "m' = upd s m"
    by (auto simp: read_message_def split: option.splits parsed.splits if_splits)
  with \<open>V m\<close> assms show "V m'" unfolding parses_def by metis
qed

lemma parses_any: "parses (\<lambda>_. True) parse"
  by (simp add: parses_def)

lemmas reads_rules = reads_string reads_scalar reads_enum

section \<open>The messages\<close>

definition RegisterRequest_utf8 :: "pb \<Rightarrow> RegisterRequest \<Rightarrow> bool" where
  "RegisterRequest_utf8 P m \<longleftrightarrow> utf8_ok P (RegisterRequest_name m) \<and>
     utf8_ok P (RegisterRequest_email m) \<and>
     utf8_ok P (RegisterRequest_password m)"

lemma RegisterRequest_utf8_default [simp]: "RegisterRequest_utf8 P RegisterRequest_default"
  by (simp add: RegisterRequest_utf8_def RegisterRequest_default_def)

lemma RegisterRequest_parses: "parses (RegisterRequest_utf8 P) (RegisterRequest_MergePartialFromCodedStream P)"
  unfolding RegisterRequest_MergePartialFromCodedStream_def
  by (rule parse_loop_parses) (auto simp: keeps_def RegisterRequest_fields_def RegisterRequest_utf8_def
     intro!: reads_rules split: option.splits)

definition LoginRequest_utf8 :: "pb \<Rightarrow> LoginRequest \<Rightarrow> bool" where
  "LoginRequest_utf8 P m \<longleftrightarrow> utf8_ok P (LoginRequest_email m) \<and>
     utf8_ok P (LoginRequest_password m)"

lemma LoginRequest_utf8_default [simp]: "LoginRequest_utf8 P LoginRequest_default"
  by (simp add: LoginRequest_utf8_def LoginRequest_default_def)

lemma LoginRequest_parses: "parses (LoginRequest_utf8 P) (LoginRequest_MergePartialFromCodedStream P)"
  unfolding LoginRequest_MergePartialFromCodedStream_def
  by (rule parse_loop_parses) (auto simp: keeps_def LoginRequest_fields_def LoginRequest_utf8_def
     intro!: reads_rules split: option.splits)

definition MessageToSend_utf8 :: "pb \<Rightarrow> MessageToSend \<Rightarrow> bool" where
  "MessageToSend_utf8 P m \<longleftrightarrow> utf8_ok P (MessageToSend_text m)"

lemma MessageToSend_utf8_default [simp]: "MessageToSend_utf8 P MessageToSend_default"
  by (simp add: MessageToSend_utf8_def MessageToSend_default_def)

lemma MessageToSend_parses: "parses (MessageToSend_utf8 P) (MessageToSend_MergePartialFromCodedStream P)"
  unfolding MessageToSend_MergePartialFromCodedStream_def
  by (rule parse_loop_parses) (auto simp: keeps_def MessageToSend_fields_def MessageToSend_utf8_def
     intro!: reads_rules split: option.splits)

definition SendMessageRequest_utf8 :: "pb \<Rightarrow> SendMessageRequest \<Rightarrow> bool" where
  "SendMessageRequest_utf8 P m \<longleftrightarrow> pred_option (MessageToSend_utf8 P) (SendMessageRequest_mesg m)"

lemma SendMessageRequest_utf8_default [simp]: "SendMessageRequest_utf8 P SendMessageRequest_default"
  by (simp add: SendMessageRequest_utf8_def SendMessageRequest_default_def)

lemma SendMessageRequest_parses: "parses (SendMessageRequest_utf8 P) (SendMessageRequest_MergePartialFromCodedStream P)"
  unfolding SendMessageRequest_MergePartialFromCodedStream_def
  by (rule parse_loop_parses) (auto simp: keeps_def SendMessageRequest_fields_def SendMessageRequest_utf8_def
     intro!: reads_rules reads_message [OF MessageToSend_parses] split: option.splits)

definition AddContactRequest_utf8 :: "pb \<Rightarrow> AddContactRequest \<Rightarrow> bool" where
  "AddContactRequest_utf8 P m \<longleftrightarrow> utf8_ok P (AddContactRequest_email m)"

lemma AddContactRequest_utf8_default [simp]: "AddContactRequest_utf8 P AddContactRequest_default"
  by (simp add: AddContactRequest_utf8_def AddContactRequest_default_def)

lemma AddContactRequest_parses: "parses (AddContactRequest_utf8 P) (AddContactRequest_MergePartialFromCodedStream P)"
  unfolding AddContactRequest_MergePartialFromCodedStream_def
  by (rule parse_loop_parses) (auto simp: keeps_def AddContactRequest_fields_def AddContactRequest_utf8_def
     intro!: reads_rules split: option.splits)

fun Request_utf8 :: "pb \<Rightarrow> Request \<Rightarrow> bool" where
  "Request_utf8 P (Request_register_request v) \<longleftrightarrow> RegisterRequest_utf8 P v"
| "Request_utf8 P (Request_login_request v) \<longleftrightarrow> LoginRequest_utf8 P v"
| "Request_utf8 P (Request_send_mesg_request v) \<longleftrightarrow> SendMessageRequest_utf8 P v"
| "Request_utf8 P (Request_add_contact_request v) \<longleftrightarrow> AddContactRequest_utf8 P v"
| "Request_utf8 P _ \<longleftrightarrow> True"

lemma Request_mutable_utf8:
  assumes "Request_utf8 P m"
  shows "RegisterRequest_utf8 P (Request_mutable_register_request m)"
  and "LoginRequest_utf8 P (Request_mutable_login_request m)"
  and "SendMessageRequest_utf8 P (Request_mutable_send_mesg_request m)"
  and "AddContactRequest_utf8 P (Request_mutable_add_contact_request m)"
  using assms by (cases m; simp)+

lemma Request_utf8_default [simp]: "Request_utf8 P Request_default"
  by (simp add: Request_default_def)

lemma Request_parses: "parses (Request_utf8 P) (Request_MergePartialFromCodedStream P)"
  unfolding Request_MergePartialFromCodedStream_def
  by (rule parse_loop_parses) (auto simp: keeps_def Request_fields_def intro!: Request_mutable_utf8
      reads_message [OF RegisterRequest_parses]
      reads_message [OF LoginRequest_parses]
      reads_message [OF SendMessageRequest_parses]
      reads_message [OF AddContactRequest_parses]
      reads_message [OF parses_any [of "AllMyChatsRequest_MergePartialFromCodedStream P"]]
      reads_message [OF parses_any [of "AllMyContactsRequest_MergePartialFromCodedStream P"]]
      reads_message [OF parses_any [of "MessagesRequest_MergePartialFromCodedStream P"]]
      reads_message [OF parses_any [of "CreateChatRequest_MergePartialFromCodedStream P"]])

definition Chat_utf8 :: "pb \<Rightarrow> Chat \<Rightarrow> bool" where
  "Chat_utf8 P m \<longleftrightarrow> utf8_ok P (Chat_title m)"

lemma Chat_utf8_default [simp]: "Chat_utf8 P Chat_default"
  by (simp add: Chat_utf8_def Chat_default_def)

lemma Chat_parses: "parses (Chat_utf8 P) (Chat_MergePartialFromCodedStream P)"
  unfolding Chat_MergePartialFromCodedStream_def
  by (rule parse_loop_parses) (auto simp: keeps_def Chat_fields_def Chat_utf8_def
     intro!: reads_rules split: option.splits)

definition ChatsResponse_utf8 :: "pb \<Rightarrow> ChatsResponse \<Rightarrow> bool" where
  "ChatsResponse_utf8 P m \<longleftrightarrow> list_all (Chat_utf8 P) (ChatsResponse_chats m)"

lemma ChatsResponse_utf8_default [simp]: "ChatsResponse_utf8 P ChatsResponse_default"
  by (simp add: ChatsResponse_utf8_def ChatsResponse_default_def)

lemma ChatsResponse_parses: "parses (ChatsResponse_utf8 P) (ChatsResponse_MergePartialFromCodedStream P)"
  unfolding ChatsResponse_MergePartialFromCodedStream_def
  by (rule parse_loop_parses) (auto simp: keeps_def ChatsResponse_fields_def ChatsResponse_utf8_def
     intro!: reads_rules reads_message [OF Chat_parses] split: option.splits)

definition Contact_utf8 :: "pb \<Rightarrow> Contact \<Rightarrow> bool" where
  "Contact_utf8 P m \<longleftrightarrow> utf8_ok P (Contact_name m) \<and>
     utf8_ok P (Contact_email m)"

lemma Contact_utf8_default [simp]: "Contact_utf8 P Contact_default"
  by (simp add: Contact_utf8_def Contact_default_def)

lemma Contact_parses: "parses (Contact_utf8 P) (Contact_MergePartialFromCodedStream P)"
  unfolding Contact_MergePartialFromCodedStream_def
  by (rule parse_loop_parses) (auto simp: keeps_def Contact_fields_def Contact_utf8_def
     intro!: reads_rules split: option.splits)

definition ContactsResponse_utf8 :: "pb \<Rightarrow> ContactsResponse \<Rightarrow> bool" where
  "ContactsResponse_utf8 P m \<longleftrightarrow> list_all (Contact_utf8 P) (ContactsResponse_contacts m)"

lemma ContactsResponse_utf8_default [simp]: "ContactsResponse_utf8 P ContactsResponse_default"
  by (simp add: ContactsResponse_utf8_def ContactsResponse_default_def)

lemma ContactsResponse_parses: "parses (ContactsResponse_utf8 P) (ContactsResponse_MergePartialFromCodedStream P)"
  unfolding ContactsResponse_MergePartialFromCodedStream_def
  by (rule parse_loop_parses) (auto simp: keeps_def ContactsResponse_fields_def ContactsResponse_utf8_def
     intro!: reads_rules reads_message [OF Contact_parses] split: option.splits)

definition MessageToRecieve_utf8 :: "pb \<Rightarrow> MessageToRecieve \<Rightarrow> bool" where
  "MessageToRecieve_utf8 P m \<longleftrightarrow> utf8_ok P (MessageToRecieve_text m)"

lemma MessageToRecieve_utf8_default [simp]: "MessageToRecieve_utf8 P MessageToRecieve_default"
  by (simp add: MessageToRecieve_utf8_def MessageToRecieve_default_def)

lemma MessageToRecieve_parses: "parses (MessageToRecieve_utf8 P) (MessageToRecieve_MergePartialFromCodedStream P)"
  unfolding MessageToRecieve_MergePartialFromCodedStream_def
  by (rule parse_loop_parses) (auto simp: keeps_def MessageToRecieve_fields_def MessageToRecieve_utf8_def
     intro!: reads_rules split: option.splits)

definition MessagesResponse_utf8 :: "pb \<Rightarrow> MessagesResponse \<Rightarrow> bool" where
  "MessagesResponse_utf8 P m \<longleftrightarrow> list_all (MessageToRecieve_utf8 P) (MessagesResponse_messages m)"

lemma MessagesResponse_utf8_default [simp]: "MessagesResponse_utf8 P MessagesResponse_default"
  by (simp add: MessagesResponse_utf8_def MessagesResponse_default_def)

lemma MessagesResponse_parses: "parses (MessagesResponse_utf8 P) (MessagesResponse_MergePartialFromCodedStream P)"
  unfolding MessagesResponse_MergePartialFromCodedStream_def
  by (rule parse_loop_parses) (auto simp: keeps_def MessagesResponse_fields_def MessagesResponse_utf8_def
     intro!: reads_rules reads_message [OF MessageToRecieve_parses] split: option.splits)

definition LoginResponse_utf8 :: "pb \<Rightarrow> LoginResponse \<Rightarrow> bool" where
  "LoginResponse_utf8 P m \<longleftrightarrow> pred_option (Contact_utf8 P) (LoginResponse_profile m)"

lemma LoginResponse_utf8_default [simp]: "LoginResponse_utf8 P LoginResponse_default"
  by (simp add: LoginResponse_utf8_def LoginResponse_default_def)

lemma LoginResponse_parses: "parses (LoginResponse_utf8 P) (LoginResponse_MergePartialFromCodedStream P)"
  unfolding LoginResponse_MergePartialFromCodedStream_def
  by (rule parse_loop_parses) (auto simp: keeps_def LoginResponse_fields_def LoginResponse_utf8_def
     intro!: reads_rules reads_message [OF Contact_parses] split: option.splits)

fun Response_utf8 :: "pb \<Rightarrow> Response \<Rightarrow> bool" where
  "Response_utf8 P (Response_chats_response v) \<longleftrightarrow> ChatsResponse_utf8 P v"
| "Response_utf8 P (Response_contacts_response v) \<longleftrightarrow> ContactsResponse_utf8 P v"
| "Response_utf8 P (Response_messages_response v) \<longleftrightarrow> MessagesResponse_utf8 P v"
| "Response_utf8 P (Response_login_response v) \<longleftrightarrow> LoginResponse_utf8 P v"
| "Response_utf8 P _ \<longleftrightarrow> True"

lemma Response_mutable_utf8:
  assumes "Response_utf8 P m"
  shows "ChatsResponse_utf8 P (Response_mutable_chats_response m)"
  and "ContactsResponse_utf8 P (Response_mutable_contacts_response m)"
  and "MessagesResponse_utf8 P (Response_mutable_messages_response m)"
  and "LoginResponse_utf8 P (Response_mutable_login_response m)"
  using assms by (cases m; simp)+

lemma Response_utf8_default [simp]: "Response_utf8 P Response_default"
  by (simp add: Response_default_def)

lemma Response_parses: "parses (Response_utf8 P) (Response_MergePartialFromCodedStream P)"
  unfolding Response_MergePartialFromCodedStream_def
  by (rule parse_loop_parses) (auto simp: keeps_def Response_fields_def intro!: Response_mutable_utf8
      reads_message [OF ChatsResponse_parses]
      reads_message [OF ContactsResponse_parses]
      reads_message [OF MessagesResponse_parses]
      reads_message [OF LoginResponse_parses]
      reads_message [OF parses_any [of "StatusResponse_MergePartialFromCodedStream P"]])

fun WrappedMessage_utf8 :: "pb \<Rightarrow> WrappedMessage \<Rightarrow> bool" where
  "WrappedMessage_utf8 P (WrappedMessage_response v) \<longleftrightarrow> Response_utf8 P v"
| "WrappedMessage_utf8 P (WrappedMessage_request v) \<longleftrightarrow> Request_utf8 P v"
| "WrappedMessage_utf8 P _ \<longleftrightarrow> True"

lemma WrappedMessage_mutable_utf8:
  assumes "WrappedMessage_utf8 P m"
  shows "Response_utf8 P (WrappedMessage_mutable_response m)"
  and "Request_utf8 P (WrappedMessage_mutable_request m)"
  using assms by (cases m; simp)+

lemma WrappedMessage_utf8_default [simp]: "WrappedMessage_utf8 P WrappedMessage_default"
  by (simp add: WrappedMessage_default_def)

lemma WrappedMessage_parses: "parses (WrappedMessage_utf8 P) (WrappedMessage_MergePartialFromCodedStream P)"
  unfolding WrappedMessage_MergePartialFromCodedStream_def
  by (rule parse_loop_parses) (auto simp: keeps_def WrappedMessage_fields_def intro!: WrappedMessage_mutable_utf8
      reads_message [OF Response_parses]
      reads_message [OF Request_parses])
end
