(* ===== verification/Server_Text.thy ===== *)
theory Server_Text
  imports Server Codec_Text
begin

text \<open>
  The type of the jobs of the server: the strings that a job hands to the storage, and the email
  a session keeps, were verified as UTF-8 by the parser of the request.
\<close>

fun job_utf8 :: "pb \<Rightarrow> job \<Rightarrow> bool" where
  "job_utf8 P (RegisterReq m) \<longleftrightarrow> RegisterRequest_utf8 P m"
| "job_utf8 P (LoginReq m) \<longleftrightarrow> LoginRequest_utf8 P m"
| "job_utf8 P (SendMesgReq m) \<longleftrightarrow> SendMessageRequest_utf8 P m"
| "job_utf8 P (AddContactReq m) \<longleftrightarrow> AddContactRequest_utf8 P m"
| "job_utf8 P _ \<longleftrightarrow> True"

definition session_utf8 :: "pb \<Rightarrow> session \<Rightarrow> bool" where
  "session_utf8 P s \<longleftrightarrow> (\<forall>j. Posted j \<in> set (se_pending s) \<longrightarrow> job_utf8 P j) \<and>
     (\<forall>cs. se_state s = Some cs \<longrightarrow> utf8_ok P (email cs))"

text \<open>What \<open>ParseFromArray\<close> makes of a negative size is a result of the same parser.\<close>

definition negative_parses :: "server_env \<Rightarrow> bool" where
  "negative_parses env \<longleftrightarrow>
     (\<forall>buf m. sv_parse_negative env buf = Some m \<longrightarrow> WrappedMessage_utf8 (sv_pb env) m)"

lemma parse_wrapped_utf8:
  assumes "negative_parses env" and "parse_wrapped env buf = Some m"
  shows "WrappedMessage_utf8 (sv_pb env) m"
  using assms parse_from_array_keeps [OF WrappedMessage_parses WrappedMessage_utf8_default]
  by (auto simp: parse_wrapped_def negative_parses_def Let_def split: if_splits)

lemma ParseCommandJob_utf8:
  assumes "negative_parses env" and "session_utf8 (sv_pb env) s"
  shows "session_utf8 (sv_pb env) (ParseCommandJob env s)"
  using assms(2) parse_wrapped_utf8 [OF assms(1), of "se_buffer s"]
  by (auto simp: ParseCommandJob_def post_job_def stop_def session_utf8_def
      split: option.splits WrappedMessage.splits Request.splits)

lemma session_write_pending:
  assumes "session_write env m s = Inr s'"
  shows "se_state s' = se_state s" and "Posted j \<in> set (se_pending s') \<Longrightarrow> Posted j \<in> set (se_pending s)"
  using assms by (auto simp: session_write_def do_async_write_def Let_def split: if_splits sum.splits)

lemma run_job_utf8:
  assumes neg: "negative_parses env" and s: "session_utf8 (sv_pb env) s" and j: "job_utf8 (sv_pb env) j"
    and run: "run_job env st j s d = (Inr s', d')"
  shows "session_utf8 (sv_pb env) s'"
proof (cases "j = ParseCommand")
  case True
  with run ParseCommandJob_utf8 [OF neg s] show ?thesis by simp
next
  case False
  from job_answers [OF run False] obtain m s1
    where w: "session_write env (WrappedMessage_response m) s1 = Inr s'"
      and s1: "s1 = s \<or> (\<exists>l cs. j = LoginReq l \<and> email cs = LoginRequest_email l \<and> s1 = set_state cs s)" by metis
  have "session_utf8 (sv_pb env) s1"
    using s1 s j by (auto simp: session_utf8_def set_state_def LoginRequest_utf8_def)
  then show ?thesis using session_write_pending [OF w] by (auto simp: session_utf8_def)
qed

lemma complete_utf8:
  assumes neg: "negative_parses env" and s: "session_utf8 (sv_pb env) s" and en: "enabled c s"
    and run: "complete env st c s d = (Inr s', d')"
  shows "session_utf8 (sv_pb env) s'"
proof -
  have take: "session_utf8 (sv_pb env) (take_pending p s)" for p
    using s by (auto simp: session_utf8_def take_pending_def dest: notin_set_remove1)
  show ?thesis
  proof (cases c)
    case (Job_run j)
    with en s have "job_utf8 (sv_pb env) j" by (simp add: enabled_def session_utf8_def)
    with Job_run run run_job_utf8 [OF neg take] show ?thesis by simp
  next
    case (Read_prefix_done err data)
    with run take [of Async_read_prefix] show ?thesis
      by (auto simp: on_read_prefix_def do_async_read_message_def stop_def Let_def session_utf8_def fill_buffer_def
          split: if_splits sum.splits option.splits)
  next
    case (Read_message_done err data n)
    with run take [of "Async_read_message n"] show ?thesis
      by (auto simp: on_read_message_def stop_def Let_def session_utf8_def fill_buffer_def split: if_splits)
  next
    case (Write_done err)
    with run take [of Async_write] show ?thesis
      by (auto simp: on_write_def do_async_read_prefix_def stop_def Let_def session_utf8_def
          split: if_splits sum.splits)
  qed
qed

lemma start_utf8: "start env ClientSession = Inr s \<Longrightarrow> session_utf8 P s"
  by (auto simp: start_def do_async_read_prefix_def ClientSession_def session_utf8_def split: sum.splits if_splits)

lemma reachable_utf8:
  "reachable env S d0 sv \<Longrightarrow> negative_parses env \<Longrightarrow> \<forall>s \<in> set (sv_sessions sv). session_utf8 (sv_pb env) s"
  by (erule sessions_reachable) (auto intro: start_utf8 complete_utf8)

end
