(* ===== verification/Server_Workers.thy ===== *)
theory Server_Workers
  imports Server Storage_Stale
begin

text \<open>
  The storage connections of the server. Two workers run jobs at the same time, each over the
  connection of its session, so that another transaction may commit between the query and the
  writes of an operation: the query of \<open>send_message\<close>, \<open>add_contact\<close> and \<open>create_chat\<close> sees
  earlier tables; the other operations are single statements or only read. The creation of a
  chat is not safe against it (\<open>simultaneous_chats_are_both_created\<close>): two clients may get two
  chats, but the tables stay consistent in every other respect (\<open>tables_ok\<close>). The parameter \<open>races\<close>
  tells whether chats are created like this or one after the other.
\<close>

section \<open>Connections\<close>

definition postgres_connections :: "(bytes \<Rightarrow> bytes) \<Rightarrow> db storage set" where
  "postgres_connections sha = range (postgres_storage sha)"

text \<open>\<open>seen d\<close>: the earlier tables that a query saw when its writes find the tables \<open>d\<close>.\<close>

definition worker_storage :: "(bytes \<Rightarrow> bytes) \<Rightarrow> bool \<Rightarrow> pg_env \<Rightarrow> (db \<Rightarrow> db) \<Rightarrow> db storage" where
  "worker_storage sha races env seen = (postgres_storage sha env)
     \<lparr>sc_send_message := \<lambda>u m d. send_message_between env u m (seen d) d,
      sc_add_contact := \<lambda>u mail d. add_contact_between env u mail (seen d) d,
      sc_create_chat := \<lambda>u name f d. create_chat_between env u name f (if races then seen d else d) d\<rparr>"

definition earlier :: "(db \<Rightarrow> db) \<Rightarrow> bool" where
  "earlier seen \<longleftrightarrow> (\<forall>d. tables_ok d \<longrightarrow> tables_ok (seen d) \<and> seen d \<le> d)"

definition worker_connections :: "(bytes \<Rightarrow> bytes) \<Rightarrow> bool \<Rightarrow> db storage set" where
  "worker_connections sha races = {worker_storage sha races env seen | env seen. earlier seen}"

lemma worker_alone: "worker_storage sha races env (\<lambda>d. d) = postgres_storage sha env"
  by (simp add: worker_storage_def postgres_storage_def between_alone fun_eq_iff)

lemma postgres_is_worker: "postgres_connections sha \<subseteq> worker_connections sha races"
proof
  fix st
  assume "st \<in> postgres_connections sha"
  then obtain env where "st = worker_storage sha races env (\<lambda>d. d)"
    by (auto simp: postgres_connections_def worker_alone)
  moreover have "earlier (\<lambda>d. d)" by (simp add: earlier_def)
  ultimately show "st \<in> worker_connections sha races" unfolding worker_connections_def by blast
qed

section \<open>The contract\<close>

text \<open>
  A message and a contact have the outcome of their sequential run, or are refused; a chat
  that is created in a race is written as a whole.
\<close>

lemma grows_upwards: "d \<le> d' \<Longrightarrow> grows d d'"
  by (simp add: grows_def upwards_clients upwards_links)

lemma worker_operations:
  assumes "earlier seen" and "tables_ok d"
  shows "sc_send_message (worker_storage sha races env seen) u m d \<in> {send_message env u m d, (False, d)}"
    "sc_add_contact (worker_storage sha races env seen) u mail d \<in> {add_contact env u mail d, (False, d)}"
proof -
  have old: "tables_ok (seen d)" "grows (seen d) d"
    using assms grows_upwards by (simp_all add: earlier_def)
  show "sc_send_message (worker_storage sha races env seen) u m d \<in> {send_message env u m d, (False, d)}"
    using send_message_between_eq [OF old(2), of env u m] by (simp add: worker_storage_def)
  show "sc_add_contact (worker_storage sha races env seen) u mail d \<in> {add_contact env u mail d, (False, d)}"
    using add_contact_between_eq [OF old(2,1) assms(2), of env u mail] by (simp add: worker_storage_def)
qed

lemma worker_create_chat:
  "sc_create_chat (worker_storage sha races env seen) u name f d =
   (if races then create_chat_between env u name f (seen d) d else create_chat env u name f d)"
  by (simp add: worker_storage_def between_alone)

lemma worker_create_chat_keeps:
  "tables_inv races d \<Longrightarrow> tables_inv races (snd (sc_create_chat (worker_storage sha races env seen) u name f d))"
  by (cases races) (simp_all add: worker_create_chat tables_inv_def create_chat_between_keeps operations_db_inv)

lemma worker_other:
  "sc_registration (worker_storage sha races env seen) = sc_registration (postgres_storage sha env)"
  "sc_login (worker_storage sha races env seen) = sc_login (postgres_storage sha env)"
  "sc_get_chats (worker_storage sha races env seen) = sc_get_chats (postgres_storage sha env)"
  "sc_get_contacts (worker_storage sha races env seen) = sc_get_contacts (postgres_storage sha env)"
  "sc_get_messages (worker_storage sha races env seen) = sc_get_messages (postgres_storage sha env)"
  by (simp_all add: worker_storage_def)

lemma worker_growing:
  assumes "earlier seen"
  shows "growing_storage (worker_storage sha races env seen) (tables_inv races) visible_same client_known
    (pg_in_doubt env)"
proof
  fix d n e p u m f i n'
  assume inv: "tables_inv races d"
  let ?S = "worker_storage sha races env seen"
  note send = worker_operations(1) [OF assms tables_inv_ok [OF inv], of sha races env u m, unfolded insert_iff]
  note add = worker_operations(2) [OF assms tables_inv_ok [OF inv], of sha races env u e, unfolded insert_iff]
  show "tables_inv races (snd (sc_send_message ?S u m d))" "tables_inv races (snd (sc_add_contact ?S u e d))"
    using send add inv operations_keep(2,3) [OF tables_inv_either inv] by auto
  show up: "d \<le> snd (sc_send_message ?S u m d)" "d \<le> snd (sc_add_contact ?S u e d)"
    "d \<le> snd (sc_create_chat ?S u n f d)"
    using send add operations_upwards create_chat_between_keeps(2) by (auto simp: worker_create_chat)
  show "visible_same d (snd (sc_send_message ?S u m d))"
    if "\<not> fst (sc_send_message ?S u m d)" "\<not> pg_in_doubt env"
    using that send refused_same by (auto simp: visible_same_def)
  show "visible_same d (snd (sc_add_contact ?S u e d))"
    if "\<not> fst (sc_add_contact ?S u e d)" "\<not> pg_in_doubt env"
    using that add refused_same by (auto simp: visible_same_def)
  show "visible_same d (snd (sc_create_chat ?S u n f d))"
    if "\<not> fst (sc_create_chat ?S u n f d)" "\<not> pg_in_doubt env"
    using that refused_same create_chat_between_keeps(3) by (auto simp: worker_create_chat split: if_splits)
  show "client_known (snd (sc_send_message ?S u m d)) i n'" "client_known (snd (sc_add_contact ?S u e d)) i n'"
    "client_known (snd (sc_create_chat ?S u n f d)) i n'" if "client_known d i n'"
    using client_known_mono [OF that upwards_clients] up by blast+
qed (simp_all add: worker_other worker_create_chat_keeps pg.inv_registration pg.login_reads pg.get_chats_reads
    pg.get_contacts_reads pg.get_messages_reads pg.same_refl pg.refused_registration
    pg.known_registration pg.up_registration, blast intro: pg.login_known)

interpretation workers: growing_pool "worker_connections sha races" "tables_inv races" visible_same client_known
  for sha races
proof
  fix st
  assume "st \<in> worker_connections sha races"
  then show "\<exists>doubt. growing_storage st (tables_inv races) visible_same client_known doubt"
    using worker_growing unfolding worker_connections_def by blast
qed

end
