(* ===== verification/Server_Theorems.thy ===== *)
theory Server_Theorems
  imports Instances Server_Main Server_Text Server_Workers
begin

text \<open>The properties of the server: its sessions, its jobs and the process as a whole. They
  speak of every state that \<open>server_step\<close> reaches, with any interleaving of sessions, any
  bytes from the peers and any behaviour of the database.\<close>

text \<open>A reachable server with one session, still listening.\<close>

definition alone :: "server_env \<Rightarrow> 'd storage set \<Rightarrow> 'd \<Rightarrow> session \<Rightarrow> 'd \<Rightarrow> bool" where
  "alone env S d0 s d \<longleftrightarrow>
     (\<exists>sv. reachable env S d0 sv \<and> sv_dead sv = None \<and> sv_sessions sv = [s] \<and> sv_db sv = d \<and>
        sv_acceptor_open sv)"

section \<open>The process\<close>

text \<open>C5. A live session has exactly one operation in flight and a stopped one has none, so that
  no two handlers of a session overlap; a session never answers more requests than it read,
  and has answered all of them when it waits for the next one.\<close>

theorem sessions_have_one_operation_in_flight:
  assumes "reachable env S d0 sv" and "s \<in> set (sv_sessions sv)"
  shows "(if se_stopped s then se_pending s = [] \<and> \<not> se_sock_open s
      else se_sock_open s \<and> (\<exists>p. se_pending s = [p])) \<and>
    length (se_sent s) \<le> length (se_received s) \<and> length (se_received s) \<le> Suc (length (se_sent s)) \<and>
    (\<not> se_stopped s \<longrightarrow>
       (length (se_received s) = Suc (length (se_sent s)) \<longleftrightarrow> (\<exists>j. se_pending s = [Posted j])))"
proof -
  have ok: "session_ok s" using sessions_ok_reachable [OF assms(1)] assms(2) by blast
  show ?thesis
  proof (cases "se_stopped s")
    case True
    with ok show ?thesis by (simp add: session_ok_def)
  next
    case False
    with ok obtain p where "se_pending s = [p]" "pending_ok s p" "se_sock_open s"
      by (auto simp: session_ok_def)
    with False show ?thesis by (cases p) auto
  qed
qed

lemma ex_server_accepts:
  "reachable ex_server S d (handle_accept ex_server ClientSession Accepted ((server_run d)\<lparr>sv_accepting := None\<rparr>))"
  "sv_sessions (handle_accept ex_server ClientSession Accepted ((server_run d)\<lparr>sv_accepting := None\<rparr>)) = [ex_session]"
  unfolding reachable_def
  by (rule r_into_rtranclp, rule accept) (simp_all add: server_run_def handle_accept_def ex_session_start)

theorem sessions_have_one_operation_in_flight_witness:
  "\<exists>p. se_pending ex_session = [p]"
proof -
  have "ex_session \<in> set (sv_sessions (handle_accept ex_server ClientSession Accepted
      ((server_run ex_db)\<lparr>sv_accepting := None\<rparr>)))" by (simp add: ex_server_accepts(2))
  from sessions_have_one_operation_in_flight [OF ex_server_accepts(1) this]
  show ?thesis by (simp add: ex_session_def)
qed

text \<open>C11. The server keeps the tables consistent, its sessions honest and what is stored, also when
  its two workers run jobs at once and a message, a contact or a chat is written on the strength
  of an earlier look at the tables: in every reachable state every row is consistent with the
  others, two clients have at most one chat in common unless chats are created in a race, and a
  session that is logged in carries the identifier and the name of a client in the tables; from
  then on the tables only grow, with every row in its place, whatever fails, so that in every
  later state all this still holds and that client is still there.\<close>

theorem server_keeps_tables_and_identities:
  assumes "reachable env (worker_connections sha races) d0 sv" and "tables_inv races d0"
    and "(server_step env (worker_connections sha races))\<^sup>*\<^sup>* sv sv'"
  shows "tables_ok (sv_db sv') \<and> (one_chat (sv_db sv') \<or> races) \<and> sv_db sv \<le> sv_db sv' \<and>
    (\<forall>s \<in> set (sv_sessions sv) \<union> set (sv_sessions sv'). \<forall>cs. se_state s = Some cs \<longrightarrow>
       client_known (sv_db sv') (user_id cs) (user_name cs))"
proof -
  have "reachable env (worker_connections sha races) d0 sv'"
    using assms(1,3) unfolding reachable_def by (rule rtranclp_trans)
  note now = workers.reachable_storage [OF assms(1,2)] and later = workers.reachable_storage [OF this assms(2)]
  have up: "sv_db sv \<le> sv_db sv'" by (rule workers.storage_upwards [OF assms])
  have "client_known (sv_db sv') i n" if "client_known (sv_db sv) i n" for i n
    by (rule client_known_mono [OF that upwards_clients [OF up]])
  with now later up show ?thesis
    by (auto simp: session_known_def tables_inv_def db_inv_def split: if_splits)
qed

theorem server_keeps_tables_and_identities_witness:
  "ex_db \<le> sv_db (handle_accept ex_server ClientSession Accepted ((server_run ex_db)\<lparr>sv_accepting := None\<rparr>))"
proof -
  have "reachable ex_server (worker_connections ex_sha False) ex_db (server_run ex_db)"
    by (simp add: reachable_def)
  from server_keeps_tables_and_identities [OF this _ ex_server_accepts(1) [unfolded reachable_def]]
  show ?thesis by (simp add: server_run_def tables_inv_def ex_db_inv)
qed

text \<open>C18. The only exceptions that end the process are a failed accept and a buffer that cannot
  be allocated: no job, no failure of the database and no malformed message does, and the
  assertion of \<open>ClientSession::state\<close> never fails.\<close>

theorem what_ends_the_process:
  assumes "reachable env S d0 sv" and "sv_dead sv = Some e"
  shows "e = Accept_error \<or> e = Bad_alloc \<and> (\<exists>n. \<not> sv_can_alloc env n)"
  by (rule dead_reachable [OF assms])

theorem what_ends_the_process_witness:
  "let sv = handle_accept ex_server ClientSession Accept_failed ((server_run ())\<lparr>sv_accepting := None\<rparr>) in
   the (sv_dead sv) = Accept_error \<or> the (sv_dead sv) = Bad_alloc \<and> (\<exists>n. \<not> sv_can_alloc ex_server n)"
  unfolding Let_def
proof (rule what_ends_the_process)
  let ?sv = "handle_accept ex_server ClientSession Accept_failed ((server_run ())\<lparr>sv_accepting := None\<rparr>)"
  show "reachable ex_server {} () ?sv"
    unfolding reachable_def by (rule r_into_rtranclp, rule accept) (simp_all add: server_run_def)
  show "sv_dead ?sv = Some (the (sv_dead ?sv))"
    by (simp add: handle_accept_def)
qed

text \<open>C39. One packet of nine bytes from any peer, logged in or not, ends the process for all
  clients when it announces a message for which no buffer can be allocated.\<close>

theorem announced_length_ends_the_process:
  assumes "pb_wire P" and "sv_pb env = P" and "PREFIX_SIZE \<le> total_bytes_limit P"
    and "PREFIX_SIZE < unat n" and "\<not> sv_can_alloc env (unat n)"
    and "i < length (sv_sessions sv)" and "awaiting (sv_sessions sv ! i)"
  shows "sv_dead (complete_session env st i (Read_prefix_done False
    (LengthPrefix_SerializeToArray P \<lparr>LengthPrefix_length = n\<rparr>)) sv) = Some Bad_alloc"
proof -
  let ?p = "LengthPrefix_SerializeToArray P \<lparr>LengthPrefix_length = n\<rparr>" and ?s = "sv_sessions sv ! i"
  have n: "n \<noteq> 0" using assms(4) by auto
  note len = pb_wire.announced_length [OF assms(1) n]
  have "parse_from_array P (LengthPrefix_MergePartialFromCodedStream P) LengthPrefix_default ?p =
      Some \<lparr>LengthPrefix_length = n\<rparr>"
    by (rule pb_wire.announced_parse [OF assms(1) n assms(3)])
  moreover have "poke 0 ?p (se_buffer ?s) = ?p"
    using awaiting_buffer [OF assms(7)] len by (simp add: poke_def)
  ultimately have "complete env st (Read_prefix_done False ?p) ?s (sv_db sv) = (Inl Bad_alloc, sv_db sv)"
    using assms(2,4,5,7) len
    by (simp add: on_read_prefix_def do_async_read_message_def vector_resize_def awaiting_def)
  then show ?thesis by (simp add: complete_session_def)
qed

theorem announced_length_ends_the_process_witness:
  "sv_dead (complete_session (ex_server\<lparr>sv_can_alloc := (\<lambda>n. n < 1000)\<rparr>) ex_storage 0 (Read_prefix_done False
    (LengthPrefix_SerializeToArray pb_ref \<lparr>LengthPrefix_length = 2 ^ 63\<rparr>))
    ((server_run ex_db)\<lparr>sv_sessions := [ex_session]\<rparr>)) = Some Bad_alloc"
  by (rule announced_length_ends_the_process [OF pbr.pb_wire_axioms]) (simp_all add: pb_ref_def ex_server_def)

section \<open>Sessions and packets\<close>

text \<open>A run of the server with one session up to the job of its first request.\<close>

lemma alone_step:
  assumes "alone env S d0 s d" and "st \<in> S" and "enabled c s" and "complete env st c s d = (Inr s', d')"
  shows "alone env S d0 s' d'"
proof -
  obtain sv where sv: "reachable env S d0 sv" "sv_dead sv = None" "sv_sessions sv = [s]" "sv_db sv = d"
    "sv_acceptor_open sv" using assms(1) by (auto simp: alone_def)
  have "server_step env S sv (complete_session env st 0 c sv)"
    using sv assms by (intro server_step.session) simp_all
  with sv assms(4) show ?thesis
    by (auto simp: alone_def reachable_def complete_session_def
        intro!: exI [of _ "complete_session env st 0 c sv"] intro: rtranclp.rtrancl_into_rtrancl)
qed

lemma ex_steps:
  "\<exists>s1. alone ex_server {ex_storage} ex_db s1 ex_db \<and> \<not> se_stopped s1 \<and>
     se_pending s1 = [Async_read_message (of_nat (WrappedMessage_ByteSize pb_ref ex_send_request))]"
  "\<exists>s2. alone ex_server {ex_storage} ex_db s2 ex_db \<and> se_pending s2 = [Posted ParseCommand]"
  "\<exists>s3. alone ex_server {ex_storage} ex_db s3 ex_db \<and>
     se_pending s3 = [Posted (SendMesgReq \<lparr>SendMessageRequest_mesg = Some ex_mesg\<rparr>)]"
proof -
  let ?sv = "handle_accept ex_server ClientSession Accepted ((server_run ex_db)\<lparr>sv_accepting := None\<rparr>)"
  let ?m = ex_send_request and ?b = "WrappedMessage_SerializeToArray pb_ref ex_send_request"
  let ?n = "WrappedMessage_ByteSize pb_ref ?m" and ?j = "SendMesgReq \<lparr>SendMessageRequest_mesg = Some ex_mesg\<rparr>"
  let ?s1 = "ex_session\<lparr>se_buffer := resize ?n (prefix_of pb_ref ?m), se_pending := [Async_read_message (of_nat ?n)]\<rparr>"
  let ?s2 = "?s1\<lparr>se_buffer := ?b, se_pending := [Posted ParseCommand], se_received := [?b]\<rparr>"
  let ?s3 = "?s2\<lparr>se_pending := [Posted ?j]\<rparr>"
  have live: "\<not> se_stopped ex_session" "se_received ex_session = []" "se_sent ex_session = []"
    "se_sock_open ex_session" "length (se_buffer ex_session) = 9" "se_pending ex_session = [Async_read_prefix]"
    "se_state ex_session = None"
    by (simp_all add: ex_session_def ClientSession_def)
  have sv: "sv_dead ?sv = None" "sv_db ?sv = ex_db" "sv_sessions ?sv = [ex_session]" "sv_acceptor_open ?sv"
    using ex_server_accepts(2) [of ex_db] by (simp_all add: handle_accept_def ex_session_start server_run_def)
  have 1: "complete ex_server ex_storage (Read_prefix_done False (prefix_of pb_ref ?m)) ex_session ex_db = (Inr ?s1, ex_db)"
    using pbr.receive_prefix [of ex_server ?m ex_session ex_storage ex_db] by simp
  have 2: "complete ex_server ex_storage (Read_message_done False ?b (of_nat ?n)) ?s1 ex_db = (Inr ?s2, ex_db)"
    using pbr.receive_message [of ex_server ?m ?s1 ex_storage ex_db] live by simp
  have "ParseCommandJob ex_server (take_pending (Posted ParseCommand) ?s2) =
      post_job ?j (take_pending (Posted ParseCommand) ?s2)"
    using pbr.parse_request [of ex_server "Request_send_mesg_request \<lparr>SendMessageRequest_mesg = Some ex_mesg\<rparr>"
        "take_pending (Posted ParseCommand) ?s2"] ex_send_request_sendable
    by (simp add: ex_send_request_def del: WrappedMessage_SerializeToArray.simps)
  then have 3: "complete ex_server ex_storage (Job_run ParseCommand) ?s2 ex_db = (Inr ?s3, ex_db)"
    by (simp add: post_job_def take_pending_def)
  have e1: "enabled (Read_prefix_done False (prefix_of pb_ref ?m)) ex_session"
    using live by (simp add: enabled_def)
  have e2: "enabled (Read_message_done False ?b (of_nat ?n)) ?s1"
    using pbr.body_length [OF ex_send_request_sendable] by (simp add: enabled_def)
  have "alone ex_server {ex_storage} ex_db ex_session ex_db"
    using sv ex_server_accepts(1) [of "{ex_storage}" ex_db] unfolding alone_def by blast
  from alone_step [OF this _ e1 1] have a1: "alone ex_server {ex_storage} ex_db ?s1 ex_db" by simp
  from alone_step [OF a1 _ e2 2] have a2: "alone ex_server {ex_storage} ex_db ?s2 ex_db" by simp
  from alone_step [OF a2 _ _ 3] have a3: "alone ex_server {ex_storage} ex_db ?s3 ex_db" by (simp add: enabled_def)
  show "\<exists>s1. alone ex_server {ex_storage} ex_db s1 ex_db \<and> \<not> se_stopped s1 \<and>
     se_pending s1 = [Async_read_message (of_nat (WrappedMessage_ByteSize pb_ref ex_send_request))]"
    using a1 live(1) by (intro exI [of _ ?s1]) simp
  show "\<exists>s2. alone ex_server {ex_storage} ex_db s2 ex_db \<and> se_pending s2 = [Posted ParseCommand]"
    using a2 by (intro exI [of _ ?s2]) simp
  show "\<exists>s3. alone ex_server {ex_storage} ex_db s3 ex_db \<and>
     se_pending s3 = [Posted (SendMesgReq \<lparr>SendMessageRequest_mesg = Some ex_mesg\<rparr>)]"
    using a3 by (intro exI [of _ ?s3]) simp
qed



text \<open>C10. The jobs implement their specification: each one sends exactly the response that
  \<open>answer\<close> gives for the identity of the session and the storage, sets the identity only
  after a successful login, and leaves the storage that \<open>answer\<close> gives.\<close>

theorem jobs_implement_the_specification:
  assumes "j \<noteq> ParseCommand"
  shows "run_job env st j s d =
    (case answer st j (se_state s) d of
       (r, cs, d') \<Rightarrow> (session_write env (WrappedMessage_response r) (s\<lparr>se_state := cs\<rparr>), d'))"
  by (rule run_job_answer [OF assms])

theorem jobs_implement_the_specification_witness:
  "run_job ex_server ex_storage (LoginReq \<lparr>LoginRequest_email = [97, 64], LoginRequest_password = [1]\<rparr>) ex_session ex_db =
    (session_write ex_server (WrappedMessage_response (Response_login_response \<lparr>LoginResponse_profile =
        Some \<lparr>Contact_user_id = 1, Contact_name = [97], Contact_email = [97, 64]\<rparr>\<rparr>))
      (ex_session\<lparr>se_state := Some \<lparr>user_id = 1, user_name = [97], email = [97, 64]\<rparr>\<rparr>), ex_db)"
  using jobs_implement_the_specification [of "LoginReq \<lparr>LoginRequest_email = [97, 64], LoginRequest_password = [1]\<rparr>"
      ex_server ex_storage ex_session ex_db]
  by (simp add: ex_storage_def postgres_storage_def ex_login)

text \<open>C38. Reading messages is not restricted to the members of a chat: a session that is logged in
  as anybody is sent every message of the chat it names.\<close>

theorem any_client_reads_any_chat:
  assumes "tables_ok d" and "pg_up pg" and "logged_in s" and "int4 (MessagesRequest_chat_id m) = Some c"
  shows "\<exists>ms. run_job env (postgres_storage sha pg) (MessagesReq m) s d =
      (session_write env (WrappedMessage_response (Response_messages_response \<lparr>MessagesResponse_messages = ms\<rparr>)) s, d) \<and>
    mset ms = image_mset message_of_row (mset (filter (\<lambda>x. ms_chat_id x = c) (Message d)))"
proof -
  obtain ms where ms: "get_messages pg (MessagesRequest_chat_id m) d = (\<lparr>MessagesResponse_messages = ms\<rparr>, d)"
    using get_messages_snd [of pg "MessagesRequest_chat_id m" d]
    by (cases "get_messages pg (MessagesRequest_chat_id m) d"; cases "fst (get_messages pg (MessagesRequest_chat_id m) d)")
      auto
  moreover have "mset ms = image_mset message_of_row (mset (filter (\<lambda>x. ms_chat_id x = c) (Message d)))"
    using get_messages_reads_rows [OF assms(1,2,4)] ms by simp
  ultimately show ?thesis
    using assms(3) by (auto simp: MessagesRequestJob_def with_login_def logged_in_def state_def postgres_storage_def)
qed

theorem any_client_reads_any_chat_witness:
  "\<not> chat_member ex_db 3 1 \<and>
   (\<exists>ms. run_job ex_server ex_storage (MessagesReq \<lparr>MessagesRequest_chat_id = 1\<rparr>) ex_eve_session ex_db =
      (session_write ex_server (WrappedMessage_response (Response_messages_response
         \<lparr>MessagesResponse_messages = ms\<rparr>)) ex_eve_session, ex_db) \<and>
    mset ms = {#\<lparr>MessageToRecieve_sender_id = 2, MessageToRecieve_text = [104, 105]\<rparr>#})"
proof -
  have "logged_in ex_eve_session" by (simp add: logged_in_def ex_eve_session_def set_state_def)
  moreover have "image_mset message_of_row (mset (filter (\<lambda>x. ms_chat_id x = 1) (Message ex_db))) =
      {#\<lparr>MessageToRecieve_sender_id = 2, MessageToRecieve_text = [104, 105]\<rparr>#}"
    by (simp add: ex_tables message_of_row_def)
  ultimately show ?thesis
    using any_client_reads_any_chat [of ex_db ex_pg ex_eve_session "\<lparr>MessagesRequest_chat_id = 1\<rparr>" 1 ex_server ex_sha]
    by (simp add: ex_member ex_storage_def)
qed

section \<open>Progress and shutdown\<close>

text \<open>C9. Every request is answered: a session that has read a packet completely parses it in one
  job, and then it is closed or one more job puts exactly one packet into the socket; the
  write done, the session waits for the next prefix. This holds in every reachable state and
  for every behaviour of the storage, if memory can be had.\<close>

theorem every_request_is_answered:
  assumes "reachable env S d0 sv" and "s \<in> set (sv_sessions sv)" and "se_pending s = [Posted ParseCommand]"
    and "\<forall>n. sv_can_alloc env n"
  shows "\<exists>s1. complete env st (Job_run ParseCommand) s d = (Inr s1, d) \<and>
     (se_stopped s1 \<or>
      (\<exists>j s2 d' s3. se_pending s1 = [Posted j] \<and> complete env st' (Job_run j) s1 d1 = (Inr s2, d') \<and>
         se_pending s2 = [Async_write] \<and> length (se_sent s2) = Suc (length (se_sent s)) \<and>
         complete env st'' (Write_done False) s2 d2 = (Inr s3, d2) \<and> awaiting s3))"
proof -
  have ok: "session_ok s" using sessions_ok_reachable [OF assms(1)] assms(2) by blast
  then show ?thesis by (rule parsed_request_answered [OF _ assms(3,4)])
qed

theorem every_request_is_answered_witness:
  "\<exists>s s1. se_pending s = [Posted ParseCommand] \<and>
     complete ex_server ex_storage (Job_run ParseCommand) s ex_db = (Inr s1, ex_db)"
proof -
  obtain s where s: "alone ex_server {ex_storage} ex_db s ex_db" "se_pending s = [Posted ParseCommand]"
    using ex_steps(2) by blast
  then obtain sv where "reachable ex_server {ex_storage} ex_db sv" "s \<in> set (sv_sessions sv)"
    by (auto simp: alone_def)
  from every_request_is_answered [OF this s(2), of ex_storage ex_db] s(2) show ?thesis by auto
qed

text \<open>C20. The server listens until the first signal: before it, a reachable server that has not
  died waits for the next connection, so that its event loop does not return and one more
  client can be accepted at once; after it, the acceptor stays closed.\<close>

theorem listens_until_the_signal:
  assumes "reachable env S d0 sv" and "sv_dead sv = None" and "\<forall>n. sv_can_alloc env n"
  shows "(if sv_signal_wait sv
      then \<not> loop_done sv \<and> (\<exists>sv' s. server_step env S sv sv' \<and> sv_sessions sv' = sv_sessions sv @ [s] \<and>
        awaiting s \<and> sv_dead sv' = None)
      else \<not> sv_acceptor_open sv)"
proof (cases "sv_signal_wait sv")
  case True
  then obtain c where acc: "sv_accepting sv = Some c" using listening_reachable [OF assms(1)] assms(2) by auto
  with accepting_reachable [OF assms(1)] have c: "c = ClientSession" by auto
  obtain s where s: "start env ClientSession = Inr s" "awaiting s"
    using assms(3) by (force simp: start_def do_async_read_prefix_def vector_resize_def awaiting_def session_ok_def
        ClientSession_def)
  have "server_step env S sv (handle_accept env c Accepted (sv\<lparr>sv_accepting := None\<rparr>))"
    using assms(2) acc by (intro accept) simp_all
  with True acc c s assms(2) show ?thesis
    by (auto simp: loop_done_def handle_accept_def intro!: exI)
qed (use listening_reachable [OF assms(1)] in simp)

theorem listens_until_the_signal_witness:
  "\<not> loop_done (server_run ex_db)"
  using listens_until_the_signal [of ex_server "{ex_storage}" ex_db "server_run ex_db"]
  by (simp add: reachable_def) (simp add: server_run_def)

text \<open>A signal abandons requests in progress: when the only session is reading a message while
  the signal comes, the read completes, its job goes to the thread pool, nothing is left on
  the event loop and \<open>run\<close> returns with the request unanswered.\<close>

lemma shutdown_abandons_requests:
  assumes "reachable env S d0 sv" and "sv_dead sv = None" and "sv_acceptor_open sv" and "S \<noteq> {}"
    and "sv_sessions sv = [s]" and "\<not> se_stopped s" and "se_pending s = [Async_read_message n]"
  shows "\<exists>sv' s'. reachable env S d0 sv' \<and> loop_done sv' \<and> sv_dead sv' = None \<and> sv_sessions sv' = [s'] \<and>
    \<not> se_stopped s' \<and> length (se_received s') = Suc (length (se_sent s'))"
proof -
  let ?sv1 = "signal_handler (sv\<lparr>sv_signal_wait := False\<rparr>)" and ?c = "Read_message_done False (replicate (unat n) 0) n"
  let ?sv2 = "handle_accept env ClientSession Operation_canceled (?sv1\<lparr>sv_accepting := None\<rparr>)"
  obtain st where st: "st \<in> S" using assms(4) by blast
  have sig: "sv_signal_wait sv" "sv_accepting sv = Some ClientSession"
    using listening_reachable [OF assms(1)] accepting_reachable [OF assms(1)] assms(2,3) by auto
  have "session_ok s" using sessions_ok_reachable [OF assms(1)] assms(5) by simp
  then have s: "length (se_buffer s) = unat n" "length (se_sent s) = length (se_received s)"
    using assms(6,7) by (auto simp: session_ok_def)
  let ?s' = "on_read_message False (unat n) n (fill_buffer (replicate (unat n) 0) (take_pending (Async_read_message n) s))"
  have sv3: "complete_session env st 0 ?c ?sv2 = ?sv2\<lparr>sv_sessions := [?s'], sv_db := sv_db sv\<rparr>"
    using assms(5) by (simp add: complete_session_def handle_accept_def signal_handler_def)
  have "server_step env S sv ?sv1" using assms(2) sig by (intro server_step.signal) simp_all
  moreover have "server_step env S ?sv1 ?sv2"
    using assms(2) sig by (intro accept) (simp_all add: signal_handler_def)
  moreover have "server_step env S ?sv2 (complete_session env st 0 ?c ?sv2)"
    using assms(2,5,7) s st
    by (intro server_step.session) (simp_all add: handle_accept_def signal_handler_def enabled_def)
  ultimately have "reachable env S d0 (complete_session env st 0 ?c ?sv2)"
    using assms(1) unfolding reachable_def by (meson rtranclp.rtrancl_into_rtrancl)
  then show ?thesis
    unfolding sv3 using assms(2,6,7) s
    by (intro exI [of _ "?sv2\<lparr>sv_sessions := [?s'], sv_db := sv_db sv\<rparr>"] exI [of _ ?s'])
      (simp add: loop_done_def handle_accept_def signal_handler_def on_read_message_def take_pending_def fill_buffer_def)
qed

lemma shutdown_abandons_requests_example:
  "\<exists>sv' s'. reachable ex_server {ex_storage} ex_db sv' \<and> loop_done sv' \<and> sv_sessions sv' = [s'] \<and>
    length (se_received s') = Suc (length (se_sent s'))"
proof -
  obtain sv s where "reachable ex_server {ex_storage} ex_db sv" "sv_dead sv = None" "sv_sessions sv = [s]"
    "sv_acceptor_open sv" "\<not> se_stopped s"
    "se_pending s = [Async_read_message (of_nat (WrappedMessage_ByteSize pb_ref ex_send_request))]"
    using ex_steps(1) by (auto simp: alone_def)
  with shutdown_abandons_requests [of ex_server "{ex_storage}" ex_db sv s] show ?thesis by blast
qed

text \<open>C21. How the program ends: with wrong arguments it never returns \<open>EXIT_FAILURE\<close> but is
  terminated by the uncaught exception of the argument parser; it succeeds at once exactly for
  the help text; otherwise it serves, with a port and a log as the arguments say, returns \<open>EXIT_SUCCESS\<close> only after a signal, and is
  terminated only by a failed accept or a failed allocation.\<close>

theorem program_ends:
  assumes "po_documented po"
  shows "main_start po can_bind database argv \<noteq> Inl Exit_failure \<and>
    (main_start po can_bind database argv = Inl Exit_success \<longleftrightarrow>
       (\<exists>vm. po_store po argv = Inr vm \<and> po_help po vm)) \<and>
    (\<forall>logging sv0 sv. main_start po can_bind database argv = Inr (logging, sv0) \<longrightarrow> (server_step env S)\<^sup>*\<^sup>* sv0 sv \<longrightarrow>
       (\<exists>vm port. po_store po argv = Inr vm \<and> po_notify po vm = Inr (port, logging) \<and> can_bind port) \<and>
       main_end sv \<noteq> Some Exit_failure \<and>
       (main_end sv = Some Exit_success \<longrightarrow> \<not> sv_acceptor_open sv) \<and>
       (main_end sv = Some Std_terminate \<longrightarrow>
          sv_dead sv = Some Accept_error \<or> sv_dead sv = Some Bad_alloc \<and> (\<exists>n. \<not> sv_can_alloc env n)))"
proof -
  have "main_end sv \<noteq> Some Exit_failure \<and> (main_end sv = Some Exit_success \<longrightarrow> \<not> sv_acceptor_open sv) \<and>
      (main_end sv = Some Std_terminate \<longrightarrow>
         sv_dead sv = Some Accept_error \<or> sv_dead sv = Some Bad_alloc \<and> (\<exists>n. \<not> sv_can_alloc env n))"
    if "reachable env S d sv" for d sv
    using listening_reachable [OF that] dead_reachable [OF that]
    by (auto simp: main_end_def loop_done_def split: if_splits)
  note ends = this
  have run: "reachable env S (database (create_connection default_factory)) sv"
    "\<exists>vm port. po_store po argv = Inr vm \<and> po_notify po vm = Inr (port, logging) \<and> can_bind port"
    if "main_start po can_bind database argv = Inr (logging, sv0)" "(server_step env S)\<^sup>*\<^sup>* sv0 sv" for logging sv0 sv
    using that by (auto simp: main_start_cases [OF assms] reachable_def split: sum.splits if_splits)
  have "main_start po can_bind database argv \<noteq> Inl Exit_failure \<and>
      (main_start po can_bind database argv = Inl Exit_success \<longleftrightarrow>
        (\<exists>vm. po_store po argv = Inr vm \<and> po_help po vm))"
    by (auto simp: main_start_cases [OF assms] split: sum.splits if_splits)
  with run(2) ends [OF run(1)] show ?thesis by blast
qed

definition ex_po :: "bytes list po" where
  "ex_po = \<lparr>po_store = (\<lambda>argv. Inr argv), po_help = (\<lambda>argv. argv = [str ''--help'']),
     po_notify = (\<lambda>argv. if argv = [] then Inl Other_error else Inr (8000, False))\<rparr>"

theorem program_ends_witness:
  "main_start ex_po (\<lambda>port. True) (\<lambda>conn. ex_db) [str ''--help''] = Inl Exit_success \<and>
   main_start ex_po (\<lambda>port. True) (\<lambda>conn. ex_db) [] \<noteq> Inl Exit_failure"
proof -
  have "po_documented ex_po" by (simp add: po_documented_def ex_po_def)
  note ends = program_ends [OF this, of "\<lambda>port. True" "\<lambda>conn. ex_db" _ ex_server "{ex_storage}"]
  show ?thesis using ends [of "[str ''--help'']"] ends [of "[]"] by (simp add: ex_po_def)
qed

end
