(* ===== verification/Client_Main.thy ===== *)
theory Client_Main
  imports Client_Inv
begin

text \<open>
  The start of the client program (\<open>client/src/main.cpp\<close>): the network session that some
  platforms require, with the configuration that is remembered between runs, then the lists and
  the facade, and the QML engine. Qt's network manager, its settings store and the engine are
  third-party.
\<close>

section \<open>The network configuration\<close>

text \<open>
  \<^item> \<open>qn_required\<close>: the capability \<open>NetworkSessionRequired\<close>;
  \<^item> \<open>qn_from_identifier\<close>, \<open>qn_default\<close>: configurations of the manager;
  \<^item> \<open>qn_open\<close>: the configuration of the session after \<open>open\<close> and \<open>waitForOpened\<close>, or \<open>None\<close> when
    it is not open;
  \<^item> \<open>qn_chosen\<close>: the property \<open>UserChoiceConfiguration\<close> of a session with that configuration.
\<close>

record 'c qt_network =
  qn_required :: bool
  qn_from_identifier :: "qstring \<Rightarrow> 'c"
  qn_discovered :: "'c \<Rightarrow> bool"
  qn_default :: 'c
  qn_open :: "'c \<Rightarrow> 'c option"
  qn_is_user_choice :: "'c \<Rightarrow> bool"
  qn_chosen :: "'c \<Rightarrow> qstring"
  qn_identifier :: "'c \<Rightarrow> qstring"

text \<open>The value of \<open>DefaultNetworkConfiguration\<close> in the settings of the user.\<close>

type_synonym settings = "qstring option"

definition network_configuration :: "'c qt_network \<Rightarrow> settings \<Rightarrow> 'c" where
  "network_configuration qn saved =
     (let id = (case saved of None \<Rightarrow> [] | Some v \<Rightarrow> v);
          config = qn_from_identifier qn id in
      if \<not> qn_discovered qn config then qn_default qn else config)"

definition open_network :: "'c qt_network \<Rightarrow> settings \<Rightarrow> settings" where
  "open_network qn saved =
     (if qn_required qn then
        (case qn_open qn (network_configuration qn saved) of
           None \<Rightarrow> saved
         | Some config \<Rightarrow>
             Some (if qn_is_user_choice qn config then qn_chosen qn config else qn_identifier qn config))
      else saved)"

section \<open>What QML can name\<close>

text \<open>
  The registered types: module, version, name and, for a type that QML cannot create, the error
  that it gets.
\<close>

definition qml_types :: "(string \<times> nat \<times> nat \<times> string \<times> string option) list" where
  "qml_types =
     [(''BackEnd'', 1, 0, ''BackEnd'', Some ''BackEnd should not be created in QML''),
      (''Chats'', 1, 0, ''ChatsModel'', None),
      (''Chats'', 1, 0, ''ChatsList'', Some ''ChatsList should not be created in QML''),
      (''Contacts'', 1, 0, ''ContactsModel'', None),
      (''Contacts'', 1, 0, ''ContactsList'', Some ''ContactsList should not be created in QML''),
      (''Messages'', 1, 0, ''MessagesModel'', None),
      (''Messages'', 1, 0, ''MessagesList'', Some ''MessagesList should not be created in QML'')]"

text \<open>
  QML can make models only. The facade and the lists exist once, as the objects of \<open>main\<close>, which is
  why one state describes the program.
\<close>

lemma qml_creates_models_only:
  "(m, v, w, name, None) \<in> set qml_types \<longleftrightarrow>
   v = 1 \<and> w = 0 \<and> (m, name) \<in> {(''Chats'', ''ChatsModel''), (''Contacts'', ''ContactsModel''), (''Messages'', ''MessagesModel'')}"
  by (auto simp: qml_types_def)

section \<open>The program\<close>

text \<open>
  The objects that \<open>main\<close> makes, and the value it returns at once when the engine has no root
  object; otherwise the program runs on the events that reach it.
\<close>

definition client_main :: "'c qt_network \<Rightarrow> client_env \<Rightarrow> bool \<Rightarrow> settings \<Rightarrow> (int + client) \<times> settings" where
  "client_main qn env qml_loaded saved =
     (let saved' = open_network qn saved; backend = BackEndFacade env in
      (if \<not> qml_loaded then Inl (- 1) else Inr backend, saved'))"

text \<open>A configuration that is still discovered is used again, and remembered again.\<close>

lemma open_network_again:
  assumes "qn_required qn" and "qn_open qn (network_configuration qn saved) = Some config"
    and "qn_discovered qn config" and "\<not> qn_is_user_choice qn config"
    and "qn_from_identifier qn (qn_identifier qn config) = config" and "qn_open qn config = Some config"
  shows "network_configuration qn (open_network qn saved) = config"
    and "open_network qn (open_network qn saved) = open_network qn saved"
  using assms by (simp_all add: open_network_def network_configuration_def)

text \<open>The program starts with the invariant of its events, unlocked and not connected.\<close>

lemma client_main_starts:
  assumes "client_main qn env qml_loaded saved = (Inr c, saved')"
  shows "client_inv env c \<and> availible c \<and> \<not> isConnected c"
  using assms client_inv_init [of env]
  by (auto simp: client_main_def Let_def availible_def isConnected_def BackEndFacade_def Backend_init_def Session_connect_def
      sock_abort_def split: if_splits)

end
