(* ===== verification/Client_Bounds.thy ===== *)
theory Client_Bounds
  imports Client_Inv
begin

text \<open>
  The numbers of the session of the client stay in their ranges, and what it takes to make the
  program read past its buffer or call a callback that was never set.
\<close>

section \<open>What leaves the session alone\<close>

text \<open>
  Everything except the reception of data keeps the counters of the session, raises no fault,
  and sets a callback whenever it writes a request.
\<close>

definition steady :: "client \<Rightarrow> client \<Rightarrow> bool" where
  "steady c c' \<longleftrightarrow> m_bytesReaded c' = m_bytesReaded c \<and> m_messageSize c' = m_messageSize c \<and>
     m_fault c' = m_fault c \<and> (m_callback c' = None \<longrightarrow> m_callback c = None \<and> sock_tx c' = sock_tx c)"

lemma steady_refl [simp, intro]: "steady c c"
  by (simp add: steady_def)

lemma steady_trans [trans]: "steady a b \<Longrightarrow> steady b c \<Longrightarrow> steady a c"
  by (auto simp: steady_def)

lemma steady_frame [simp]:
  "steady c (react r c') = steady c c'" "steady c (setAvailible a c') = steady c c'"
  "steady c (setServerIp ip c') = steady c c'" "steady c (setServerPort port c') = steady c c'"
  "steady c (setChats env chats c') = steady c c'" "steady c (setContacts env contacts c') = steady c c'"
  "steady c (setMessages env messages c') = steady c c'" "steady c (Backend_setProfile p c') = steady c c'"
  "steady c (c'\<lparr>sock_rx := data\<rparr>) = steady c c'" "steady c (c'\<lparr>sock_connected := b\<rparr>) = steady c c'"
  "steady c (c'\<lparr>sock_peer := peer\<rparr>) = steady c c'" "steady c (c'\<lparr>m_buffer := buf\<rparr>) = steady c c'"
  "steady c (c'\<lparr>m_mesagesList := l\<rparr>) = steady c c'"
  by (simp_all add: steady_def react_def setAvailible_def setServerIp_def setServerPort_def setChats_def
      setContacts_def setMessages_def Backend_setProfile_def)

lemma steady_emit [simp]: "steady c (emit sig c') = steady c c'"
  by (cases sig) simp_all

lemma steady_request: "steady c (Session_request env r j c)"
  by (auto simp: steady_def Session_request_def Let_def simp del: emit.simps)
    (simp_all add: react_def setAvailible_def)

lemma steady_abort [simp]: "steady c (sock_abort env c') = steady c c'"
  by (simp add: sock_abort_def Session_onDisconnection_def Let_def del: emit.simps)

lemma steady_callback: "steady c (responseProcessingCallback env j r c)"
proof (cases "second_round j r")
  case True
  from callback_second_round [OF this, of env c] obtain cs where
    "responseProcessingCallback env j r c = Session_request env createAllMyChatsRequest LoadDataJob (setContacts env cs c)"
    by blast
  moreover have "steady c (setContacts env cs c)" by simp
  ultimately show ?thesis using steady_request steady_trans by metis
next
  case False
  then show ?thesis
    by (cases j; cases r) (auto simp: LoginJob_callback_def LoadChatsJob_callback_def LoadContactsJob_callback_def
        LoadMessagesJob_callback_def LoadDataJob_callback_def simp del: emit.simps split: option.splits)
qed

lemma steady_step:
  assumes "\<nexists>data. ev = Receive data"
  shows "steady c (client_step env ev c)"
proof (cases ev)
  case (User_op op)
  have "steady c (Session_request env (job_request env op) (op_job op) (setAvailible False c))"
    by (rule steady_trans [OF _ steady_request]) simp
  with User_op show ?thesis by (simp add: BackEndFacade_op_request)
next
  case (Update_settings ip port)
  then show ?thesis
    by (simp add: BackEndFacade_updateConnectionSettings_def Backend_updateConnectionSettings_def
        Session_connect_def del: emit.simps)
next
  case (Socket_error e)
  then show ?thesis by (cases e) (simp_all del: emit.simps)
qed (use assms in \<open>simp_all add: Session_onConnection_def Session_onDisconnection_def del: emit.simps\<close>)

section \<open>Receiving\<close>

text \<open>A session that remembers a prefix has parsed it.\<close>

definition counters_ok :: "client \<Rightarrow> bool" where
  "counters_ok c \<longleftrightarrow> (m_bytesReaded c = 0 \<or> m_bytesReaded c = int PREFIX_SIZE \<and> m_messageSize c \<noteq> PARSE_ERROR) \<and>
     - (2 ^ 63) \<le> m_messageSize c \<and> m_messageSize c < 2 ^ 63 \<and> (m_callback c = None \<longrightarrow> sock_tx c = [])"

text \<open>What one reception can do to a client without a fault.\<close>

definition fault_explained :: "client \<Rightarrow> client \<Rightarrow> bool" where
  "fault_explained c c' \<longleftrightarrow>
     (m_fault c' = Some Bad_buffer_size \<longrightarrow> m_messageSize c' < PARSE_ERROR \<or> 2 ^ 31 \<le> m_messageSize c') \<and>
     (m_fault c' = Some Bad_function_call \<longrightarrow> m_callback c = None \<and> sock_tx c' = sock_tx c)"

text \<open>The uses of the buffer change nothing else of the session.\<close>

definition buffered :: "client \<Rightarrow> client \<Rightarrow> bool" where
  "buffered c c' \<longleftrightarrow> m_messageSize c' = m_messageSize c \<and> m_callback c' = m_callback c \<and> sock_tx c' = sock_tx c \<and>
     (m_fault c' = m_fault c \<or> m_fault c = None \<and> m_fault c' = Some Bad_buffer_size)"

lemma buffered_refl: "buffered c c" "buffered c (c\<lparr>m_bytesReaded := k\<rparr>)"
  by (simp_all add: buffered_def)

lemma buffered_trans [trans]: "buffered a b \<Longrightarrow> buffered b c \<Longrightarrow> buffered a c"
  by (auto simp: buffered_def)

lemma buffered_ops:
  "buffered c (QVector_resize k c)" "buffered c (snd (sock_read k c))" "buffered c (snd (parse_buffer P parse m k c))"
  by (simp_all add: QVector_resize_def sock_read_def parse_buffer_def buffered_def set_fault_def Let_def)

lemma buffered_readMessage: "buffered c (snd (Session_readMessage env n c))"
proof -
  let ?s = "sock_read n (QVector_resize (to_int n) c)"
  let ?c1 = "(snd ?s)\<lparr>m_bytesReaded := m_bytesReaded (snd ?s) + fst ?s\<rparr>"
  have "buffered c ?c1" by (rule buffered_trans [OF buffered_trans [OF buffered_ops(1) buffered_ops(2)] buffered_refl(2)])
  also have "buffered ?c1 (snd (Session_readMessage env n c))"
    by (simp add: readMessage_state split_beta Let_def buffered_ops)
  finally show ?thesis .
qed

lemma readMessage_no_fault:
  assumes "0 \<le> n" and "n < 2 ^ 31"
  shows "m_fault (snd (Session_readMessage env n c)) = m_fault c"
  using assms by (simp add: readMessage_fits Let_def)

text \<open>A negative size is a fault as soon as it is used, whether or not its cast to \<open>int\<close> is negative.\<close>

lemma readMessage_negative:
  assumes "n < 0" and "m_fault c = None"
  shows "m_fault (snd (Session_readMessage env n c)) = Some Bad_buffer_size"
  using assms
  by (simp add: readMessage_state sock_read_def QVector_resize_def parse_buffer_def set_fault_def)

text \<open>After the message was read: no callback, or nothing of the session changes.\<close>

lemma load_mesg_then:
  assumes "c1 = snd (Session_readMessage env (m_messageSize c) c)"
  shows "load_mesg env c = set_fault Bad_function_call c1 \<and> m_callback c1 = None \<or> steady c1 (load_mesg env c)"
proof (cases "fst (Session_readMessage env (m_messageSize c) c)")
  case None
  with assms show ?thesis by (simp add: load_mesg_def split_beta)
next
  case (Some m)
  with assms steady_callback show ?thesis
    by (auto simp: load_mesg_def split_beta Session_processResponse_def split: WrappedMessage.splits option.splits)
qed

lemma load_mesg_effect:
  "m_messageSize (load_mesg env c) = m_messageSize c \<and>
   (m_callback (load_mesg env c) = None \<longrightarrow> m_callback c = None \<and> sock_tx (load_mesg env c) = sock_tx c) \<and>
   (m_fault c = None \<longrightarrow> m_messageSize c \<noteq> PARSE_ERROR \<longrightarrow> fault_explained c (load_mesg env c))"
proof -
  define c1 where "c1 = snd (Session_readMessage env (m_messageSize c) c)"
  have c1: "m_messageSize c1 = m_messageSize c" "m_callback c1 = m_callback c" "sock_tx c1 = sock_tx c"
    "m_fault c = None \<longrightarrow> m_fault c1 = None \<or> m_fault c1 = Some Bad_buffer_size"
    using buffered_readMessage [of c env "m_messageSize c"] by (auto simp: c1_def buffered_def)
  have size: "m_messageSize c < 0 \<or> 2 ^ 31 \<le> m_messageSize c" if "m_fault c1 \<noteq> m_fault c"
    using that readMessage_no_fault [of "m_messageSize c" env c] by (force simp: c1_def)
  from load_mesg_then [OF c1_def] show ?thesis
  proof
    assume "load_mesg env c = set_fault Bad_function_call c1 \<and> m_callback c1 = None"
    with c1 size show ?thesis by (auto simp: set_fault_def fault_explained_def)
  next
    assume "steady c1 (load_mesg env c)"
    with c1 size show ?thesis by (auto simp: steady_def fault_explained_def)
  qed
qed

lemma sint_u64: "- (2 ^ 63) \<le> sint (w :: u64)" "sint (w :: u64) < 2 ^ 63"
  using sint_range_size [of w] by (simp_all add: word_size)

lemmas sint_u64_numeral = sint_u64 [simplified]

lemma readPrefix_effect:
  "m_callback (snd (Session_readPrefix env c)) = m_callback c" "sock_tx (snd (Session_readPrefix env c)) = sock_tx c"
  "m_fault (snd (Session_readPrefix env c)) = m_fault c"
  "- (2 ^ 63) \<le> fst (Session_readPrefix env c)" "fst (Session_readPrefix env c) < 2 ^ 63"
  "int PREFIX_SIZE \<le> bytesAvailable c \<Longrightarrow> m_bytesReaded (snd (Session_readPrefix env c)) = int PREFIX_SIZE"
  by (simp_all add: readPrefix_fits Let_def sint_u64_numeral bytesAvailable_def
      split: option.splits)

lemma readyRead_effect:
  assumes "counters_ok c"
  shows "counters_ok (Session_onReadyRead env c) \<and> (m_fault c = None \<longrightarrow> fault_explained c (Session_onReadyRead env c))"
proof -
  define p where "p = Session_readPrefix env (c\<lparr>m_bytesReaded := 0\<rparr>)"
  define c2 where "c2 = (snd p)\<lparr>m_messageSize := fst p\<rparr>"
  note p = readPrefix_effect [where env = env and c = "c\<lparr>m_bytesReaded := 0\<rparr>", folded p_def, simplified]
  have c2: "m_fault c2 = m_fault c" "m_callback c2 = m_callback c" "sock_tx c2 = sock_tx c"
    using p by (simp_all add: c2_def)
  have ok: "counters_ok c2" if "bytesAvailable c \<ge> int PREFIX_SIZE" "m_messageSize c2 \<noteq> PARSE_ERROR"
    using that p assms by (simp add: counters_ok_def c2_def bytesAvailable_def)
  have abort: "counters_ok ((sock_abort env c2)\<lparr>m_bytesReaded := 0\<rparr>)"
  proof -
    have "steady c2 (sock_abort env c2)" by simp
    with p assms show ?thesis by (auto simp: counters_ok_def steady_def c2_def)
  qed
  have afault: "m_fault (sock_abort env c2) = m_fault c"
    using steady_abort [of c2 env c2] c2(1) by (simp add: steady_def)
  have load: "counters_ok ((load_mesg env x)\<lparr>m_bytesReaded := 0\<rparr>)" if "counters_ok x" for x
    using that load_mesg_effect [of env x] by (auto simp: counters_ok_def)
  have lfault: "fault_explained c ((load_mesg env x)\<lparr>m_bytesReaded := 0\<rparr>)"
    if "m_fault x = None" "m_callback x = m_callback c" "sock_tx x = sock_tx c" "m_messageSize x \<noteq> PARSE_ERROR" for x
    using that load_mesg_effect [of env x] by (auto simp: fault_explained_def)
  have idle: "fault_explained c x" if "m_fault x = None" for x
    using that by (simp add: fault_explained_def)
  have zero: "counters_ok (c\<lparr>m_bytesReaded := 0\<rparr>)" using assms by (simp add: counters_ok_def)
  have "Session_onReadyRead env c =
     (if m_bytesReaded c < int PREFIX_SIZE \<and> bytesAvailable c \<ge> int PREFIX_SIZE then
        (if m_messageSize c2 = PARSE_ERROR then (sock_abort env c2)\<lparr>m_bytesReaded := 0\<rparr>
         else if bytesAvailable c2 = m_messageSize c2 then (load_mesg env c2)\<lparr>m_bytesReaded := 0\<rparr>
         else c2)
      else if m_bytesReaded c = int PREFIX_SIZE \<and> bytesAvailable c \<ge> m_messageSize c
      then (load_mesg env c)\<lparr>m_bytesReaded := 0\<rparr>
      else c\<lparr>m_bytesReaded := 0\<rparr>)"
    by (simp only: Session_onReadyRead_def p_def [symmetric] split_beta Let_def c2_def [symmetric])
  moreover have "m_bytesReaded c = int PREFIX_SIZE \<Longrightarrow> m_messageSize c \<noteq> PARSE_ERROR"
    using assms by (auto simp: counters_ok_def)
  ultimately show ?thesis
    using ok abort load load [OF assms] lfault [of c2] lfault [of c] c2 afault zero idle by simp
qed

section \<open>Runs\<close>

lemma client_step_bounds:
  assumes "counters_ok c"
  shows "counters_ok (client_step env ev c) \<and>
    (m_fault c = None \<longrightarrow> m_fault (client_step env ev c) \<noteq> None \<longrightarrow>
       (\<exists>data. ev = Receive data) \<and> fault_explained c (client_step env ev c))"
proof (cases "\<exists>data. ev = Receive data")
  case True
  then obtain data where ev: "ev = Receive data" by blast
  have "counters_ok (c\<lparr>sock_rx := sock_rx c @ data\<rparr>)" using assms by (simp add: counters_ok_def)
  from readyRead_effect [OF this, of env] show ?thesis
    by (auto simp: ev receive_def fault_explained_def)
next
  case False
  with steady_step [of ev c env] assms show ?thesis by (auto simp: counters_ok_def steady_def)
qed

lemma counters_ok_run: "counters_ok c \<Longrightarrow> counters_ok (client_run env evs c)"
  by (induction evs arbitrary: c) (simp_all add: client_step_bounds)

lemma counters_ok_init: "counters_ok (BackEndFacade env)"
  by (simp add: BackEndFacade_def Backend_init_def Session_connect_def sock_abort_def counters_ok_def Let_def)

text \<open>A prefix that announces a negative length, and then any data.\<close>

lemma load_mesg_negative:
  assumes "m_messageSize c < 0" and "m_fault c = None"
  shows "m_fault (load_mesg env c) = Some Bad_buffer_size"
  using load_mesg_then [OF refl, of env c] readMessage_negative [OF assms, of env]
  by (auto simp: set_fault_def steady_def)

lemma overrun:
  assumes "pb_wire P" and "cl_pb env = P" and "PREFIX_SIZE \<le> total_bytes_limit P"
    and "m_bytesReaded c = 0" and "sock_rx c = []" and "sint n < - 1" and "m_fault c = None"
  defines "c1 \<equiv> receive env (LengthPrefix_SerializeToArray P \<lparr>LengthPrefix_length = n\<rparr>) c"
  shows "m_fault c1 = None" and "m_fault (receive env [] c1) = Some Bad_buffer_size"
proof -
  let ?p = "LengthPrefix_SerializeToArray P \<lparr>LengthPrefix_length = n\<rparr>"
  have n: "n \<noteq> 0" using assms(6) by auto
  note len = pb_wire.announced_length [OF assms(1) n] and parse = pb_wire.announced_parse [OF assms(1) n assms(3)]
  have "poke 0 ?p (resize PREFIX_SIZE (m_buffer c)) = ?p" using len by (simp add: poke_def)
  then have c1: "c1 = c\<lparr>sock_rx := [], m_buffer := ?p, m_bytesReaded := int PREFIX_SIZE, m_messageSize := sint n\<rparr>"
    using assms(2,4,5,6) len parse
    by (simp add: c1_def receive_def Session_onReadyRead_def readPrefix_fits bytesAvailable_def)
  with assms(7) show "m_fault c1 = None" by simp
  have now: "m_bytesReaded c1 = int PREFIX_SIZE" "m_messageSize c1 < 0" using assms(6) by (simp_all add: c1)
  have "receive env [] c1 = (load_mesg env c1)\<lparr>m_bytesReaded := 0\<rparr>"
    using now by (simp add: receive_def Session_onReadyRead_def bytesAvailable_def)
  moreover have "m_fault (load_mesg env c1) = Some Bad_buffer_size"
    using assms(6,7) by (intro load_mesg_negative) (simp_all add: c1)
  ultimately show "m_fault (receive env [] c1) = Some Bad_buffer_size" by simp
qed

end
