(* ===== verification/Client_Theorems.thy ===== *)
theory Client_Theorems
  imports Instances Client_Main Client_Bounds
begin

text \<open>The properties of the client: the facade, the reception of responses and the item lists.\<close>

section \<open>The facade\<close>

text \<open>C12. Over every sequence of events (operations of the user, pieces of data, errors, losses of
  the connection) the index of contacts has no dead pointer and looks up without fault, the
  shown messages are those stored for the current chat, the facade is locked only while a
  callback is set, and everything written to the socket is a request.\<close>

theorem client_invariant:
  "let c = client_run env evs (BackEndFacade env) in
   index_ok (m_contactsList c) \<and> get_contact_name i c \<noteq> None \<and>
   me_items (m_mesagesList c) = me_map (m_mesagesList c) (me_currentChatId (m_mesagesList c)) \<and>
   (m_availible c \<or> m_callback c \<noteq> None) \<and>
   list_all (\<lambda>out. \<exists>r buf. out = request_buffer (cl_pb env) (WrappedMessage_request r) buf) (sock_tx c)"
  using client_inv_run [OF client_inv_init, of env evs] index_ok_lookup
  by (auto simp: client_inv_def current_ok_def requests_only_def Let_def get_contact_name_def list_all_iff)

theorem client_invariant_witness:
  "get_contact_name 7 (client_run ex_ce [Socket_connected, User_op Load_contacts, Receive [1, 2], Socket_disconnected]
     (BackEndFacade ex_ce)) \<noteq> None"
  using client_invariant [of ex_ce "[Socket_connected, User_op Load_contacts, Receive [1, 2], Socket_disconnected]" 7]
  unfolding Let_def by blast

text \<open>C13. The buffer and the counters of the session of the client over every sequence of events:
  \<open>m_bytesReaded\<close> is zero or the size of a prefix and \<open>m_messageSize\<close> is a 64-bit number. The
  next event makes the program resize its buffer to a negative size, or read or parse more
  bytes than the buffer has, only when it is data under a prefix that announces \<open>2 ^ 31\<close> bytes
  and more or a length below -1 (-1 is what a prefix that cannot be parsed counts as), and call
  an empty callback only when it is data that arrives before any request was written.\<close>

theorem client_stays_in_bounds:
  "let c = client_run env evs (BackEndFacade env); c' = client_step env ev c in
   (m_bytesReaded c = 0 \<or> m_bytesReaded c = int PREFIX_SIZE) \<and>
   - (2 ^ 63) \<le> m_messageSize c \<and> m_messageSize c < 2 ^ 63 \<and>
   (m_fault c = None \<longrightarrow> m_fault c' = Some Bad_buffer_size \<longrightarrow>
      (\<exists>data. ev = Receive data) \<and> (m_messageSize c' < PARSE_ERROR \<or> 2 ^ 31 \<le> m_messageSize c')) \<and>
   (m_fault c = None \<longrightarrow> m_fault c' = Some Bad_function_call \<longrightarrow>
      (\<exists>data. ev = Receive data) \<and> m_callback c = None \<and> sock_tx c = [])"
proof -
  have ok: "counters_ok (client_run env evs (BackEndFacade env))"
    by (rule counters_ok_run [OF counters_ok_init])
  with client_step_bounds [OF ok, of env ev] show ?thesis
    by (auto simp: Let_def counters_ok_def fault_explained_def)
qed

text \<open>A prefix that announces \<open>2 ^ 64 - 2\<close> bytes is read as the length \<open>- 2\<close>.\<close>

theorem client_stays_in_bounds_witness:
  "let c = receive ex_ce (LengthPrefix_SerializeToArray pb_ref \<lparr>LengthPrefix_length = - 2\<rparr>) (BackEndFacade ex_ce);
     c' = receive ex_ce [] c in
   m_fault c' = Some Bad_buffer_size \<and> (m_messageSize c' < PARSE_ERROR \<or> 2 ^ 31 \<le> m_messageSize c')"
proof -
  let ?p = "LengthPrefix_SerializeToArray pb_ref \<lparr>LengthPrefix_length = - 2\<rparr>" and ?c = "BackEndFacade ex_ce"
  have c: "m_bytesReaded ?c = 0" "sock_rx ?c = []" "m_fault ?c = None" "cl_pb ex_ce = pb_ref"
    by (simp_all add: BackEndFacade_def Backend_init_def Session_connect_def sock_abort_def ex_ce_def Let_def)
  have "PREFIX_SIZE \<le> total_bytes_limit pb_ref" by (simp add: pb_ref_def)
  from overrun [OF pbr.pb_wire_axioms c(4) this c(1,2) _ c(3), of "- 2"]
  have "m_fault (receive ex_ce ?p ?c) = None" "m_fault (receive ex_ce [] (receive ex_ce ?p ?c)) = Some Bad_buffer_size"
    by simp_all
  with client_stays_in_bounds [of ex_ce "[Receive ?p]" "Receive []"] show ?thesis unfolding Let_def by simp
qed

text \<open>C19. The lock of the facade: while it is locked every operation is ignored; an available
  client that is not connected reports the abort and stays available; an available and
  connected one is locked, with exactly one more packet written, the request of the
  operation, and the callback of its job set.\<close>

theorem facade_serialises_operations:
  assumes "pb_wire (cl_pb env)" and "sendable (cl_pb env) (WrappedMessage_request (job_request env op))"
  shows "(\<not> availible c \<longrightarrow> BackEndFacade_op env op c = c) \<and>
    (availible c \<and> \<not> isConnected c \<longrightarrow> BackEndFacade_op env op c =
       c\<lparr>m_reactions := m_reactions c @ [DoOperationAborted not_connected_text]\<rparr>) \<and>
    (availible c \<and> isConnected c \<longrightarrow> (let out = packet (cl_pb env) (WrappedMessage_request (job_request env op)) in
       BackEndFacade_op env op c = c\<lparr>m_availible := False, m_callback := Some (op_job op), m_buffer := out,
         sock_tx := sock_tx c @ [out]\<rparr>))"
  using op_locked(1) [of c env op] op_not_connected [of c env op] op_connected [of c env op]
    pb_wire.request_buffer_packet [OF assms] by (simp add: Let_def)

theorem facade_serialises_operations_witness:
  "sock_tx (BackEndFacade_op ex_ce (Send_message 1 [33]) ex_client) =
     sock_tx ex_client @ [packet pb_ref ex_send_request] \<and>
   BackEndFacade_op ex_ce (Send_message 1 [33]) (BackEndFacade_op ex_ce (Send_message 1 [33]) ex_client) =
     BackEndFacade_op ex_ce (Send_message 1 [33]) ex_client"
proof -
  have "pb_wire (cl_pb ex_ce)" using pbr.pb_wire_axioms by simp
  moreover have "sendable (cl_pb ex_ce) (WrappedMessage_request (job_request ex_ce (Send_message 1 [33])))"
    unfolding ex_send_job by simp
  ultimately have *: "(\<not> availible c \<longrightarrow> BackEndFacade_op ex_ce (Send_message 1 [33]) c = c) \<and>
    (availible c \<and> isConnected c \<longrightarrow> (let out = packet (cl_pb ex_ce) ex_send_request in
       BackEndFacade_op ex_ce (Send_message 1 [33]) c = c\<lparr>m_availible := False, m_callback := Some SendMessageJob,
         m_buffer := out, sock_tx := sock_tx c @ [out]\<rparr>))" for c
    using facade_serialises_operations [of ex_ce "Send_message 1 [33]" c] unfolding ex_send_job by simp
  have "availible ex_client" "isConnected ex_client" using ex_client_ready by (simp_all add: ready_def)
  with * [of ex_client] * [of "BackEndFacade_op ex_ce (Send_message 1 [33]) ex_client"]
  show ?thesis by (simp add: Let_def availible_def)
qed

text \<open>C22. What a response does to its job. Every response but one ends it: the facade is available
  again, QML gets exactly one reaction, the one that the response means for the job, and
  nothing is written. The one is the contacts for \<open>LoadDataJob\<close>: while the client is connected
  the request for the chats is written and the job goes on, with the facade locked as it was
  and no reaction; without a connection the job ends with the reaction of an abort.\<close>

theorem responses_end_their_job:
  "let c' = responseProcessingCallback env j r c in
   if \<not> second_round j r then
     m_availible c' \<and> m_reactions c' = m_reactions c @ [reaction_of j r] \<and> sock_tx c' = sock_tx c
   else if isConnected c then
     m_availible c' = m_availible c \<and> m_reactions c' = m_reactions c \<and> m_callback c' = Some j \<and>
     sock_tx c' = sock_tx c @ [request_buffer (cl_pb env) (WrappedMessage_request createAllMyChatsRequest) (m_buffer c)]
   else
     m_availible c' \<and> m_reactions c' = m_reactions c @ [DoOperationAborted not_connected_text] \<and> sock_tx c' = sock_tx c"
proof (cases "second_round j r")
  case True
  from callback_second_round [OF this, of env c] obtain cs where
    "responseProcessingCallback env j r c = Session_request env createAllMyChatsRequest LoadDataJob (setContacts env cs c)"
    and "j = LoadDataJob" by blast
  with True show ?thesis by (simp add: Session_request_def isConnected_def Let_def react_def setAvailible_def)
next
  case False
  with callback_reaction [OF False, of env c] show ?thesis by (simp add: Let_def)
qed

theorem responses_end_their_job_witness:
  "m_reactions (responseProcessingCallback ex_ce LoginJob Response_MSG_NOT_SET ex_client) =
     m_reactions ex_client @ [DoLoginReaction False] \<and>
   m_reactions (responseProcessingCallback ex_ce LoadDataJob (Response_contacts_response ex_contacts) ex_waiting) =
     m_reactions ex_waiting @ (if isConnected ex_waiting then [] else [DoOperationAborted not_connected_text])"
  using responses_end_their_job [of ex_ce LoginJob Response_MSG_NOT_SET ex_client]
    responses_end_their_job [of ex_ce LoadDataJob "Response_contacts_response ex_contacts" ex_waiting]
  by (simp add: logged_profile_def Let_def split: if_splits)

section \<open>Receiving\<close>

text \<open>C26. A response arrives whole however the stream is cut before the prefix is complete, and
  with at most one more cut after the piece that completes it: the callback is called once
  with the response, and the session is ready for the next packet.\<close>

theorem responses_arrive_in_pieces:
  assumes "pb_wire (cl_pb env)" and "sendable (cl_pb env) (WrappedMessage_response r)"
    and "m_bytesReaded c = 0" and "sock_rx c = []" and "m_callback c = Some j"
    and "concat pre @ q @ rest = packet (cl_pb env) (WrappedMessage_response r)"
    and "length (concat pre) < PREFIX_SIZE" and "PREFIX_SIZE \<le> length (concat pre @ q)"
  shows "fold (receive env) (pre @ q # (if rest = [] then [] else [rest])) c =
    (responseProcessingCallback env j r (loaded (cl_pb env) (WrappedMessage_response r) c))\<lparr>m_bytesReaded := 0\<rparr>"
  by (rule pb_wire.receive_pieces [OF assms(1) refl assms(2) refl assms(3-8)])

theorem responses_arrive_in_pieces_witness:
  "fold (receive ex_ce) ([take 4 (packet pb_ref ex_accepted)] @ take 6 (drop 4 (packet pb_ref ex_accepted)) #
      (if drop 10 (packet pb_ref ex_accepted) = [] then [] else [drop 10 (packet pb_ref ex_accepted)])) ex_waiting =
    (responseProcessingCallback ex_ce SendMessageJob (Response_status_response \<lparr>StatusResponse_result = 0\<rparr>)
      (loaded pb_ref ex_accepted ex_waiting))\<lparr>m_bytesReaded := 0\<rparr>"
proof -
  have len: "length (packet pb_ref ex_accepted) = 13" using pbr.packet_length [OF ex_accepted_sendable] by simp
  have cut: "take 4 p @ take 6 (drop 4 p) @ drop 10 p = p" for p :: bytes
    using append_take_drop_id [of 6 "drop 4 p"] by simp
  have "pb_wire (cl_pb ex_ce)" using pbr.pb_wire_axioms by simp
  from responses_arrive_in_pieces [OF this, of "Response_status_response \<lparr>StatusResponse_result = 0\<rparr>" ex_waiting
      SendMessageJob "[take 4 (packet pb_ref ex_accepted)]" "take 6 (drop 4 (packet pb_ref ex_accepted))"
      "drop 10 (packet pb_ref ex_accepted)"]
  show ?thesis using len ex_accepted_sendable
    by (simp add: ex_accepted_def [symmetric] cut)
qed

text \<open>C36. A response whose body comes in two further pieces after the prefix is lost. The first of
  them, however long, makes the session forget that the prefix was read: the piece stays in
  the socket, the callback is not called and the lock, the reactions and the lists are as
  they were. When the rest arrives, the whole body is received as if it were the beginning of
  a packet; a body shorter than a prefix, such as every status, stays in the socket and the
  client as it was, waiting.\<close>

theorem split_bodies_are_lost:
  assumes "pb_wire (cl_pb env)" and "sendable (cl_pb env) (WrappedMessage_response r)"
    and "m_bytesReaded c = 0" and "sock_rx c = []"
    and "a @ b = WrappedMessage_SerializeToArray (cl_pb env) (WrappedMessage_response r)" and "b \<noteq> []"
  shows "let size = WrappedMessage_ByteSize (cl_pb env) (WrappedMessage_response r);
      lost = c\<lparr>m_buffer := prefix_of (cl_pb env) (WrappedMessage_response r), m_messageSize := int size\<rparr> in
    fold (receive env) [prefix_of (cl_pb env) (WrappedMessage_response r), a] c = lost\<lparr>sock_rx := a\<rparr> \<and>
    fold (receive env) [prefix_of (cl_pb env) (WrappedMessage_response r), a, b] c = receive env (a @ b) lost \<and>
    (size < PREFIX_SIZE \<longrightarrow>
      fold (receive env) [prefix_of (cl_pb env) (WrappedMessage_response r), a, b] c = lost\<lparr>sock_rx := a @ b\<rparr>)"
proof -
  let ?m = "WrappedMessage_response r"
  let ?lost = "c\<lparr>m_buffer := prefix_of (cl_pb env) ?m, m_messageSize := int (WrappedMessage_ByteSize (cl_pb env) ?m)\<rparr>"
  have 1: "fold (receive env) [prefix_of (cl_pb env) ?m, a] c = ?lost\<lparr>sock_rx := a\<rparr>"
    using pb_wire.receive_body_split [OF assms(1) refl assms(2) refl assms(3-6)] assms(3)
    by (simp add: after_prefix_def)
  then have 2: "fold (receive env) [prefix_of (cl_pb env) ?m, a, b] c = receive env (a @ b) ?lost"
    using assms(4) by (simp add: receive_def)
  have "length (a @ b) = WrappedMessage_ByteSize (cl_pb env) ?m"
    using pb_wire.body_length [OF assms(1,2)] assms(5) by simp
  then have "WrappedMessage_ByteSize (cl_pb env) ?m < PREFIX_SIZE \<longrightarrow>
      receive env (a @ b) ?lost = ?lost\<lparr>sock_rx := a @ b\<rparr>"
    using receive_short [of ?lost "a @ b" env] assms(3,4) by simp
  with 1 2 show ?thesis unfolding Let_def by metis
qed

theorem split_bodies_are_lost_witness:
  "let c' = fold (receive ex_ce) [prefix_of pb_ref ex_accepted,
       take 1 (WrappedMessage_SerializeToArray pb_ref ex_accepted),
       drop 1 (WrappedMessage_SerializeToArray pb_ref ex_accepted)] ex_waiting in
   \<not> m_availible c' \<and> m_reactions c' = m_reactions ex_waiting"
proof -
  let ?body = "WrappedMessage_SerializeToArray pb_ref ex_accepted"
  have size: "WrappedMessage_ByteSize pb_ref ex_accepted < PREFIX_SIZE" and "length ?body = 4"
    using pbr.body_length [OF ex_accepted_sendable] by simp_all
  then have cut: "take 1 ?body @ drop 1 ?body = ?body" "drop 1 ?body \<noteq> []" by simp_all
  have ce: "cl_pb ex_ce = pb_ref" by simp
  have idle: "m_bytesReaded ex_waiting = 0" "sock_rx ex_waiting = []" by simp_all
  note lost = split_bodies_are_lost [of ex_ce "Response_status_response \<lparr>StatusResponse_result = 0\<rparr>", unfolded ce,
      folded ex_accepted_def, OF pbr.pb_wire_axioms ex_accepted_sendable idle cut, unfolded Let_def]
  from lost [THEN conjunct2, THEN conjunct2, THEN mp, OF size] show ?thesis unfolding Let_def by simp
qed

text \<open>C37. A connection that is lost between a prefix and its body leaves the prefix behind: the
  client that was waiting for the body is unlocked by the loss, and when the user has it
  connect again the first bytes of the new stream are loaded as the body announced on the old
  one, and the prefix of the new packet is not read.\<close>

theorem stale_prefix_survives_reconnection:
  assumes "m_bytesReaded c = int PREFIX_SIZE"
    and "qt_valid_address env ip" and "qt_valid_port env port"
    and "m_messageSize c \<le> int (length p)"
  shows "let c' = client_run env [Socket_disconnected, Update_settings ip port, Socket_connected] c in
    availible c' \<and> isConnected c' \<and> sock_rx c' = [] \<and> m_messageSize c' = m_messageSize c \<and>
    receive env p c' = (load_mesg env (c'\<lparr>sock_rx := p\<rparr>))\<lparr>m_bytesReaded := 0\<rparr>"
proof -
  define c' where "c' = client_run env [Socket_disconnected, Update_settings ip port, Socket_connected] c"
  have "availible c'" "sock_rx c' = []" "isConnected c'" "m_bytesReaded c' = int PREFIX_SIZE"
    "m_messageSize c' = m_messageSize c"
    using assms by (simp_all add: c'_def Session_onDisconnection_def Session_onConnection_def isConnected_def
        BackEndFacade_updateConnectionSettings_def availible_def setAvailible_def react_def sock_abort_def Let_def
        Backend_updateConnectionSettings_def Session_connect_def setServerIp_def setServerPort_def)
  moreover from this assms(4) have "receive env p c' = (load_mesg env (c'\<lparr>sock_rx := p\<rparr>))\<lparr>m_bytesReaded := 0\<rparr>"
    by (simp add: receive_def Session_onReadyRead_def bytesAvailable_def)
  ultimately show ?thesis unfolding c'_def [symmetric] by simp
qed

text \<open>A locked client that has received the prefix of a status of four bytes and nothing more.\<close>

theorem stale_prefix_survives_reconnection_witness:
  "let c = receive ex_ce (prefix_of pb_ref ex_accepted) ex_waiting;
     c' = client_run ex_ce [Socket_disconnected, Update_settings [] [], Socket_connected] c in
   \<not> availible c \<and> isConnected c \<and> isConnected c' \<and> m_messageSize c' = 4 \<and>
   receive ex_ce [9, 4, 0, 0, 0] c' = (load_mesg ex_ce (c'\<lparr>sock_rx := [9, 4, 0, 0, 0]\<rparr>))\<lparr>m_bytesReaded := 0\<rparr>"
proof -
  let ?c = "receive ex_ce (prefix_of pb_ref ex_accepted) ex_waiting"
  have len: "WrappedMessage_ByteSize pb_ref ex_accepted = 4"
    using pbr.body_length [OF ex_accepted_sendable] by simp
  have c: "?c = after_prefix pb_ref ex_accepted [] ex_waiting"
    using ex_accepted_sendable len by (intro pbr.receive_prefix_piece) simp_all
  with len have "m_bytesReaded ?c = int PREFIX_SIZE" "m_messageSize ?c = 4" by simp_all
  moreover have "sock_connected ex_waiting"
    using ex_client_ready op_connected [of ex_client ex_ce "Send_message 1 [33]"]
    by (simp add: ex_waiting_def ready_def isConnected_def Let_def)
  then have "\<not> availible ?c" "isConnected ?c"
    by (simp_all add: c after_prefix_def availible_def isConnected_def)
  ultimately show ?thesis
    using stale_prefix_survives_reconnection [of ?c ex_ce "[]" "[]" "[9, 4, 0, 0, 0]"]
    unfolding Let_def by simp
qed

section \<open>The item lists\<close>

text \<open>C40. The views and the lists: however often a model was given a list, the signals of its
  present list reach it exactly once and those of other lists never. The removed and inserted
  rows that setting items announces are in range and add up to the new size, for the models
  of chats, contacts and messages, except in these cases, where the rows from 0 to -1 are
  announced, which \<open>QAbstractItemModel\<close> does not allow: an empty vector is set; messages are
  set while an empty vector is shown; the chat is switched while no message is shown, or to a
  chat whose stored vector is empty.\<close>

theorem views_follow_the_lists:
  "replay (ChatsList_size cl) (received (setLists ChatsModel_setList (qs @ [Some p])) p ChatsModel_slot
      (fst (ChatsList_setItems (Some chats) cl))) =
    (if chats = [] then None else Some (ChatsList_size (snd (ChatsList_setItems (Some chats) cl)))) \<and>
  replay (ContactsList_size col) (received (setLists ContactsModel_setList (qs @ [Some p])) p ContactsModel_slot
      (fst (ContactsList_setItems (Some contacts) col))) =
    (if contacts = [] then None else Some (ContactsList_size (snd (ContactsList_setItems (Some contacts) col)))) \<and>
  replay (MessagesList_size ml) (received (setLists MessagesModel_setList (qs @ [Some p])) p MessagesModel_slot
      (fst (MessagesList_setItems (Some messages) ml))) =
    (if messages = [] \<or> me_items ml = Some [] then None
     else Some (MessagesList_size (snd (MessagesList_setItems (Some messages) ml)))) \<and>
  (chatId \<noteq> me_currentChatId ml \<longrightarrow>
    replay (MessagesList_size ml) (received (setLists MessagesModel_setList (qs @ [Some p])) p MessagesModel_slot
      (fst (MessagesList_setCurrentChatId chatId ml))) =
    (if MessagesList_size ml = 0 \<or> me_map ml chatId = Some [] then None
     else Some (MessagesList_size (snd (MessagesList_setCurrentChatId chatId ml))))) \<and>
  (p' \<noteq> p \<longrightarrow>
    received (setLists ChatsModel_setList (qs @ [Some p])) p' ChatsModel_slot chat_sigs = [] \<and>
    received (setLists ContactsModel_setList (qs @ [Some p])) p' ContactsModel_slot contact_sigs = [] \<and>
    received (setLists MessagesModel_setList (qs @ [Some p])) p' MessagesModel_slot message_sigs = [])"
proof -
  have last: "md_list (setLists ChatsModel_setList (qs @ [Some p])) = Some p"
    by (simp add: setLists_def ChatsModel_setList_def Let_def)
  have empty: "me_items ml \<noteq> None \<and> MessagesList_size ml = 0 \<longleftrightarrow> me_items ml = Some []"
    by (auto simp: MessagesList_size_def)
  have lists: "MessagesModel_setList = ChatsModel_setList" "ContactsModel_setList = ChatsModel_setList"
    by (simp_all add: MessagesModel_setList_def ContactsModel_setList_def)
  note mine = received_once [OF refl, of "qs @ [Some p]", unfolded last]
  have 1: "replay (ChatsList_size cl) (map ChatsModel_slot (fst (ChatsList_setItems (Some chats) cl))) =
      (if chats = [] then None else Some (ChatsList_size (snd (ChatsList_setItems (Some chats) cl))))"
    using chats.set_items_views [of cl chats] by (simp add: ChatsList_size_def)
  have 2: "replay (ContactsList_size col) (map ContactsModel_slot (fst (ContactsList_setItems (Some contacts) col))) =
      (if contacts = [] then None else Some (ContactsList_size (snd (ContactsList_setItems (Some contacts) col))))"
    using contacts.set_items_views [of col contacts] by (simp add: ContactsList_size_def)
  note 3 = messages.set_items_views [of ml messages, unfolded empty]
  show ?thesis using 1 2 3 setCurrentChatId_views [of chatId ml] by (simp only: lists mine simp_thms if_True if_False) simp
qed

text \<open>Messages are set while an empty vector is shown; and a chat is chosen before any was.\<close>

theorem views_follow_the_lists_witness:
  "replay 0 (received (setLists ChatsModel_setList [Some 7, None, Some 3]) 3 ChatsModel_slot
     (fst (ChatsList_setItems (Some ex_chat_items) ChatsList_init))) = Some 1 \<and>
   replay 0 (received (setLists MessagesModel_setList [Some 7, None, Some 3]) 3 MessagesModel_slot
     (fst (MessagesList_setItems (Some [\<lparr>mesg_sender_id = 1, mesg_text = [104]\<rparr>])
        (MessagesList_init\<lparr>me_items := Some []\<rparr>)))) = None \<and>
   replay 0 (received (setLists MessagesModel_setList [Some 7, None, Some 3]) 3 MessagesModel_slot
     (fst (MessagesList_setCurrentChatId 5 (MessagesList_init\<lparr>me_items := Some []\<rparr>)))) = None"
  using views_follow_the_lists [of ChatsList_init "[Some 7, None]" 3 ex_chat_items ContactsList_init "[]"
      "MessagesList_init\<lparr>me_items := Some []\<rparr>" "[\<lparr>mesg_sender_id = 1, mesg_text = [104]\<rparr>]" 5 3 "[]"]
  by (simp add: ex_chat_items_def MessagesList_init_def MessagesList_size_def ChatsList_init_def ChatsList_size_def
      ChatsList_setItems_def ChatsList_reset_def Let_def)

text \<open>The messages of a chat are kept while other chats are shown: after they were set, after
  any switch to another chat and back they are shown again, unchanged.\<close>

lemma messages_survive_switching_chats:
  assumes "current_ok l" and "other \<noteq> me_currentChatId l"
  shows "let l1 = snd (MessagesList_setItems (Some items) l);
      l2 = snd (MessagesList_setCurrentChatId other l1);
      l3 = snd (MessagesList_setItems (Some others) l2);
      l4 = snd (MessagesList_setCurrentChatId (me_currentChatId l) l3) in
    me_items l2 = me_map l other \<and> me_items l3 = Some others \<and> me_items l4 = Some items"
proof -
  let ?l1 = "snd (MessagesList_setItems (Some items) l)"
  let ?l2 = "snd (MessagesList_setCurrentChatId other ?l1)"
  let ?l3 = "snd (MessagesList_setItems (Some others) ?l2)"
  note 1 = setItems_shows [of items l] and 3 = setItems_shows [of others ?l2]
  note 2 = setCurrentChatId_shows [OF current_ok_setItems, of other items l]
  note 4 = setCurrentChatId_shows [OF current_ok_setItems, of "me_currentChatId l" others ?l2]
  from 1 2 3 4 assms(2) show ?thesis by (simp add: Let_def)
qed

lemma messages_survive_switching_chats_example:
  "me_items (snd (MessagesList_setCurrentChatId 0 (snd (MessagesList_setItems (Some [])
     (snd (MessagesList_setCurrentChatId 7 (snd (MessagesList_setItems
        (Some [\<lparr>mesg_sender_id = 1, mesg_text = [104]\<rparr>]) MessagesList_init))))))))
   = Some [\<lparr>mesg_sender_id = 1, mesg_text = [104]\<rparr>]"
  using messages_survive_switching_chats [OF current_ok_init, of 7 "[\<lparr>mesg_sender_id = 1, mesg_text = [104]\<rparr>]" "[]"]
  by (simp add: Let_def MessagesList_init_def)

end
