(* ===== verification/Spec2Isabelle.thy ===== *)
theory Spec2Isabelle
  imports Codec_Theorems Storage_Theorems Server_Theorems Client_Theorems
begin

text \<open>
  Elegram is a messenger in C++: a server (\<open>src/server\<close>) that keeps clients, contacts, chats and
  messages in a PostgreSQL database, and a Qt client (\<open>src/client\<close>). They exchange packets over
  TCP: a length prefix of nine bytes and a Protocol Buffers message (\<open>src/protocol/messages.proto\<close>).
  This development models both programs from the bytes on the wire to the tables and to the
  reactions the user sees, and proves what makes them correct, and where they are not.

  \<^bold>\<open>The parts and their theories.\<close>
  \<^item> \<open>Prelude\<close>: machine types, buffers (\<open>resize\<close>, \<open>poke\<close>), shared lemmas.
  \<^item> \<open>Wire\<close>, \<open>Messages\<close>, \<open>Codec\<close>, \<open>Packets\<close>: the code that \<open>protoc\<close> generated for the messages
    (\<open>server/src/proto/messages.pb.{h,cc}\<close>; the copy of the client has the same text): a record or a
    datatype for each message, its fields as cases of the tag loop with their \<open>ExpectTag\<close> jumps,
    \<open>ByteSize\<close>, the serialiser, \<open>Clear\<close> and \<open>MergeFrom\<close>. The Protocol Buffers runtime is third-party:
    the record \<open>pb\<close>, with the documented laws of its primitives as the locale \<open>pb_wire\<close>. \<open>Wire_Ref\<close>
    is an executable runtime after the published wire format that interprets the locale.
    \<open>Codec_Text\<close>: which text the parsers let through, for any runtime.
  \<^item> \<open>Storage\<close>: \<open>server/src/storage\<close>, \<open>server/src/hashing\<close> and the schema \<open>tests/gen_schema.sql\<close>. The tables
    are lists of rows, each SQL statement is a function on them, an operation of the connection is
    a sequence of statements inside one transaction. \<open>Storage_Inv\<close> has a rule for transactions,
    the outcome of every operation and the invariants: \<open>tables_ok\<close>, every row consistent with the
    others, and \<open>db_inv\<close>, in which two clients also have at most one chat; \<open>Storage_Order\<close> makes the tables an
    instance of \<open>order\<close>, in which every operation moves upwards; \<open>Storage_Props\<close> has the contracts
    \<open>abstract_storage\<close> and \<open>growing_storage\<close> of a connection, interpreted by the PostgreSQL one;
    \<open>Storage_Ops\<close> when an
    operation succeeds and what is read after it; \<open>Storage_Stale\<close> the operations with a commit of
    another connection between their query and their writes.
  \<^item> \<open>Server_Session\<close>: \<open>server/src/server/session.cpp\<close> and \<open>server/src/jobs\<close>. A session is a record with
    its buffer, its identity and the operations in flight; each handler and each job is a function.
  \<^item> \<open>Server\<close>: \<open>server/src/server/server.cpp\<close>. \<open>server_step\<close> interleaves accepts, the signal and the
    completions of all sessions in any order; \<open>storage_pool\<close> and \<open>growing_pool\<close> are the contracts
    under which the invariants are proved. \<open>Server_Workers\<close> interprets them by the connections of
    two workers that run jobs at the same time, for \<open>tables_ok\<close> when chats are created in a race
    and for \<open>db_inv\<close> otherwise. \<open>Frames\<close>: packets at a session, and progress.
    \<open>Server_Text\<close>: the text in jobs and sessions is verified UTF-8. \<open>Server_Main\<close>: \<open>main.cpp\<close>, the
    arguments, the connection string.
  \<^item> \<open>Client_Lists\<close>: \<open>client/src/model\<close>, the lists with their signals and the Qt models over them; the
    locale \<open>item_list\<close> is what the three lists share. \<open>Client_Base\<close>, \<open>Client_Jobs\<close>, \<open>Client\<close>: the network
    session, the message factory, the jobs, the backend and the facade, as functions on one state.
    \<open>Client_Props\<close> and \<open>Client_Inv\<close> hold their lemmas and the invariant over all sequences of events,
    \<open>Client_Bounds\<close> the ranges of the counters of the session and what it takes to leave its buffer;
    \<open>Client_Main\<close> is \<open>main.cpp\<close>, the network session that some platforms need, the types that QML can
    name and the objects it makes.
  \<^item> \<open>System\<close>: the specification \<open>answer\<close> of the server, one request served and answered (\<open>serve\<close>), a
    call of the user with its first request (\<open>exchange\<close>), and one operation of the user through both
    programs to its end (\<open>operate\<close>, with the specification \<open>op_answer\<close>). \<open>Network\<close>: any number of clients
    with one server; \<open>net_step\<close> interleaves calls, completions, deliveries, lost and new connections,
    \<open>run_atomically\<close> is the specification, in which the jobs run one after the other; the locale
    \<open>wired\<close> has the proofs.
  \<^item> \<open>Instances\<close>: concrete surroundings for the instances of the theorems.
  \<^item> \<open>Codec_Theorems\<close>, \<open>Storage_Theorems\<close>, \<open>Server_Theorems\<close>, \<open>Client_Theorems\<close> and this theory: the
    properties C1, C2, ..., each followed by an instance \<open>..._witness\<close>.

  \<^bold>\<open>How the parts interact.\<close> The facade takes its lock and makes a job; the session writes the packet
  and keeps the callback of the job. On the server \<open>on_read_prefix\<close> and \<open>on_read_message\<close> read the
  two pieces, \<open>ParseCommandJob\<close> posts the job of the request, the job calls the storage through
  \<open>AbstractStorageConnection\<close> and writes one response, and \<open>on_write\<close> starts the next read. The
  client parses the response in \<open>onReadyRead\<close> and runs the callback, which fills the lists and
  releases the lock; the contacts of \<open>LoadDataJob\<close> alone are followed by another request.
  \<open>one_operation_one_reaction\<close> is this round trip as a theorem, for one request or two, and
  \<open>network_is_atomic\<close> states it for any number of clients and every interleaving.

  \<^bold>\<open>What the lemmas show.\<close> Round trip, exact sizes and termination of the message code, and that its
  fast paths agree with the plain loop; parsed text is verified text. For the storage: the
  invariant under any failure of the engine, atomicity, append-only tables, identifiers in range,
  when each operation succeeds and what is read afterwards, and which decisions survive a
  concurrent commit. For the server: one operation in flight for each live session,
  consistent tables and honest identities in every reachable state, jobs that implement their
  specification, an answer for every request, what ends the process. For the client: the lock,
  what each response does to its job, reception in pieces, live pointers, reads within the buffer,
  views in step with lists.
  For the network: the programs refine atomic jobs, no client that keeps its place in the stream
  waits in vain, and a lost connection can be made again.
  Theorems on faults of the code: a length that any peer announces ends the server; messages of
  any chat can be read by any client; two chats for two clients who create them at once; requests
  lost at shutdown; wrong arguments that terminate; bodies lost when split; a prefix that survives
  a reconnection; empty lists announced with a range that is not allowed, also when a chat is chosen
  while no message is shown.

  \<^bold>\<open>Third-party code\<close> is a parameter: the Protocol Buffers runtime (\<open>pb\<close>), PostgreSQL and libpqxx
  (\<open>pg_env\<close>: exceptions in any call, a commit in doubt, row order, text conversion), OpenSSL's hash,
  memory (\<open>sv_can_alloc\<close>), conversions and validators of Qt (\<open>client_env\<close>), Boost.Program_options (\<open>po\<close>),
  and the completions of Boost.Asio and of the socket, which the models take in any order.

  \<^bold>\<open>Bounds.\<close> The tag loops get \<open>loop_bound\<close>, two steps for each byte and one more;
  \<open>parsers_terminate\<close> proves that it is enough for every message on every input, a nested parser
  that runs out of steps making the outer one run out too. No other model has fuel. Sizes that
  the code casts to \<open>int\<close> are modelled with the cast (\<open>parse_wrapped\<close>, \<open>Session_readMessage\<close>); the
  buffer of the client is a list whose length every read and parse is compared with;
  messages within the limits are \<open>sendable\<close>. \<open>ByteSize\<close> is a natural number here and an \<open>int\<close> in the
  code: the predicates \<open>X_ok\<close> and \<open>sendable\<close> ask for less than \<open>2 ^ 31\<close>, where they agree. Identifiers are 64-bit words in the programs and
  INTEGER in the tables (\<open>int4\<close>, \<open>as_u64\<close>; \<open>identifiers_in_range\<close> shows that none is out of range).

  \<^bold>\<open>What the network leaves open.\<close> In \<open>Network\<close> the bytes of a response arrive in pieces of any
  size, and the connection may be lost after any of them. A client that the code makes lose its
  place in the stream is in \<open>nt_jammed\<close> from then on: when a piece after the prefix does not
  complete the body (\<open>loses_prefix\<close>; \<open>split_bodies_are_lost\<close> shows what happens then), or when it
  connects again with the prefix of a lost response
  (\<open>stale_prefix_survives_reconnection\<close>). Such a client goes on as the code does, and its session
  and the storage stay those of atomic jobs, but nothing is claimed of what it shows: it may wait
  forever. Memory is assumed to suffice and messages to be within the limits of the runtime;
  accepts succeed, and so do reads and writes while a connection lasts; only a client without a
  connection, and not locked, makes a new one.

  \<^bold>\<open>Not modelled.\<close> A transaction is one step of the server model, on tables
  that its query may have seen earlier (\<open>Server_Workers\<close>); it is not opened between any two
  statements. Groups of the wire format are skipped by the runtime. The column \<open>send_time\<close>,
  which nothing reads; what is written to the log; destructors; the version check and shutdown of
  the Protocol Buffers library; QML itself; the Python tests. Qt
  delivers signals synchronously on one thread, as the code relies on.
\<close>

section \<open>Any number of clients\<close>

text \<open>C1. The network is atomic: whatever the interleaving of users, sessions, partial reads,
  deliveries in pieces of any size and lost connections, the storage and the identities of all
  sessions are those of the jobs of the history run one after the other from the start.
  Every client that has not lost its place in the stream has shown one
  reaction for each operation that is finished, the one that the response of its job means, in
  the order of the calls; connected and available it waits for nothing, locked
  for its last operation. A client loses its place, and is jammed, when a piece that comes
  after the prefix of a response does not complete its body (\<open>loses_prefix\<close>), or when it connects
  again while it holds the prefix of a lost response. An operation that was waiting when the
  connection was lost has run at most once. A client that connects again has a new session,
  which starts with no identity, and a history of its own. As this holds at every moment, each
  job takes effect between call and reaction. Memory suffices (\<open>sv_can_alloc\<close>), and requests and
  responses are within the limits of the runtime.\<close>

theorem network_is_atomic:
  assumes "pb_wire P" and "cl_pb ce = P" and "sv_pb se = P" and "\<forall>n. sv_can_alloc se n"
    and "sendable P (WrappedMessage_request createAllMyChatsRequest)"
    and "net_reachable ce se S d0 N" and "run_atomically (nt_events N) d0 = (log, ids, d)"
  shows "sv_db (nt_server N) = d \<and>
    (\<forall>i < length (nt_clients N). se_state (sv_sessions (nt_server N) ! i) = ids i \<and>
       (i \<notin> set (nt_jammed N) \<longrightarrow>
        in_step ce (nt_shown N ! i) (nt_calls N ! i) (of_client i log) (nt_clients N ! i)))"
  by (rule wired.net_atomic [OF wired_intro [OF assms(1-5)] assms(6,7)])

theorem network_is_atomic_witness:
  "\<exists>N log ids. net_reachable ex_ce ex_server {ex_refusing} () N \<and>
    run_atomically (nt_events N) () = (log, ids, ()) \<and> nt_calls N = [[Send_message 1 [33]]] \<and>
    explained ex_ce [Send_message 1 [33]] (of_client 0 log) \<and>
    m_reactions (nt_clients N ! 0) = nt_shown N ! 0 @ shown_of (of_client 0 log)"
proof -
  have start: "0 < length (nt_clients ex_network)" "0 \<notin> set (nt_jammed ex_network)"
    using ex_network_simps(1) ex_network_left(2) by simp_all
  obtain N where N: "(net_step ex_ce ex_server {ex_refusing})\<^sup>*\<^sup>* ex_network N" "ready (nt_clients N ! 0)"
    "nt_calls N = nt_calls ex_network" "nt_jammed N = nt_jammed ex_network"
    using exw.net_answers [OF ex_network_reachable start ex_network_simps(3) _ ex_network_fits] by auto
  have reach: "net_reachable ex_ce ex_server {ex_refusing} () N"
    using ex_network_reachable N(1) unfolding net_reachable_def by (rule rtranclp_trans)
  obtain log ids d where log: "run_atomically (nt_events N) () = (log, ids, d)" by (metis prod_cases3)
  have "length (nt_calls N) = length (nt_clients N)"
    using exw.net_ok_reachable [OF reach] by (simp add: net_ok_def Let_def)
  then have "length (nt_clients N) = 1" using N(3) ex_network_simps(2) by simp
  then have "0 < length (nt_clients N)" "0 \<notin> set (nt_jammed N)" using N(4) start(2) by simp_all
  then have "in_step ex_ce (nt_shown N ! 0) [Send_message 1 [33]] (of_client 0 log) (nt_clients N ! 0)"
    using network_is_atomic [OF pbr.pb_wire_axioms _ _ _ ex_chats_fit reach log] N(3) ex_network_simps(2) by fastforce
  with N(2) have "explained ex_ce [Send_message 1 [33]] (of_client 0 log)"
    "m_reactions (nt_clients N ! 0) = nt_shown N ! 0 @ shown_of (of_client 0 log)"
    by (auto simp: in_step_def ready_def)
  with reach log N(3) ex_network_simps(2) show ?thesis by (intro exI [of _ N] exI [of _ log] exI [of _ ids]) simp
qed

text \<open>C7. A client that keeps its place in the stream does not wait in vain: in every reachable state
  of the network, a client that is not jammed (see \<open>loses_prefix\<close>) and whose facade is locked, with no, some or
  all but the last of the bytes of a response received, can be answered, by steps of the
  network that make no other call, until it is ready again and has shown one reaction for each
  of its operations. It takes a connection \<open>st\<close> of the storage whose responses to this client
  are within the limits of the runtime (\<open>answers_fit\<close>), and enough memory. A client that is
  jammed may wait forever.\<close>

theorem waiting_clients_are_answered:
  assumes "pb_wire P" and "cl_pb ce = P" and "sv_pb se = P" and "\<forall>n. sv_can_alloc se n"
    and "sendable P (WrappedMessage_request createAllMyChatsRequest)"
    and "net_reachable ce se S d0 N" and "i < length (nt_clients N)" and "i \<notin> set (nt_jammed N)"
    and "\<not> availible (nt_clients N ! i)" and "st \<in> S" and "answers_fit ce se S st i N"
  shows "\<exists>N'. (net_step ce se S)\<^sup>*\<^sup>* N N' \<and> ready (nt_clients N' ! i) \<and> nt_calls N' = nt_calls N \<and>
    nt_jammed N' = nt_jammed N \<and>
    length (m_reactions (nt_clients N' ! i)) = length (nt_shown N' ! i) + length (nt_calls N' ! i)"
  by (rule wired.net_answers [OF wired_intro [OF assms(1-5)] assms(6-11)])

theorem waiting_clients_are_answered_witness:
  "\<exists>N. (net_step ex_ce ex_server {ex_refusing})\<^sup>*\<^sup>* ex_network N \<and> ready (nt_clients N ! 0) \<and>
    length (m_reactions (nt_clients N ! 0)) = length (nt_shown N ! 0) + 1"
  using waiting_clients_are_answered [OF pbr.pb_wire_axioms _ _ _ ex_chats_fit ex_network_reachable _ _
      ex_network_simps(3) _ ex_network_fits] ex_network_simps(1,2) ex_network_left(2) by auto

text \<open>C8. A client that lost its connection, and whose session does not hold the prefix of a
  response that it did not get, can connect again whenever the server accepts: the
  user updates the settings, the program is ready for the next operation and the network goes
  on with a new session. The facade still has the profile of the last login, but the new
  session knows nobody: the user has to sign in again. A jammed client, which may be
  locked without a connection, can do so when it is not locked and nothing was undefined.\<close>

theorem lost_clients_connect_again:
  assumes "pb_wire P" and "cl_pb ce = P" and "sv_pb se = P" and "\<forall>n. sv_can_alloc se n"
    and "sendable P (WrappedMessage_request createAllMyChatsRequest)"
    and "net_reachable ce se S d0 N" and "i < length (nt_clients N)" and "i \<notin> set (nt_left N)"
    and "i \<notin> set (nt_jammed N) \<or> availible (nt_clients N ! i) \<and> m_fault (nt_clients N ! i) = None"
    and "\<not> isConnected (nt_clients N ! i)" and "m_bytesReaded (nt_clients N ! i) = 0"
    and "qt_valid_address ce ip" and "qt_valid_port ce port" and "sv_accepting (nt_server N) \<noteq> None"
  shows "let N' = net_reconnect ce se i ip port N; n = length (nt_clients N) in net_step ce se S N N' \<and>
    ready (nt_clients N' ! n) \<and> m_profile (nt_clients N' ! n) = m_profile (nt_clients N ! i) \<and>
    awaiting (sv_sessions (nt_server N') ! n) \<and> se_state (sv_sessions (nt_server N') ! n) = None"
  by (rule wired.net_reconnects [OF wired_intro [OF assms(1-5)] assms(6-14)])

theorem lost_clients_connect_again_witness:
  "ready (nt_clients (net_reconnect ex_ce ex_server 0 [49] [56] (net_break ex_ce 0 ex_network)) ! 1)"
proof -
  let ?N = "net_break ex_ce 0 ex_network"
  have "net_step ex_ce ex_server {ex_refusing} ex_network ?N"
    by (rule break) (simp_all add: ex_network_simps ex_network_connected)
  then have reach: "net_reachable ex_ce ex_server {ex_refusing} () ?N"
    using ex_network_reachable unfolding net_reachable_def by (rule rtranclp.rtrancl_into_rtrancl [rotated])
  have one: "length (nt_clients ?N) = 1" by (simp add: net_break_def ex_network_simps)
  have lost: "\<not> isConnected (nt_clients ?N ! 0)" "m_bytesReaded (nt_clients ?N ! 0) = 0"
    using exw.disconnected(1,6) ex_network_between one by (simp_all add: net_break_def del: client_step.simps)
  have rest: "nt_left ?N = []" "nt_jammed ?N = []" "sv_accepting (nt_server ?N) = Some ClientSession"
    by (simp_all add: net_break_def ex_network_left)
  have "qt_valid_address ex_ce [49]" "qt_valid_port ex_ce [56]" by (simp_all add: ex_ce_def)
  from lost_clients_connect_again [OF pbr.pb_wire_axioms _ _ _ ex_chats_fit reach _ _ _ lost this]
  show ?thesis unfolding Let_def one by (simp add: rest one)
qed

text \<open>With C1: also in a network the tables stay consistent, and an identity that the replayed
  history gives a session is that of a client in them.\<close>

lemma network_keeps_tables:
  assumes "wired P ce se" and "net_reachable ce se (worker_connections sha races) d0 N" and "tables_inv races d0"
    and "run_atomically (nt_events N) d0 = (log, ids, d)" and "i < length (nt_clients N)" and "ids i = Some cs"
  shows "tables_inv races d \<and> client_known d (user_id cs) (user_name cs)"
proof -
  note atomic = wired.net_atomic [OF assms(1,2,4)]
  have "length (sv_sessions (nt_server N)) = length (nt_clients N)"
    using wired.net_ok_reachable [OF assms(1,2)] by (simp add: net_ok_def Let_def)
  with atomic assms(5,6) workers.reachable_storage [OF wired.net_server_reachable [OF assms(1,2)] assms(3)]
  show ?thesis by (auto simp: session_known_def) (metis nth_mem)
qed

section \<open>One client and its session\<close>

text \<open>C2. One operation of the user is one reaction: when a ready client calls an operation and a
  waiting session reads each packet that the client writes, runs the job and writes, the storage
  and the identity of the session are those of the specification \<open>op_answer\<close>, the client shows
  the one reaction that the last response means and keeps the profile of a login, and both sides
  are ready for the next operation. The client writes one request for each response: one, or
  two when the data is loaded and the first response has the contacts.\<close>

theorem one_operation_one_reaction:
  assumes "pb_wire P" and "cl_pb ce = P" and "sv_pb se = P" and "\<forall>n. sv_can_alloc se n"
    and "ready c" and "awaiting s"
    and "sendable P (WrappedMessage_request (job_request ce op))"
    and "sendable P (WrappedMessage_request createAllMyChatsRequest)"
    and "op_answer ce st op (se_state s) d = (rs, cs, d')"
    and "\<forall>r \<in> set rs. sendable P (WrappedMessage_response r)"
  shows "\<exists>c' s'. operate ce se st op (c, s, d) = Inr (c', s', d') \<and> ready c' \<and> awaiting s' \<and>
    se_state s' = cs \<and> m_reactions c' = m_reactions c @ [reaction_of (op_job op) (last rs)] \<and>
    m_profile c' = profile_after ce (op_job op) (last rs) (m_profile c) \<and>
    length (sock_tx c') = length (sock_tx c) + length rs"
  by (rule pb_wire.operate_ok [OF assms])

lemma ex_session_unidentified: "se_state ex_session = None"
  by (simp add: ex_session_def ClientSession_def)

lemma ex_load_limits:
  "sendable pb_ref (WrappedMessage_request createAllMyContactsRequest)"
  "sendable pb_ref (WrappedMessage_request createAllMyChatsRequest)"
  "sendable pb_ref (WrappedMessage_response (Response_contacts_response ex_contacts))"
  "sendable pb_ref (WrappedMessage_response (Response_chats_response ex_chats))"
  by (simp_all add: createAllMyContactsRequest_def createAllMyChatsRequest_def ex_contacts_def ex_chats_def
      message_ok_defs message_size_defs AllMyContactsRequest_ok_def AllMyContactsRequest_ByteSize_def
      ContactsResponse_ok_def ContactsResponse_ByteSize_def ChatsResponse_ok_def ChatsResponse_ByteSize_def
      Chat_ok_def Chat_ByteSize_def pb_ref_def enc_varint.simps)

text \<open>A client that is logged in loads its data: two requests and one reaction.\<close>

lemma ex_load_answer:
  "op_answer ex_ce ex_storage Load_data (se_state ex_ann_session) ex_db =
    ([Response_contacts_response ex_contacts, Response_chats_response ex_chats], se_state ex_ann_session, ex_db)"
  using ex_ann_reads
  by (simp add: op_answer_def op_server_job_def createAllMyContactsRequest_def for_client_def)

theorem one_operation_one_reaction_witness:
  "\<exists>c' s'. operate ex_ce ex_server ex_storage Load_data (ex_client, ex_ann_session, ex_db) = Inr (c', s', ex_db) \<and>
    ready c' \<and> awaiting s' \<and> m_reactions c' = m_reactions ex_client @ [DoLoadDataReaction] \<and>
    length (sock_tx c') = length (sock_tx ex_client) + 2"
proof -
  have "awaiting ex_ann_session" "ready ex_client" using ex_ann_reads by simp_all
  then show ?thesis
    using one_operation_one_reaction [OF pbr.pb_wire_axioms _ _ _ _ _ _ _ ex_load_answer, of ex_server ex_client]
      ex_load_limits by auto
qed

text \<open>C24. Signing up and signing in: a client who registers with a new email and then logs in with
  the same email and password gets two positive reactions; the session then carries a new
  identifier with the registered name, which the tables know, and the facade of the client has
  the same identifier, name and email.\<close>

theorem sign_up_then_sign_in:
  assumes wire: "pb_wire P" "cl_pb ce = P" "sv_pb se = P" "\<forall>n. sv_can_alloc se n"
    and idle: "ready c" "awaiting s"
    and db: "tables_ok d" "pg_up pg" "Client_seq d < max_int4" "e \<notin> cl_email ` set (Client d)"
    and texts: "pg_text pg (qt_to_utf8 ce name) = Some n" "pg_text pg (qt_to_utf8 ce mail) = Some e"
      "pg_quote pg (qt_to_utf8 ce mail) = Some e"
    and limits: "sendable P (WrappedMessage_request (job_request ce (Signup name mail password)))"
      "sendable P (WrappedMessage_request (job_request ce (Signin mail password)))"
      "sendable P (WrappedMessage_response (status_response True))"
      "\<forall>i. sendable P (WrappedMessage_response (Response_login_response \<lparr>LoginResponse_profile =
         Some \<lparr>Contact_user_id = i, Contact_name = n, Contact_email = qt_to_utf8 ce mail\<rparr>\<rparr>))"
  shows "\<exists>c1 s1 d1 c2 s2 i.
     exchange ce se (postgres_storage sha pg) (Signup name mail password) (c, s, d) = Inr (c1, s1, d1) \<and>
     exchange ce se (postgres_storage sha pg) (Signin mail password) (c1, s1, d1) = Inr (c2, s2, d1) \<and>
     m_reactions c2 = m_reactions c @ [DoRegisterReaction True, DoLoginReaction True] \<and>
     se_state s2 = Some \<lparr>user_id = i, user_name = n, email = qt_to_utf8 ce mail\<rparr> \<and> client_known d1 i n \<and>
     BackEndFacade_userId c2 = i \<and> BackEndFacade_userName c2 = qt_from_utf8 ce n \<and>
     BackEndFacade_userEmail c2 = qt_from_utf8 ce (qt_to_utf8 ce mail)"
proof -
  let ?st = "postgres_storage sha pg"
  let ?reg = "registration sha pg (qt_to_utf8 ce name) (qt_to_utf8 ce mail) (qt_to_utf8 ce password) d"
  have "fst ?reg" using registration_success [OF db(1,2)] texts db(3,4) by simp
  then obtain d1 where reg: "?reg = (True, d1)" by (metis prod.collapse)
  have inv1: "tables_ok d1"
    using operations_tables_ok(1) [OF db(1), of sha pg "qt_to_utf8 ce name" "qt_to_utf8 ce mail" "qt_to_utf8 ce password"]
      reg by simp
  have "\<exists>row\<in>set (Client d1). cl_email row = e \<and> cl_name row = n \<and>
      cl_password_hash row = hash_password sha (qt_to_utf8 ce password)"
    using registration_outcome [OF reg] texts by (auto simp: registered_def)
  then obtain row where row: "row \<in> set (Client d1)" "cl_email row = e" "cl_name row = n"
    "cl_password_hash row = hash_password sha (qt_to_utf8 ce password)" by blast
  let ?i = "word_of_int (cl_id row) :: u64"
  let ?login = "Response_login_response \<lparr>LoginResponse_profile =
         Some \<lparr>Contact_user_id = ?i, Contact_name = n, Contact_email = qt_to_utf8 ce mail\<rparr>\<rparr>"
  have log: "login sha pg (qt_to_utf8 ce mail) (qt_to_utf8 ce password) d1 = (Inr (?i, n), d1)"
    using login_row [OF inv1 db(2) row(1)] texts(3) row by simp
  have a1: "answer ?st (op_server_job ce (Signup name mail password)) (se_state s) d =
      (status_response True, se_state s, d1)"
    using reg by (simp add: op_server_job_def createRegisterRequest_def postgres_storage_def)
  obtain c1 s1 where 1: "exchange ce se ?st (Signup name mail password) (c, s, d) = Inr (c1, s1, d1)"
    "ready c1" "awaiting s1" "m_reactions c1 = m_reactions c @ [DoRegisterReaction True]"
    using pb_wire.exchange_ok [OF wire idle limits(1) a1 limits(3)]
    by (auto simp: status_response_def ACCEPTED_def)
  have a2: "answer ?st (op_server_job ce (Signin mail password)) (se_state s1) d1 =
      (?login, Some \<lparr>user_id = ?i, user_name = n, email = qt_to_utf8 ce mail\<rparr>, d1)"
    using log by (simp add: op_server_job_def createLoginRequest_def postgres_storage_def)
  obtain c2 s2 where 2: "exchange ce se ?st (Signin mail password) (c1, s1, d1) = Inr (c2, s2, d1)"
    "se_state s2 = Some \<lparr>user_id = ?i, user_name = n, email = qt_to_utf8 ce mail\<rparr>"
    "m_reactions c2 = m_reactions c1 @ [DoLoginReaction True]"
    "m_profile c2 = Some \<lparr>profile_userId = ?i, profile_userName = qt_from_utf8 ce n,
       profile_userEmail = qt_from_utf8 ce (qt_to_utf8 ce mail)\<rparr>"
    using pb_wire.exchange_ok [OF wire 1(2,3) limits(2) a2] limits(4) by (auto simp: logged_profile_def)
  have "client_known d1 ?i n" using row by (auto simp: client_known_def)
  with 1 2 show ?thesis by (auto simp: Backend_userId_def Backend_userName_def Backend_userEmail_def)
qed

lemma ex_sign_in_limits:
  "sendable pb_ref (WrappedMessage_request (job_request ex_ce (Signup [122] [122, 64] [9])))"
  "sendable pb_ref (WrappedMessage_request (job_request ex_ce (Signin [122, 64] [9])))"
  "sendable pb_ref (WrappedMessage_response (status_response True))"
  by (simp_all add: createRegisterRequest_def createLoginRequest_def status_response_def ACCEPTED_def ex_ce_def
      message_ok_defs message_size_defs pb_ref_def enc_varint.simps)

lemma ex_profile_limits:
  "sendable pb_ref (WrappedMessage_response (Response_login_response \<lparr>LoginResponse_profile =
     Some \<lparr>Contact_user_id = i, Contact_name = [122], Contact_email = [122, 64]\<rparr>\<rparr>))"
proof -
  have "length (enc_varint (unat i)) \<le> 10" by (rule length_enc_u64)
  then show ?thesis by (simp add: message_ok_defs message_size_defs pb_ref_def enc_varint.simps [of "_ + _"] 
      enc_varint.simps [of "Suc _"] enc_varint.simps [of "numeral _"])
qed

theorem sign_up_then_sign_in_witness:
  "\<exists>c1 s1 d1 c2 s2 i.
     exchange ex_ce ex_server ex_storage (Signup [122] [122, 64] [9]) (ex_client, ex_session, ex_db) =
         Inr (c1, s1, d1) \<and>
     exchange ex_ce ex_server ex_storage (Signin [122, 64] [9]) (c1, s1, d1) = Inr (c2, s2, d1) \<and>
     m_reactions c2 = m_reactions ex_client @ [DoRegisterReaction True, DoLoginReaction True] \<and>
     se_state s2 = Some \<lparr>user_id = i, user_name = [122], email = [122, 64]\<rparr> \<and> client_known d1 i [122] \<and>
     BackEndFacade_userId c2 = i \<and> BackEndFacade_userName c2 = qt_from_utf8 ex_ce [122] \<and>
     BackEndFacade_userEmail c2 = qt_from_utf8 ex_ce [122, 64]"
proof -
  have texts: "qt_to_utf8 ex_ce [122] = [122]" "qt_to_utf8 ex_ce [122, 64] = [122, 64]" by (simp_all add: ex_ce_def)
  have new: "Client_seq ex_db < max_int4" "[122, 64] \<notin> cl_email ` set (Client ex_db)" by (simp_all add: ex_tables)
  show ?thesis
    using sign_up_then_sign_in [OF pbr.pb_wire_axioms, of ex_ce ex_server ex_client ex_session ex_db ex_pg "[122, 64]"
        "[122]" "[122]" "[122, 64]" "[9]" ex_sha] ex_sign_in_limits ex_profile_limits new
    unfolding texts ex_storage_def [symmetric] by simp
qed

text \<open>C25. Loading the data takes two requests: the answer with the contacts fills the list of
  contacts and sends the request for the chats from the callback, with the facade still locked
  and no reaction; the answer with the chats fills the list of chats, in the order of the
  answer, shows the one reaction and makes both sides ready.\<close>

theorem loading_data_fills_the_lists:
  assumes "pb_wire P" and "cl_pb ce = P" and "sv_pb se = P" and "\<forall>n. sv_can_alloc se n"
    and "ready c" and "awaiting s" and "se_state s = Some cs"
    and "sendable P (WrappedMessage_request createAllMyContactsRequest)"
    and "sendable P (WrappedMessage_request createAllMyChatsRequest)"
    and "sc_get_contacts st (user_id cs) d = (contacts, d1)" and "sc_get_chats st (user_id cs) d1 = (chats, d2)"
    and "sendable P (WrappedMessage_response (Response_contacts_response contacts))"
    and "sendable P (WrappedMessage_response (Response_chats_response chats))"
  shows "\<exists>c1 s1 c2 s2. exchange ce se st Load_data (c, s, d) = Inr (c1, s1, d1) \<and>
     \<not> availible c1 \<and> m_reactions c1 = m_reactions c \<and>
     serve ce se st (c1, s1, d1) = Inr (c2, s2, d2) \<and> ready c2 \<and> awaiting s2 \<and> se_state s2 = Some cs \<and>
     m_reactions c2 = m_reactions c @ [DoLoadDataReaction] \<and>
     co_items (m_contactsList c2) = map (contact_item ce) (ContactsResponse_contacts contacts) \<and>
     ch_items (m_chatsList c2) = map (chat_item ce) (ChatsResponse_chats chats)"
  by (rule pb_wire.load_data_ok [OF assms])

theorem loading_data_fills_the_lists_witness:
  "\<exists>c1 s1 c2 s2. exchange ex_ce ex_server ex_storage Load_data (ex_client, ex_ann_session, ex_db) =
      Inr (c1, s1, ex_db) \<and>
     serve ex_ce ex_server ex_storage (c1, s1, ex_db) = Inr (c2, s2, ex_db) \<and>
     co_items (m_contactsList c2) = [contact_item ex_ce \<lparr>Contact_user_id = 2, Contact_name = [98],
         Contact_email = [98, 64]\<rparr>] \<and>
     ch_items (m_chatsList c2) = [chat_item ex_ce \<lparr>Chat_chat_id = 1, Chat_title = [98]\<rparr>]"
proof -
  from loading_data_fills_the_lists [OF pbr.pb_wire_axioms, of ex_ce ex_server ex_client ex_ann_session ex_ann_state
      ex_storage ex_db ex_contacts ex_db ex_chats ex_db] ex_load_limits ex_ann_reads
  obtain c1 s1 c2 s2 where
    "exchange ex_ce ex_server ex_storage Load_data (ex_client, ex_ann_session, ex_db) = Inr (c1, s1, ex_db)"
    "serve ex_ce ex_server ex_storage (c1, s1, ex_db) = Inr (c2, s2, ex_db)"
    "co_items (m_contactsList c2) = map (contact_item ex_ce) (ContactsResponse_contacts ex_contacts)"
    "ch_items (m_chatsList c2) = map (chat_item ex_ce) (ChatsResponse_chats ex_chats)" by auto
  then show ?thesis by (auto simp: ex_contacts_def ex_chats_def)
qed

end
